(* ===== verification/Prelude.thy ===== *)
theory Prelude
  imports Main "HOL-Library.Word" "HOL-Library.AList" "HOL-Library.Multiset"
begin

text \<open>
  Shared vocabulary of the development: the machine types of the Rust source, the error
  type of \<open>rings-core/src/err.rs\<close>, the \<open>?\<close> operator on results and on state-passing
  computations, and generic facts about lists that several components use.

  A Rust \<open>Result<T>\<close> is \<^typ>\<open>'e + 'a\<close> with \<open>Inl\<close> for \<open>Err\<close>. A panic ends the
  running task as an early return does, so it is the constructor \<open>Panicked\<close> of the error
  type; no branch of the code catches it. Integer arithmetic that can overflow is modelled
  on words, where it wraps, as in the release profile.
\<close>

type_synonym byte = "8 word"
type_synonym bytes = "8 word list"
type_synonym uuid = "128 word"
type_synonym u128 = "128 word"
type_synonym usize = "64 word"

text \<open>A \<open>String\<close> is its UTF-8 byte sequence; \<open>as_bytes\<close> reads it.\<close>

definition as_bytes :: "string \<Rightarrow> bytes" where
  "as_bytes s = map (\<lambda>c. word_of_nat (of_char c)) s"

text \<open>Decimal formatting, as \<open>{}\<close> prints an unsigned integer.\<close>

definition digit_char :: "nat \<Rightarrow> char" where
  "digit_char n = char_of (48 + n)"

fun show_nat :: "nat \<Rightarrow> string" where
  "show_nat n = (if n < 10 then [digit_char n] else show_nat (n div 10) @ [digit_char (n mod 10)])"

declare show_nat.simps [simp del]

section \<open>Errors\<close>

text \<open>
  The variants of \<open>Error\<close>, of both builds, with those last that no modelled code constructs.
  Payloads that hold a foreign error value or its text are dropped: no code inspects them.
\<close>

datatype (plugins only: size) error =
    EdDSAPublicKeyNotFound
  | InvalidTransport
  | VNodeKindNotEqual
  | VNodeDidNotEqual
  | VNodeNotOverwritable
  | VNodeNotAppendable
  | VNodeNotJoinable
  | EncodeError
  | DecodeError
  | BadHexInCache
  | BadCHexInCache
  | BadArrayInCache
  | SerializeToString
  | SerializeJson
  | DeserializeError
  | BincodeSerialize
  | BincodeDeserialize
  | VerifySignatureFailed
  | IceServerSchemeNotSupport string
  | IceServerURLMissHost
  | URLParse
  | Libsecp256k1SecretKeyParse
  | Libsecp256k1SignatureParseStandard
  | Libsecp256k1RecoverIdParse
  | Libsecp256k1Recover
  | EdDSAPublicKeyBadFormat
  | ECDSAPublicKeyBadFormat
  | PublicKeyBadFormat
  | InvalidPublicKey
  | Utf8Encoding
  | PromiseStateFailed
  | MessageEncryptionFailed
  | MessageHandlerUnsupportedMessageType
  | MessageHandlerMissNextNode
  | MessageHandlerMissTransportAlreadyConnected
  | MessageHandlerMissTransportConnectedNode
  | ChannelRecvMessageFailed
  | ChannelSendMessageFailed
  | PeerRingInvalidAction
  | PeerRingUnexpectedAction
  | PeerRingFindSuccessor
  | SwarmMissDidInTable "160 word"
  | SwarmMissTransport "160 word"
  | SwarmPendingTransTryLockFailed
  | SwarmPendingTransNotFound
  | SwarmToClosePrevTransport
  | SessionTryLockFailed
  | InvalidVNodeType
  | FailedOnGatherLocalCandidate
  | RTCPeerConnectionCreateFailed
  | RTCPeerConnectionNotEstablish
  | RTCPeerConnectionCreateOfferFailed
  | RTCPeerConnectionCreateAnswerFailed
  | RTCPeerConnectionAddIceCandidateError
  | RTCPeerConnectionSetLocalDescFailed
  | RTCPeerConnectionSetRemoteDescFailed
  | RTCPeerConnectionCloseFailed
  | RTCDataChannelMessageIncomplete usize usize
  | RTCDataChannelStateNotOpen
  | RTCDataChannelNotReady
  | RTCDataChannelSendTextFailed
  | InvalidTransportUuid
  | UnexpectedEncryptedData
  | InvalidNextHop
  | InvalidRelayPath
  | InfiniteRelayPath
  | InvalidRelayDestination
  | CannotInferNextHop
  | NoNextHop
  | ReportNeedSend
  | ResetDestinationNeedSend
  | SledError
  | IDBError
  | InvalidCapacity
  | SerdeWasmBindgenError
  | RTCSdpTypeNotMatch
  | SwarmBuildFailed string
  | InvalidMessage string
  | MessageDecryptionFailed
  | MessageTooLarge
  | ServiceIOError
  | CoreSerializeError
  | GzipEncode
  | GzipDecode
  | PeerRingInvalidVNode
  | PeerRingNotFindClosestNode
  | PeerRingUnlockFailed
  | SwarmLoadMessageRecvFailed
  | SwarmDefaultTransportNotConnected
  | InvalidPeerType
  | CoreTransportNotFound
  | DecryptionError
  | EntryNotFound
  | IOError
  | DHTSyncLockError
  | FailedOnGetProperty
  | FailedOnSetProperty
  | Panicked string

type_synonym 'a result = "error + 'a"

section \<open>The question mark operator\<close>

text \<open>\<open>rbind r f\<close> is \<open>let x = r?; f(x)\<close>.\<close>

definition rbind :: "'e + 'a \<Rightarrow> ('a \<Rightarrow> 'e + 'b) \<Rightarrow> 'e + 'b" where
  "rbind r f = (case r of Inl e \<Rightarrow> Inl e | Inr x \<Rightarrow> f x)"

lemma rbind_simps [simp]:
  "rbind (Inl e) f = Inl e"
  "rbind (Inr x) f = f x"
  by (simp_all add: rbind_def)

lemma rbind_eq_Inr: "rbind r f = Inr y \<longleftrightarrow> (\<exists>x. r = Inr x \<and> f x = Inr y)"
  by (cases r) auto

lemma rbind_eq_Inl: "rbind r f = Inl e \<longleftrightarrow> r = Inl e \<or> (\<exists>x. r = Inr x \<and> f x = Inl e)"
  by (cases r) auto

definition ok_or :: "'a option \<Rightarrow> 'e \<Rightarrow> 'e + 'a" where
  "ok_or x e = (case x of None \<Rightarrow> Inl e | Some v \<Rightarrow> Inr v)"

lemma ok_or_simps [simp]:
  "ok_or None e = Inl e"
  "ok_or (Some v) e = Inr v"
  by (simp_all add: ok_or_def)

definition is_ok :: "'e + 'a \<Rightarrow> bool" where
  "is_ok r = (case r of Inl _ \<Rightarrow> False | Inr _ \<Rightarrow> True)"

lemma is_ok_simps [simp]: "\<not> is_ok (Inl e)" "is_ok (Inr x)"
  by (simp_all add: is_ok_def)

text \<open>Mapping a fallible function over a list stops at the first error.\<close>

fun rmap :: "('a \<Rightarrow> 'e + 'b) \<Rightarrow> 'a list \<Rightarrow> 'e + 'b list" where
  "rmap f [] = Inr []"
| "rmap f (x # xs) = rbind (f x) (\<lambda>y. rbind (rmap f xs) (\<lambda>ys. Inr (y # ys)))"

lemma rmap_Inr_iff: "rmap f xs = Inr ys \<longleftrightarrow> list_all2 (\<lambda>x y. f x = Inr y) xs ys"
  by (induction xs arbitrary: ys) (auto simp: rbind_eq_Inr list_all2_Cons1)

text \<open>
  State-passing computations: an error keeps the state changes made before it, as the
  early return of \<open>?\<close> does.
\<close>

type_synonym ('s, 'e, 'a) eaction = "'s \<Rightarrow> ('e + 'a) \<times> 's"
type_synonym ('s, 'a) action = "('s, error, 'a) eaction"

definition sret :: "'a \<Rightarrow> ('s, 'e, 'a) eaction" where
  "sret x s = (Inr x, s)"

definition serr :: "'e \<Rightarrow> ('s, 'e, 'a) eaction" where
  "serr e s = (Inl e, s)"

definition sbind ::
  "('s, 'e, 'a) eaction \<Rightarrow> ('a \<Rightarrow> ('s, 'e, 'b) eaction) \<Rightarrow> ('s, 'e, 'b) eaction" where
  "sbind m f s = (case m s of (Inl e, s') \<Rightarrow> (Inl e, s') | (Inr x, s') \<Rightarrow> f x s')"

definition slift :: "'e + 'a \<Rightarrow> ('s, 'e, 'a) eaction" where
  "slift r s = (r, s)"

lemma action_simps [simp]:
  "sret x s = (Inr x, s)"
  "serr e s = (Inl e, s)"
  "slift r s = (r, s)"
  by (simp_all add: sret_def serr_def slift_def)

lemma sbind_simps [simp]:
  "m s = (Inl e, s') \<Longrightarrow> sbind m f s = (Inl e, s')"
  "m s = (Inr x, s') \<Longrightarrow> sbind m f s = f x s'"
  by (simp_all add: sbind_def)

lemma sbind_slift [simp]:
  "sbind (slift (Inl e)) f = serr e"
  "sbind (slift (Inr x)) f = f x"
  by (simp_all add: sbind_def fun_eq_iff)

lemma sbind_Inr:
  "sbind m f s = (Inr y, s') \<longleftrightarrow> (\<exists>x s1. m s = (Inr x, s1) \<and> f x s1 = (Inr y, s'))"
  by (auto simp: sbind_def split: prod.split sum.split)

text \<open>A relation kept by both parts of a sequence is kept by the sequence.\<close>

lemma sbind_preserves:
  assumes "m s = (r, s1) \<Longrightarrow> R s s1"
    and "\<And>x s1. m s = (Inr x, s1) \<Longrightarrow> R s s1 \<Longrightarrow> R s (snd (f x s1))"
    and "\<And>r s1. m s = (r, s1) \<Longrightarrow> R s s1"
  shows "R s (snd (sbind m f s))"
  using assms(2,3) by (cases "m s") (auto simp: sbind_def split: sum.splits)

text \<open>Reading the state, changing it, and running an action for its result, errors included.\<close>

definition sget :: "('s \<Rightarrow> 'a) \<Rightarrow> ('s, 'e, 'a) eaction" where
  "sget f s = (Inr (f s), s)"

definition smod :: "('s \<Rightarrow> 's) \<Rightarrow> ('s, 'e, unit) eaction" where
  "smod f s = (Inr (), f s)"

definition is_panic :: "error \<Rightarrow> bool" where
  "is_panic e \<longleftrightarrow> (case e of Panicked _ \<Rightarrow> True | _ \<Rightarrow> False)"

definition attempt :: "('s, 'a) action \<Rightarrow> ('s, 'a result) action" where
  "attempt m s = (case m s of
       (Inl e, s) \<Rightarrow> (if is_panic e then Inl e else Inr (Inl e), s)
     | (Inr x, s) \<Rightarrow> (Inr (Inr x), s))"

lemma sget_simps [simp]:
  "sget f s = (Inr (f s), s)" "smod g s = (Inr (), g s)"
  by (simp_all add: sget_def smod_def)

lemma sbind_sget [simp]: "sbind (sget f) k s = k (f s) s"
  by (simp add: sbind_def)

lemma sbind_smod [simp]: "sbind (smod f) k s = k () (f s)"
  by (simp add: sbind_def)

lemma sbind_sret [simp]: "sbind (sret x) k = k x"
  by (simp add: sbind_def fun_eq_iff)

lemma sbind_serr [simp]: "sbind (serr e) k = serr e"
  by (simp add: sbind_def fun_eq_iff)

lemma attempt_simps:
  "m s = (Inr x, s') \<Longrightarrow> attempt m s = (Inr (Inr x), s')"
  "m s = (Inl e, s') \<Longrightarrow> attempt m s = (if is_panic e then Inl e else Inr (Inl e), s')"
  by (simp_all add: attempt_def)

lemma attempt_snd [simp]: "snd (attempt m s) = snd (m s)"
  by (simp add: attempt_def split: prod.split sum.split)

text \<open>
  Actions that move the state only along a relation \<open>R\<close>. The collection \<open>keeps_rules\<close> holds
  one rule per combinator and one per operation shown to keep \<open>R\<close>.
\<close>

named_theorems keeps_rules

definition keeps :: "('s \<Rightarrow> 's \<Rightarrow> bool) \<Rightarrow> ('s, 'e, 'a) eaction \<Rightarrow> bool" where
  "keeps R m \<longleftrightarrow> (\<forall>s. R s (snd (m s)))"

lemma keepsD: "keeps R m \<Longrightarrow> m s = (r, s') \<Longrightarrow> R s s'"
  unfolding keeps_def by (metis snd_conv)

lemma keeps_pure [keeps_rules]:
  assumes "reflp R"
  shows "keeps R (sret x)" "keeps R (serr e)" "keeps R (slift r)" "keeps R (sget f)"
  using assms by (simp_all add: keeps_def reflpD)

lemma keeps_smod: "(\<And>s. R s (f s)) \<Longrightarrow> keeps R (smod f)"
  by (simp add: keeps_def)

lemma keeps_sbind:
  assumes "transp R" "keeps R m" "\<And>x. keeps R (f x)"
  shows "keeps R (sbind m f)"
  unfolding keeps_def
proof
  fix s
  obtain r s1 where m: "m s = (r, s1)" by fastforce
  have 1: "R s s1" by (rule keepsD [OF assms(2) m])
  show "R s (snd (sbind m f s))"
    using 1 transpD [OF assms(1) 1] assms(3) by (cases r) (simp_all add: m sbind_def keeps_def)
qed

lemma keeps_attempt: "keeps R m \<Longrightarrow> keeps R (attempt m)"
  by (simp add: keeps_def)

text \<open>\<open>map_err\<close> converts the error of an action, as \<open>Result::map_err\<close> does before \<open>?\<close>.\<close>

definition map_err :: "('e \<Rightarrow> 'f) \<Rightarrow> ('s, 'e, 'a) eaction \<Rightarrow> ('s, 'f, 'a) eaction" where
  "map_err f m s = (case m s of (Inl e, s) \<Rightarrow> (Inl (f e), s) | (Inr x, s) \<Rightarrow> (Inr x, s))"

lemma map_err_simps [simp]:
  "map_err f (sret x) = sret x" "map_err f (serr e) = serr (f e)"
  "map_err f (sget g) = sget g" "map_err f (smod h) = smod h"
  by (simp_all add: map_err_def fun_eq_iff)

lemma map_err_snd [simp]: "snd (map_err f m s) = snd (m s)"
  by (simp add: map_err_def split: prod.split sum.split)

text \<open>The result of an action, translated.\<close>

definition map_value :: "('a \<Rightarrow> 'b) \<Rightarrow> ('s, 'e, 'a) eaction \<Rightarrow> ('s, 'e, 'b) eaction" where
  "map_value f m = sbind m (\<lambda>x. sret (f x))"

lemma sbind_assoc: "sbind (sbind m f) g = sbind m (\<lambda>x. sbind (f x) g)"
  by (auto simp: sbind_def fun_eq_iff split: prod.split sum.split)

lemma map_value_simps [simp]:
  "map_value f (sret x) = sret (f x)" "map_value f (serr e) = serr e"
  "map_value f (sbind m g) = sbind m (\<lambda>x. map_value f (g x))"
  by (simp_all add: map_value_def sbind_assoc) (simp add: fun_eq_iff)

lemma map_value_sget [simp]: "map_value f (sget h) = sget (\<lambda>s. f (h s))"
  by (rule ext) (simp add: map_value_def)

lemma map_err_sbind: "map_err e (sbind m f) = sbind (map_err e m) (\<lambda>x. map_err e (f x))"
  by (auto simp: sbind_def map_err_def fun_eq_iff split: prod.split sum.split)

lemma slift_Inr: "slift (Inr x) = sret x" "slift (Inl e) = serr e"
  by (simp_all add: fun_eq_iff)

lemma keeps_map_err: "keeps R m \<Longrightarrow> keeps R (map_err f m)"
  by (simp add: keeps_def)

section \<open>Lists\<close>

text \<open>
  \<open>take n\<close> of an insertion into a sorted list depends only on the first \<open>n\<close> elements of
  that list: what a bounded, sorted sequence needs in order to forget its tail.
\<close>

lemma take_insort_key_take:
  "take n (insort_key f x (take n ys)) = take n (insort_key f x ys)"
proof (induction ys arbitrary: n)
  case Nil
  show ?case by simp
next
  case (Cons y ys)
  show ?case
  proof (cases n)
    case (Suc m)
    then show ?thesis using Cons.IH [of m] by (cases m) (simp_all add: take_Cons')
  qed simp
qed

lemma sorted_key_take: "sorted (map f xs) \<Longrightarrow> sorted (map f (take n xs))"
  by (simp add: take_map [symmetric] sorted_wrt_take)

lemma sort_key_snoc_sorted:
  assumes "sorted (map f xs)" and "inj_on f (insert x (set xs))" and "x \<notin> set xs"
  shows "sort_key f (xs @ [x]) = insort_key f x xs"
proof -
  have "sorted (map f (insort_key f x xs))"
    using assms(1) by (simp add: sorted_insort_key)
  moreover have "mset (insort_key f x xs) = mset (xs @ [x])" by simp
  ultimately show ?thesis
    using assms(2) by (intro sort_key_inj_key_eq) auto
qed

lemma filter_insort_key_other:
  "\<not> P x \<Longrightarrow> filter P (insort_key f x xs) = filter P xs"
  by (induction xs) auto

end
