(* ===== verification/Channels.thy ===== *)
theory Channels
  imports Prelude
begin

text \<open>
  The event channels: \<open>channels/default.rs\<close> of native nodes and \<open>channels/wasm.rs\<close> of browsers.
  The trait \<open>Channel\<close> of \<open>types/channel.rs\<close> is the locale \<open>event_channel\<close>: what every
  implementation has to do with the messages that are under way, and what follows for any
  schedule of senders and receivers. Both implementations are interpretations of it.
\<close>

section \<open>The contract\<close>

text \<open>
  What both ends of a channel do, in the order in which they get to it. Results of the receiver
  that are not messages, that is an empty or a closed channel, are not kept.
\<close>

datatype 'a channel_op = Put 'a | Take

fun channel_run ::
  "('a \<Rightarrow> ('c, unit) action) \<Rightarrow> ('c, 'a option) action \<Rightarrow> 'a channel_op list \<Rightarrow> 'c \<Rightarrow> 'a list \<times> 'a list \<times> 'c" where
  "channel_run send recv [] c = ([], [], c)"
| "channel_run send recv (Put x # ops) c =
     (case send x c of (r, c) \<Rightarrow>
      case channel_run send recv ops c of (sent, taken, c) \<Rightarrow>
        ((if r = Inr () then x # sent else sent), taken, c))"
| "channel_run send recv (Take # ops) c =
     (case recv c of (r, c) \<Rightarrow>
      case channel_run send recv ops c of (sent, taken, c) \<Rightarrow>
        (sent, (case r of Inr (Some x) \<Rightarrow> x # taken | _ \<Rightarrow> taken), c))"

definition puts :: "'a channel_op list \<Rightarrow> 'a list" where
  "puts ops = List.map_filter (\<lambda>x. case x of Put a \<Rightarrow> Some a | Take \<Rightarrow> None) ops"

lemma puts_simps [simp]:
  "puts [] = []" "puts (Put x # ops) = x # puts ops" "puts (Take # ops) = puts ops"
  by (simp_all add: puts_def List.map_filter_def)

locale event_channel =
  fixes new :: 'c and send :: "'a \<Rightarrow> ('c, unit) action" and recv :: "('c, 'a option) action"
    and under_way :: "'c \<Rightarrow> 'a list" and closed :: "'c \<Rightarrow> bool"
  assumes new: "under_way new = []" "\<not> closed new"
    and send_open: "\<not> closed c \<Longrightarrow> send x c = (r, c') \<Longrightarrow>
      r = Inr () \<and> under_way c' = under_way c @ [x] \<and> \<not> closed c'"
    and send_closed: "closed c \<Longrightarrow> send x c = (Inl ChannelSendMessageFailed, c)"
    and recv_next: "under_way c = x # q \<Longrightarrow> recv c = (a, c') \<Longrightarrow>
      a = Inr (Some x) \<and> under_way c' = q \<and> closed c' = closed c"
    and recv_empty: "under_way c = [] \<Longrightarrow> recv c = (a, c') \<Longrightarrow> a \<noteq> Inr (Some x) \<and> c' = c"
begin

text \<open>Nothing is lost, repeated or overtaken, from any state and for any schedule.\<close>

lemma run_keeps_order:
  assumes "channel_run send recv ops c = (sent, taken, c')"
  shows "under_way c @ sent = taken @ under_way c'"
  using assms
proof (induction ops arbitrary: c sent taken)
  case (Cons op ops)
  show ?case
  proof (cases op)
    case (Put x)
    obtain r d where s: "send x c = (r, d)" by fastforce
    obtain sent' where "channel_run send recv ops d = (sent', taken, c')" "sent = (if r = Inr () then x # sent' else sent')"
      using Cons.prems by (auto simp: Put s split: prod.splits)
    then show ?thesis
      using Cons.IH [of d sent' taken] send_open [OF _ s] send_closed [of c x] s by (cases "closed c") auto
  next
    case Take
    obtain r d where s: "recv c = (r, d)" by fastforce
    obtain taken' where t: "channel_run send recv ops d = (sent, taken', c')"
        "taken = (case r of Inr (Some x) \<Rightarrow> x # taken' | _ \<Rightarrow> taken')"
      using Cons.prems by (auto simp: Take s split: prod.splits)
    show ?thesis
    proof (cases "under_way c")
      case Nil
      with t recv_empty [OF Nil s] have "taken = taken'" by (cases r) (auto split: option.splits)
      then show ?thesis using Cons.IH [OF t(1)] recv_empty [OF Nil s] Nil by simp
    next
      case (Cons x q)
      then show ?thesis using Cons.IH [OF t(1)] t(2) recv_next [OF Cons s] by simp
    qed
  qed
qed simp

lemma open_run_sends_all:
  assumes "\<not> closed c" "channel_run send recv ops c = (sent, taken, c')"
  shows "sent = puts ops \<and> \<not> closed c'"
  using assms
proof (induction ops arbitrary: c sent taken)
  case (Cons op ops)
  show ?case
  proof (cases op)
    case (Put x)
    obtain r d where s: "send x c = (r, d)" by fastforce
    obtain sent' where "channel_run send recv ops d = (sent', taken, c')" "sent = (if r = Inr () then x # sent' else sent')"
      using Cons.prems(2) by (auto simp: Put s split: prod.splits)
    then show ?thesis using Cons.IH send_open [OF Cons.prems(1) s] Put by auto
  next
    case Take
    obtain r d where s: "recv c = (r, d)" by fastforce
    obtain taken' where "channel_run send recv ops d = (sent, taken', c')"
      using Cons.prems(2) by (auto simp: Take s split: prod.splits)
    moreover have "\<not> closed d"
      using Cons.prems(1) recv_next [OF _ s] recv_empty [OF _ s] by (cases "under_way c") auto
    ultimately show ?thesis using Cons.IH Take by auto
  qed
qed simp

text \<open>On a new channel the receiver has got a prefix of what was sent, and the rest is under way.\<close>

lemma new_run_fifo:
  assumes "channel_run send recv ops new = (sent, taken, c)"
  shows "puts ops = taken @ under_way c"
  using run_keeps_order [OF assms] open_run_sends_all [OF new(2) assms] by (simp add: new(1))

end

section \<open>Native nodes\<close>

text \<open>
  An unbounded async channel is a queue, and a flag that the other side is gone. Receiving
  from an empty open channel waits: \<open>None\<close> is that nothing has arrived yet.
\<close>

record 'a ac_channel =
  ch_queue :: "'a list"
  ch_closed :: bool

definition ch_new :: "'a ac_channel" where
  "ch_new = \<lparr>ch_queue = [], ch_closed = False\<rparr>"

definition ch_send :: "'a \<Rightarrow> ('a ac_channel, unit) action" where
  "ch_send msg c =
     (if ch_closed c then (Inl ChannelSendMessageFailed, c)
      else (Inr (), c\<lparr>ch_queue := ch_queue c @ [msg]\<rparr>))"

definition ch_recv :: "('a ac_channel, 'a option) action" where
  "ch_recv c =
     (case ch_queue c of
        v # q \<Rightarrow> (Inr (Some v), c\<lparr>ch_queue := q\<rparr>)
      | [] \<Rightarrow> if ch_closed c then (Inl ChannelRecvMessageFailed, c) else (Inr None, c))"

interpretation native_channel: event_channel ch_new ch_send ch_recv ch_queue ch_closed
  by unfold_locales (auto simp: ch_new_def ch_send_def ch_recv_def split: if_splits)

section \<open>Browsers\<close>


text \<open>\<open>try_next\<close> on an empty channel is an error while the channel is open, and its end otherwise.\<close>

record 'a cb_channel =
  cb_queue :: "'a list"
  cb_closed :: bool

definition cb_new :: "'a cb_channel" where
  "cb_new = \<lparr>cb_queue = [], cb_closed = False\<rparr>"

definition cb_send :: "'a \<Rightarrow> ('a cb_channel, unit) action" where
  "cb_send msg c =
     (if cb_closed c then (Inl ChannelSendMessageFailed, c)
      else (Inr (), c\<lparr>cb_queue := cb_queue c @ [msg]\<rparr>))"

definition cb_recv :: "('a cb_channel, 'a option) action" where
  "cb_recv c =
     (case cb_queue c of
        x # q \<Rightarrow> (Inr (Some x), c\<lparr>cb_queue := q\<rparr>)
      | [] \<Rightarrow> if cb_closed c then (Inr None, c) else (Inl ChannelRecvMessageFailed, c))"

interpretation browser_channel: event_channel cb_new cb_send cb_recv cb_queue cb_closed
  by unfold_locales (auto simp: cb_new_def cb_send_def cb_recv_def split: if_splits)

text \<open>The event channels deliver in order.\<close>

lemma channels_deliver_in_order:
  "channel_run ch_send ch_recv ops ch_new = (sent, taken, c) \<Longrightarrow> puts ops = taken @ ch_queue c"
  "channel_run cb_send cb_recv ops cb_new = (sent', taken', c') \<Longrightarrow> puts ops = taken' @ cb_queue c'"
  by (rule native_channel.new_run_fifo browser_channel.new_run_fifo, assumption)+

end
