(* ===== verification/Did.thy ===== *)
theory Did
  imports Prelude
begin

text \<open>
  The identifier ring of \<open>rings-core/src/dht/did.rs\<close>: \<open>Did\<close> wraps an \<open>H160\<close>, 20 bytes that
  compare in big-endian order, which is the unsigned order of \<^typ>\<open>160 word\<close>. The source
  computes through \<open>BigUint\<close> (\<^typ>\<open>nat\<close> here) and reduces modulo \<open>2^160\<close>; the lemmas
  show that this is word arithmetic, so that a distance on the ring is a subtraction.
\<close>

type_synonym did = "160 word"

section \<open>Ring arithmetic\<close>

definition biguint_of_did :: "did \<Rightarrow> nat" where
  "biguint_of_did d = unat d"

definition did_of_biguint :: "nat \<Rightarrow> did" where
  "did_of_biguint a = (let ff = a mod 2 ^ 160 in word_of_nat ff)"

definition did_neg :: "did \<Rightarrow> did" where
  "did_neg d = (let ret = 2 ^ 160 - biguint_of_did d in did_of_biguint ret)"

definition did_add :: "did \<Rightarrow> did \<Rightarrow> did" where
  "did_add a b = did_of_biguint ((biguint_of_did a + biguint_of_did b) mod 2 ^ 160)"

definition did_sub :: "did \<Rightarrow> did \<Rightarrow> did" where
  "did_sub a b = did_add a (did_neg b)"

lemma did_of_biguint_eq: "did_of_biguint a = word_of_nat a"
  by (simp add: did_of_biguint_def word_unat_eq_iff unat_of_nat)

lemma biguint_roundtrip [simp]: "did_of_biguint (biguint_of_did d) = d"
  by (simp add: did_of_biguint_eq biguint_of_did_def)

lemma did_neg_eq: "did_neg d = - d"
proof -
  have "unat d \<le> 2 ^ 160" using unsigned_less [where ?'a = nat, of d] by simp
  then have "(word_of_nat (2 ^ 160 - unat d) :: did) = 0 - d"
    by (simp add: of_nat_diff)
  then show ?thesis
    by (simp add: did_neg_def did_of_biguint_eq biguint_of_did_def)
qed

lemma did_add_eq: "did_add a b = a + b"
  by (simp add: did_add_def did_of_biguint_def biguint_of_did_def word_unat_eq_iff
        unat_of_nat unat_word_ariths)

lemma did_sub_eq: "did_sub a b = a - b"
  by (simp add: did_sub_def did_add_eq did_neg_eq)

lemmas did_arith [simp] = did_neg_eq did_add_eq did_sub_eq

text \<open>\<open>in_range\<close>: the test that \<open>x\<close> lies strictly between \<open>a\<close> and \<open>b\<close> seen from \<open>base_id\<close>.\<close>

definition in_range :: "did \<Rightarrow> did \<Rightarrow> did \<Rightarrow> did \<Rightarrow> bool" where
  "in_range x base_id a b \<longleftrightarrow>
     did_sub x base_id > did_sub a base_id \<and> did_sub b base_id > did_sub x base_id"

section \<open>Biased identifiers\<close>

record bias_id =
  bid_bias :: did
  bid_did :: did

definition BiasId_new :: "did \<Rightarrow> did \<Rightarrow> bias_id" where
  "BiasId_new bias d = \<lparr>bid_bias = bias, bid_did = did_sub d bias\<rparr>"

definition bid_to_did :: "bias_id \<Rightarrow> did" where
  "bid_to_did b = did_add (bid_did b) (bid_bias b)"

definition bid_pos :: "bias_id \<Rightarrow> did" where
  "bid_pos b = bid_did b"

definition did_bias :: "did \<Rightarrow> did \<Rightarrow> bias_id" where
  "did_bias self d = BiasId_new d self"

text \<open>Rust's \<open>std::cmp::Ordering\<close>, ordered \<open>Less < Equal < Greater\<close> as it derives \<open>Ord\<close>.\<close>

datatype ordering = Less | Equal | Greater

instantiation ordering :: linorder
begin
definition less_ordering :: "ordering \<Rightarrow> ordering \<Rightarrow> bool" where
  "less_ordering a b \<longleftrightarrow> (a = Less \<and> b \<noteq> Less) \<or> (a = Equal \<and> b = Greater)"
definition less_eq_ordering :: "ordering \<Rightarrow> ordering \<Rightarrow> bool" where
  "less_eq_ordering a b \<longleftrightarrow> a = b \<or> a < b"
instance
proof
  fix x y z :: ordering
  show "x < y \<longleftrightarrow> x \<le> y \<and> \<not> y \<le> x"
    by (cases x; cases y) (simp_all add: less_ordering_def less_eq_ordering_def)
  show "x \<le> x" by (simp add: less_eq_ordering_def)
  show "x \<le> y \<Longrightarrow> y \<le> z \<Longrightarrow> x \<le> z"
    by (cases x; cases y; cases z) (simp_all add: less_ordering_def less_eq_ordering_def)
  show "x \<le> y \<Longrightarrow> y \<le> x \<Longrightarrow> x = y"
    by (cases x; cases y) (simp_all add: less_ordering_def less_eq_ordering_def)
  show "x \<le> y \<or> y \<le> x"
    by (cases x; cases y) (simp_all add: less_ordering_def less_eq_ordering_def)
qed
end

definition cmp :: "'a::linorder \<Rightarrow> 'a \<Rightarrow> ordering" where
  "cmp a b = (if a < b then Less else if a = b then Equal else Greater)"

definition bid_cmp :: "bias_id \<Rightarrow> bias_id \<Rightarrow> ordering" where
  "bid_cmp self other =
     (if bid_bias other \<noteq> bid_bias self then
        let d = bid_to_did other; bid = BiasId_new (bid_bias self) d
        in cmp (bid_did self) (bid_did bid)
      else cmp (bid_did self) (bid_did other))"

definition bid_lt :: "bias_id \<Rightarrow> bias_id \<Rightarrow> bool" where
  "bid_lt a b \<longleftrightarrow> bid_cmp a b = Less"

definition bid_le :: "bias_id \<Rightarrow> bias_id \<Rightarrow> bool" where
  "bid_le a b \<longleftrightarrow> bid_cmp a b \<noteq> Greater"

definition bid_eq_did :: "bias_id \<Rightarrow> did \<Rightarrow> bool" where
  "bid_eq_did b rhs \<longleftrightarrow> bid_to_did b = rhs"

lemma cmp_simps [simp]:
  "cmp a b = Less \<longleftrightarrow> a < b"
  "cmp a b = Equal \<longleftrightarrow> a = b"
  "cmp a b = Greater \<longleftrightarrow> b < a"
  by (auto simp: cmp_def)

lemma bid_new_sel [simp]:
  "bid_bias (BiasId_new b d) = b"
  "bid_did (BiasId_new b d) = d - b"
  "bid_pos (BiasId_new b d) = d - b"
  "did_bias d b = BiasId_new b d"
  by (simp_all add: BiasId_new_def bid_pos_def did_bias_def)

lemma bid_to_did_new [simp]: "bid_to_did (BiasId_new b d) = d"
  by (simp add: bid_to_did_def)

lemma bid_new_to_did [simp]: "BiasId_new (bid_bias b) (bid_to_did b) = b"
  by (simp add: bid_to_did_def BiasId_new_def)

text \<open>The comparison normalises the other side to the left side's bias.\<close>

lemma bid_cmp_eq: "bid_cmp a b = cmp (bid_did a) (bid_to_did b - bid_bias a)"
  by (simp add: bid_cmp_def bid_to_did_def)

lemma bid_lt_new [simp]: "bid_lt (BiasId_new b x) (BiasId_new c y) \<longleftrightarrow> x - b < y - b"
  by (simp add: bid_lt_def bid_cmp_eq)

lemma bid_le_new [simp]: "bid_le (BiasId_new b x) (BiasId_new c y) \<longleftrightarrow> x - b \<le> y - b"
  by (auto simp: bid_le_def bid_cmp_eq)

text \<open>\<open>SortRing::sort\<close>: Rust's stable \<open>sort_by\<close> on the distance from \<open>did\<close>.\<close>

definition sort_ring :: "did list \<Rightarrow> did \<Rightarrow> did list" where
  "sort_ring v d = sort_key (\<lambda>a. did_sub a d) v"

section \<open>Clockwise distance\<close>

abbreviation dist :: "did \<Rightarrow> did \<Rightarrow> did" where
  "dist n x \<equiv> x - n"

lemma dist_zero_iff [simp]: "dist n x = 0 \<longleftrightarrow> x = n"
  by simp

lemma inj_dist: "inj_on (\<lambda>x. x - (n::did)) A"
  by (auto simp: inj_on_def)

text \<open>
  The one fact about circular order the routing proofs need: if \<open>v\<close> lies on the way from
  \<open>n\<close> to \<open>k\<close>, then the distances add up, and what is left from \<open>v\<close> is shorter.
\<close>

lemma dist_split:
  fixes n v k :: did
  assumes "v - n \<le> k - n"
  shows "unat (k - v) = unat (k - n) - unat (v - n)"
proof -
  have "k - v = (k - n) - (v - n)" by simp
  then show ?thesis using assms unat_sub [of "v - n" "k - n"] by simp
qed

lemma dist_decreases:
  fixes n v k :: did
  assumes "v - n \<le> k - n" "v \<noteq> n"
  shows "unat (k - v) < unat (k - n)"
proof -
  have "unat (v - n) \<noteq> 0" using assms(2) by (simp add: unat_eq_zero)
  moreover have "unat (v - n) \<le> unat (k - n)" using assms(1) by (simp add: word_le_nat_alt)
  ultimately show ?thesis using dist_split [OF assms(1)] by simp
qed

section \<open>Properties\<close>

text \<open>
  The identifier arithmetic of the source, carried out on big integers and reduced,
  is the arithmetic of the ring of integers modulo \<open>2^160\<close>: negation, addition and
  subtraction agree with the machine word operations, the conversion through a big
  integer is the identity, and moving to a bias and back is the identity.
\<close>

lemma did_ring_arithmetic:
  "did_neg a = - a \<and> did_add a b = a + b \<and> did_sub a b = a - b
   \<and> did_of_biguint (biguint_of_did a) = a \<and> bid_to_did (did_bias a b) = a
   \<and> biguint_of_did (did_of_biguint n) = n mod 2 ^ 160"
  using biguint_roundtrip [of a]
  by (simp add: biguint_of_did_def did_of_biguint_eq unat_of_nat del: biguint_roundtrip)

text \<open>
  For a common bias the comparison of biased identifiers is the order of clockwise
  distance, and it is a total order on identifiers: exactly one of the three outcomes, the
  reverse comparison swaps them, equality only for the same identifier, and transitive.
\<close>

lemma bid_cmp_total_order:
  "(bid_cmp (did_bias x b) (did_bias y b) = Less \<longleftrightarrow> x - b < y - b)
   \<and> (bid_cmp (did_bias x b) (did_bias y b) = Equal \<longleftrightarrow> x = y)
   \<and> (bid_cmp (did_bias x b) (did_bias y b) = Greater
        \<longleftrightarrow> bid_cmp (did_bias y b) (did_bias x b) = Less)
   \<and> \<not> (bid_lt (did_bias x b) (did_bias y b) \<and> bid_lt (did_bias y b) (did_bias z b)
        \<and> \<not> bid_lt (did_bias x b) (did_bias z b))"
  by (auto simp: bid_cmp_eq)

text \<open>
  \<open>in_range\<close> is membership in the open clockwise arc: moving the base to the arc's start
  does not change the answer for a point that lies in the arc, and a point inside an arc
  from \<open>a\<close> to \<open>b\<close> is strictly closer to \<open>b\<close> than \<open>a\<close> is.
\<close>

lemma in_range_arc:
  assumes "in_range x base a b"
  shows "in_range x a a b \<and> unat (b - x) < unat (b - a)"
proof -
  have h: "a - base < x - base" "x - base < b - base"
    using assms by (simp_all add: in_range_def)
  then have le: "a - base \<le> x - base" "a - base \<le> b - base" "x - base \<le> b - base"
    by simp_all
  have n: "unat (a - base) < unat (x - base)" "unat (x - base) < unat (b - base)"
    using h by (simp_all add: word_less_nat_alt)
  have "unat (x - a) = unat (x - base) - unat (a - base)"
    "unat (b - a) = unat (b - base) - unat (a - base)"
    "unat (b - x) = unat (b - base) - unat (x - base)"
    using le by (simp_all only: dist_split)
  with n show ?thesis by (auto simp: in_range_def word_less_nat_alt unat_gt_0)
qed

end
