(* ===== verification/Session.thy ===== *)
theory Session
  imports Did
begin

text \<open>
  Keys, signers and sessions: \<open>rings-core/src/ecc/mod.rs\<close>, \<open>ecc/types.rs\<close>, \<open>ecc/signers.rs\<close>
  and \<open>session.rs\<close>. The curve libraries, the hash function and serde_json are the functions of
  the record \<open>ecc\<close>; secret keys are their 32 bytes, public keys their 33 bytes. The clock and
  the freshly drawn session key are arguments. The session lock is never contended here.
\<close>

section \<open>Keys and addresses\<close>

type_synonym secret_key = bytes
type_synonym public_key = bytes

datatype signer = DEFAULT | EIP191 | EdDSA

datatype ttl = TtlSome usize | TtlNever

record authorizer =
  az_did :: did
  az_pubkey :: "public_key option"

record authorized_info =
  ai_authorizer :: authorizer
  ai_signer :: signer
  ai_ttl_ms :: ttl
  ai_ts_ms :: u128
  ai_session_id :: did

record ecc =
  keccak256 :: "bytes \<Rightarrow> bytes"
  secp_public :: "secret_key \<Rightarrow> bytes"
  secp_compress :: "bytes \<Rightarrow> public_key"
  secp_parse_compressed :: "public_key \<Rightarrow> bytes option"
  secp_sign :: "bytes \<Rightarrow> secret_key \<Rightarrow> bytes \<times> bytes \<times> byte"
  secp_parse_sig :: "bytes \<Rightarrow> bool"
  secp_parse_recid :: "byte \<Rightarrow> bool"
  secp_recover :: "bytes \<Rightarrow> bytes \<Rightarrow> byte \<Rightarrow> bytes option"
  ed_parse_public :: "bytes \<Rightarrow> bool"
  ed_parse_sig :: "bytes \<Rightarrow> bool"
  ed_verify :: "bytes \<Rightarrow> bytes \<Rightarrow> bytes \<Rightarrow> bool"
  auth_to_json :: "authorized_info \<Rightarrow> string option"

definition PublicKey_from_u8 :: "bytes \<Rightarrow> public_key result" where
  "PublicKey_from_u8 v =
     (let s = v in
      rbind (if length s = 32 then
               let s = rev s; s = s @ [0]; s = rev s in Inr s
             else if length s = 33 then Inr s
             else Inl PublicKeyBadFormat) (\<lambda>data.
      if length data = 33 then Inr data else Inl BadArrayInCache))"

text \<open>\<open>decode_check\<close> is base58_monero, \<open>from_base58\<close> the base58 crate.\<close>

definition try_from_b58m :: "(string \<Rightarrow> bytes option) \<Rightarrow> string \<Rightarrow> public_key result" where
  "try_from_b58m decode_check v =
     rbind (ok_or (decode_check v) PublicKeyBadFormat) PublicKey_from_u8"

definition try_from_b58t :: "(string \<Rightarrow> bytes option) \<Rightarrow> string \<Rightarrow> public_key result" where
  "try_from_b58t from_base58 v =
     rbind (ok_or (from_base58 v) PublicKeyBadFormat) PublicKey_from_u8"

definition Address_from_slice :: "bytes \<Rightarrow> did" where
  "Address_from_slice bs = word_rcat bs"

definition public_key_address :: "ecc \<Rightarrow> public_key \<Rightarrow> did" where
  "public_key_address E pubkey =
     (let hash = (case secp_parse_compressed E pubkey of
            Some data \<Rightarrow> keccak256 E (drop 1 data)
          | None \<Rightarrow> keccak256 E (drop 1 pubkey))
      in Address_from_slice (drop 12 hash))"

definition secret_key_pubkey :: "ecc \<Rightarrow> secret_key \<Rightarrow> public_key" where
  "secret_key_pubkey E sk = secp_compress E (secp_public E sk)"

definition secret_key_address :: "ecc \<Rightarrow> secret_key \<Rightarrow> did" where
  "secret_key_address E sk =
     (let public_key = secp_public E sk in public_key_address E (secp_compress E public_key))"

section \<open>Signing and recovery\<close>

definition sign_hash :: "ecc \<Rightarrow> secret_key \<Rightarrow> bytes \<Rightarrow> bytes" where
  "sign_hash E sk message_hash =
     (case secp_sign E message_hash sk of (r, s, recover_id) \<Rightarrow> r @ s @ [recover_id])"

definition sign_raw :: "ecc \<Rightarrow> secret_key \<Rightarrow> bytes \<Rightarrow> bytes" where
  "sign_raw E sk message = (let message_hash = keccak256 E message in sign_hash E sk message_hash)"

definition sign_str :: "ecc \<Rightarrow> secret_key \<Rightarrow> string \<Rightarrow> bytes" where
  "sign_str E sk message = sign_raw E sk (as_bytes message)"

definition recover_hash :: "ecc \<Rightarrow> bytes \<Rightarrow> bytes \<Rightarrow> public_key result" where
  "recover_hash E message_hash sig =
     (let r_s_signature = take 64 sig; recovery_id = sig ! 64 in
      if \<not> secp_parse_sig E r_s_signature then Inl Libsecp256k1SignatureParseStandard
      else if \<not> secp_parse_recid E recovery_id then Inl Libsecp256k1RecoverIdParse
      else rbind (ok_or (secp_recover E message_hash r_s_signature recovery_id) Libsecp256k1Recover)
             (\<lambda>pk. Inr (secp_compress E pk)))"

definition ecc_recover :: "ecc \<Rightarrow> string \<Rightarrow> bytes \<Rightarrow> public_key result" where
  "ecc_recover E message signature =
     (if length signature \<noteq> 65 then Inl BadArrayInCache
      else let message_hash = keccak256 E (as_bytes message) in recover_hash E message_hash signature)"

definition default_sign_raw :: "ecc \<Rightarrow> secret_key \<Rightarrow> string \<Rightarrow> bytes" where
  "default_sign_raw E sec msg = sign_hash E sec (keccak256 E (as_bytes msg))"

definition default_recover :: "ecc \<Rightarrow> string \<Rightarrow> bytes \<Rightarrow> public_key result" where
  "default_recover E msg sig =
     (if length sig \<noteq> 65 then Inl BadArrayInCache else ecc_recover E msg sig)"

definition default_verify :: "ecc \<Rightarrow> string \<Rightarrow> did \<Rightarrow> bytes \<Rightarrow> bool" where
  "default_verify E msg address sig =
     (case default_recover E msg sig of
        Inr p \<Rightarrow> public_key_address E p = address
      | Inl _ \<Rightarrow> False)"

definition eip191_hash :: "ecc \<Rightarrow> string \<Rightarrow> bytes" where
  "eip191_hash E msg =
     (let prefix_msg = [0x19] @ as_bytes (''Ethereum Signed Message:'' @ [char_of (10 :: nat)])
            @ as_bytes (show_nat (length (as_bytes msg)))
      in keccak256 E (prefix_msg @ as_bytes msg))"

definition eip191_sign :: "ecc \<Rightarrow> secret_key \<Rightarrow> bytes \<Rightarrow> bytes" where
  "eip191_sign E sec hash =
     (let sig = sign_hash E sec hash in sig[64 := sig ! 64 + 27])"

definition eip191_sign_raw :: "ecc \<Rightarrow> secret_key \<Rightarrow> string \<Rightarrow> bytes" where
  "eip191_sign_raw E sec msg = eip191_sign E sec (eip191_hash E msg)"

definition eip191_recover :: "ecc \<Rightarrow> string \<Rightarrow> bytes \<Rightarrow> public_key result" where
  "eip191_recover E msg sig =
     (if length sig \<noteq> 65 then Inl BadArrayInCache
      else let hash = eip191_hash E msg; sig712 = sig[64 := sig ! 64 - 27]
           in recover_hash E hash sig712)"

definition eip191_verify :: "ecc \<Rightarrow> string \<Rightarrow> did \<Rightarrow> bytes \<Rightarrow> bool" where
  "eip191_verify E msg address sig =
     (case eip191_recover E msg sig of
        Inr p \<Rightarrow> public_key_address E p = address
      | Inl _ \<Rightarrow> False)"

definition ed25519_verify :: "ecc \<Rightarrow> string \<Rightarrow> did \<Rightarrow> bytes \<Rightarrow> public_key \<Rightarrow> bool" where
  "ed25519_verify E msg address sig pubkey =
     (if public_key_address E pubkey \<noteq> address then False
      else if length sig \<noteq> 64 then False
      else if ed_parse_public E (drop 1 pubkey) \<and> ed_parse_sig E sig
        then ed_verify E (drop 1 pubkey) (as_bytes msg) sig
      else False)"

section \<open>Sessions\<close>

record session =
  se_sig :: bytes
  se_auth :: authorized_info

record session_with_key =
  sk_session :: session
  sk_session_key :: secret_key

definition DEFAULT_SESSION_TTL_MS :: usize where
  "DEFAULT_SESSION_TTL_MS = 30 * 24 * 3600 * 1000"

definition Session_new :: "bytes \<Rightarrow> authorized_info \<Rightarrow> session" where
  "Session_new sig auth_info = \<lparr>se_sig = sig, se_auth = auth_info\<rparr>"

definition session_is_expired :: "u128 \<Rightarrow> session \<Rightarrow> bool" where
  "session_is_expired now s =
     (case ai_ttl_ms (se_auth s) of
        TtlSome ttl_ms \<Rightarrow> now > ai_ts_ms (se_auth s) + ucast ttl_ms
      | TtlNever \<Rightarrow> False)"

definition authorized_info_to_string :: "ecc \<Rightarrow> authorized_info \<Rightarrow> string result" where
  "authorized_info_to_string E a = ok_or (auth_to_json E a) SerializeToString"

definition session_authorizer_pubkey :: "ecc \<Rightarrow> session \<Rightarrow> public_key result" where
  "session_authorizer_pubkey E s =
     rbind (authorized_info_to_string E (se_auth s)) (\<lambda>auth.
       case ai_signer (se_auth s) of
         DEFAULT \<Rightarrow> default_recover E auth (se_sig s)
       | EIP191 \<Rightarrow> eip191_recover E auth (se_sig s)
       | EdDSA \<Rightarrow> ok_or (az_pubkey (ai_authorizer (se_auth s))) EdDSAPublicKeyNotFound)"

definition session_verify :: "ecc \<Rightarrow> u128 \<Rightarrow> session \<Rightarrow> bool" where
  "session_verify E now s =
     (if session_is_expired now s then False
      else case authorized_info_to_string E (se_auth s) of
          Inl _ \<Rightarrow> False
        | Inr auth_str \<Rightarrow>
            let address = az_did (ai_authorizer (se_auth s)) in
            (case ai_signer (se_auth s) of
               DEFAULT \<Rightarrow> default_verify E auth_str address (se_sig s)
             | EIP191 \<Rightarrow> eip191_verify E auth_str address (se_sig s)
             | EdDSA \<Rightarrow>
                 (case session_authorizer_pubkey E s of
                    Inr p \<Rightarrow> ed25519_verify E auth_str address (se_sig s) p
                  | Inl _ \<Rightarrow> False)))"

definition session_did :: "ecc \<Rightarrow> u128 \<Rightarrow> session \<Rightarrow> did result" where
  "session_did E now s =
     (if \<not> session_verify E now s then Inl VerifySignatureFailed
      else Inr (ai_session_id (se_auth s)))"

text \<open>\<open>key\<close> is the result of \<open>SecretKey::random()\<close>.\<close>

definition gen_unsign_info_with_pubkey ::
  "ecc \<Rightarrow> secret_key \<Rightarrow> u128 \<Rightarrow> ttl option \<Rightarrow> signer option \<Rightarrow> public_key
     \<Rightarrow> authorized_info \<times> secret_key" where
  "gen_unsign_info_with_pubkey E key now t sg pubkey =
     (let sg = (case sg of Some x \<Rightarrow> x | None \<Rightarrow> DEFAULT);
          az = \<lparr>az_did = public_key_address E pubkey, az_pubkey = Some pubkey\<rparr>
      in (\<lparr>ai_authorizer = az, ai_signer = sg,
           ai_ttl_ms = (case t of Some x \<Rightarrow> x | None \<Rightarrow> TtlSome DEFAULT_SESSION_TTL_MS),
           ai_ts_ms = now, ai_session_id = secret_key_address E key\<rparr>, key))"

definition gen_unsign_info_with_ed25519_pubkey where
  "gen_unsign_info_with_ed25519_pubkey E key now t pubkey =
     gen_unsign_info_with_pubkey E key now t (Some EdDSA) pubkey"

definition gen_unsign_info ::
  "ecc \<Rightarrow> secret_key \<Rightarrow> u128 \<Rightarrow> did \<Rightarrow> ttl option \<Rightarrow> signer option \<Rightarrow> authorized_info \<times> secret_key" where
  "gen_unsign_info E key now d t sg =
     (let sg = (case sg of Some x \<Rightarrow> x | None \<Rightarrow> DEFAULT);
          az = \<lparr>az_did = d, az_pubkey = None\<rparr>
      in (\<lparr>ai_authorizer = az, ai_signer = sg,
           ai_ttl_ms = (case t of Some x \<Rightarrow> x | None \<Rightarrow> TtlSome DEFAULT_SESSION_TTL_MS),
           ai_ts_ms = now, ai_session_id = secret_key_address E key\<rparr>, key))"

definition SessionManager_new :: "bytes \<Rightarrow> authorized_info \<Rightarrow> secret_key \<Rightarrow> session_with_key" where
  "SessionManager_new sig auth_info session_key =
     \<lparr>sk_session = Session_new sig auth_info, sk_session_key = session_key\<rparr>"

definition SessionManager_new_with_seckey ::
  "ecc \<Rightarrow> secret_key \<Rightarrow> u128 \<Rightarrow> secret_key \<Rightarrow> ttl option \<Rightarrow> session_with_key result" where
  "SessionManager_new_with_seckey E rand now key t =
     (let (auth, s_key) = gen_unsign_info E rand now (secret_key_address E key) t None in
      rbind (authorized_info_to_string E auth) (\<lambda>auth_str.
        Inr (SessionManager_new (sign_str E key auth_str) auth s_key)))"

definition sm_renew :: "bytes \<Rightarrow> authorized_info \<Rightarrow> secret_key \<Rightarrow> session_with_key \<Rightarrow> session_with_key" where
  "sm_renew sig auth_info key inner =
     \<lparr>sk_session = Session_new sig auth_info, sk_session_key = key\<rparr>"

definition sm_sign :: "ecc \<Rightarrow> session_with_key \<Rightarrow> string \<Rightarrow> bytes" where
  "sm_sign E sm msg = (let key = sk_session_key sm in default_sign_raw E key msg)"

definition sm_authorizer :: "session_with_key \<Rightarrow> did" where
  "sm_authorizer sm = az_did (ai_authorizer (se_auth (sk_session sm)))"

section \<open>What the curve library promises\<close>

text \<open>
  Signatures have 32-byte halves and parse, the signer's public key is recovered from them,
  and recovery identifiers are below 4.
\<close>

definition ecdsa_ok :: "ecc \<Rightarrow> bool" where
  "ecdsa_ok E \<longleftrightarrow> (\<forall>h sk r s v. secp_sign E h sk = (r, s, v) \<longrightarrow>
     length r = 32 \<and> length s = 32 \<and> v < 4 \<and> secp_parse_sig E (r @ s) \<and> secp_parse_recid E v
     \<and> secp_recover E h (r @ s) v = Some (secp_public E sk))"

lemma sign_hash_facts:
  assumes "ecdsa_ok E"
  shows "length (sign_hash E sk h) = 65"
    and "recover_hash E h (sign_hash E sk h) = Inr (secp_compress E (secp_public E sk))"
proof -
  obtain r s v where sg: "secp_sign E h sk = (r, s, v)" by (cases "secp_sign E h sk") auto
  then have f: "length r = 32" "length s = 32" "secp_parse_sig E (r @ s)" "secp_parse_recid E v"
    "secp_recover E h (r @ s) v = Some (secp_public E sk)"
    using assms by (auto simp: ecdsa_ok_def)
  show "length (sign_hash E sk h) = 65" using f by (simp add: sign_hash_def sg)
  have "take 64 (r @ s @ [v]) = r @ s" "(r @ s @ [v]) ! 64 = v"
    using f by (simp_all add: nth_append)
  then show "recover_hash E h (sign_hash E sk h) = Inr (secp_compress E (secp_public E sk))"
    using f by (simp add: recover_hash_def sign_hash_def sg)
qed

lemma default_sign_verify:
  assumes "ecdsa_ok E"
  shows "default_verify E msg (secret_key_address E sk) (default_sign_raw E sk msg)"
  using sign_hash_facts [OF assms]
  by (simp add: default_verify_def default_recover_def ecc_recover_def default_sign_raw_def
      secret_key_address_def)

lemma eip191_sign_verify:
  assumes "ecdsa_ok E"
  shows "eip191_verify E msg (secret_key_address E sk) (eip191_sign_raw E sk msg)"
proof -
  let ?sg = "sign_hash E sk (eip191_hash E msg)"
  have "(?sg[64 := ?sg ! 64 + 27])[64 := (?sg[64 := ?sg ! 64 + 27]) ! 64 - 27] = ?sg"
    using sign_hash_facts(1) [OF assms] by simp
  then show ?thesis
    using sign_hash_facts [OF assms]
    by (simp add: eip191_verify_def eip191_recover_def eip191_sign_raw_def eip191_sign_def
        secret_key_address_def Let_def)
qed

text \<open>A curve library with the promised behaviour.\<close>

definition demo_ecc :: ecc where
  "demo_ecc = \<lparr>keccak256 = (\<lambda>bs. take 32 (bs @ replicate 32 0)),
     secp_public = (\<lambda>sk. 4 # take 32 (sk @ replicate 32 0)),
     secp_compress = (\<lambda>pk. pk), secp_parse_compressed = Some,
     secp_sign = (\<lambda>h sk. (take 32 (sk @ replicate 32 0), replicate 32 0, 0)),
     secp_parse_sig = (\<lambda>_. True), secp_parse_recid = (\<lambda>v. v < 4),
     secp_recover = (\<lambda>h rs v. Some (4 # take 32 rs)),
     ed_parse_public = (\<lambda>_. True), ed_parse_sig = (\<lambda>_. True), ed_verify = (\<lambda>_ _ _. True),
     auth_to_json = (\<lambda>a. Some ''auth'')\<rparr>"

lemma demo_ecc_ok: "ecdsa_ok demo_ecc"
  by (auto simp: ecdsa_ok_def demo_ecc_def)

section \<open>Properties\<close>

lemma gen_unsign_info_expiry:
  assumes "(auth, s_key) = gen_unsign_info E rand t0 d ttl_opt sg"
  shows "session_is_expired now (Session_new sig auth) \<longleftrightarrow>
    (case ttl_opt of
       None \<Rightarrow> now > t0 + ucast DEFAULT_SESSION_TTL_MS
     | Some (TtlSome t) \<Rightarrow> now > t0 + ucast t
     | Some TtlNever \<Rightarrow> False)"
  using assms by (simp add: gen_unsign_info_def session_is_expired_def Session_new_def split: option.split ttl.split)

text \<open>
  A session signed by the authorizer's key, in the default or the EIP-191 format, with
  the information produced by \<open>gen_unsign_info\<close> at time \<open>t0\<close>, verifies exactly until \<open>t0\<close> plus
  its lifetime (thirty days when none is given, for ever when it is \<open>Never\<close>), and while it
  verifies its delegated identifier is the address of the session key; an expired session
  yields no identifier.
\<close>

lemma session_verifies_until_expired:
  assumes "ecdsa_ok E" "auth_to_json E auth = Some str"
    and "(auth, s_key) = gen_unsign_info E rand t0 (secret_key_address E key) ttl_opt sg"
    and "(sg = None \<or> sg = Some DEFAULT) \<and> sig = sign_str E key str
       \<or> sg = Some EIP191 \<and> sig = eip191_sign_raw E key str"
    and "alive \<longleftrightarrow> (case ttl_opt of
            None \<Rightarrow> now \<le> t0 + ucast DEFAULT_SESSION_TTL_MS
          | Some (TtlSome t) \<Rightarrow> now \<le> t0 + ucast t
          | Some TtlNever \<Rightarrow> True)"
  shows "(session_verify E now (Session_new sig auth) \<longleftrightarrow> alive)
    \<and> session_did E now (Session_new sig auth) =
      (if alive then Inr (secret_key_address E rand) else Inl VerifySignatureFailed)"
proof -
  have auth: "az_did (ai_authorizer auth) = secret_key_address E key"
    "ai_signer auth = (case sg of Some x \<Rightarrow> x | None \<Rightarrow> DEFAULT)"
    "ai_session_id auth = secret_key_address E rand"
    using assms(3) by (simp_all add: gen_unsign_info_def)
  have alive: "alive \<longleftrightarrow> \<not> session_is_expired now (Session_new sig auth)"
    by (simp add: gen_unsign_info_expiry [OF assms(3)] assms(5) not_less split: option.split ttl.split)
  have "sign_str E key str = default_sign_raw E key str"
    by (simp add: sign_str_def sign_raw_def default_sign_raw_def)
  then have "session_verify E now (Session_new sig auth) \<longleftrightarrow> alive"
    using assms(4) default_sign_verify [OF assms(1)] eip191_sign_verify [OF assms(1)] auth
    by (auto simp: alive session_verify_def authorized_info_to_string_def Session_new_def assms(2))
  then show ?thesis using auth by (simp add: session_did_def Session_new_def)
qed

end
