(* ===== verification/Relay.thy ===== *)
theory Relay
  imports Did
begin

text \<open>
  Message relaying: \<open>rings-core/src/message/protocols/relay.rs\<close>. A SEND message records the
  nodes it passes in \<open>path\<close>; a REPORT walks back along it with \<open>path_end_cursor\<close>. The cursor is
  a \<open>usize\<close> that arrives from the network, so its arithmetic is kept at its width, and every
  out-of-range index is the panic it is in the source.
\<close>

datatype relay_method = SEND | REPORT

record message_relay =
  rl_method :: relay_method
  rl_path :: "did list"
  rl_path_end_cursor :: usize
  rl_next_hop :: "did option"
  rl_destination :: did

definition MessageRelay_new ::
  "relay_method \<Rightarrow> did list \<Rightarrow> usize option \<Rightarrow> did option \<Rightarrow> did \<Rightarrow> message_relay" where
  "MessageRelay_new m path path_end_cursor next_hop destination =
     \<lparr>rl_method = m, rl_path = path,
      rl_path_end_cursor = (case path_end_cursor of None \<Rightarrow> 0 | Some c \<Rightarrow> c),
      rl_next_hop = next_hop, rl_destination = destination\<rparr>"

definition INFINITE_LOOP_TOLERANCE :: nat where
  "INFINITE_LOOP_TOLERANCE = 3"

text \<open>The \<open>for\<close> loop over the three zipped iterators, for \<open>min_len\<close> rounds.\<close>

fun izip_equal :: "nat \<Rightarrow> 'a list \<Rightarrow> 'a list \<Rightarrow> 'a list \<Rightarrow> bool" where
  "izip_equal (Suc n) (x # xs) (y # ys) (z # zs) = ((x = y \<and> y = z) \<and> izip_equal n xs ys zs)"
| "izip_equal _ _ _ _ = True"

definition has_infinite_loop :: "'a list \<Rightarrow> bool" where
  "has_infinite_loop path =
     (case rev path of
        [] \<Rightarrow> False
      | end_node # _ \<Rightarrow>
          let indexes = take INFINITE_LOOP_TOLERANCE
                (map fst (filter (\<lambda>(_, r). r = end_node) (enumerate 0 (rev path))))
          in if length indexes \<ge> INFINITE_LOOP_TOLERANCE then
               let p1 = drop (indexes ! 0) (rev path);
                   p2 = drop (indexes ! 1) (rev path);
                   p3 = drop (indexes ! 2) (rev path);
                   len0 = indexes ! 1 - indexes ! 0;
                   len1 = indexes ! 2 - indexes ! 1;
                   len2 = length path - indexes ! 2;
                   min_len = min len0 (min len1 len2)
               in izip_equal min_len p1 p2 p3 \<and> len0 = len1
             else False)"

fun windows_equal :: "'a list \<Rightarrow> bool" where
  "windows_equal (x # y # xs) = (x = y \<or> windows_equal (y # xs))"
| "windows_equal _ = False"

definition rl_validate :: "message_relay \<Rightarrow> unit result" where
  "rl_validate m =
     (if windows_equal (rl_path m) then Inl InvalidRelayPath
      else if rl_method m = REPORT \<and> rl_path m = [] then Inl (Panicked ''index out of bounds'')
      else if rl_method m = REPORT \<and> rl_path m ! 0 \<noteq> rl_destination m
        then Inl InvalidRelayDestination
      else if rl_method m = SEND \<and> has_infinite_loop (rl_path m) then Inl InfiniteRelayPath
      else Inr ())"

definition path_len :: "message_relay \<Rightarrow> usize" where
  "path_len m = word_of_nat (length (rl_path m))"

definition rl_path_prev :: "message_relay \<Rightarrow> did option result" where
  "rl_path_prev m =
     (if path_len m < rl_path_end_cursor m + 2 then Inr None
      else let i = unat (path_len m - 2 - rl_path_end_cursor m) in
           if i < length (rl_path m) then Inr (Some (rl_path m ! i))
           else Inl (Panicked ''index out of bounds''))"

definition rl_origin :: "message_relay \<Rightarrow> did result" where
  "rl_origin m = (case rl_path m of [] \<Rightarrow> Inl (Panicked ''unwrap'') | d # _ \<Rightarrow> Inr d)"

definition rl_sender :: "message_relay \<Rightarrow> did result" where
  "rl_sender m =
     (case rl_method m of
        SEND \<Rightarrow> rl_origin m
      | REPORT \<Rightarrow> (if rl_path m = [] then Inl (Panicked ''unwrap'') else Inr (last (rl_path m))))"

text \<open>\<open>Iterator::position\<close>.\<close>

fun position :: "('a \<Rightarrow> bool) \<Rightarrow> 'a list \<Rightarrow> nat option" where
  "position P [] = None"
| "position P (x # xs) = (if P x then Some 0 else map_option Suc (position P xs))"

definition rl_relay :: "did \<Rightarrow> did option \<Rightarrow> message_relay \<Rightarrow> message_relay result" where
  "rl_relay current next_hop m =
     rbind (rl_validate m) (\<lambda>_.
     if rl_next_hop m \<noteq> None \<and> the (rl_next_hop m) \<noteq> current then Inl InvalidNextHop
     else case rl_method m of
       SEND \<Rightarrow> Inr (m\<lparr>rl_path := rl_path m @ [current], rl_next_hop := next_hop\<rparr>)
     | REPORT \<Rightarrow>
         if rl_next_hop m = Some (rl_destination m)
         then Inr (m\<lparr>rl_path_end_cursor := path_len m - 1, rl_next_hop := None\<rparr>)
         else
           let pos = position (\<lambda>x. x = current) (drop (unat (rl_path_end_cursor m)) (rev (rl_path m))) in
           if pos = None \<and> next_hop = None then Inl CannotInferNextHop
           else
             let m = (case pos of
                        Some p \<Rightarrow> m\<lparr>rl_path_end_cursor := rl_path_end_cursor m + word_of_nat p\<rparr>
                      | None \<Rightarrow> m)
             in case next_hop of
                  Some h \<Rightarrow> Inr (m\<lparr>rl_next_hop := Some h\<rparr>)
                | None \<Rightarrow> rbind (rl_path_prev m) (\<lambda>h. Inr (m\<lparr>rl_next_hop := h\<rparr>)))"

definition rl_report :: "message_relay \<Rightarrow> message_relay result" where
  "rl_report m =
     (if rl_method m \<noteq> SEND then Inl ReportNeedSend
      else if length (rl_path m) < 2 then Inl CannotInferNextHop
      else rbind (rl_path_prev m) (\<lambda>next_hop.
           rbind (rl_sender m) (\<lambda>sender.
             Inr \<lparr>rl_method = REPORT, rl_path = rl_path m, rl_path_end_cursor = 0,
                  rl_next_hop = next_hop, rl_destination = sender\<rparr>)))"

definition rl_reset_destination :: "did \<Rightarrow> message_relay \<Rightarrow> message_relay result" where
  "rl_reset_destination destination m =
     (if rl_method m = SEND then Inr (m\<lparr>rl_destination := destination\<rparr>)
      else Inl ResetDestinationNeedSend)"

section \<open>Loops in a path\<close>

lemma izip_equal_iff:
  "izip_equal n xs ys zs \<longleftrightarrow>
     (\<forall>i < n. i < length xs \<longrightarrow> i < length ys \<longrightarrow> i < length zs \<longrightarrow> xs ! i = ys ! i \<and> ys ! i = zs ! i)"
proof (induction n xs ys zs rule: izip_equal.induct)
  case (1 n x xs y ys z zs)
  then show ?case by (simp add: All_less_Suc2)
qed simp_all

lemma windows_equal_distinct: "distinct path \<Longrightarrow> \<not> windows_equal path"
  by (induction path rule: windows_equal.induct) auto

lemma filter_enumerate_cycle:
  assumes "x \<notin> set t"
  shows "map fst (filter (\<lambda>(_, r). r = x) (enumerate k (x # t))) = [k]"
proof -
  have "filter (\<lambda>(_, r). r = x) (enumerate (Suc k) t) = []"
    using assms by (auto simp: filter_empty_conv in_set_enumerate_eq)
  then show ?thesis by simp
qed

text \<open>Three rounds of a cycle whose last node occurs once in it are detected.\<close>

lemma has_infinite_loop_cycle:
  assumes "w \<noteq> []" "last w \<notin> set (butlast w)"
  shows "has_infinite_loop (pre @ w @ w @ w)"
proof -
  obtain t x where w: "w = t @ [x]" using assms(1) by (cases w rule: rev_cases) auto
  define v where "v = x # rev t"
  define g where "g = length v"
  have v: "rev w = v" "x \<notin> set (rev t)" "length w = g" using assms(2) by (simp_all add: w v_def g_def)
  have idx: "map fst (filter (\<lambda>(_, r). r = x) (enumerate k v)) = [k]" for k
    unfolding v_def by (rule filter_enumerate_cycle [OF v(2)])
  have r: "rev (pre @ w @ w @ w) = v @ v @ v @ rev pre" by (simp add: v(1))
  have rc: "v @ v @ v @ rev pre = x # (rev t @ v @ v @ rev pre)" by (simp add: v_def)
  have i: "take 3 (map fst (filter (\<lambda>(_, r). r = x) (enumerate 0 (v @ v @ v @ rev pre)))) = [0, g, 2 * g]"
    using idx [of 0] idx [of g] idx [of "g + g"]
    by (simp only: enumerate_append_eq filter_append map_append) (simp add: g_def)
  have len: "length (pre @ w @ w @ w) - 2 * g \<ge> g" by (simp add: v(3))
  have "izip_equal (min g (min g (length (pre @ w @ w @ w) - 2 * g)))
     (v @ v @ v @ rev pre) (v @ v @ rev pre) (v @ rev pre)"
    using len by (auto simp: izip_equal_iff nth_append g_def)
  moreover have "drop g (v @ v @ v @ rev pre) = v @ v @ rev pre"
    "drop (2 * g) (v @ v @ v @ rev pre) = v @ rev pre"
    by (simp_all add: g_def)
  ultimately show ?thesis
    unfolding has_infinite_loop_def r rc list.case
    unfolding rc [symmetric] INFINITE_LOOP_TOLERANCE_def i
    by (simp add: numeral_2_eq_2)
qed

lemma sorted_map_fst_filter_enumerate:
  "sorted (map fst (filter P (enumerate k xs))) \<and> distinct (map fst (filter P (enumerate k xs)))"
  by (induction xs arbitrary: k) (auto simp: in_set_enumerate_eq)

lemma has_infinite_loop_sound:
  assumes "has_infinite_loop path"
  shows "\<exists>g > 0. 2 * g < length path \<and> (\<forall>i < min g (length path - 2 * g).
     rev path ! i = rev path ! (g + i) \<and> rev path ! (g + i) = rev path ! (2 * g + i))"
proof (cases "rev path")
  case Nil
  with assms show ?thesis by (simp add: has_infinite_loop_def)
next
  case (Cons x r)
  let ?F = "map fst (filter (\<lambda>(_, r). r = x) (enumerate 0 (rev path)))"
  let ?I = "take 3 ?F"
  have len: "length ?I \<ge> 3" and eq: "?I ! 1 - ?I ! 0 = ?I ! 2 - ?I ! 1"
    and z: "izip_equal (min (?I ! 1 - ?I ! 0) (min (?I ! 2 - ?I ! 1) (length path - ?I ! 2)))
       (drop (?I ! 0) (rev path)) (drop (?I ! 1) (rev path)) (drop (?I ! 2) (rev path))"
    using assms by (auto simp: has_infinite_loop_def Cons INFINITE_LOOP_TOLERANCE_def Let_def
        split: if_splits)
  have F0: "?F = 0 # map fst (filter (\<lambda>(_, r). r = x) (enumerate 1 r))" by (simp add: Cons)
  have srt: "sorted ?F" "distinct ?F" using sorted_map_fst_filter_enumerate by blast+
  have l3: "3 \<le> length ?F" using len by simp
  have I0: "?I ! 0 = 0" unfolding F0 by simp
  have lt: "?F ! 0 < ?F ! 1" "?F ! 1 < ?F ! 2"
    using sorted_wrt_nth_less [of "(<)" ?F 0 1] sorted_wrt_nth_less [of "(<)" ?F 1 2] srt l3
    by (auto simp only: strict_sorted_iff)
  have mem: "?F ! 2 < length path"
  proof -
    have "?F ! 2 \<in> set ?F" using l3 by (intro nth_mem) simp
    then show ?thesis by (auto simp: in_set_enumerate_eq)
  qed
  define g where "g = ?I ! 1"
  have I: "?I ! 1 = g" "?I ! 2 = 2 * g" "0 < g" "2 * g < length path"
    using eq I0 lt mem l3 by (auto simp: g_def)
  show ?thesis
    using z I0 I by (intro exI [of _ g]) (auto simp: izip_equal_iff)
qed

lemma has_infinite_loop_distinct: "distinct path \<Longrightarrow> \<not> has_infinite_loop path"
proof
  assume d: "distinct path" and "has_infinite_loop path"
  then obtain g where "g > 0" "2 * g < length path" "rev path ! 0 = rev path ! g"
    using has_infinite_loop_sound [of path] by fastforce
  moreover from this have "0 < length path" by linarith
  ultimately show False using nth_eq_iff_index_eq [of "rev path" 0 g] d by simp
qed

section \<open>The way back of a report\<close>

lemma unat_usize: "n < 2 ^ 64 \<Longrightarrow> unat (word_of_nat n :: usize) = n"
  by (simp add: unat_of_nat)

lemma rl_path_prev_eq:
  assumes "length (rl_path m) < 2 ^ 63" "c < length (rl_path m)" "rl_path_end_cursor m = word_of_nat c"
  shows "rl_path_prev m = Inr (if c + 2 \<le> length (rl_path m)
           then Some (rev (rl_path m) ! Suc c) else None)"
proof -
  let ?L = "length (rl_path m)"
  have c2: "rl_path_end_cursor m + 2 = word_of_nat (c + 2)" by (simp add: assms(3))
  have lt: "path_len m < rl_path_end_cursor m + 2 \<longleftrightarrow> ?L < c + 2"
    using assms(1,2) unfolding c2 path_len_def word_less_nat_alt
    by (subst (1 2) unat_usize) simp_all
  have "unat (path_len m - 2 - rl_path_end_cursor m) = ?L - 2 - c" if "c + 2 \<le> ?L"
  proof -
    have "path_len m - 2 - rl_path_end_cursor m = word_of_nat (?L - 2 - c)"
      using that assms(3) by (simp add: path_len_def of_nat_diff)
    then show ?thesis using assms(1) unat_usize [of "?L - 2 - c"] by simp
  qed
  moreover have "rev (rl_path m) ! Suc c = rl_path m ! (?L - 2 - c)" if "c + 2 \<le> ?L"
    using that by (simp add: rev_nth)
  ultimately show ?thesis using lt by (auto simp: rl_path_prev_def Let_def not_less)
qed

lemma windows_equal_nth:
  "\<not> windows_equal xs \<Longrightarrow> Suc i < length xs \<Longrightarrow> xs ! i \<noteq> xs ! Suc i"
proof (induction xs arbitrary: i rule: windows_equal.induct)
  case (1 x y xs)
  then show ?case by (cases i) auto
qed auto

lemma rev_adjacent:
  assumes "\<not> windows_equal p" "Suc c < length p"
  shows "rev p ! c \<noteq> rev p ! Suc c"
proof -
  have "p ! (length p - Suc (Suc c)) \<noteq> p ! Suc (length p - Suc (Suc c))"
    using assms by (intro windows_equal_nth) auto
  moreover have "Suc (length p - Suc (Suc c)) = length p - Suc c" using assms(2) by simp
  ultimately show ?thesis using assms(2) by (simp add: rev_nth)
qed

text \<open>The states of a report on its way: it is at reversed index \<open>c\<close> and goes to the next one.\<close>

definition on_way_back :: "did list \<Rightarrow> nat \<Rightarrow> message_relay \<Rightarrow> bool" where
  "on_way_back p c r \<longleftrightarrow> rl_method r = REPORT \<and> rl_path r = p \<and> Suc c < length p
     \<and> rl_path_end_cursor r = word_of_nat c \<and> rl_next_hop r = Some (rev p ! Suc c)
     \<and> rl_destination r = p ! 0"

lemma relay_report_step:
  assumes p: "\<not> windows_equal p" "length p < 2 ^ 63" and r: "on_way_back p c r"
  shows "if rev p ! Suc c = p ! 0
    then \<exists>r'. rl_relay (rev p ! Suc c) None r = Inr r' \<and> rl_next_hop r' = None
    else \<exists>r'. rl_relay (rev p ! Suc c) None r = Inr r' \<and> on_way_back p (Suc c) r'"
proof (cases "rev p ! Suc c = p ! 0")
  case True
  have "rl_validate r = Inr ()" using p r by (auto simp: rl_validate_def on_way_back_def)
  then show ?thesis using True r by (simp add: rl_relay_def on_way_back_def)
next
  case False
  have len: "Suc c < length p" using r by (simp add: on_way_back_def)
  have "p ! 0 = rev p ! (length p - 1)" using len by (simp add: rev_nth)
  then have "Suc c \<noteq> length p - 1" using False by auto
  then have len2: "Suc (Suc c) < length p" using len by simp
  have "drop c (rev p) = rev p ! c # rev p ! Suc c # drop (Suc (Suc c)) (rev p)"
    using len by (simp add: Cons_nth_drop_Suc)
  then have pos: "position (\<lambda>x. x = rev p ! Suc c) (drop c (rev p)) = Some 1"
    using rev_adjacent [OF p(1) len] by simp
  have cur: "unat (rl_path_end_cursor r) = c"
    using r p(2) len unat_usize [of c] by (simp add: on_way_back_def)
  let ?m = "r\<lparr>rl_path_end_cursor := rl_path_end_cursor r + 1\<rparr>"
  have "rl_path_prev ?m = Inr (Some (rev p ! Suc (Suc c)))"
    using rl_path_prev_eq [of ?m "Suc c"] r p(2) len2 by (simp add: on_way_back_def add.commute)
  moreover have "rl_validate r = Inr ()" using p r by (auto simp: rl_validate_def on_way_back_def)
  ultimately have "rl_relay (rev p ! Suc c) None r = Inr (?m\<lparr>rl_next_hop := Some (rev p ! Suc (Suc c))\<rparr>)"
    using r False pos cur by (simp add: rl_relay_def on_way_back_def)
  then show ?thesis using False r len2 by (auto simp: on_way_back_def)
qed

text \<open>The nodes a report visits, each handling it with \<open>relay(current, None)\<close>.\<close>

fun report_route :: "nat \<Rightarrow> message_relay \<Rightarrow> did list result" where
  "report_route 0 r = Inr []"
| "report_route (Suc n) r =
     (case rl_next_hop r of
        None \<Rightarrow> Inr []
      | Some d \<Rightarrow> rbind (rl_relay d None r) (\<lambda>r'. rbind (report_route n r') (\<lambda>ds. Inr (d # ds))))"

lemma report_route_eq:
  assumes "\<not> windows_equal p" "length p < 2 ^ 63" "on_way_back p c r" "length p - c \<le> n + 1"
  shows "report_route n r = Inr (takeWhile (\<lambda>x. x \<noteq> p ! 0) (drop (Suc c) (rev p)) @ [p ! 0])"
  using assms(3,4)
proof (induction n arbitrary: c r)
  case 0
  then have "Suc c < length p" "length p - c \<le> 1" by (simp_all add: on_way_back_def)
  then show ?case by linarith
next
  case (Suc n)
  have len: "Suc c < length p" and hop: "rl_next_hop r = Some (rev p ! Suc c)"
    using Suc.prems(1) by (simp_all add: on_way_back_def)
  have d: "drop (Suc c) (rev p) = rev p ! Suc c # drop (Suc (Suc c)) (rev p)"
    using len by (simp add: Cons_nth_drop_Suc)
  note step = relay_report_step [OF assms(1,2) Suc.prems(1)]
  show ?case
  proof (cases "rev p ! Suc c = p ! 0")
    case True
    then obtain r' where "rl_relay (rev p ! Suc c) None r = Inr r'" "rl_next_hop r' = None"
      using step by auto
    moreover have "report_route n r' = Inr []" if "rl_next_hop r' = None" for r'
      using that by (cases n) simp_all
    ultimately show ?thesis using True hop by (simp add: d)
  next
    case False
    then obtain r' where "rl_relay (rev p ! Suc c) None r = Inr r'" "on_way_back p (Suc c) r'"
      using step by auto
    moreover from this(2) have "report_route n r' =
        Inr (takeWhile (\<lambda>x. x \<noteq> p ! 0) (drop (Suc (Suc c)) (rev p)) @ [p ! 0])"
      using Suc.prems(2) by (intro Suc.IH) simp_all
    ultimately show ?thesis using False hop by (simp add: d)
  qed
qed

lemma report_route_of_path:
  assumes "rl_method m = SEND" "rl_path_end_cursor m = 0" "2 \<le> length (rl_path m)"
    and "length (rl_path m) < 2 ^ 63" "\<not> windows_equal (rl_path m)"
  shows "\<exists>r. rl_report m = Inr r \<and> rl_destination r = hd (rl_path m)
    \<and> report_route (length (rl_path m)) r
        = Inr (takeWhile (\<lambda>x. x \<noteq> hd (rl_path m)) (tl (rev (rl_path m))) @ [hd (rl_path m)])"
proof -
  let ?p = "rl_path m"
  have ne: "?p \<noteq> []" using assms(3) by auto
  have "rl_path_prev m = Inr (Some (rev ?p ! 1))"
    using rl_path_prev_eq [of m 0] assms ne by simp
  moreover have "rl_sender m = Inr (hd ?p)"
    using assms(1) ne by (cases ?p) (simp_all add: rl_sender_def rl_origin_def)
  moreover define r where "r = \<lparr>rl_method = REPORT, rl_path = ?p, rl_path_end_cursor = 0,
      rl_next_hop = Some (rev ?p ! 1), rl_destination = hd ?p\<rparr>"
  ultimately have r: "rl_report m = Inr r" "rl_destination r = hd ?p" "on_way_back ?p 0 r"
    using assms ne by (simp_all add: rl_report_def on_way_back_def hd_conv_nth)
  then show ?thesis
    using report_route_eq [OF assms(5,4) r(3), of "length ?p"] ne
    by (simp add: hd_conv_nth drop_Suc)
qed

section \<open>Properties\<close>

text \<open>
  C7: a report retraces the path of its request. A SEND relay as the code makes them, whose cursor
  has not moved, whose path has at least two nodes and less than \<open>2^63\<close>, and no
  repeated neighbours, always yields a report, and the report, relayed by each node in turn, visits
  the nodes of the path backwards from the last but one until it first meets the origin, where it
  stops: every relay call on the way succeeds, and \<open>length path\<close> hops are enough.
\<close>

theorem report_retraces_path:
  assumes "rl_method m = SEND" "rl_path_end_cursor m = 0" "2 \<le> length (rl_path m)"
    and "length (rl_path m) < 2 ^ 63" "\<not> windows_equal (rl_path m)"
  shows "\<exists>r. rl_report m = Inr r \<and> rl_destination r = hd (rl_path m)
    \<and> report_route (length (rl_path m)) r
        = Inr (takeWhile (\<lambda>x. x \<noteq> hd (rl_path m)) (tl (rev (rl_path m))) @ [hd (rl_path m)])"
  by (rule report_route_of_path [OF assms])

theorem report_retraces_path_witness:
  "\<exists>r. rl_report (MessageRelay_new SEND [1, 2, 3] None None 3) = Inr r
     \<and> report_route 3 r = Inr [2, 1]"
proof -
  let ?m = "MessageRelay_new SEND [1, 2, 3] None None 3"
  have "rl_method ?m = SEND" "rl_path_end_cursor ?m = 0" "2 \<le> length (rl_path ?m)"
    "length (rl_path ?m) < 2 ^ 63" "\<not> windows_equal (rl_path ?m)"
    by (simp_all add: MessageRelay_new_def)
  note report_retraces_path [OF this]
  moreover have "rl_path ?m = [1, 2, 3]" by (simp add: MessageRelay_new_def)
  ultimately obtain r where "rl_report ?m = Inr r"
    "report_route (length [1, 2, 3 :: did]) r
       = Inr (takeWhile (\<lambda>x. x \<noteq> hd [1, 2, 3]) (tl (rev [1, 2, 3])) @ [hd [1, 2, 3]])"
    by metis
  moreover have "length [1, 2, 3 :: did] = 3"
    "takeWhile (\<lambda>x. x \<noteq> hd [1, 2, 3]) (tl (rev [1, 2, 3])) @ [hd [1, 2, 3]] = [2, 1 :: did]"
    by simp_all
  ultimately show ?thesis by metis
qed

text \<open>
  The loop check is complete for whole cycles and sound: a path that ends with three
  rounds of a cycle, whose last node occurs once in it, is refused; a refused path repeats
  its end at two equal distances; a path without repeated nodes is never refused.
\<close>

lemma infinite_loop_check:
  fixes w pre path :: "'a list"
  shows "(w \<noteq> [] \<and> last w \<notin> set (butlast w) \<longrightarrow> has_infinite_loop (pre @ w @ w @ w))
   \<and> (has_infinite_loop path \<longrightarrow>
        (\<exists>g > 0. 2 * g < length path \<and> (\<forall>i < min g (length path - 2 * g).
           rev path ! i = rev path ! (g + i) \<and> rev path ! (g + i) = rev path ! (2 * g + i))))
   \<and> (distinct path \<longrightarrow> \<not> has_infinite_loop path)"
  using has_infinite_loop_cycle has_infinite_loop_sound has_infinite_loop_distinct by blast

text \<open>
  Relaying a request only ever appends the relaying node: an accepted SEND keeps the
  method, the cursor and the destination, extends the path by the current node, which must
  be the announced next hop if there was one, and is refused exactly when the path has
  repeated neighbours or a loop, or the node is not the next hop. A request can be
  redirected and a report cannot.
\<close>

lemma relay_send_appends:
  assumes "rl_method m = SEND"
  shows "rl_relay current next_hop m =
      (if windows_equal (rl_path m) then Inl InvalidRelayPath
       else if has_infinite_loop (rl_path m) then Inl InfiniteRelayPath
       else if rl_next_hop m \<noteq> None \<and> rl_next_hop m \<noteq> Some current then Inl InvalidNextHop
       else Inr \<lparr>rl_method = SEND, rl_path = rl_path m @ [current],
                 rl_path_end_cursor = rl_path_end_cursor m, rl_next_hop = next_hop,
                 rl_destination = rl_destination m\<rparr>)
    \<and> rl_reset_destination d m = Inr (m\<lparr>rl_destination := d\<rparr>)
    \<and> rl_reset_destination d (m\<lparr>rl_method := REPORT\<rparr>) = Inl ResetDestinationNeedSend"
  using assms by (auto simp: rl_relay_def rl_validate_def rl_reset_destination_def)

end
