(* ===== verification/Finger.thy ===== *)
theory Finger
  imports Did
begin

text \<open>
  \<open>FingerTable\<close> of \<open>rings-core/src/dht/finger.rs\<close>: slot \<open>k\<close> holds a node at clockwise
  distance at least \<open>2^k\<close> from the table's owner. \<open>join\<close> and \<open>closest\<close> index the vector up
  to the field \<open>size\<close> and panic when the vector is shorter, which a deserialised table can
  be; the theorems are about tables whose length is \<open>size\<close>.
\<close>

record finger_table =
  ft_did :: did
  ft_size :: nat
  finger :: "did option list"
  fix_finger_index :: "8 word"

definition FingerTable_new :: "did \<Rightarrow> nat \<Rightarrow> finger_table" where
  "FingerTable_new d sz =
     \<lparr>ft_did = d, ft_size = sz, finger = replicate sz None, fix_finger_index = 0\<rparr>"

definition ft_len :: "finger_table \<Rightarrow> nat" where
  "ft_len t = length (filter (\<lambda>x. x \<noteq> None) (finger t))"

definition ft_is_empty :: "finger_table \<Rightarrow> bool" where
  "ft_is_empty t \<longleftrightarrow> ft_len t = 0"

definition ft_first :: "finger_table \<Rightarrow> did option" where
  "ft_first t = (case filter (\<lambda>x. x \<noteq> None) (finger t) of [] \<Rightarrow> None | x # _ \<Rightarrow> x)"

definition ft_get :: "finger_table \<Rightarrow> nat \<Rightarrow> did option" where
  "ft_get t index = (if index \<ge> length (finger t) then None else finger t ! index)"

definition ft_set :: "finger_table \<Rightarrow> nat \<Rightarrow> did \<Rightarrow> finger_table" where
  "ft_set t index d =
     (if index \<ge> length (finger t) then t else t\<lparr>finger := (finger t)[index := Some d]\<rparr>)"

definition ft_set_fix :: "finger_table \<Rightarrow> did \<Rightarrow> finger_table" where
  "ft_set_fix t d = (let index = unat (fix_finger_index t) in ft_set t index d)"

definition ft_remove :: "finger_table \<Rightarrow> did \<Rightarrow> finger_table" where
  "ft_remove t d =
     (let indexes = map fst (filter (\<lambda>(_, x). x = Some d) (enumerate 0 (finger t)))
      in if indexes = [] then t
         else let first_idx = hd indexes; end_idx = last indexes + 1;
                  fix_id = (case drop end_idx (finger t) of [] \<Rightarrow> None | x # _ \<Rightarrow> x)
              in t\<lparr>finger := fold (\<lambda>idx f. f[idx := fix_id]) [first_idx..<end_idx] (finger t)\<rparr>)"

definition ft_join_step :: "bias_id \<Rightarrow> did \<Rightarrow> nat \<Rightarrow> finger_table \<Rightarrow> finger_table result" where
  "ft_join_step bid d k t =
     (let pos = did_of_biguint (2 ^ k)
      in if bid_pos bid \<ge> pos then
           if k \<ge> length (finger t) then Inl (Panicked ''index out of bounds'')
           else case finger t ! k of
               Some v \<Rightarrow>
                 if bid_lt bid (did_bias v (ft_did t))
                 then Inr (t\<lparr>finger := (finger t)[k := Some d]\<rparr>) else Inr t
             | None \<Rightarrow> Inr (t\<lparr>finger := (finger t)[k := Some d]\<rparr>)
         else Inr t)"

fun ft_join_loop :: "bias_id \<Rightarrow> did \<Rightarrow> nat list \<Rightarrow> finger_table \<Rightarrow> finger_table result" where
  "ft_join_loop bid d [] t = Inr t"
| "ft_join_loop bid d (k # ks) t = rbind (ft_join_step bid d k t) (ft_join_loop bid d ks)"

definition ft_join :: "finger_table \<Rightarrow> did \<Rightarrow> finger_table result" where
  "ft_join t d =
     (let bid = did_bias d (ft_did t) in ft_join_loop bid d [0..<ft_size t mod 2 ^ 32] t)"

definition ft_contains :: "finger_table \<Rightarrow> did option \<Rightarrow> bool" where
  "ft_contains t v \<longleftrightarrow> v \<in> set (finger t)"

fun ft_closest_loop :: "finger_table \<Rightarrow> bias_id \<Rightarrow> nat list \<Rightarrow> did result" where
  "ft_closest_loop t bid [] = Inr (ft_did t)"
| "ft_closest_loop t bid (i # is) =
     (if i \<ge> length (finger t) then Inl (Panicked ''index out of bounds'')
      else case finger t ! i of
          Some v \<Rightarrow>
            if bid_lt (did_bias v (ft_did t)) bid then Inr v else ft_closest_loop t bid is
        | None \<Rightarrow> ft_closest_loop t bid is)"

definition ft_closest :: "finger_table \<Rightarrow> did \<Rightarrow> did result" where
  "ft_closest t d =
     (let bid = did_bias d (ft_did t) in ft_closest_loop t bid (rev [0..<ft_size t]))"

definition ft_list :: "finger_table \<Rightarrow> did option list" where
  "ft_list t = finger t"

section \<open>Well-formed tables\<close>

definition ft_wf :: "finger_table \<Rightarrow> bool" where
  "ft_wf t \<longleftrightarrow> length (finger t) = ft_size t \<and> ft_size t \<le> 160"

text \<open>
  \<open>ft_ordered\<close>: every slot holds a node at least \<open>2^k\<close> away, filled slots form a prefix, and
  later slots hold nodes at least as far away.
\<close>

definition ft_ordered :: "finger_table \<Rightarrow> bool" where
  "ft_ordered t \<longleftrightarrow> ft_wf t
     \<and> (\<forall>k < ft_size t. \<forall>v. finger t ! k = Some v \<longrightarrow> 2 ^ k \<le> unat (dist (ft_did t) v))
     \<and> (\<forall>j < ft_size t. \<forall>w. finger t ! j = Some w \<longrightarrow>
          (\<forall>i \<le> j. \<exists>v. finger t ! i = Some v \<and> dist (ft_did t) v \<le> dist (ft_did t) w))"

lemma ft_wf_new: "sz \<le> 160 \<Longrightarrow> ft_wf (FingerTable_new d sz)"
  by (simp add: ft_wf_def FingerTable_new_def)

lemma ft_ordered_new: "sz \<le> 160 \<Longrightarrow> ft_ordered (FingerTable_new d sz)"
  by (simp add: ft_ordered_def ft_wf_def FingerTable_new_def)

lemma ft_orderedD:
  assumes "ft_ordered t"
  shows "ft_wf t"
    and "k < ft_size t \<Longrightarrow> finger t ! k = Some v \<Longrightarrow> 2 ^ k \<le> unat (dist (ft_did t) v)"
    and "j < ft_size t \<Longrightarrow> finger t ! j = Some w \<Longrightarrow> i \<le> j \<Longrightarrow>
          \<exists>v. finger t ! i = Some v \<and> dist (ft_did t) v \<le> dist (ft_did t) w"
  using assms unfolding ft_ordered_def by blast+

lemma ft_ordered_not_self:
  "ft_ordered t \<Longrightarrow> k < ft_size t \<Longrightarrow> finger t ! k \<noteq> Some (ft_did t)"
  using ft_orderedD(2) [of t k "ft_did t"] by auto

section \<open>join\<close>

definition join_entry :: "did \<Rightarrow> did \<Rightarrow> nat \<Rightarrow> did option \<Rightarrow> did option" where
  "join_entry n d k e =
     (if 2 ^ k \<le> unat (dist n d) then
        (case e of None \<Rightarrow> Some d | Some v \<Rightarrow> if dist n d < dist n v then Some d else Some v)
      else e)"

lemma pos_le_iff: "k < 160 \<Longrightarrow> did_of_biguint (2 ^ k) \<le> x \<longleftrightarrow> 2 ^ k \<le> unat x"
proof -
  assume "k < 160"
  then have "(2::nat) ^ k < 2 ^ 160" by (intro power_strict_increasing) simp_all
  then have "unat (did_of_biguint (2 ^ k)) = 2 ^ k"
    by (simp add: did_of_biguint_eq unat_of_nat del: of_nat_power)
  then show ?thesis by (simp add: word_le_nat_alt)
qed

lemma ft_join_step_eq:
  assumes "ft_wf t" "k < ft_size t"
  shows "ft_join_step (BiasId_new (ft_did t) d) d k t
       = Inr (t\<lparr>finger := (finger t)[k := join_entry (ft_did t) d k (finger t ! k)]\<rparr>)"
proof -
  have "t\<lparr>finger := (finger t)[k := finger t ! k]\<rparr> = t" by simp
  then show ?thesis using assms
    by (auto simp: ft_join_step_def join_entry_def pos_le_iff ft_wf_def simp del: list_update_id
        split: option.split)
qed

lemma ft_wf_update [simp]: "ft_wf (t\<lparr>finger := (finger t)[k := x]\<rparr>) = ft_wf t"
  by (simp add: ft_wf_def)

lemma ft_join_loop_eq:
  assumes "ft_wf t" "k \<le> ft_size t"
  shows "ft_join_loop (BiasId_new (ft_did t) d) d [k..<ft_size t] t
       = Inr (t\<lparr>finger := take k (finger t) @
            map (\<lambda>i. join_entry (ft_did t) d i (finger t ! i)) [k..<ft_size t]\<rparr>)"
  using assms
proof (induction "ft_size t - k" arbitrary: k t)
  case 0
  then show ?case by (simp add: ft_wf_def)
next
  case (Suc m)
  then have k: "k < ft_size t" by simp
  let ?t = "t\<lparr>finger := (finger t)[k := join_entry (ft_did t) d k (finger t ! k)]\<rparr>"
  have "ft_join_loop (BiasId_new (ft_did ?t) d) d [Suc k..<ft_size ?t] ?t
      = Inr (?t\<lparr>finger := take (Suc k) (finger ?t) @
            map (\<lambda>i. join_entry (ft_did ?t) d i (finger ?t ! i)) [Suc k..<ft_size ?t]\<rparr>)"
    using Suc.hyps Suc.prems k by (intro Suc.hyps(1)) auto
  then show ?case
    using k Suc.prems
    by (simp add: upt_conv_Cons ft_join_step_eq ft_wf_def take_Suc_conv_app_nth take_update_cancel
          cong: map_cong)
qed

lemma ft_join_eq:
  assumes "ft_wf t"
  shows "ft_join t d = Inr (t\<lparr>finger :=
           map (\<lambda>i. join_entry (ft_did t) d i (finger t ! i)) [0..<ft_size t]\<rparr>)"
proof -
  have "ft_size t mod 2 ^ 32 = ft_size t" using assms by (simp add: ft_wf_def)
  then show ?thesis using ft_join_loop_eq [OF assms, of 0 d] by (simp add: ft_join_def)
qed

lemma ft_join_Inr:
  assumes "ft_wf t" "ft_join t d = Inr t'"
  shows "ft_wf t'" "ft_did t' = ft_did t" "ft_size t' = ft_size t"
    "fix_finger_index t' = fix_finger_index t"
    "k < ft_size t \<Longrightarrow> finger t' ! k = join_entry (ft_did t) d k (finger t ! k)"
  using assms by (auto simp: ft_join_eq ft_wf_def)

lemma join_entry_SomeD:
  "join_entry n d k e = Some v \<Longrightarrow> v = d \<and> 2 ^ k \<le> unat (dist n d) \<or> e = Some v"
  by (auto simp: join_entry_def split: if_splits option.splits)

lemma join_entry_le:
  assumes "join_entry n d j e = Some w" "i \<le> j"
    and "\<And>w. e = Some w \<Longrightarrow> \<exists>v. e' = Some v \<and> dist n v \<le> dist n w"
  shows "\<exists>v. join_entry n d i e' = Some v \<and> dist n v \<le> dist n w"
proof -
  have p: "2 ^ i \<le> unat (dist n d)" if "2 ^ j \<le> unat (dist n d)"
    using that assms(2) by (meson le_trans one_le_numeral power_increasing)
  show ?thesis
    using assms(1,3) p
    by (cases e; cases e') (force simp: join_entry_def not_less split: if_splits)+
qed

lemma ft_ordered_join:
  assumes "ft_ordered t" "ft_join t d = Inr t'"
  shows "ft_ordered t'"
proof -
  note wf = ft_orderedD(1) [OF assms(1)]
  note nw = ft_join_Inr [OF wf assms(2)]
  have "2 ^ k \<le> unat (dist (ft_did t) v)" if "k < ft_size t" "finger t' ! k = Some v" for k v
    using that nw(5) [of k] ft_orderedD(2) [OF assms(1)] by (auto dest: join_entry_SomeD)
  moreover have "\<exists>v. finger t' ! i = Some v \<and> dist (ft_did t) v \<le> dist (ft_did t) w"
    if "j < ft_size t" "finger t' ! j = Some w" "i \<le> j" for i j w
    using that nw(5) [of j] nw(5) [of i] ft_orderedD(3) [OF assms(1)]
    by (auto intro!: join_entry_le [of _ _ j "finger t ! j"])
  ultimately show ?thesis using nw by (simp add: ft_ordered_def)
qed

text \<open>Joining one node after another, starting from the empty table.\<close>

fun ft_join_all :: "finger_table \<Rightarrow> did list \<Rightarrow> finger_table result" where
  "ft_join_all t [] = Inr t"
| "ft_join_all t (d # ds) = rbind (ft_join t d) (\<lambda>t. ft_join_all t ds)"

lemma ft_join_all_snoc:
  "ft_join_all t (ds @ [d]) = rbind (ft_join_all t ds) (\<lambda>t. ft_join t d)"
proof (induction ds arbitrary: t)
  case Nil
  then show ?case by (cases "ft_join t d") simp_all
next
  case (Cons a ds)
  then show ?case by (cases "ft_join t a") simp_all
qed

text \<open>The specification of a slot: the nearest of the known nodes at distance \<open>2^k\<close> or more.\<close>

definition slot_spec :: "did \<Rightarrow> did set \<Rightarrow> nat \<Rightarrow> did option \<Rightarrow> bool" where
  "slot_spec n A k e \<longleftrightarrow>
     (case e of
        None \<Rightarrow> \<forall>x\<in>A. unat (dist n x) < 2 ^ k
      | Some v \<Rightarrow> v \<in> A \<and> 2 ^ k \<le> unat (dist n v)
          \<and> (\<forall>x\<in>A. 2 ^ k \<le> unat (dist n x) \<longrightarrow> dist n v \<le> dist n x))"

lemma slot_spec_join:
  "slot_spec n A k e \<Longrightarrow> slot_spec n (insert d A) k (join_entry n d k e)"
  by (auto simp: slot_spec_def join_entry_def not_less split: option.splits if_splits)

lemma ft_join_all_spec:
  assumes "sz \<le> 160"
  shows "\<exists>t. ft_join_all (FingerTable_new n sz) ds = Inr t \<and> ft_ordered t
     \<and> ft_did t = n \<and> ft_size t = sz \<and> fix_finger_index t = 0
     \<and> (\<forall>k < sz. slot_spec n (set ds) k (finger t ! k))"
proof (induction ds rule: rev_induct)
  case Nil
  then show ?case
    using assms ft_ordered_new [OF assms] by (simp add: FingerTable_new_def slot_spec_def)
next
  case (snoc d ds)
  then obtain t where t: "ft_join_all (FingerTable_new n sz) ds = Inr t" "ft_ordered t"
    "ft_did t = n" "ft_size t = sz" "fix_finger_index t = 0"
    "\<forall>k < sz. slot_spec n (set ds) k (finger t ! k)" by blast
  from t(2) have wf: "ft_wf t" by (rule ft_orderedD)
  then obtain t' where t': "ft_join t d = Inr t'" by (simp add: ft_join_eq)
  show ?case
    using t t' ft_join_Inr [OF wf t'] ft_ordered_join [OF t(2) t']
    by (auto simp: ft_join_all_snoc intro: slot_spec_join)
qed

section \<open>remove\<close>

lemma enumerate_filter_indexes:
  "map fst (filter (\<lambda>(_, x). P x) (enumerate n xs))
   = map (\<lambda>i. i + n) (filter (\<lambda>i. P (xs ! i)) [0..<length xs])"
proof (induction xs rule: rev_induct)
  case (snoc x xs)
  have "filter (\<lambda>i. P ((xs @ [x]) ! i)) [0..<length xs] = filter (\<lambda>i. P (xs ! i)) [0..<length xs]"
    by (rule filter_cong) (simp_all add: nth_append)
  then show ?case using snoc by (simp add: enumerate_append_eq add.commute)
qed simp

lemma fold_update_range:
  "length (fold (\<lambda>i f. f[i := x]) is f) = length f"
  "j < length f \<Longrightarrow>
   fold (\<lambda>i f. f[i := x]) is f ! j = (if j \<in> set is then x else f ! j)"
  by (induction "is" arbitrary: f) auto

definition removed_range :: "did option list \<Rightarrow> did \<Rightarrow> nat \<Rightarrow> nat \<Rightarrow> bool" where
  "removed_range f d a b \<longleftrightarrow> a < b \<and> b \<le> length f \<and> f ! a = Some d \<and> f ! (b - 1) = Some d
     \<and> (\<forall>i < length f. f ! i = Some d \<longrightarrow> a \<le> i \<and> i < b)"

lemma removed_range_ex:
  assumes "Some d \<in> set f"
  defines "ks \<equiv> map fst (filter (\<lambda>(_, x). x = Some d) (enumerate 0 f))"
  shows "ks \<noteq> [] \<and> removed_range f d (hd ks) (last ks + 1)"
proof -
  have ks: "ks = filter (\<lambda>i. f ! i = Some d) [0..<length f]"
    unfolding ks_def using enumerate_filter_indexes [of "\<lambda>x. x = Some d" 0 f] by simp
  have srt: "sorted ks" unfolding ks by (rule sorted_wrt_filter) (rule sorted_upt)
  have mem: "i \<in> set ks \<longleftrightarrow> i < length f \<and> f ! i = Some d" for i
    unfolding ks by auto
  have ne: "ks \<noteq> []" using assms(1) mem by (metis empty_iff in_set_conv_nth list.set(1))
  have "hd ks \<le> i \<and> i \<le> last ks" if "i \<in> set ks" for i
  proof
    show "hd ks \<le> i" using srt that by (cases ks) auto
    show "i \<le> last ks" using srt that by (cases ks rule: rev_cases) (auto simp: sorted_append)
  qed
  moreover have "hd ks \<in> set ks" "last ks \<in> set ks" using ne by simp_all
  ultimately show ?thesis
    using ne mem by (auto simp: removed_range_def less_Suc_eq_le)
qed

text \<open>\<open>remove\<close> overwrites the span of the identifier's slots with the next slot's value.\<close>

lemma ft_remove_cases:
  obtains (absent) "Some d \<notin> set (finger t)" "ft_remove t d = t"
  | (present) a b f' where "removed_range (finger t) d a b" "length f' = length (finger t)"
      "ft_remove t d = t\<lparr>finger := f'\<rparr>"
      "\<And>j. j < length (finger t) \<Longrightarrow> f' ! j =
         (if a \<le> j \<and> j < b then if b < length (finger t) then finger t ! b else None
          else finger t ! j)"
proof (cases "Some d \<in> set (finger t)")
  case False
  then have "finger t ! i \<noteq> Some d" if "i < length (finger t)" for i
    using that nth_mem by fastforce
  then have "filter (\<lambda>i. finger t ! i = Some d) [0..<length (finger t)] = []"
    by (intro filter_False) simp
  then have "map fst (filter (\<lambda>(_, x). x = Some d) (enumerate 0 (finger t))) = []"
    using enumerate_filter_indexes [of "\<lambda>x. x = Some d" 0 "finger t"] by simp
  with False show ?thesis by (intro absent) (simp_all add: ft_remove_def)
next
  case True
  define ks where "ks = map fst (filter (\<lambda>(_, x). x = Some d) (enumerate 0 (finger t)))"
  define x where "x = (case drop (last ks + 1) (finger t) of [] \<Rightarrow> None | x # _ \<Rightarrow> x)"
  note ks = removed_range_ex [OF True, folded ks_def]
  have x: "x = (if last ks + 1 < length (finger t) then finger t ! (last ks + 1) else None)"
    by (cases "drop (last ks + 1) (finger t)") (auto simp: x_def nth_via_drop)
  show ?thesis
  proof (rule present)
    show "removed_range (finger t) d (hd ks) (last ks + 1)" using ks by simp
    show "ft_remove t d
        = t\<lparr>finger := fold (\<lambda>i f. f[i := x]) [hd ks..<last ks + 1] (finger t)\<rparr>"
      using ks by (simp add: ft_remove_def Let_def ks_def x_def)
  qed (auto simp: fold_update_range x)
qed

lemma ft_remove_sel [simp]:
  "ft_did (ft_remove t d) = ft_did t" "ft_size (ft_remove t d) = ft_size t"
  "fix_finger_index (ft_remove t d) = fix_finger_index t"
  "length (finger (ft_remove t d)) = length (finger t)"
  by (rule ft_remove_cases [of d t]; simp)+

lemma ft_wf_remove [simp]: "ft_wf (ft_remove t d) = ft_wf t"
  by (simp add: ft_wf_def)

lemma ft_remove_not_contains: "Some d \<notin> set (finger (ft_remove t d))"
proof (rule ft_remove_cases [of d t])
  fix a b f'
  assume r: "removed_range (finger t) d a b" "length f' = length (finger t)"
    "ft_remove t d = t\<lparr>finger := f'\<rparr>"
    "\<And>j. j < length (finger t) \<Longrightarrow> f' ! j =
         (if a \<le> j \<and> j < b then if b < length (finger t) then finger t ! b else None
          else finger t ! j)"
  have "f' ! j \<noteq> Some d" if "j < length (finger t)" for j
    using that r(1) r(4) [OF that] by (auto simp: removed_range_def)
  then show ?thesis using r(2,3) by (auto simp: in_set_conv_nth)
qed simp

lemma ordered_removed_range:
  assumes "ft_ordered t" "removed_range (finger t) d a b" "a \<le> j" "j < b"
  shows "finger t ! j = Some d"
proof -
  have b: "b - 1 < ft_size t" "finger t ! (b - 1) = Some d" "j \<le> b - 1" "a < ft_size t"
    using assms ft_orderedD(1) [OF assms(1)] by (auto simp: removed_range_def ft_wf_def)
  obtain v where v: "finger t ! j = Some v" "dist (ft_did t) v \<le> dist (ft_did t) d"
    using ft_orderedD(3) [OF assms(1) b(1,2,3)] by blast
  have "j < ft_size t" using b by simp
  then obtain u where "finger t ! a = Some u" "dist (ft_did t) u \<le> dist (ft_did t) v"
    using ft_orderedD(3) [OF assms(1) _ v(1) assms(3)] by blast
  then have "dist (ft_did t) v = dist (ft_did t) d"
    using v assms(2) by (simp add: removed_range_def)
  then show ?thesis using v by simp
qed

lemma ft_remove_ordered:
  assumes "ft_ordered t"
  shows "ft_ordered (ft_remove t d)"
    and "x \<noteq> d \<Longrightarrow> Some x \<in> set (finger (ft_remove t d)) \<longleftrightarrow> Some x \<in> set (finger t)"
proof -
  note wf = ft_orderedD(1) [OF assms]
  show "ft_ordered (ft_remove t d)"
  proof (rule ft_remove_cases [of d t])
    fix a b f'
    assume r: "removed_range (finger t) d a b" "length f' = length (finger t)"
      "ft_remove t d = t\<lparr>finger := f'\<rparr>"
      "\<And>j. j < length (finger t) \<Longrightarrow> f' ! j =
         (if a \<le> j \<and> j < b then if b < length (finger t) then finger t ! b else None
          else finger t ! j)"
    \<comment> \<open>each new slot copies an old slot at the same or a later index\<close>
    define g where "g j = (if a \<le> j \<and> j < b then b else j)" for j
    have f': "f' ! j = (if g j < ft_size t then finger t ! g j else None)" if "j < ft_size t" for j
      using that r(4) [of j] wf by (auto simp: g_def ft_wf_def)
    have g: "j \<le> g j" "i \<le> j \<Longrightarrow> g i \<le> g j" for i j by (auto simp: g_def)
    have "2 ^ k \<le> unat (dist (ft_did t) v)" if "k < ft_size t" "f' ! k = Some v" for k v
    proof -
      have "2 ^ g k \<le> unat (dist (ft_did t) v)"
        using that f' [of k] ft_orderedD(2) [OF assms] by (auto split: if_splits)
      then show ?thesis using g(1) [of k] by (meson le_trans one_le_numeral power_increasing)
    qed
    moreover have "\<exists>v. f' ! i = Some v \<and> dist (ft_did t) v \<le> dist (ft_did t) w"
      if "j < ft_size t" "f' ! j = Some w" "i \<le> j" for i j w
      using that f' [of j] f' [of i] g(2) [of i j] ft_orderedD(3) [OF assms, of "g j" w "g i"]
      by (auto split: if_splits)
    ultimately show ?thesis using r(2,3) wf by (simp add: ft_ordered_def ft_wf_def)
  qed (simp add: assms)
  assume x: "x \<noteq> d"
  show "Some x \<in> set (finger (ft_remove t d)) \<longleftrightarrow> Some x \<in> set (finger t)"
  proof (rule ft_remove_cases [of d t])
    fix a b f'
    assume r: "removed_range (finger t) d a b" "length f' = length (finger t)"
      "ft_remove t d = t\<lparr>finger := f'\<rparr>"
      "\<And>j. j < length (finger t) \<Longrightarrow> f' ! j =
         (if a \<le> j \<and> j < b then if b < length (finger t) then finger t ! b else None
          else finger t ! j)"
    have "f' ! j = Some x \<longleftrightarrow> finger t ! j = Some x" if "j < length (finger t)" "\<not> (a \<le> j \<and> j < b)" for j
      using r(4) [OF that(1)] that(2) by auto
    moreover have "finger t ! j \<noteq> Some x" if "a \<le> j" "j < b" for j
      using ordered_removed_range [OF assms r(1) that] x by simp
    ultimately show ?thesis
      using r by (auto simp: in_set_conv_nth split: if_splits) (metis+)
  qed simp
qed

section \<open>closest\<close>

lemma ft_closest_loop_spec:
  assumes "ft_wf t" "n \<le> ft_size t"
  shows "\<exists>v. ft_closest_loop t (BiasId_new (ft_did t) d) (rev [0..<n]) = Inr v \<and>
    (v = ft_did t \<and> (\<forall>k < n. \<forall>x. finger t ! k = Some x \<longrightarrow> dist (ft_did t) d \<le> dist (ft_did t) x)
     \<or> (\<exists>k < n. finger t ! k = Some v \<and> dist (ft_did t) v < dist (ft_did t) d
          \<and> (\<forall>j < n. \<forall>x. k < j \<longrightarrow> finger t ! j = Some x \<longrightarrow> dist (ft_did t) d \<le> dist (ft_did t) x)))"
  using assms(2)
proof (induction n)
  case (Suc n)
  have n: "n < length (finger t)" using Suc.prems assms(1) by (simp add: ft_wf_def)
  show ?case
  proof (cases "\<exists>v. finger t ! n = Some v \<and> dist (ft_did t) v < dist (ft_did t) d")
    case True
    then show ?thesis using n by (fastforce simp: less_Suc_eq)
  next
    case False
    then have "ft_closest_loop t (BiasId_new (ft_did t) d) (rev [0..<Suc n])
        = ft_closest_loop t (BiasId_new (ft_did t) d) (rev [0..<n])"
      using n by (auto split: option.split)
    then show ?thesis using Suc False by (fastforce simp: less_Suc_eq not_less)
  qed
qed simp

lemma ft_closest_cases:
  assumes "ft_wf t"
  obtains (self) "ft_closest t d = Inr (ft_did t)"
      "\<And>x. Some x \<in> set (finger t) \<Longrightarrow> dist (ft_did t) d \<le> dist (ft_did t) x"
  | (finger) v k where "ft_closest t d = Inr v" "k < ft_size t" "finger t ! k = Some v"
      "dist (ft_did t) v < dist (ft_did t) d"
      "\<And>j x. k < j \<Longrightarrow> j < ft_size t \<Longrightarrow> finger t ! j = Some x \<Longrightarrow> dist (ft_did t) d \<le> dist (ft_did t) x"
  using ft_closest_loop_spec [OF assms order_refl, of d] assms self finger
  by (auto simp: ft_closest_def in_set_conv_nth ft_wf_def)

lemma ft_closest_best:
  assumes "ft_ordered t"
  shows "\<exists>v. ft_closest t d = Inr v
     \<and> (v = ft_did t \<or> ft_contains t (Some v) \<and> dist (ft_did t) v < dist (ft_did t) d)
     \<and> (\<forall>x. ft_contains t (Some x) \<longrightarrow> dist (ft_did t) x < dist (ft_did t) d
            \<longrightarrow> dist (ft_did t) x \<le> dist (ft_did t) v)"
proof (rule ft_closest_cases [OF ft_orderedD(1) [OF assms], of d])
  assume "ft_closest t d = Inr (ft_did t)"
    "\<And>x. Some x \<in> set (finger t) \<Longrightarrow> dist (ft_did t) d \<le> dist (ft_did t) x"
  then show ?thesis by (intro exI [of _ "ft_did t"]) (auto simp: ft_contains_def not_less [symmetric])
next
  fix v k
  assume v: "ft_closest t d = Inr v" "k < ft_size t" "finger t ! k = Some v"
    "dist (ft_did t) v < dist (ft_did t) d"
    "\<And>j x. k < j \<Longrightarrow> j < ft_size t \<Longrightarrow> finger t ! j = Some x \<Longrightarrow> dist (ft_did t) d \<le> dist (ft_did t) x"
  have len: "length (finger t) = ft_size t" using ft_orderedD(1) [OF assms] by (simp add: ft_wf_def)
  have "dist (ft_did t) x \<le> dist (ft_did t) v"
    if x: "Some x \<in> set (finger t)" "dist (ft_did t) x < dist (ft_did t) d" for x
  proof -
    obtain j where j: "j < ft_size t" "finger t ! j = Some x"
      using x(1) unfolding in_set_conv_nth len by blast
    then have "j \<le> k" using v(5) [of j x] x(2) by (meson not_le)
    then obtain u where "finger t ! j = Some u" "dist (ft_did t) u \<le> dist (ft_did t) v"
      using ft_orderedD(3) [OF assms v(2,3)] by blast
    then show ?thesis using j(2) by simp
  qed
  moreover have "Some v \<in> set (finger t)" using v(2,3) nth_mem [of k "finger t"] len by simp
  ultimately show ?thesis using v(1,4) by (intro exI [of _ v]) (simp add: ft_contains_def)
qed

text \<open>
  When every slot is right for the known nodes \<open>A\<close>, the closest preceding finger is more than
  half as far along as any known node before the target.
\<close>

lemma slot_spec_covers:
  assumes "\<And>k. k < ft_size t \<Longrightarrow> slot_spec (ft_did t) A k (finger t ! k)" "ft_wf t" "ft_size t = 160"
    and "x \<in> A" "x \<noteq> ft_did t"
  shows "\<exists>v. ft_contains t (Some v) \<and> dist (ft_did t) v \<le> dist (ft_did t) x
    \<and> unat (dist (ft_did t) x) < 2 * unat (dist (ft_did t) v)"
proof -
  have "unat (dist (ft_did t) x) \<noteq> 0" using assms(5) by (simp add: unat_eq_zero)
  then obtain i where i: "2 ^ i \<le> unat (dist (ft_did t) x)" "unat (dist (ft_did t) x) < 2 ^ (i + 1)"
    using ex_power_ivl1 [of 2 "unat (dist (ft_did t) x)"] by auto
  have "unat (dist (ft_did t) x) < 2 ^ 160"
    using unsigned_less [where ?'a = nat, of "dist (ft_did t) x"] by simp
  then have "(2::nat) ^ i < 2 ^ 160" using i(1) by (rule le_less_trans [rotated])
  then have "i < ft_size t" unfolding assms(3) by (rule power_less_imp_less_exp [rotated]) simp
  then obtain v where v: "finger t ! i = Some v" "2 ^ i \<le> unat (dist (ft_did t) v)"
    "dist (ft_did t) v \<le> dist (ft_did t) x"
    using assms(1) [of i] assms(4) i(1)
    by (cases "finger t ! i") (auto simp: slot_spec_def not_less [symmetric])
  have "ft_contains t (Some v)"
    using v(1) \<open>i < ft_size t\<close> assms(2) nth_mem [of i "finger t"] by (simp add: ft_contains_def ft_wf_def)
  moreover have "unat (dist (ft_did t) x) < 2 * unat (dist (ft_did t) v)" using i(2) v(2) by simp
  ultimately show ?thesis using v(3) by blast
qed

lemma slot_spec_contains:
  assumes "\<And>k. k < ft_size t \<Longrightarrow> slot_spec (ft_did t) A k (finger t ! k)" "ft_wf t"
  shows "ft_contains t (Some v) \<Longrightarrow> v \<in> A"
  using assms by (fastforce simp: ft_contains_def in_set_conv_nth ft_wf_def slot_spec_def)

lemma closest_halves:
  assumes slots: "\<And>k. k < ft_size t \<Longrightarrow> slot_spec (ft_did t) A k (finger t ! k)"
    and t: "ft_ordered t" "ft_size t = 160" "ft_did t \<notin> A"
    and y: "y \<in> A" "dist (ft_did t) y < dist (ft_did t) d"
  shows "\<exists>u\<in>A. ft_closest t d = Inr u \<and> dist (ft_did t) u < dist (ft_did t) d
    \<and> (\<forall>x\<in>A. dist (ft_did t) x < dist (ft_did t) d \<longrightarrow>
          unat (dist (ft_did t) x) < 2 * unat (dist (ft_did t) u))"
proof -
  note wf = ft_orderedD(1) [OF t(1)]
  obtain u where u: "ft_closest t d = Inr u"
    "u = ft_did t \<or> ft_contains t (Some u) \<and> dist (ft_did t) u < dist (ft_did t) d"
    "\<And>x. ft_contains t (Some x) \<Longrightarrow> dist (ft_did t) x < dist (ft_did t) d \<Longrightarrow>
       dist (ft_did t) x \<le> dist (ft_did t) u"
    using ft_closest_best [OF t(1), of d] by blast
  have half: "unat (dist (ft_did t) x) < 2 * unat (dist (ft_did t) u)"
    if x: "x \<in> A" "dist (ft_did t) x < dist (ft_did t) d" for x
  proof -
    have "x \<noteq> ft_did t" using x(1) t(3) by blast
    then obtain v where v: "ft_contains t (Some v)" "dist (ft_did t) v \<le> dist (ft_did t) x"
      "unat (dist (ft_did t) x) < 2 * unat (dist (ft_did t) v)"
      using slot_spec_covers [OF slots wf t(2) x(1)] by blast
    have "dist (ft_did t) v < dist (ft_did t) d" using v(2) x(2) by (rule le_less_trans)
    from u(3) [OF v(1) this] v(3) show ?thesis by (simp add: word_le_nat_alt)
  qed
  have "u \<noteq> ft_did t" using half [OF y] by auto
  then show ?thesis using u(1,2) half slot_spec_contains [OF slots wf] by blast
qed

section \<open>Properties\<close>

text \<open>
  A table of any size up to 160 built by joining nodes in any order is total (no panic)
  and refines its specification: slot \<open>k\<close> holds the node nearest to the owner among the
  joined nodes at clockwise distance at least \<open>2^k\<close>, and is empty only if there is none.
\<close>

lemma finger_join_refines_slots:
  assumes "sz \<le> 160"
  shows "\<exists>t. ft_join_all (FingerTable_new n sz) ds = Inr t \<and> ft_ordered t
     \<and> (\<forall>k < sz. slot_spec n (set ds) k (ft_get t k))"
proof -
  obtain t where "ft_join_all (FingerTable_new n sz) ds = Inr t" "ft_ordered t" "ft_size t = sz"
    "\<forall>k < sz. slot_spec n (set ds) k (finger t ! k)"
    using ft_join_all_spec [OF assms, of n ds] by blast
  then show ?thesis by (auto simp: ft_get_def dest: ft_orderedD(1) simp: ft_wf_def)
qed

text \<open>
  \<open>remove\<close> clears an identifier from every table, keeping its length. On an ordered
  table (any table built by joins and removals) it loses no other node and the table
  stays ordered, so that the freed slots are filled by the next known node.
\<close>

lemma finger_remove_exact:
  "\<not> ft_contains (ft_remove t d) (Some d) \<and> length (ft_list (ft_remove t d)) = length (ft_list t)
   \<and> (ft_ordered t \<longrightarrow> ft_ordered (ft_remove t d)
        \<and> (\<forall>x. x \<noteq> d \<longrightarrow> ft_contains (ft_remove t d) (Some x) = ft_contains t (Some x)))"
  using ft_remove_not_contains ft_remove_ordered by (simp add: ft_contains_def ft_list_def)

text \<open>
  On an ordered table \<open>closest\<close> never panics and returns the closest preceding node: a
  recorded node strictly before the target than which no recorded node before the target
  is farther along, or the owner when no recorded node precedes the target.
\<close>

lemma finger_closest_preceding:
  assumes "ft_ordered t"
  shows "\<exists>v. ft_closest t d = Inr v
     \<and> (v = ft_did t \<or> ft_contains t (Some v) \<and> dist (ft_did t) v < dist (ft_did t) d)
     \<and> (\<forall>x. ft_contains t (Some x) \<longrightarrow> dist (ft_did t) x < dist (ft_did t) d
            \<longrightarrow> dist (ft_did t) x \<le> dist (ft_did t) v)"
  using assms by (rule ft_closest_best)

end
