(* ===== verification/VNode.thy ===== *)
theory VNode
  imports Finger
begin

text \<open>
  Virtual nodes: \<open>rings-core/src/dht/vnode.rs\<close>, \<open>subring.rs\<close>, the text encodings of
  \<open>message/encoder.rs\<close> and \<open>HashStr\<close> of \<open>ecc/mod.rs\<close>. The crates behind them (sha1, the
  hex parser of \<open>H160\<close>, base58check, serde_json) are functions of the record \<open>codec\<close>, an
  argument of the definitions that use them.
\<close>

section \<open>Standard library: UTF-8\<close>

fun utf8_valid :: "bytes \<Rightarrow> bool" where
  "utf8_valid [] = True"
| "utf8_valid (b # bs) =
     (let cont = (\<lambda>c. 0x80 \<le> c \<and> c \<le> (0xBF :: byte)) in
      if b < 0x80 then utf8_valid bs
      else if 0xC2 \<le> b \<and> b \<le> 0xDF then
        (case bs of c # bs' \<Rightarrow> cont c \<and> utf8_valid bs' | _ \<Rightarrow> False)
      else if 0xE0 \<le> b \<and> b \<le> 0xEF then
        (case bs of c # d # bs' \<Rightarrow> cont c \<and> cont d \<and> (b = 0xE0 \<longrightarrow> 0xA0 \<le> c)
            \<and> (b = 0xED \<longrightarrow> c \<le> 0x9F) \<and> utf8_valid bs' | _ \<Rightarrow> False)
      else if 0xF0 \<le> b \<and> b \<le> 0xF4 then
        (case bs of c # d # e # bs' \<Rightarrow> cont c \<and> cont d \<and> cont e \<and> (b = 0xF0 \<longrightarrow> 0x90 \<le> c)
            \<and> (b = 0xF4 \<longrightarrow> c \<le> 0x8F) \<and> utf8_valid bs' | _ \<Rightarrow> False)
      else False)"

definition from_utf8 :: "bytes \<Rightarrow> string option" where
  "from_utf8 bs = (if utf8_valid bs then Some (map (\<lambda>b. char_of (unat b)) bs) else None)"

lemma from_utf8_as_bytes: "utf8_valid (as_bytes s) \<Longrightarrow> from_utf8 (as_bytes s) = Some s"
  by (simp add: from_utf8_def as_bytes_def comp_def unat_of_nat of_char_of)

section \<open>Codecs and the Encoded type\<close>

record subring =
  sr_name :: string
  sr_finger :: finger_table
  sr_creator :: did

record codec =
  sha1 :: "bytes \<Rightarrow> bytes"
  h160_from_str :: "string \<Rightarrow> did option"
  b58_encode_check :: "bytes \<Rightarrow> string option"
  b58_decode_check :: "string \<Rightarrow> bytes option"
  subring_to_json :: "subring \<Rightarrow> string option"
  subring_from_json :: "string \<Rightarrow> subring option"

datatype encoded = Encoded string

primrec encoded_value :: "encoded \<Rightarrow> string" where
  "encoded_value (Encoded s) = s"

definition encode_bytes :: "codec \<Rightarrow> bytes \<Rightarrow> encoded result" where
  "encode_bytes C bs = rbind (ok_or (b58_encode_check C bs) EncodeError) (\<lambda>s. Inr (Encoded s))"

definition encode_string :: "codec \<Rightarrow> string \<Rightarrow> encoded result" where
  "encode_string C s =
     rbind (ok_or (b58_encode_check C (as_bytes s)) EncodeError) (\<lambda>s. Inr (Encoded s))"

definition decode_bytes :: "codec \<Rightarrow> encoded \<Rightarrow> bytes result" where
  "decode_bytes C e = ok_or (b58_decode_check C (encoded_value e)) DecodeError"

definition decode_string :: "codec \<Rightarrow> encoded \<Rightarrow> string result" where
  "decode_string C e = rbind (decode_bytes C e) (\<lambda>d. ok_or (from_utf8 d) DecodeError)"

text \<open>\<open>HashStr::from\<close>: the lower-case hexadecimal form of the SHA-1 digest.\<close>

definition hex_digit :: "nat \<Rightarrow> char" where
  "hex_digit n = ''0123456789abcdef'' ! n"

definition hex_byte :: "byte \<Rightarrow> string" where
  "hex_byte b = [hex_digit (unat b div 16), hex_digit (unat b mod 16)]"

definition HashStr_from :: "codec \<Rightarrow> string \<Rightarrow> string" where
  "HashStr_from C s = concat (map hex_byte (sha1 C (as_bytes s)))"

definition did_from_str :: "codec \<Rightarrow> string \<Rightarrow> did result" where
  "did_from_str C s = ok_or (h160_from_str C s) BadCHexInCache"

section \<open>Virtual nodes\<close>

datatype vnode_type = Data | Subring | RelayMessage

record virtual_node =
  vn_did :: did
  vn_data :: "encoded list"
  vn_kind :: vnode_type

datatype vnode_operation =
    Overwrite virtual_node
  | Extend virtual_node
  | Touch virtual_node
  | JoinSubring string did

definition VNODE_DATA_MAX_LEN :: nat where
  "VNODE_DATA_MAX_LEN = 1024"

definition gen_did :: "codec \<Rightarrow> string \<Rightarrow> did result" where
  "gen_did C topic = (let hash = HashStr_from C topic in did_from_str C hash)"

primrec op_did :: "codec \<Rightarrow> vnode_operation \<Rightarrow> did result" where
  "op_did C (Overwrite v) = Inr (vn_did v)"
| "op_did C (Extend v) = Inr (vn_did v)"
| "op_did C (Touch v) = Inr (vn_did v)"
| "op_did C (JoinSubring name _) = gen_did C name"

primrec op_kind :: "vnode_operation \<Rightarrow> vnode_type" where
  "op_kind (Overwrite v) = vn_kind v"
| "op_kind (Extend v) = vn_kind v"
| "op_kind (Touch v) = vn_kind v"
| "op_kind (JoinSubring _ _) = Subring"

definition Subring_new :: "codec \<Rightarrow> string \<Rightarrow> did \<Rightarrow> subring result" where
  "Subring_new C name creator =
     rbind (gen_did C name) (\<lambda>d.
       Inr \<lparr>sr_name = name, sr_finger = FingerTable_new d 1, sr_creator = creator\<rparr>)"

text \<open>
  A subring becomes a virtual node with its JSON text stored as it is (\<open>data.into()\<close>), and is
  read back by decoding the stored text as base58check first.
\<close>

definition vnode_of_subring :: "codec \<Rightarrow> subring \<Rightarrow> virtual_node result" where
  "vnode_of_subring C ring =
     rbind (ok_or (subring_to_json C ring) SerializeToString) (\<lambda>data.
     rbind (gen_did C (sr_name ring)) (\<lambda>d.
       Inr \<lparr>vn_did = d, vn_data = [Encoded data], vn_kind = Subring\<rparr>))"

definition subring_of_vnode :: "codec \<Rightarrow> virtual_node \<Rightarrow> subring result" where
  "subring_of_vnode C v =
     (case vn_kind v of
        Subring \<Rightarrow>
          (case vn_data v of
             [] \<Rightarrow> Inl (Panicked ''index out of bounds'')
           | e # _ \<Rightarrow>
               rbind (decode_string C e) (\<lambda>decoded.
                 ok_or (subring_from_json C decoded) DeserializeError))
      | _ \<Rightarrow> Inl InvalidVNodeType)"

definition gen_default_vnode :: "codec \<Rightarrow> vnode_operation \<Rightarrow> virtual_node result" where
  "gen_default_vnode C op =
     (case op of
        JoinSubring name d \<Rightarrow> rbind (Subring_new C name d) (vnode_of_subring C)
      | _ \<Rightarrow> rbind (op_did C op) (\<lambda>d.
               Inr \<lparr>vn_did = d, vn_data = [], vn_kind = op_kind op\<rparr>))"

definition vnode_of_topic :: "codec \<Rightarrow> string \<Rightarrow> encoded \<Rightarrow> virtual_node result" where
  "vnode_of_topic C topic e =
     rbind (gen_did C topic) (\<lambda>d. Inr \<lparr>vn_did = d, vn_data = [e], vn_kind = Data\<rparr>)"

definition vnode_of_topic_string :: "codec \<Rightarrow> string \<Rightarrow> string \<Rightarrow> virtual_node result" where
  "vnode_of_topic_string C topic s =
     rbind (encode_string C s) (\<lambda>encoded_message. vnode_of_topic C topic encoded_message)"

definition vnode_of_string :: "codec \<Rightarrow> string \<Rightarrow> virtual_node result" where
  "vnode_of_string C topic = vnode_of_topic_string C topic topic"

definition vn_overwrite :: "virtual_node \<Rightarrow> virtual_node \<Rightarrow> virtual_node result" where
  "vn_overwrite self other =
     (if vn_kind self \<noteq> Data then Inl VNodeNotOverwritable
      else if vn_kind self \<noteq> vn_kind other then Inl VNodeKindNotEqual
      else if vn_did self \<noteq> vn_did other then Inl VNodeDidNotEqual
      else Inr other)"

definition trim_num :: "nat \<Rightarrow> nat" where
  "trim_num len = nat (max 0 (int len - int VNODE_DATA_MAX_LEN))"

definition vn_extend :: "virtual_node \<Rightarrow> virtual_node \<Rightarrow> virtual_node result" where
  "vn_extend self other =
     (if vn_kind self \<noteq> Data then Inl VNodeNotAppendable
      else if vn_kind self \<noteq> vn_kind other then Inl VNodeKindNotEqual
      else if vn_did self \<noteq> vn_did other then Inl VNodeDidNotEqual
      else let data = drop (trim_num (length (vn_data self) + length (vn_data other))) (vn_data self)
           in Inr \<lparr>vn_did = vn_did self, vn_data = data @ vn_data other, vn_kind = vn_kind self\<rparr>)"

definition vn_touch :: "virtual_node \<Rightarrow> virtual_node \<Rightarrow> virtual_node result" where
  "vn_touch self other =
     (if vn_kind self \<noteq> Data then Inl VNodeNotAppendable
      else if vn_kind self \<noteq> vn_kind other then Inl VNodeKindNotEqual
      else if vn_did self \<noteq> vn_did other then Inl VNodeDidNotEqual
      else let remains = filter (\<lambda>e. e \<notin> set (vn_data other)) (vn_data self);
               data = drop (trim_num (length remains + length (vn_data other))) remains
           in Inr \<lparr>vn_did = vn_did self, vn_data = data @ vn_data other, vn_kind = vn_kind self\<rparr>)"

definition vn_join_subring :: "codec \<Rightarrow> virtual_node \<Rightarrow> did \<Rightarrow> virtual_node result" where
  "vn_join_subring C self d =
     (if vn_kind self \<noteq> Subring then Inl VNodeNotJoinable
      else rbind (subring_of_vnode C self) (\<lambda>sub.
           rbind (ft_join (sr_finger sub) d) (\<lambda>f.
             vnode_of_subring C (sub\<lparr>sr_finger := f\<rparr>))))"

primrec vn_operate :: "codec \<Rightarrow> virtual_node \<Rightarrow> vnode_operation \<Rightarrow> virtual_node result" where
  "vn_operate C self (Overwrite v) = vn_overwrite self v"
| "vn_operate C self (Extend v) = vn_extend self v"
| "vn_operate C self (Touch v) = vn_touch self v"
| "vn_operate C self (JoinSubring _ d) = vn_join_subring C self d"

lemma trim_num_eq: "trim_num n = n - 1024"
  by (simp add: trim_num_def VNODE_DATA_MAX_LEN_def)

lemmas vn_op_defs = vn_overwrite_def vn_extend_def vn_touch_def

lemma vn_operate_data_Inr:
  assumes "vn_operate C v op = Inr w" "\<And>name d. op \<noteq> JoinSubring name d"
  shows "vn_kind v = Data \<and> vn_kind w = Data \<and> vn_did w = vn_did v \<and> op_did C op = Inr (vn_did v)"
  using assms by (cases op) (auto simp: vn_op_defs Let_def split: if_splits)

section \<open>Properties\<close>

text \<open>
  Appending to a data node keeps the newest entries: the result is the last 1024
  elements of the old data followed by the new data, whenever the new data alone fits, and
  is never longer than 1024 entries or the new data, whichever is larger.
\<close>

lemma vnode_extend_keeps_newest:
  assumes "vn_extend v w = Inr u"
  shows "length (vn_data u) \<le> max VNODE_DATA_MAX_LEN (length (vn_data w))
    \<and> (length (vn_data w) \<le> VNODE_DATA_MAX_LEN \<longrightarrow>
         vn_data u = drop (length (vn_data v @ vn_data w) - VNODE_DATA_MAX_LEN) (vn_data v @ vn_data w))"
  using assms
  by (auto simp: vn_extend_def trim_num_eq VNODE_DATA_MAX_LEN_def Let_def split: if_splits)

text \<open>
  Touching keeps the entries unique: on duplicate-free data the result has no
  duplicates, ends with the touched entries in their order, contains only old and touched
  entries, keeps the remaining old entries in order, and touching again changes nothing.
\<close>

lemma vnode_touch_unique:
  assumes "vn_touch v w = Inr u"
  shows "(distinct (vn_data v) \<and> distinct (vn_data w) \<longrightarrow> distinct (vn_data u))
    \<and> (\<exists>kept. vn_data u = kept @ vn_data w
         \<and> (\<exists>old. filter (\<lambda>e. e \<notin> set (vn_data w)) (vn_data v) = old @ kept))
    \<and> vn_touch u w = Inr u"
proof -
  define remains where "remains = filter (\<lambda>e. e \<notin> set (vn_data w)) (vn_data v)"
  define kept where "kept = drop (length remains + length (vn_data w) - 1024) remains"
  have u: "u = \<lparr>vn_did = vn_did v, vn_data = kept @ vn_data w, vn_kind = vn_kind v\<rparr>"
    and ok: "vn_kind v = Data" "vn_kind w = Data" "vn_did v = vn_did w"
    using assms
    by (auto simp: vn_touch_def trim_num_eq Let_def kept_def remains_def split: if_splits)
  have sub: "set kept \<subseteq> set remains" by (simp add: kept_def set_drop_subset)
  have "filter (\<lambda>e. e \<notin> set (vn_data w)) kept = kept"
    using sub by (intro filter_True) (auto simp: remains_def)
  moreover have "kept = [] \<or> length kept + length (vn_data w) \<le> 1024"
    by (simp add: kept_def) arith
  then have "drop (length kept + length (vn_data w) - 1024) kept = kept" by auto
  ultimately have "vn_touch u w = Inr u"
    using ok by (simp add: vn_touch_def u trim_num_eq)
  moreover have "distinct (vn_data u)" if "distinct (vn_data v)" "distinct (vn_data w)"
    using that sub by (auto simp: u kept_def remains_def distinct_drop)
  moreover have "remains = take (length remains + length (vn_data w) - 1024) remains @ kept"
    by (simp add: kept_def)
  ultimately show ?thesis by (auto simp: u remains_def [symmetric])
qed

text \<open>
  Data operations reject every mismatch with the documented error and in the
  documented order (operability of the stored kind, then kinds, then identifiers), and an
  accepted operation keeps the identifier and the kind of the stored node.
\<close>

lemma vnode_operate_guards:
  "(vn_kind v \<noteq> Data \<longrightarrow> vn_operate C v (Overwrite w) = Inl VNodeNotOverwritable
      \<and> vn_operate C v (Extend w) = Inl VNodeNotAppendable
      \<and> vn_operate C v (Touch w) = Inl VNodeNotAppendable)
   \<and> (\<forall>op \<in> {Overwrite w, Extend w, Touch w}. vn_kind v = Data \<longrightarrow>
        vn_operate C v op =
          (if vn_kind w \<noteq> Data then Inl VNodeKindNotEqual
           else if vn_did w \<noteq> vn_did v then Inl VNodeDidNotEqual
           else vn_operate C v op)
        \<and> (vn_kind w = Data \<and> vn_did w = vn_did v \<longrightarrow>
             (\<exists>u. vn_operate C v op = Inr u \<and> vn_did u = vn_did v \<and> vn_kind u = Data)))
   \<and> (vn_kind v \<noteq> Subring \<longrightarrow> vn_operate C v (JoinSubring name d) = Inl VNodeNotJoinable)"
  by (auto simp: vn_op_defs vn_join_subring_def Let_def)

text \<open>
  Joining a subring that does not exist yet never succeeds. The freshly created node
  stores the subring's JSON text unencoded, while the join decodes the stored text as
  base58check; JSON objects begin with a brace, which is no base58 character, so the
  operation stops with the decoding error.
\<close>

lemma join_subring_never_creates:
  assumes b58: "\<And>s. CHR ''{'' \<in> set s \<Longrightarrow> b58_decode_check C s = None"
    and json: "\<And>r s. subring_to_json C r = Some s \<Longrightarrow> hd s = CHR ''{'' \<and> s \<noteq> []"
    and fresh: "gen_default_vnode C (JoinSubring name d) = Inr v"
  shows "vn_operate C v (JoinSubring name d) = Inl DecodeError"
proof -
  from fresh obtain r s where r: "subring_to_json C r = Some s"
    and v: "vn_kind v = Subring" "vn_data v = [Encoded s]"
    by (auto simp: gen_default_vnode_def vnode_of_subring_def rbind_eq_Inr ok_or_def
        split: option.splits)
  have "CHR ''{'' \<in> set s" using json [OF r] by (metis list.set_sel(1))
  then show ?thesis
    by (simp add: vn_join_subring_def subring_of_vnode_def v decode_string_def decode_bytes_def b58)
qed

definition demo_codec :: codec where
  "demo_codec = \<lparr>sha1 = (\<lambda>bs. bs), h160_from_str = (\<lambda>s. Some (word_of_nat (length s))),
     b58_encode_check = (\<lambda>bs. Some (concat (map hex_byte bs))),
     b58_decode_check = (\<lambda>s. if CHR ''{'' \<in> set s then None else Some (as_bytes s)),
     subring_to_json = (\<lambda>r. Some (''{'' @ sr_name r @ ''}'')),
     subring_from_json = (\<lambda>s. None)\<rparr>"

end
