(* ===== verification/Payload.thy ===== *)
theory Payload
  imports Session Relay VNode
begin

text \<open>
  Messages and their envelope: \<open>rings-core/src/message/types.rs\<close>, \<open>message/payload.rs\<close> and
  \<open>message/protocols/verify.rs\<close>. Serialisation, compression and ECIES are arguments. One
  operation reads the clock once: \<open>now\<close> is the reading. The struct of one message kind becomes
  the arguments of its constructor.
\<close>

section \<open>Messages\<close>

datatype report_handler =
    HandlerNone
  | HandlerConnect
  | HandlerFixFingerTable
  | HandlerSyncStorage
  | HandlerCustomCallback byte

datatype find_successor_then = ThenReport report_handler

datatype 'a maybe_encrypted = Encrypted bytes | Plain 'a

type_synonym custom_message = bytes

datatype message =
    MultiCall "message list"
  | JoinDHT did
  | LeaveDHT did
  | ConnectNodeSend (cs_uuid: string) (cs_handshake: string)
  | AlreadyConnected
  | ConnectNodeReport (cr_uuid: string) (cr_handshake: string)
  | FindSuccessorSend did bool find_successor_then
  | FindSuccessorReport did report_handler
  | NotifyPredecessorSend did
  | NotifyPredecessorReport did
  | SearchVNode did
  | FoundVNode "virtual_node list"
  | OperateVNode vnode_operation
  | MSyncVNodeWithSuccessor "virtual_node list"
  | CustomMessage "custom_message maybe_encrypted"

text \<open>\<open>ecies_*\<close> are the ecies crate, \<open>ser\<close> and \<open>de\<close> bincode at the message's type.\<close>

record 'a cipher =
  ci_ser :: "'a \<Rightarrow> bytes option"
  ci_de :: "bytes \<Rightarrow> 'a option"
  ci_encrypt :: "bytes \<Rightarrow> bytes \<Rightarrow> bytes option"
  ci_decrypt :: "secret_key \<Rightarrow> bytes \<Rightarrow> bytes option"

definition MaybeEncrypted_new ::
  "ecc \<Rightarrow> 'a cipher \<Rightarrow> 'a \<Rightarrow> public_key option \<Rightarrow> 'a maybe_encrypted result" where
  "MaybeEncrypted_new E X data pubkey =
     (case pubkey of
        Some pk \<Rightarrow>
          rbind (ok_or (ci_ser X data) BincodeSerialize) (\<lambda>msg.
          rbind (ok_or (secp_parse_compressed E pk) ECDSAPublicKeyBadFormat) (\<lambda>pk.
          rbind (ok_or (ci_encrypt X pk msg) MessageEncryptionFailed) (\<lambda>cipher_text.
            Inr (Encrypted cipher_text))))
      | None \<Rightarrow> Inr (Plain data))"

definition maybe_decrypt :: "'a cipher \<Rightarrow> secret_key \<Rightarrow> 'a maybe_encrypted \<Rightarrow> ('a \<times> bool) result" where
  "maybe_decrypt X key m =
     (case m of
        Plain msg \<Rightarrow> Inr (msg, False)
      | Encrypted cipher_text \<Rightarrow>
          rbind (ok_or (ci_decrypt X key cipher_text) MessageDecryptionFailed) (\<lambda>plain.
          rbind (ok_or (ci_de X plain) BincodeDeserialize) (\<lambda>msg. Inr (msg, True))))"

definition plain_or_error :: "'a maybe_encrypted \<Rightarrow> 'a result" where
  "plain_or_error m = (case m of Plain msg \<Rightarrow> Inr msg | Encrypted _ \<Rightarrow> Inl UnexpectedEncryptedData)"

definition Message_custom ::
  "ecc \<Rightarrow> custom_message cipher \<Rightarrow> bytes \<Rightarrow> public_key option \<Rightarrow> message result" where
  "Message_custom E X msg pubkey =
     (let data = msg in
      rbind (MaybeEncrypted_new E X data pubkey) (\<lambda>msg. Inr (CustomMessage msg)))"

section \<open>Verification\<close>

record message_verification =
  mv_session :: session
  mv_ttl_ms :: usize
  mv_ts_ms :: u128
  mv_sig :: bytes

text \<open>\<open>J\<close> is \<open>serde_json::to_string\<close> at the type of the data.\<close>

definition pack_msg :: "('t \<Rightarrow> string option) \<Rightarrow> 't \<Rightarrow> u128 \<Rightarrow> usize \<Rightarrow> string result" where
  "pack_msg J data ts_ms ttl_ms =
     rbind (ok_or (J data) SerializeToString) (\<lambda>msg.
       Inr (msg @ [char_of (10 :: nat)] @ show_nat (unat ts_ms)
                @ [char_of (10 :: nat)] @ show_nat (unat ttl_ms)))"

definition mv_msg :: "('t \<Rightarrow> string option) \<Rightarrow> message_verification \<Rightarrow> 't \<Rightarrow> string result" where
  "mv_msg J v data = pack_msg J data (mv_ts_ms v) (mv_ttl_ms v)"

definition mv_verify ::
  "ecc \<Rightarrow> ('t \<Rightarrow> string option) \<Rightarrow> u128 \<Rightarrow> message_verification \<Rightarrow> 't \<Rightarrow> bool" where
  "mv_verify E J now v data =
     (if \<not> session_verify E now (mv_session v) then False
      else case (session_did E now (mv_session v), mv_msg J v data) of
          (Inr d, Inr msg) \<Rightarrow> default_verify E msg d (mv_sig v)
        | _ \<Rightarrow> False)"

definition mv_session_pubkey ::
  "ecc \<Rightarrow> ('t \<Rightarrow> string option) \<Rightarrow> message_verification \<Rightarrow> 't \<Rightarrow> public_key result" where
  "mv_session_pubkey E J v data = rbind (mv_msg J v data) (\<lambda>msg. default_recover E msg (mv_sig v))"

section \<open>Payloads\<close>

definition DEFAULT_TTL_MS :: usize where "DEFAULT_TTL_MS = 300 * 1000"
definition MAX_TTL_MS :: usize where "MAX_TTL_MS = DEFAULT_TTL_MS * 10"
definition TS_OFFSET_TOLERANCE_MS :: u128 where "TS_OFFSET_TOLERANCE_MS = 3000"

datatype origin_verification_gen = Origin | Stick message_verification

record 't payload =
  pl_data :: 't
  pl_tx_id :: uuid
  pl_addr :: did
  pl_verification :: message_verification
  pl_origin_verification :: message_verification
  pl_relay :: message_relay

definition MessagePayload_new ::
  "ecc \<Rightarrow> ('t \<Rightarrow> string option) \<Rightarrow> u128 \<Rightarrow> uuid \<Rightarrow> 't \<Rightarrow> session_with_key
     \<Rightarrow> origin_verification_gen \<Rightarrow> message_relay \<Rightarrow> 't payload result" where
  "MessagePayload_new E J now tx_id data sm gen relay =
     (let ts_ms = now; ttl_ms = DEFAULT_TTL_MS in
      rbind (pack_msg J data ts_ms ttl_ms) (\<lambda>msg.
      let addr = sm_authorizer sm;
          verification = \<lparr>mv_session = sk_session sm, mv_ttl_ms = ttl_ms, mv_ts_ms = ts_ms,
                          mv_sig = sm_sign E sm msg\<rparr>;
          origin_verification = (case gen of Origin \<Rightarrow> verification | Stick ov \<Rightarrow> ov)
      in Inr \<lparr>pl_data = data, pl_tx_id = tx_id, pl_addr = addr, pl_verification = verification,
              pl_origin_verification = origin_verification, pl_relay = relay\<rparr>))"

definition MessagePayload_new_send ::
  "ecc \<Rightarrow> ('t \<Rightarrow> string option) \<Rightarrow> u128 \<Rightarrow> uuid \<Rightarrow> 't \<Rightarrow> session_with_key \<Rightarrow> did \<Rightarrow> did
     \<Rightarrow> 't payload result" where
  "MessagePayload_new_send E J now tx_id data sm next_hop destination =
     (let relay = MessageRelay_new SEND [sm_authorizer sm] None (Some next_hop) destination
      in MessagePayload_new E J now tx_id data sm Origin relay)"

definition MessagePayload_new_report ::
  "ecc \<Rightarrow> ('t \<Rightarrow> string option) \<Rightarrow> u128 \<Rightarrow> uuid \<Rightarrow> 't \<Rightarrow> uuid \<Rightarrow> session_with_key \<Rightarrow> message_relay
     \<Rightarrow> 't payload result" where
  "MessagePayload_new_report E J now fresh data tx_id sm relay =
     rbind (rl_report relay) (\<lambda>relay.
     rbind (MessagePayload_new E J now fresh data sm Origin relay) (\<lambda>pl.
       Inr (pl\<lparr>pl_tx_id := tx_id\<rparr>)))"

definition pl_is_expired :: "u128 \<Rightarrow> 't payload \<Rightarrow> bool" where
  "pl_is_expired now p =
     (let v = pl_verification p; ov = pl_origin_verification p in
      if mv_ttl_ms v > MAX_TTL_MS then False
      else if mv_ttl_ms ov > MAX_TTL_MS then False
      else if mv_ts_ms v - TS_OFFSET_TOLERANCE_MS > now then False
      else if mv_ts_ms ov - TS_OFFSET_TOLERANCE_MS > now then False
      else now > mv_ts_ms v + ucast (mv_ttl_ms v) \<and> now > mv_ts_ms ov + ucast (mv_ttl_ms ov))"

definition pl_verify :: "ecc \<Rightarrow> ('t \<Rightarrow> string option) \<Rightarrow> u128 \<Rightarrow> 't payload \<Rightarrow> bool" where
  "pl_verify E J now p =
     (if pl_is_expired now p then False
      else mv_verify E J now (pl_verification p) (pl_data p)
         \<and> mv_verify E J now (pl_origin_verification p) (pl_data p))"

definition pl_origin_session_pubkey ::
  "ecc \<Rightarrow> ('t \<Rightarrow> string option) \<Rightarrow> 't payload \<Rightarrow> public_key result" where
  "pl_origin_session_pubkey E J p = mv_session_pubkey E J (pl_origin_verification p) (pl_data p)"

text \<open>\<open>B\<close> and \<open>D\<close> are bincode at the payload's type.\<close>

definition pl_to_bincode :: "('t payload \<Rightarrow> bytes option) \<Rightarrow> 't payload \<Rightarrow> bytes result" where
  "pl_to_bincode B p = ok_or (B p) BincodeSerialize"

definition pl_from_bincode :: "(bytes \<Rightarrow> 't payload option) \<Rightarrow> bytes \<Rightarrow> 't payload result" where
  "pl_from_bincode D data = ok_or (D data) BincodeDeserialize"

definition pl_encode :: "codec \<Rightarrow> ('t payload \<Rightarrow> bytes option) \<Rightarrow> 't payload \<Rightarrow> encoded result" where
  "pl_encode C B p = rbind (pl_to_bincode B p) (encode_bytes C)"

definition pl_from_encoded ::
  "codec \<Rightarrow> (bytes \<Rightarrow> 't payload option) \<Rightarrow> encoded \<Rightarrow> 't payload result" where
  "pl_from_encoded C D e = rbind (decode_bytes C e) (pl_from_bincode D)"

section \<open>Sealed data verifies\<close>

text \<open>A session in good standing: valid now, and delegated to the session key it comes with.\<close>

definition sm_valid :: "ecc \<Rightarrow> u128 \<Rightarrow> session_with_key \<Rightarrow> bool" where
  "sm_valid E now sm \<longleftrightarrow> session_verify E now (sk_session sm)
     \<and> ai_session_id (se_auth (sk_session sm)) = secret_key_address E (sk_session_key sm)"

lemma mv_verify_fresh:
  assumes "ecdsa_ok E" "sm_valid E now sm" "pack_msg J data ts t = Inr msg"
  shows "mv_verify E J now \<lparr>mv_session = sk_session sm, mv_ttl_ms = t, mv_ts_ms = ts,
           mv_sig = sm_sign E sm msg\<rparr> data"
  using assms default_sign_verify [OF assms(1)]
  by (simp add: mv_verify_def sm_valid_def session_did_def mv_msg_def sm_sign_def)

lemma MessagePayload_new_Inr:
  assumes "MessagePayload_new E J now tx data sm gen relay = Inr p"
  shows "pl_data p = data" "pl_tx_id p = tx" "pl_addr p = sm_authorizer sm" "pl_relay p = relay"
    and "mv_ts_ms (pl_verification p) = now" "mv_ttl_ms (pl_verification p) = DEFAULT_TTL_MS"
    and "pl_origin_verification p = (case gen of Origin \<Rightarrow> pl_verification p | Stick ov \<Rightarrow> ov)"
    and "\<exists>msg. pack_msg J data now DEFAULT_TTL_MS = Inr msg \<and> pl_verification p =
          \<lparr>mv_session = sk_session sm, mv_ttl_ms = DEFAULT_TTL_MS, mv_ts_ms = now,
           mv_sig = sm_sign E sm msg\<rparr>"
  using assms by (auto simp: MessagePayload_new_def Let_def rbind_eq_Inr split: origin_verification_gen.split)

section \<open>Properties\<close>

text \<open>
  C14: a payload sealed by a node with a valid session verifies at every later time at which
  the session is still valid, unless it is expired, when its own signature is also the
  origin's; when it carries an earlier origin verification, as a relayed payload does, it
  verifies exactly when that one verifies for the same data. The seal keeps the data, the
  given transaction and relay, and names the authorizer of the session.
\<close>

theorem sealed_payload_verifies:
  assumes "ecdsa_ok E" "MessagePayload_new E J t0 tx data sm gen relay = Inr p"
    and "sm_valid E now sm"
  shows "(pl_verify E J now p \<longleftrightarrow> \<not> pl_is_expired now p
       \<and> (case gen of Origin \<Rightarrow> True | Stick ov \<Rightarrow> mv_verify E J now ov data))
    \<and> pl_data p = data \<and> pl_tx_id p = tx \<and> pl_relay p = relay \<and> pl_addr p = sm_authorizer sm"
proof -
  note n = MessagePayload_new_Inr [OF assms(2)]
  obtain msg where "pack_msg J data t0 DEFAULT_TTL_MS = Inr msg" "pl_verification p =
      \<lparr>mv_session = sk_session sm, mv_ttl_ms = DEFAULT_TTL_MS, mv_ts_ms = t0, mv_sig = sm_sign E sm msg\<rparr>"
    using n(8) by blast
  then have "mv_verify E J now (pl_verification p) data"
    using mv_verify_fresh [OF assms(1,3)] by metis
  then show ?thesis using n(1-4,7) by (auto simp: pl_verify_def split: origin_verification_gen.splits)
qed

definition demo_sm :: session_with_key where
  "demo_sm = SessionManager_new (sign_str demo_ecc [7] ''auth'')
     \<lparr>ai_authorizer = \<lparr>az_did = secret_key_address demo_ecc [7], az_pubkey = None\<rparr>,
      ai_signer = DEFAULT, ai_ttl_ms = TtlNever, ai_ts_ms = 0,
      ai_session_id = secret_key_address demo_ecc [9]\<rparr> [9]"

lemma demo_sm_valid: "sm_valid demo_ecc now demo_sm"
proof -
  have "default_verify demo_ecc ''auth'' (secret_key_address demo_ecc [7]) (sign_str demo_ecc [7] ''auth'')"
    using default_sign_verify [OF demo_ecc_ok]
    by (simp add: sign_str_def sign_raw_def default_sign_raw_def)
  then show ?thesis
    by (simp add: sm_valid_def demo_sm_def SessionManager_new_def Session_new_def session_verify_def
        session_is_expired_def authorized_info_to_string_def)
       (simp add: demo_ecc_def)
qed

theorem sealed_payload_verifies_witness:
  "\<exists>p. MessagePayload_new demo_ecc Some 10000 3 ''hi'' demo_sm Origin
        (MessageRelay_new SEND [1] None (Some 2) 2) = Inr p \<and> pl_verify demo_ecc Some 10001 p"
proof -
  obtain p where p: "MessagePayload_new demo_ecc Some 10000 3 ''hi'' demo_sm Origin
        (MessageRelay_new SEND [1] None (Some 2) 2) = Inr p"
    by (simp add: MessagePayload_new_def Let_def pack_msg_def)
  have "\<not> pl_is_expired 10001 p"
    using MessagePayload_new_Inr(5,6,7) [OF p]
    by (simp add: pl_is_expired_def DEFAULT_TTL_MS_def MAX_TTL_MS_def TS_OFFSET_TOLERANCE_MS_def Let_def)
  then show ?thesis
    using sealed_payload_verifies [OF demo_ecc_ok p demo_sm_valid] p by auto
qed

text \<open>
  What the expiry check lets through. A payload is rejected as expired only when both of
  its verifications are past their lifetime; it is never rejected when one of them claims a
  lifetime above the maximum, when one is dated more than the tolerance into the future, or
  when the last relaying node's seal is fresh, however old the origin's seal is.
\<close>

lemma expiry_check_gaps:
  "(pl_is_expired now p \<longrightarrow>
      now > mv_ts_ms (pl_verification p) + ucast (mv_ttl_ms (pl_verification p))
      \<and> now > mv_ts_ms (pl_origin_verification p) + ucast (mv_ttl_ms (pl_origin_verification p)))
   \<and> (\<forall>v \<in> {pl_verification p, pl_origin_verification p}.
        mv_ttl_ms v > MAX_TTL_MS \<or> mv_ts_ms v - TS_OFFSET_TOLERANCE_MS > now
        \<or> now \<le> mv_ts_ms v + ucast (mv_ttl_ms v) \<longrightarrow> \<not> pl_is_expired now p)"
  by (auto simp: pl_is_expired_def Let_def)

end
