(* ===== verification/Transport.thy ===== *)
theory Transport
  imports Channels Payload
begin

text \<open>
  Transports: the events of \<open>types/channel.rs\<close>,
  \<open>types/ice_transport/mod.rs\<close> and \<open>transports/dummy/transport.rs\<close>. The traits
  \<open>IceTransportInterface\<close> and \<open>IceTrickleScheme\<close> become a record of operations on a world
  \<open>'w\<close> that holds every transport, its connection state and every event channel; an
  \<open>Arc<Transport>\<close> is the transport's \<open>id\<close>, by which the code compares them. The laws the
  swarm relies on are the locale \<open>transport_laws\<close>; the in-process \<open>DummyTransport\<close>, which the
  repository runs its own protocol tests on, satisfies them.
\<close>

section \<open>Events\<close>

datatype event =
    ConnectClosed did uuid
  | DataChannelMessage bytes
  | RegisterTransport did uuid

section \<open>The transport interface\<close>

record ice_candidate =
  candidate :: string
  sdp_mid :: "string option"
  sdp_m_line_index :: "16 word option"
  username_fragment :: "string option"

record trickle_payload =
  tp_sdp :: string
  tp_candidates :: "ice_candidate list"

datatype sdp_type = SdpUnspecified | Offer | Pranswer | Answer | Rollback

datatype ice_credential_type = Unspecified | Password | Oauth

record ice_server =
  is_urls :: "string list"
  is_username :: string
  is_credential :: string
  is_credential_type :: ice_credential_type

definition IceServer_default :: ice_server where
  "IceServer_default = \<lparr>is_urls = [''stun://stun.l.google.com:19302''], is_username = [],
     is_credential = [], is_credential_type = Password\<rparr>"

text \<open>The accessors of a parsed \<open>url::Url\<close> that \<open>from_str\<close> reads.\<close>

record url =
  url_scheme :: string
  url_username :: string
  url_password :: "string option"
  url_host :: "string option"
  url_port :: "16 word option"
  url_path :: string

definition IceServer_from_str :: "(string \<Rightarrow> url option) \<Rightarrow> string \<Rightarrow> ice_server result" where
  "IceServer_from_str parse s =
     rbind (ok_or (parse s) URLParse) (\<lambda>parsed.
     let scheme = url_scheme parsed in
     if scheme \<notin> {''turn'', ''stun''} then Inl (IceServerSchemeNotSupport scheme)
     else case url_host parsed of
       None \<Rightarrow> Inl IceServerURLMissHost
     | Some host \<Rightarrow>
         let username = url_username parsed;
             password = (case url_password parsed of Some p \<Rightarrow> p | None \<Rightarrow> []);
             port = (case url_port parsed of Some p \<Rightarrow> '':'' @ show_nat (unat p) | None \<Rightarrow> []);
             path = url_path parsed;
             url = scheme @ '':'' @ host @ port @ path
         in Inr \<lparr>is_urls = [url], is_username = username, is_credential = password,
                 is_credential_type = Password\<rparr>)"

record 'w transport_ops =
  tr_new :: "did \<Rightarrow> 'w \<Rightarrow> uuid \<times> 'w"
  tr_start :: "ice_server list \<Rightarrow> string option \<Rightarrow> uuid \<Rightarrow> ('w, unit) action"
  tr_apply_callback :: "uuid \<Rightarrow> ('w, unit) action"
  tr_close :: "uuid \<Rightarrow> ('w, unit) action"
  tr_is_connected :: "'w \<Rightarrow> uuid \<Rightarrow> bool"
  tr_is_disconnected :: "'w \<Rightarrow> uuid \<Rightarrow> bool"
  tr_send_message :: "bytes \<Rightarrow> uuid \<Rightarrow> ('w, unit) action"
  tr_wait_for_data_channel_open :: "uuid \<Rightarrow> ('w, unit) action"
  tr_get_handshake_info :: "session_with_key \<Rightarrow> sdp_type \<Rightarrow> uuid \<Rightarrow> ('w, encoded) action"
  tr_register_remote_info :: "encoded \<Rightarrow> uuid \<Rightarrow> ('w, did) action"
  tr_recv :: "did \<Rightarrow> ('w, event option) action"
  tr_now :: "'w \<Rightarrow> u128"
  tr_uuid :: "'w \<Rightarrow> uuid \<times> 'w"

text \<open>
  The laws. \<open>known\<close> are the transports that exist, with a connection of their own; \<open>same_links w w'\<close> says that every known
  transport still exists with its connection state. Only closing and registering a remote
  description change a link, and only that of the transport they are called on.
\<close>

definition same_links :: "('w \<Rightarrow> uuid \<Rightarrow> bool) \<Rightarrow> 'w transport_ops \<Rightarrow> uuid set \<Rightarrow> 'w \<Rightarrow> 'w \<Rightarrow> bool" where
  "same_links known T but w w' \<longleftrightarrow>
     (\<forall>u. known w u \<longrightarrow> known w' u \<and> (u \<notin> but \<longrightarrow>
        tr_is_connected T w' u = tr_is_connected T w u \<and> tr_is_disconnected T w' u = tr_is_disconnected T w u))"

lemma same_links_refl [simp]: "same_links known T B w w"
  by (simp add: same_links_def)

lemma same_links_trans:
  assumes "same_links known T A w v" "same_links known T B v u"
  shows "same_links known T (A \<union> B) w u"
  using assms by (simp add: same_links_def)

lemma same_links_mono:
  assumes "same_links known T A w v" "A \<subseteq> B"
  shows "same_links known T B w v"
  using assms by (auto simp: same_links_def)

lemma same_links_known: "same_links known T B w w' \<Longrightarrow> known w u \<Longrightarrow> known w' u"
  by (simp add: same_links_def)

lemma same_links_connected:
  "same_links known T B w w' \<Longrightarrow> known w u \<Longrightarrow> u \<notin> B \<Longrightarrow> tr_is_connected T w' u = tr_is_connected T w u"
  by (simp add: same_links_def)

locale transport_laws =
  fixes T :: "'w transport_ops" and known :: "'w \<Rightarrow> uuid \<Rightarrow> bool"
  assumes exclusive: "tr_is_connected T w u \<Longrightarrow> \<not> tr_is_disconnected T w u"
    and new_links: "\<not> known w (fst (tr_new T ch w)) \<Longrightarrow>
          same_links known T {fst (tr_new T ch w)} w (snd (tr_new T ch w))"
    and start_links: "same_links known T {u} w (snd (tr_start T servers ext u w))"
    and callback_links: "same_links known T {} w (snd (tr_apply_callback T u w))"
    and close_links: "same_links known T {u} w (snd (tr_close T u w))"
    and close_disconnects: "known w u \<Longrightarrow> tr_is_disconnected T (snd (tr_close T u w)) u"
    and send_links: "same_links known T {} w (snd (tr_send_message T data u w))"
    and wait_links: "same_links known T {} w (snd (tr_wait_for_data_channel_open T u w))"
    and handshake_links: "same_links known T {} w (snd (tr_get_handshake_info T sm kind u w))"
    and register_links: "same_links known T {u} w (snd (tr_register_remote_info T enc u w))"
    and recv_links: "same_links known T {} w (snd (tr_recv T ch w))"
    and uuid_links: "same_links known T {} w (snd (tr_uuid T w))"
begin

lemma close_others:
  assumes "known w v" "v \<noteq> u"
  shows "tr_is_connected T (snd (tr_close T u w)) v = tr_is_connected T w v"
  by (rule same_links_connected [OF close_links]) (use assms in auto)

end

section \<open>The dummy transport\<close>

text \<open>The states of \<open>RTCIceConnectionState\<close>.\<close>

datatype ice_state = IceUnspecified | IceNew | IceChecking | IceConnected | IceCompleted
  | IceDisconnected | IceFailed | IceClosed

record dummy_transport =
  dt_remote_id :: "uuid option"
  dt_event_sender :: did
  dt_state :: "ice_state option"
  dt_public_key :: "public_key option"

text \<open>
  The world: \<open>HUB\<close>, the transports by id, the event channels by the node that owns them, the
  clock and the uuids still to be drawn.
\<close>

record dummy_world =
  hub_senders :: "uuid \<Rightarrow> did option"
  hub_dids :: "uuid \<Rightarrow> did option"
  dw_transports :: "uuid \<Rightarrow> dummy_transport option"
  dw_channels :: "did \<Rightarrow> event ac_channel"
  dw_now :: u128
  dw_next_uuid :: uuid

text \<open>What the dummy transport uses of serde and bincode.\<close>

record dummy_env =
  de_ecc :: ecc
  de_codec :: codec
  de_json :: "trickle_payload \<Rightarrow> string option"
  de_bin :: "trickle_payload payload \<Rightarrow> bytes option"
  de_unbin :: "bytes \<Rightarrow> trickle_payload payload option"
  de_uuid_json :: "uuid \<Rightarrow> string"
  de_uuid_of_json :: "string \<Rightarrow> uuid option"

definition dt_uuid :: "dummy_world \<Rightarrow> uuid \<times> dummy_world" where
  "dt_uuid w = (dw_next_uuid w, w\<lparr>dw_next_uuid := dw_next_uuid w + 1\<rparr>)"

definition dt_new :: "did \<Rightarrow> dummy_world \<Rightarrow> uuid \<times> dummy_world" where
  "dt_new event_sender w =
     (case dt_uuid w of (u, w) \<Rightarrow>
        (u, w\<lparr>dw_transports := (dw_transports w)(u \<mapsto>
               \<lparr>dt_remote_id = None, dt_event_sender = event_sender, dt_state = None,
                dt_public_key = None\<rparr>)\<rparr>))"

text \<open>Reading and updating the transport behind a handle; every handle in use has one.\<close>

definition dt_read :: "uuid \<Rightarrow> (dummy_world, dummy_transport) action" where
  "dt_read u w = (ok_or (dw_transports w u) (Panicked ''dangling''), w)"

definition dt_update :: "uuid \<Rightarrow> (dummy_transport \<Rightarrow> dummy_transport) \<Rightarrow> dummy_world \<Rightarrow> dummy_world" where
  "dt_update u f w = w\<lparr>dw_transports := (dw_transports w)(u := map_option f (dw_transports w u))\<rparr>"

definition dt_start :: "ice_server list \<Rightarrow> string option \<Rightarrow> uuid \<Rightarrow> (dummy_world, unit) action" where
  "dt_start ice_server external_ip u =
     sbind (dt_read u) (\<lambda>t w.
       let w = dt_update u (\<lambda>t. t\<lparr>dt_state := Some IceNew\<rparr>) w
       in (Inr (), w\<lparr>hub_senders := (hub_senders w)(u \<mapsto> dt_event_sender t)\<rparr>))"

definition dt_apply_callback :: "uuid \<Rightarrow> (dummy_world, unit) action" where
  "dt_apply_callback u = sret ()"

text \<open>\<open>event_sender.send(e).await\<close> on the channel of a node, with the error it may return.\<close>

definition dt_emit :: "did \<Rightarrow> event \<Rightarrow> (dummy_world, unit) action" where
  "dt_emit d e w =
     (case ch_send e (dw_channels w d) of (r, c) \<Rightarrow> (r, w\<lparr>dw_channels := (dw_channels w)(d := c)\<rparr>))"

definition unwrap :: "('s, 'a) action \<Rightarrow> ('s, 'a) action" where
  "unwrap m s = (case m s of (Inr x, s) \<Rightarrow> (Inr x, s) | (Inl _, s) \<Rightarrow> (Inl (Panicked ''unwrap''), s))"

definition dt_pubkey :: "uuid \<Rightarrow> (dummy_world, public_key) action" where
  "dt_pubkey u = sbind (dt_read u) (\<lambda>t. slift (ok_or (dt_public_key t) (Panicked ''unwrap'')))"

definition dt_close :: "ecc \<Rightarrow> uuid \<Rightarrow> (dummy_world, unit) action" where
  "dt_close E u =
     sbind (dt_read u) (\<lambda>t w.
       sbind (dt_pubkey u) (\<lambda>pk.
         unwrap (dt_emit (dt_event_sender t) (ConnectClosed (public_key_address E pk) u)))
       (dt_update u (\<lambda>t. t\<lparr>dt_state := Some IceClosed\<rparr>) w))"

definition dt_ice_connection_state :: "dummy_world \<Rightarrow> uuid \<Rightarrow> ice_state option" where
  "dt_ice_connection_state w u = Option.bind (dw_transports w u) dt_state"

definition dt_is_disconnected :: "dummy_world \<Rightarrow> uuid \<Rightarrow> bool" where
  "dt_is_disconnected w u =
     (case dt_ice_connection_state w u of
        Some IceFailed \<Rightarrow> True
      | Some IceDisconnected \<Rightarrow> True
      | Some IceClosed \<Rightarrow> True
      | _ \<Rightarrow> False)"

definition dt_is_connected :: "dummy_world \<Rightarrow> uuid \<Rightarrow> bool" where
  "dt_is_connected w u =
     (case dt_ice_connection_state w u of Some s \<Rightarrow> s = IceConnected | None \<Rightarrow> False)"

definition dt_remote_sender :: "uuid \<Rightarrow> (dummy_world, did) action" where
  "dt_remote_sender u =
     sbind (dt_read u) (\<lambda>t.
     sbind (slift (ok_or (dt_remote_id t) (Panicked ''unwrap''))) (\<lambda>r w.
       (ok_or (hub_senders w r) (Panicked ''unwrap''), w)))"

definition dt_send_message :: "bytes \<Rightarrow> uuid \<Rightarrow> (dummy_world, unit) action" where
  "dt_send_message msg u =
     sbind (dt_remote_sender u) (\<lambda>sender. unwrap (dt_emit sender (DataChannelMessage msg)))"

definition dt_get_handshake_info ::
  "dummy_env \<Rightarrow> session_with_key \<Rightarrow> sdp_type \<Rightarrow> uuid \<Rightarrow> (dummy_world, encoded) action" where
  "dt_get_handshake_info X sm kind u w =
     (let data = \<lparr>tp_sdp = de_uuid_json X u, tp_candidates = []\<rparr>;
          fake_did = sm_authorizer sm
      in case dt_uuid w of (tx, w) \<Rightarrow>
        (rbind (MessagePayload_new_send (de_ecc X) (de_json X) (dw_now w) tx data sm fake_did fake_did)
           (pl_encode (de_codec X) (de_bin X)), w))"

definition dt_register_remote_info :: "dummy_env \<Rightarrow> encoded \<Rightarrow> uuid \<Rightarrow> (dummy_world, did) action" where
  "dt_register_remote_info X enc u =
     sbind (slift (pl_from_encoded (de_codec X) (de_unbin X) enc)) (\<lambda>data w.
       if pl_verify (de_ecc X) (de_json X) (dw_now w) data then
         sbind (slift (ok_or (de_uuid_of_json X (tp_sdp (pl_data data))) DeserializeError)) (\<lambda>sdp w.
           let w = dt_update u (\<lambda>t. t\<lparr>dt_remote_id := Some sdp\<rparr>) w;
               w = dt_update u (\<lambda>t. t\<lparr>dt_state := Some IceConnected\<rparr>) w;
               w = (case session_authorizer_pubkey (de_ecc X) (mv_session (pl_origin_verification data)) of
                      Inr pk \<Rightarrow> dt_update u (\<lambda>t. t\<lparr>dt_public_key := Some pk\<rparr>) w
                    | Inl _ \<Rightarrow> w)
           in sbind (dt_pubkey u) (\<lambda>pk w.
                let local_did = public_key_address (de_ecc X) pk;
                    w = w\<lparr>hub_dids := (hub_dids w)(u \<mapsto> local_did)\<rparr>
                in sbind (dt_read u) (\<lambda>t w.
                     (Inr (pl_addr data),
                      snd (dt_emit (dt_event_sender t) (RegisterTransport local_did u) w))) w) w) w
       else (Inl VerifySignatureFailed, w))"

definition dt_wait_for_data_channel_open :: "uuid \<Rightarrow> (dummy_world, unit) action" where
  "dt_wait_for_data_channel_open u = sret ()"

definition dt_recv :: "did \<Rightarrow> (dummy_world, event option) action" where
  "dt_recv d w =
     (case ch_recv (dw_channels w d) of (r, c) \<Rightarrow> (r, w\<lparr>dw_channels := (dw_channels w)(d := c)\<rparr>))"

definition dummy_ops :: "dummy_env \<Rightarrow> dummy_world transport_ops" where
  "dummy_ops X = \<lparr>tr_new = dt_new, tr_start = dt_start, tr_apply_callback = dt_apply_callback,
     tr_close = dt_close (de_ecc X), tr_is_connected = dt_is_connected,
     tr_is_disconnected = dt_is_disconnected, tr_send_message = dt_send_message,
     tr_wait_for_data_channel_open = dt_wait_for_data_channel_open,
     tr_get_handshake_info = dt_get_handshake_info X,
     tr_register_remote_info = dt_register_remote_info X,
     tr_recv = dt_recv, tr_now = dw_now, tr_uuid = dt_uuid\<rparr>"

definition dt_known :: "dummy_world \<Rightarrow> uuid \<Rightarrow> bool" where
  "dt_known w u \<longleftrightarrow> dw_transports w u \<noteq> None"

lemma dummy_ops_simps [simp]:
  "tr_new (dummy_ops X) = dt_new" "tr_start (dummy_ops X) = dt_start"
  "tr_apply_callback (dummy_ops X) = dt_apply_callback" "tr_close (dummy_ops X) = dt_close (de_ecc X)"
  "tr_is_connected (dummy_ops X) = dt_is_connected" "tr_is_disconnected (dummy_ops X) = dt_is_disconnected"
  "tr_send_message (dummy_ops X) = dt_send_message"
  "tr_wait_for_data_channel_open (dummy_ops X) = dt_wait_for_data_channel_open"
  "tr_get_handshake_info (dummy_ops X) = dt_get_handshake_info X"
  "tr_register_remote_info (dummy_ops X) = dt_register_remote_info X"
  "tr_recv (dummy_ops X) = dt_recv" "tr_now (dummy_ops X) = dw_now" "tr_uuid (dummy_ops X) = dt_uuid"
  by (simp_all add: dummy_ops_def)

text \<open>What each operation leaves of the table of transports.\<close>

lemma dt_emit_transports [simp]: "dw_transports (snd (dt_emit d e w)) = dw_transports w"
  by (simp add: dt_emit_def split: prod.split)

lemma dt_update_transports [simp]:
  "dw_transports (dt_update u f w) = (dw_transports w)(u := map_option f (dw_transports w u))"
  by (simp add: dt_update_def)

lemma unwrap_snd [simp]: "snd (unwrap m s) = snd (m s)"
  by (simp add: unwrap_def split: prod.split sum.split)

lemma dt_read_simps [simp]:
  "dw_transports w u = Some t \<Longrightarrow> dt_read u w = (Inr t, w)"
  "dw_transports w u = None \<Longrightarrow> dt_read u w = (Inl (Panicked ''dangling''), w)"
  by (simp_all add: dt_read_def)

lemma dt_pubkey_snd: "snd (dt_pubkey u w) = w" "dt_pubkey u w = (fst (dt_pubkey u w), w)"
  by (cases "dw_transports w u"; simp add: dt_pubkey_def dt_read_def sbind_def)+

lemma snd_sbind: "snd (sbind m f s) =
    (case fst (m s) of Inl _ \<Rightarrow> snd (m s) | Inr x \<Rightarrow> snd (f x (snd (m s))))"
  by (simp add: sbind_def split: prod.split sum.split)

lemma dt_close_transports:
  "dw_transports (snd (dt_close E u w)) =
     (dw_transports w)(u := map_option (\<lambda>t. t\<lparr>dt_state := Some IceClosed\<rparr>) (dw_transports w u))"
  by (cases "dw_transports w u")
     (auto simp: dt_close_def snd_sbind dt_pubkey_snd(1) fun_eq_iff split: sum.split)

lemma dt_send_transports: "dw_transports (snd (dt_send_message msg u w)) = dw_transports w"
  by (cases "dw_transports w u")
     (auto simp: dt_send_message_def dt_remote_sender_def snd_sbind ok_or_def split: sum.split option.split)

text \<open>The transports other than \<open>u\<close> are as they were, and no transport came or went.\<close>

definition dt_only :: "uuid \<Rightarrow> dummy_world \<Rightarrow> dummy_world \<Rightarrow> bool" where
  "dt_only u w w' \<longleftrightarrow> (\<forall>v. v \<noteq> u \<longrightarrow> dw_transports w' v = dw_transports w v)
     \<and> (dw_transports w' u = None \<longleftrightarrow> dw_transports w u = None)"

lemma dt_only_intros [simp]:
  "dt_only u w w"
  "dt_only u w (dt_update u f w') \<longleftrightarrow> dt_only u w w'"
  "dt_only u w (snd (dt_emit d e w')) \<longleftrightarrow> dt_only u w w'"
  "dt_only u w (w'\<lparr>hub_dids := h\<rparr>) \<longleftrightarrow> dt_only u w w'"
  "dt_only u w (w'\<lparr>hub_senders := g\<rparr>) \<longleftrightarrow> dt_only u w w'"
  by (auto simp: dt_only_def)

lemma dt_read_snd [simp]: "snd (dt_read u w) = w"
  by (simp add: dt_read_def)

lemma dt_register_only: "dt_only u w (snd (dt_register_remote_info X enc u w))"
  by (simp add: dt_register_remote_info_def snd_sbind Let_def dt_pubkey_snd(1) split: sum.split)

lemma dt_start_only: "dt_only u w (snd (dt_start servers ext u w))"
  by (simp add: dt_start_def snd_sbind Let_def split: sum.split)

lemma dt_only_known: "dt_only u w w' \<Longrightarrow> dt_known w' v \<longleftrightarrow> dt_known w v"
  by (cases "v = u") (simp_all add: dt_only_def dt_known_def)

lemma dt_only_links: "dt_only u w w' \<Longrightarrow> same_links dt_known (dummy_ops X) {u} w w'"
  by (simp add: same_links_def dt_only_known)
     (simp add: dt_only_def dt_is_connected_def dt_is_disconnected_def dt_ice_connection_state_def)

lemma same_table_links:
  "dw_transports w' = dw_transports w \<Longrightarrow> same_links dt_known (dummy_ops X) B w w'"
  by (simp add: same_links_def dt_known_def dt_is_connected_def dt_is_disconnected_def
      dt_ice_connection_state_def)

lemma dt_close_only: "dt_only u w (snd (dt_close E u w))"
  by (simp add: dt_only_def dt_close_transports)

interpretation dummy: transport_laws "dummy_ops X" dt_known for X
proof (unfold_locales, goal_cases)
  case (1 w u) then show ?case
    by (auto simp: dt_is_connected_def dt_is_disconnected_def split: option.splits ice_state.splits)
next
  case (2 ch w) show ?case
    by (auto simp: same_links_def dt_new_def dt_uuid_def dt_known_def dt_is_connected_def
        dt_is_disconnected_def dt_ice_connection_state_def)
next
  case 3 show ?case by (simp add: dt_only_links dt_start_only)
next
  case 4 show ?case by (simp add: dt_apply_callback_def)
next
  case 5 show ?case by (simp add: dt_only_links dt_close_only)
next
  case (6 w u) then show ?case
    by (auto simp: dt_known_def dt_is_disconnected_def dt_ice_connection_state_def dt_close_transports)
next
  case 7 show ?case by (simp add: same_table_links dt_send_transports)
next
  case 8 show ?case by (simp add: dt_wait_for_data_channel_open_def)
next
  case 9 show ?case
    by (rule same_table_links) (simp add: dt_get_handshake_info_def dt_uuid_def Let_def)
next
  case 10 show ?case by (simp add: dt_only_links dt_register_only)
next
  case 11 show ?case by (rule same_table_links) (simp add: dt_recv_def split: prod.split)
next
  case 12 show ?case by (rule same_table_links) (simp add: dt_uuid_def)
qed

end
