(* ===== verification/Successor.thy ===== *)
theory Successor
  imports Did
begin

text \<open>
  \<open>SuccessorSeq\<close> of \<open>rings-core/src/dht/successor.rs\<close>: the bounded list of a node's
  successors, kept in the order of clockwise distance from the node. The capacity \<open>max\<close>
  is a \<open>u8\<close> and the fullness test truncates the length to a \<open>u8\<close>, as the source does.
\<close>

record successor_seq =
  ss_did :: did
  ss_max :: "8 word"
  successors :: "did list"

definition SuccessorSeq_new :: "did \<Rightarrow> 8 word \<Rightarrow> successor_seq" where
  "SuccessorSeq_new d m = \<lparr>ss_did = d, ss_max = m, successors = []\<rparr>"

definition ss_is_empty :: "successor_seq \<Rightarrow> bool" where
  "ss_is_empty s \<longleftrightarrow> successors s = []"

definition ss_is_full :: "successor_seq \<Rightarrow> bool" where
  "ss_is_full s \<longleftrightarrow> (word_of_nat (length (successors s)) :: 8 word) \<ge> ss_max s"

definition ss_min :: "successor_seq \<Rightarrow> did" where
  "ss_min s = (if ss_is_empty s then ss_did s else successors s ! 0)"

definition ss_last :: "successor_seq \<Rightarrow> did" where
  "ss_last s = (if ss_is_empty s then ss_did s
                else successors s ! (length (successors s) - 1))"

definition ss_update :: "successor_seq \<Rightarrow> did \<Rightarrow> successor_seq" where
  "ss_update s successor =
     (if successor \<in> set (successors s) \<or> successor = ss_did s then s
      else let pushed = successors s @ [successor];
               sorted = sort_ring pushed (ss_did s)
           in s\<lparr>successors := take (unat (ss_max s)) sorted\<rparr>)"

definition ss_list :: "successor_seq \<Rightarrow> did list" where
  "ss_list s = successors s"

definition ss_remove :: "successor_seq \<Rightarrow> did \<Rightarrow> successor_seq" where
  "ss_remove s d = s\<lparr>successors := filter (\<lambda>v. v \<noteq> d) (successors s)\<rparr>"

lemma ss_update_sel [simp]:
  "ss_did (ss_update s d) = ss_did s" "ss_max (ss_update s d) = ss_max s"
  "ss_did (ss_remove s d) = ss_did s" "ss_max (ss_remove s d) = ss_max s"
  "ss_did (SuccessorSeq_new n m) = n" "ss_max (SuccessorSeq_new n m) = m"
  "successors (SuccessorSeq_new n m) = []"
  "successors (ss_remove s d) = filter (\<lambda>v. v \<noteq> d) (successors s)"
  by (simp_all add: ss_update_def ss_remove_def SuccessorSeq_new_def Let_def)

section \<open>The invariant\<close>

definition ss_wf :: "successor_seq \<Rightarrow> bool" where
  "ss_wf s \<longleftrightarrow>
     sorted (map (dist (ss_did s)) (successors s)) \<and> distinct (successors s)
     \<and> ss_did s \<notin> set (successors s) \<and> length (successors s) \<le> unat (ss_max s)"

lemma ss_wf_new: "ss_wf (SuccessorSeq_new d m)"
  by (simp add: ss_wf_def)

lemma successors_update:
  assumes "ss_wf s"
  shows "successors (ss_update s d) =
    (if d \<in> set (successors s) \<or> d = ss_did s then successors s
     else take (unat (ss_max s)) (insort_key (dist (ss_did s)) d (successors s)))"
proof (cases "d \<in> set (successors s)")
  case False
  then have "sort_key (dist (ss_did s)) (successors s @ [d])
      = insort_key (dist (ss_did s)) d (successors s)"
    using assms by (intro sort_key_snoc_sorted) (auto simp: ss_wf_def inj_dist)
  then show ?thesis by (simp add: ss_update_def sort_ring_def)
qed (simp add: ss_update_def)

lemma ss_wf_update: "ss_wf s \<Longrightarrow> ss_wf (ss_update s d)"
  by (auto simp: ss_wf_def [of "ss_update s d"] successors_update)
     (auto simp: ss_wf_def sorted_insort_key distinct_insort sorted_key_take set_insort_key
           dest!: in_set_takeD simp flip: take_map)

lemma ss_wf_remove: "ss_wf s \<Longrightarrow> ss_wf (ss_remove s d)"
  by (auto simp: ss_wf_def sorted_filter intro: le_trans [OF length_filter_le])

lemmas ss_wf_intros = ss_wf_new ss_wf_update ss_wf_remove

lemma ss_wf_fold: "ss_wf s \<Longrightarrow> ss_wf (fold (\<lambda>x t. ss_update t x) xs s)"
  by (induction xs arbitrary: s) (auto intro: ss_wf_intros)

lemma set_ss_update: "set (successors (ss_update s d)) \<subseteq> insert d (set (successors s))"
  by (auto simp: ss_update_def Let_def sort_ring_def dest!: in_set_takeD)

lemma ss_min_nearest:
  assumes "ss_wf s" "x \<in> set (successors s)"
  shows "dist (ss_did s) (ss_min s) \<le> dist (ss_did s) x"
  using assms by (cases "successors s") (auto simp: ss_wf_def ss_min_def ss_is_empty_def)

lemma ss_min_in: "\<not> ss_is_empty s \<Longrightarrow> ss_min s \<in> set (successors s)"
  by (simp add: ss_min_def ss_is_empty_def)

section \<open>Refinement: the nearest members\<close>

text \<open>
  Abstractly a sequence remembers the \<open>max\<close> members nearest to the node among all it was
  told about.
\<close>

definition nearest :: "did \<Rightarrow> nat \<Rightarrow> did list \<Rightarrow> did list" where
  "nearest n k xs = take k (sort_key (dist n) (remdups (filter (\<lambda>x. x \<noteq> n) xs)))"

lemma sort_dist_cong:
  assumes "distinct xs" "distinct ys" "set xs = set ys"
  shows "sort_key (dist n) xs = sort_key (dist n) ys"
  using assms
  by (intro sort_key_inj_key_eq) (auto simp: inj_dist set_eq_iff_mset_eq_distinct)

lemma sort_dist_insert:
  assumes "x \<notin> set xs" "distinct xs" "distinct ys" "set ys = insert x (set xs)"
  shows "sort_key (dist n) ys = insort_key (dist n) x (sort_key (dist n) xs)"
proof -
  have "sort_key (dist n) ys = sort_key (dist n) (x # xs)"
    using assms by (intro sort_dist_cong) auto
  then show ?thesis by simp
qed

lemma insort_key_greatest:
  "(\<And>y. y \<in> set ys \<Longrightarrow> f y < f x) \<Longrightarrow> insort_key f x ys = ys @ [x]"
  by (induction ys) (force simp: not_le [symmetric])+

lemma take_insort_dropped:
  assumes "sorted (map f ys)" "distinct ys" "inj_on f (set ys)" "x \<in> set (drop k ys)"
  shows "take k (insort_key f x (take k ys)) = take k ys"
proof -
  have lt: "f y < f x" if "y \<in> set (take k ys)" for y
  proof -
    have "sorted (map f (take k ys @ drop k ys))" using assms(1) by simp
    then have "f y \<le> f x" using that assms(4) by (auto simp: sorted_append simp del: append_take_drop_id)
    moreover have "y \<noteq> x"
      using assms(2,4) that by (auto dest: set_take_disj_set_drop_if_distinct [of ys k k])
    ultimately show ?thesis
      using assms(3,4) that by (auto simp: inj_on_def order_le_less dest: in_set_takeD in_set_dropD)
  qed
  have "length (take k ys) = k" using assms(4) by (cases "k \<le> length ys") auto
  then show ?thesis by (subst insort_key_greatest) (simp_all add: lt)
qed

lemma successors_fold_update:
  "successors (fold (\<lambda>x t. ss_update t x) xs (SuccessorSeq_new n m)) = nearest n (unat m) xs"
proof (induction xs rule: rev_induct)
  case Nil
  show ?case by (simp add: nearest_def)
next
  case (snoc x xs)
  let ?s = "fold (\<lambda>x t. ss_update t x) xs (SuccessorSeq_new n m)"
  let ?L = "sort_key (dist n) (remdups (filter (\<lambda>x. x \<noteq> n) xs))"
  have wf: "ss_wf ?s" by (intro ss_wf_fold ss_wf_new)
  have sel: "ss_did ?s = n" "ss_max ?s = m"
    by (induction xs rule: rev_induct) simp_all
  have IH: "successors ?s = take (unat m) ?L" using snoc by (simp add: nearest_def)
  consider (own) "x = n" | (old) "x \<noteq> n" "x \<in> set xs" | (new) "x \<noteq> n" "x \<notin> set xs"
    by blast
  then show ?case
  proof cases
    case own
    then show ?thesis using IH sel wf by (simp add: successors_update nearest_def)
  next
    case old
    then have "nearest n (unat m) (xs @ [x]) = take (unat m) ?L"
      unfolding nearest_def by (subst sort_dist_cong [of _ "remdups (filter (\<lambda>x. x \<noteq> n) xs)"]) auto
    moreover have "x \<in> set (take (unat m) ?L) \<or> x \<in> set (drop (unat m) ?L)"
      using old by (subst Un_iff [symmetric], subst set_append [symmetric]) simp
    ultimately show ?thesis
      using IH sel wf old
      by (auto simp: successors_update take_insort_dropped inj_dist)
  next
    case new
    then have "nearest n (unat m) (xs @ [x]) = take (unat m) (insort_key (dist n) x ?L)"
      unfolding nearest_def by (subst sort_dist_insert) auto
    moreover have "x \<notin> set (take (unat m) ?L)"
      using new by (auto dest: in_set_takeD)
    ultimately show ?thesis
      using IH sel wf new by (simp add: successors_update take_insort_key_take)
  qed
qed

section \<open>Properties\<close>

text \<open>
  A successor sequence built by any series of \<open>update\<close> calls holds exactly the \<open>max\<close>
  identifiers nearest clockwise to the node among all those offered (the node itself and
  duplicates excluded), in order of distance, whatever the order of the calls.
\<close>

lemma successor_seq_refines_nearest:
  "ss_list (fold (\<lambda>x t. ss_update t x) xs (SuccessorSeq_new n m)) = nearest n (unat m) xs"
  by (simp add: ss_list_def successors_fold_update)

text \<open>
  The sequence invariant (sorted by clockwise distance, no duplicates, never the node
  itself, within capacity) holds initially and is kept by \<open>update\<close> and \<open>remove\<close>; after
  \<open>remove\<close> the identifier is gone and the others keep their order.
\<close>

lemma successor_seq_invariant:
  "ss_wf (SuccessorSeq_new n m)
   \<and> (ss_wf s \<longrightarrow> ss_wf (ss_update s d) \<and> ss_wf (ss_remove s d)
        \<and> ss_list (ss_remove s d) = filter (\<lambda>v. v \<noteq> d) (ss_list s))"
  by (simp add: ss_wf_intros ss_list_def)

text \<open>
  \<open>min\<close> is the nearest recorded successor, or the node itself when there is none, and
  never a node farther away than any recorded one.
\<close>

lemma successor_min_nearest:
  assumes "ss_wf s"
  shows "(ss_is_empty s \<longrightarrow> ss_min s = ss_did s)
    \<and> (\<not> ss_is_empty s \<longrightarrow> ss_min s \<in> set (ss_list s) \<and> ss_min s \<noteq> ss_did s)
    \<and> (\<forall>x\<in>set (ss_list s). dist (ss_did s) (ss_min s) \<le> dist (ss_did s) x
          \<and> dist (ss_did s) x \<le> dist (ss_did s) (ss_last s))"
proof -
  have "dist (ss_did s) x \<le> dist (ss_did s) (ss_last s)" if "x \<in> set (successors s)" for x
    using assms that
    by (cases "successors s" rule: rev_cases)
       (auto simp: ss_wf_def ss_last_def ss_is_empty_def sorted_append)
  then show ?thesis
    using assms ss_min_nearest [OF assms] ss_min_in [of s]
    by (auto simp: ss_list_def ss_min_def ss_wf_def)
qed

end
