(* ===== verification/Storage.thy ===== *)
theory Storage
  imports VNode
begin

text \<open>
  Local storage: \<open>MemStorage\<close> (\<open>rings-core/src/storage/memory.rs\<close>), the persistence traits
  (\<open>storage/persistence/mod.rs\<close>) as a record of operations, and the sled-backed
  \<open>KvStorage\<close> (\<open>storage/persistence/kv.rs\<close>). The sled database and the serialisation of
  keys and values are arguments. The locale \<open>persistence\<close> is the contract the Chord storage
  code relies on; it is discharged for \<open>KvStorage\<close> over any lawful database and for the
  in-memory table.
\<close>

section \<open>MemStorage\<close>

record ('k, 'v) mem_storage =
  mem_table :: "('k \<times> 'v) list"

definition mem_new :: "('k, 'v) mem_storage" where
  "mem_new = \<lparr>mem_table = []\<rparr>"

definition mem_get :: "('k, 'v) mem_storage \<Rightarrow> 'k \<Rightarrow> 'v option" where
  "mem_get m addr = map_of (mem_table m) addr"

definition mem_set ::
  "'k \<Rightarrow> 'v \<Rightarrow> ('k, 'v) mem_storage \<Rightarrow> 'v option \<times> ('k, 'v) mem_storage" where
  "mem_set addr v m = (map_of (mem_table m) addr, m\<lparr>mem_table := AList.update addr v (mem_table m)\<rparr>)"

definition mem_len :: "('k, 'v) mem_storage \<Rightarrow> nat" where
  "mem_len m = length (mem_table m)"

definition mem_is_empty :: "('k, 'v) mem_storage \<Rightarrow> bool" where
  "mem_is_empty m \<longleftrightarrow> length (mem_table m) = 0"

definition mem_get_or_set ::
  "'k \<Rightarrow> 'v \<Rightarrow> ('k, 'v) mem_storage \<Rightarrow> 'v \<times> ('k, 'v) mem_storage" where
  "mem_get_or_set addr default_value m =
     (case map_of (mem_table m) addr of
        Some v \<Rightarrow> (v, m)
      | None \<Rightarrow> (default_value, m\<lparr>mem_table := AList.update addr default_value (mem_table m)\<rparr>))"

definition mem_keys :: "('k, 'v) mem_storage \<Rightarrow> 'k list" where
  "mem_keys m = map (\<lambda>(k, _). k) (mem_table m)"

definition mem_values :: "('k, 'v) mem_storage \<Rightarrow> 'v list" where
  "mem_values m = map (\<lambda>(_, v). v) (mem_table m)"

definition mem_items :: "('k, 'v) mem_storage \<Rightarrow> ('k \<times> 'v) list" where
  "mem_items m = map (\<lambda>(k, v). (k, v)) (mem_table m)"

definition mem_remove ::
  "'k \<Rightarrow> ('k, 'v) mem_storage \<Rightarrow> ('k \<times> 'v) option \<times> ('k, 'v) mem_storage" where
  "mem_remove addr m =
     (case mem_get m addr of
        Some v \<Rightarrow> (Some (addr, v), m\<lparr>mem_table := AList.delete addr (mem_table m)\<rparr>)
      | None \<Rightarrow> (None, m))"

definition mem_wf :: "('k, 'v) mem_storage \<Rightarrow> bool" where
  "mem_wf m \<longleftrightarrow> distinct (map fst (mem_table m))"

lemma map_fst_conv: "map (\<lambda>(k, _). k) = map fst" "map (\<lambda>(_, v). v) = map snd"
  by (simp_all add: fun_eq_iff split_beta)

lemmas mem_defs = mem_get_def mem_set_def mem_get_or_set_def mem_remove_def mem_len_def
  mem_is_empty_def mem_keys_def mem_values_def mem_items_def

lemma mem_wf_new [simp]: "mem_wf mem_new" "mem_get mem_new k = None"
  by (simp_all add: mem_wf_def mem_new_def mem_get_def)

lemma mem_wf_ops [simp]:
  "mem_wf m \<Longrightarrow> mem_wf (snd (mem_set k v m))"
  "mem_wf m \<Longrightarrow> mem_wf (snd (mem_get_or_set k v m))"
  "mem_wf m \<Longrightarrow> mem_wf (snd (mem_remove k m))"
  by (auto simp: mem_wf_def mem_defs distinct_update distinct_delete split: option.split)

lemma mem_get_ops [simp]:
  "mem_get (snd (mem_set k v m)) = (mem_get m)(k \<mapsto> v)"
  "mem_get (snd (mem_get_or_set k v m)) = (if mem_get m k = None then (mem_get m)(k \<mapsto> v) else mem_get m)"
  "mem_get (snd (mem_remove k m)) = (mem_get m)(k := None)"
  by (auto simp: mem_defs fun_eq_iff update_conv delete_conv split: option.split)

lemma mem_set_fst: "fst (mem_set k v m) = mem_get m k"
  by (simp add: mem_defs)

lemma mem_get_new: "mem_get mem_new = Map.empty"
  by (simp add: fun_eq_iff)

lemma mem_items_props:
  "map_of (mem_items m) = mem_get m"
  "mem_wf m \<Longrightarrow> distinct (mem_keys m)"
  "map fst (mem_items m) = mem_keys m" "map snd (mem_items m) = mem_values m"
  by (simp_all add: mem_defs mem_wf_def map_fst_conv fun_eq_iff)

section \<open>The persistence traits\<close>

record ('s, 'k, 'v) persist =
  p_get :: "'s \<Rightarrow> 'k \<Rightarrow> 'v option result"
  p_put :: "'k \<Rightarrow> 'v \<Rightarrow> ('s, unit) action"
  p_get_all :: "'s \<Rightarrow> ('k \<times> 'v) list result"
  p_remove :: "'k \<Rightarrow> ('s, unit) action"

text \<open>
  The contract: the operations succeed on a good state and act on the map \<open>view\<close>;
  \<open>get_all\<close> enumerates it without duplicates.
\<close>

locale persistence =
  fixes P :: "('s, 'k, 'v) persist"
    and view :: "'s \<Rightarrow> 'k \<Rightarrow> 'v option"
    and ok :: "'s \<Rightarrow> bool"
  assumes get_ok: "ok s \<Longrightarrow> p_get P s k = Inr (view s k)"
    and put_ok: "ok s \<Longrightarrow> \<exists>s'. p_put P k v s = (Inr (), s') \<and> ok s' \<and> view s' = (view s)(k \<mapsto> v)"
    and get_all_ok: "ok s \<Longrightarrow> \<exists>xs. p_get_all P s = Inr xs \<and> distinct (map fst xs) \<and> map_of xs = view s"
    and remove_ok: "ok s \<Longrightarrow> \<exists>s'. p_remove P k s = (Inr (), s') \<and> ok s' \<and> view s' = (view s)(k := None)"
begin

lemma put_get:
  assumes "ok s" "p_put P k v s = (r, s')"
  shows "r = Inr () \<and> ok s' \<and> p_get P s' k' = Inr (if k' = k then Some v else view s k')"
  using assms put_ok [of s k v] get_ok [of s' k'] by auto

lemma remove_get:
  assumes "ok s" "p_remove P k s = (r, s')"
  shows "r = Inr () \<and> ok s' \<and> p_get P s' k' = Inr (if k' = k then None else view s k')"
  using assms remove_ok [of s k] get_ok [of s' k'] by auto

lemma reads_writes:
  assumes "ok s"
  shows "\<exists>s1 s2 xs. p_put P k v s = (Inr (), s1) \<and> ok s1 \<and> p_get P s1 k = Inr (Some v)
      \<and> p_remove P k s1 = (Inr (), s2) \<and> ok s2 \<and> p_get P s2 k = Inr None
      \<and> (\<forall>k'. k' \<noteq> k \<longrightarrow> p_get P s1 k' = p_get P s k' \<and> p_get P s2 k' = p_get P s k')
      \<and> p_get_all P s1 = Inr xs \<and> distinct (map fst xs)
      \<and> (\<forall>k' v'. (k', v') \<in> set xs \<longleftrightarrow> p_get P s1 k' = Inr (Some v'))"
proof -
  obtain s1 where s1: "p_put P k v s = (Inr (), s1)" "ok s1" "view s1 = (view s)(k \<mapsto> v)"
    using put_ok [OF assms] by blast
  obtain s2 where s2: "p_remove P k s1 = (Inr (), s2)" "ok s2" "view s2 = (view s1)(k := None)"
    using remove_ok [OF s1(2)] by blast
  obtain xs where xs: "p_get_all P s1 = Inr xs" "distinct (map fst xs)" "map_of xs = view s1"
    using get_all_ok [OF s1(2)] by blast
  have "(k', v') \<in> set xs \<longleftrightarrow> p_get P s1 k' = Inr (Some v')" for k' v'
    using xs(2) s1(2) by (simp add: get_ok flip: xs(3))
  then show ?thesis
    using s1 s2 xs(1,2) assms by (intro exI [of _ s1] exI [of _ s2] exI [of _ xs]) (simp add: get_ok)
qed

lemma get_all_finite: "ok s \<Longrightarrow> finite (dom (view s))"
  using get_all_ok [of s] finite_dom_map_of by metis

lemma in_get_all: "ok s \<Longrightarrow> p_get_all P s = Inr xs \<Longrightarrow> (k, v) \<in> set xs \<longleftrightarrow> view s k = Some v"
  using get_all_ok [of s] by (metis map_of_eq_Some_iff sum.inject(2))

end

text \<open>The in-memory table as a persistence back end.\<close>

definition mem_persist :: "(('k, 'v) mem_storage, 'k, 'v) persist" where
  "mem_persist = \<lparr>p_get = (\<lambda>m k. Inr (mem_get m k)),
     p_put = (\<lambda>k v m. (Inr (), snd (mem_set k v m))),
     p_get_all = (\<lambda>m. Inr (mem_items m)),
     p_remove = (\<lambda>k m. (Inr (), snd (mem_remove k m)))\<rparr>"

interpretation mem_pers: persistence mem_persist mem_get mem_wf
  by unfold_locales (auto simp: mem_persist_def mem_items_props)

section \<open>KvStorage\<close>

record 'd sled =
  sl_get :: "'d \<Rightarrow> bytes \<Rightarrow> bytes option result"
  sl_insert :: "bytes \<Rightarrow> bytes \<Rightarrow> ('d, bytes option) action"
  sl_remove :: "bytes \<Rightarrow> ('d, bytes option) action"
  sl_iter :: "'d \<Rightarrow> (bytes \<times> bytes) result list"
  sl_clear :: "('d, unit) action"
  sl_len :: "'d \<Rightarrow> nat"

record ('k, 'v) kv_codec =
  key_to_string :: "'k \<Rightarrow> string"
  key_from_str :: "string \<Rightarrow> 'k option"
  ser :: "'v \<Rightarrow> bytes option"
  de :: "bytes \<Rightarrow> 'v option"

record 'd kv_storage =
  kv_db :: 'd
  kv_cap :: usize
  kv_path :: string

text \<open>\<open>new_with_cap_and_path\<close> and its variants; \<open>open_db\<close> stands for \<open>sled::Config::open\<close>.\<close>

definition kv_new_with_cap_and_path ::
  "(string \<Rightarrow> usize \<Rightarrow> 'd option) \<Rightarrow> usize \<Rightarrow> string \<Rightarrow> 'd kv_storage result" where
  "kv_new_with_cap_and_path open_db cap path =
     rbind (ok_or (open_db path cap) SledError) (\<lambda>db.
       Inr \<lparr>kv_db = db, kv_cap = cap, kv_path = path\<rparr>)"

definition kv_new_with_cap_and_name where
  "kv_new_with_cap_and_name open_db cap name = kv_new_with_cap_and_path open_db cap name"

definition kv_new_with_cap where
  "kv_new_with_cap open_db cap = kv_new_with_cap_and_path open_db cap ''./data''"

definition kv_new_with_path where
  "kv_new_with_path open_db path = kv_new_with_cap_and_path open_db 200000000 path"

definition kv_new where
  "kv_new open_db = kv_new_with_cap open_db 200000000"

text \<open>Running a database operation inside the storage; its error becomes \<open>SledError\<close>.\<close>

definition on_db :: "('d, 'a) action \<Rightarrow> ('d kv_storage, 'a) action" where
  "on_db m s = (case m (kv_db s) of
       (Inl _, d) \<Rightarrow> (Inl SledError, s\<lparr>kv_db := d\<rparr>)
     | (Inr x, d) \<Rightarrow> (Inr x, s\<lparr>kv_db := d\<rparr>))"

definition key_bytes :: "('k, 'v) kv_codec \<Rightarrow> 'k \<Rightarrow> bytes" where
  "key_bytes KC key = as_bytes (key_to_string KC key)"

definition kv_clear :: "'d sled \<Rightarrow> ('d kv_storage, unit) action" where
  "kv_clear SL = sbind (on_db (sl_clear SL)) (\<lambda>_. sret ())"

definition kv_count :: "'d sled \<Rightarrow> 'd kv_storage \<Rightarrow> 64 word result" where
  "kv_count SL s = Inr (word_of_nat (sl_len SL (kv_db s)))"

definition kv_max_size :: "'d kv_storage \<Rightarrow> usize result" where
  "kv_max_size s = Inr (kv_cap s)"

definition kv_total_size :: "'d sled \<Rightarrow> 'd kv_storage \<Rightarrow> usize result" where
  "kv_total_size SL s = Inr (word_of_nat (sl_len SL (kv_db s)))"

definition kv_prune :: "('d kv_storage, unit) action" where
  "kv_prune = sret ()"

definition kv_close :: "'d kv_storage \<Rightarrow> unit result" where
  "kv_close s = Inr ()"

definition kv_get :: "'d sled \<Rightarrow> ('k, 'v) kv_codec \<Rightarrow> 'd kv_storage \<Rightarrow> 'k \<Rightarrow> 'v option result" where
  "kv_get SL KC s key =
     (case sl_get SL (kv_db s) (key_bytes KC key) of
        Inl _ \<Rightarrow> Inl SledError
      | Inr (Some v) \<Rightarrow> rbind (ok_or (de KC v) BincodeDeserialize) (\<lambda>r. Inr (Some r))
      | Inr None \<Rightarrow> Inr None)"

definition kv_put :: "'d sled \<Rightarrow> ('k, 'v) kv_codec \<Rightarrow> 'k \<Rightarrow> 'v \<Rightarrow> ('d kv_storage, unit) action" where
  "kv_put SL KC key v =
     sbind kv_prune (\<lambda>_.
     sbind (slift (ok_or (ser KC v) BincodeSerialize)) (\<lambda>data.
     sbind (on_db (sl_insert SL (key_bytes KC key) data)) (\<lambda>_. sret ())))"

definition kv_entry :: "('k, 'v) kv_codec \<Rightarrow> bytes \<times> bytes \<Rightarrow> ('k \<times> 'v) option" where
  "kv_entry KC kv =
     Option.bind (from_utf8 (fst kv)) (\<lambda>str.
     Option.bind (key_from_str KC str) (\<lambda>k.
     Option.bind (de KC (snd kv)) (\<lambda>v. Some (k, v))))"

definition kv_get_all :: "'d sled \<Rightarrow> ('k, 'v) kv_codec \<Rightarrow> 'd kv_storage \<Rightarrow> ('k \<times> 'v) list result" where
  "kv_get_all SL KC s =
     Inr (List.map_filter (kv_entry KC)
           (List.map_filter (\<lambda>r. case r of Inl _ \<Rightarrow> None | Inr kv \<Rightarrow> Some kv) (sl_iter SL (kv_db s))))"

definition kv_remove :: "'d sled \<Rightarrow> ('k, 'v) kv_codec \<Rightarrow> 'k \<Rightarrow> ('d kv_storage, unit) action" where
  "kv_remove SL KC key = sbind (on_db (sl_remove SL (key_bytes KC key))) (\<lambda>_. sret ())"

definition kv_persist :: "'d sled \<Rightarrow> ('k, 'v) kv_codec \<Rightarrow> ('d kv_storage, 'k, 'v) persist" where
  "kv_persist SL KC = \<lparr>p_get = kv_get SL KC, p_put = kv_put SL KC,
     p_get_all = kv_get_all SL KC, p_remove = kv_remove SL KC\<rparr>"

section \<open>KvStorage implements the contract\<close>

text \<open>What the code relies on of sled: an ordered map from byte strings to byte strings.\<close>

locale sled_db =
  fixes SL :: "'d sled"
    and tree :: "'d \<Rightarrow> bytes \<Rightarrow> bytes option"
    and dok :: "'d \<Rightarrow> bool"
  assumes sl_get: "dok d \<Longrightarrow> sl_get SL d k = Inr (tree d k)"
    and sl_insert: "dok d \<Longrightarrow>
      \<exists>d'. sl_insert SL k v d = (Inr (tree d k), d') \<and> dok d' \<and> tree d' = (tree d)(k \<mapsto> v)"
    and sl_remove: "dok d \<Longrightarrow>
      \<exists>d'. sl_remove SL k d = (Inr (tree d k), d') \<and> dok d' \<and> tree d' = (tree d)(k := None)"
    and sl_iter: "dok d \<Longrightarrow>
      \<exists>xs. sl_iter SL d = map Inr xs \<and> distinct (map fst xs) \<and> map_of xs = tree d"
    and sl_clear: "dok d \<Longrightarrow> \<exists>d'. sl_clear SL d = (Inr (), d') \<and> dok d' \<and> tree d' = Map.empty"
begin

lemma clear_empties: "dok (kv_db s) \<Longrightarrow>
    \<exists>s'. kv_clear SL s = (Inr (), s') \<and> dok (kv_db s') \<and> kv_get SL KC s' k = Inr None"
  using sl_clear [of "kv_db s"] sl_get
  by (auto simp: kv_clear_def on_db_def sbind_def kv_get_def)

end

text \<open>
  The states reached through the storage: every entry of the tree was written by \<open>put\<close>.
\<close>

definition kv_view ::
  "('k, 'v) kv_codec \<Rightarrow> ('d \<Rightarrow> bytes \<Rightarrow> bytes option) \<Rightarrow> 'd kv_storage \<Rightarrow> 'k \<Rightarrow> 'v option" where
  "kv_view KC tree s k = Option.bind (tree (kv_db s) (key_bytes KC k)) (de KC)"

definition kv_ok ::
  "('k, 'v) kv_codec \<Rightarrow> ('d \<Rightarrow> bytes \<Rightarrow> bytes option) \<Rightarrow> ('d \<Rightarrow> bool) \<Rightarrow> 'd kv_storage \<Rightarrow> bool" where
  "kv_ok KC tree dok s \<longleftrightarrow> dok (kv_db s)
     \<and> (\<forall>kb b. tree (kv_db s) kb = Some b \<longrightarrow>
          (\<exists>k v. kb = key_bytes KC k \<and> de KC b = Some v))"

locale kv_store = sled_db SL tree dok
  for SL :: "'d sled" and tree and dok +
  fixes KC :: "('k, 'v) kv_codec"
  assumes key_utf8: "utf8_valid (key_bytes KC k)"
    and key_roundtrip: "key_from_str KC (key_to_string KC k) = Some k"
    and ser_roundtrip: "\<exists>b. ser KC v = Some b \<and> de KC b = Some v"
begin

lemma key_parse: "Option.bind (from_utf8 (key_bytes KC k)) (key_from_str KC) = Some k"
  using key_utf8 [of k] by (simp add: key_bytes_def from_utf8_as_bytes key_roundtrip)

lemma key_bytes_inj [simp]: "key_bytes KC k = key_bytes KC k' \<longleftrightarrow> k = k'"
  using key_parse [of k] key_parse [of k'] by (metis option.inject)

lemma kv_entry_key_bytes:
  "kv_entry KC (key_bytes KC k, b) = map_option (\<lambda>v. (k, v)) (de KC b)"
  using key_parse [of k] by (cases "de KC b") (auto simp: kv_entry_def bind_eq_Some_conv)

lemma entries_decode:
  assumes "distinct (map fst xs)" "\<forall>(kb, b) \<in> set xs. \<exists>k v. kb = key_bytes KC k \<and> de KC b = Some v"
  shows "distinct (map fst (List.map_filter (kv_entry KC) xs))
    \<and> map_of (List.map_filter (kv_entry KC) xs) k = Option.bind (map_of xs (key_bytes KC k)) (de KC)
    \<and> key_bytes KC ` fst ` set (List.map_filter (kv_entry KC) xs) = fst ` set xs"
  using assms
proof (induction xs)
  case (Cons x xs)
  then obtain k' v b where x: "x = (key_bytes KC k', b)" "de KC b = Some v" by (cases x) auto
  have "kv_entry KC x = Some (k', v)" by (simp add: x kv_entry_key_bytes)
  moreover have "k' \<notin> fst ` set (List.map_filter (kv_entry KC) xs)"
  proof
    assume "k' \<in> fst ` set (List.map_filter (kv_entry KC) xs)"
    then have "key_bytes KC k' \<in> key_bytes KC ` fst ` set (List.map_filter (kv_entry KC) xs)" by blast
    with Cons x show False by auto
  qed
  ultimately show ?case using Cons x by (auto simp: map_filter_simps)
qed (simp add: map_filter_simps)

end

sublocale kv_store \<subseteq> kv: persistence "kv_persist SL KC" "kv_view KC tree" "kv_ok KC tree dok"
proof
  fix s :: "'d kv_storage" and k :: 'k and v :: 'v
  assume s: "kv_ok KC tree dok s"
  then have d: "dok (kv_db s)"
    and enc: "\<And>kb b. tree (kv_db s) kb = Some b \<Longrightarrow> \<exists>k v. kb = key_bytes KC k \<and> de KC b = Some v"
    unfolding kv_ok_def by blast+
  show "p_get (kv_persist SL KC) s k = Inr (kv_view KC tree s k)"
    using enc [of "key_bytes KC k"]
    by (cases "tree (kv_db s) (key_bytes KC k)")
       (auto simp: kv_persist_def kv_get_def sl_get [OF d] kv_view_def)
  obtain b where b: "ser KC v = Some b" "de KC b = Some v" using ser_roundtrip by blast
  from sl_insert [OF d, of "key_bytes KC k" b] obtain d' where
    "sl_insert SL (key_bytes KC k) b (kv_db s) = (Inr (tree (kv_db s) (key_bytes KC k)), d')"
    "dok d'" "tree d' = (tree (kv_db s))(key_bytes KC k \<mapsto> b)" by blast
  then show "\<exists>s'. p_put (kv_persist SL KC) k v s = (Inr (), s') \<and> kv_ok KC tree dok s'
      \<and> kv_view KC tree s' = (kv_view KC tree s)(k \<mapsto> v)"
    using b enc
    by (auto simp: kv_persist_def kv_put_def kv_prune_def on_db_def sbind_def kv_ok_def kv_view_def)
  from sl_remove [OF d, of "key_bytes KC k"] obtain d' where
    "sl_remove SL (key_bytes KC k) (kv_db s) = (Inr (tree (kv_db s) (key_bytes KC k)), d')"
    "dok d'" "tree d' = (tree (kv_db s))(key_bytes KC k := None)" by blast
  then show "\<exists>s'. p_remove (kv_persist SL KC) k s = (Inr (), s') \<and> kv_ok KC tree dok s'
      \<and> kv_view KC tree s' = (kv_view KC tree s)(k := None)"
    using enc
    by (auto simp: kv_persist_def kv_remove_def on_db_def sbind_def kv_ok_def kv_view_def)
  from sl_iter [OF d] obtain xs where xs: "sl_iter SL (kv_db s) = map Inr xs"
    "distinct (map fst xs)" "map_of xs = tree (kv_db s)" by blast
  have "List.map_filter (\<lambda>r. case r of Inl _ \<Rightarrow> None | Inr kv \<Rightarrow> Some kv) (map Inr xs :: (bytes \<times> bytes) result list) = xs"
    by (induction xs) (simp_all add: List.map_filter_def)
  moreover have "\<forall>(kb, b) \<in> set xs. \<exists>k v. kb = key_bytes KC k \<and> de KC b = Some v"
    using enc xs(2) by (auto simp flip: xs(3))
  ultimately show "\<exists>xs. p_get_all (kv_persist SL KC) s = Inr xs \<and> distinct (map fst xs)
      \<and> map_of xs = kv_view KC tree s"
    using entries_decode [OF xs(2)] xs(1,3)
    by (auto simp: kv_persist_def kv_get_all_def kv_view_def fun_eq_iff)
qed

context kv_store begin

lemmas kv_reads_writes = kv.reads_writes

end

text \<open>A lawful database over the in-memory table, and a codec for identifiers.\<close>

definition mem_sled :: "(bytes, bytes) mem_storage sled" where
  "mem_sled = \<lparr>sl_get = (\<lambda>m k. Inr (mem_get m k)),
     sl_insert = (\<lambda>k v m. (Inr (fst (mem_set k v m)), snd (mem_set k v m))),
     sl_remove = (\<lambda>k m. (Inr (mem_get m k), snd (mem_remove k m))),
     sl_iter = (\<lambda>m. map Inr (mem_items m)),
     sl_clear = (\<lambda>m. (Inr (), mem_new)),
     sl_len = mem_len\<rparr>"

definition bit_codec :: "(did, bytes) kv_codec" where
  "bit_codec = \<lparr>key_to_string = (\<lambda>d. map (\<lambda>b. if b then CHR ''1'' else CHR ''0'') (map (bit d) [0..<160])),
     key_from_str = (\<lambda>s. Some (horner_sum of_bool 2 (map (\<lambda>c. c = CHR ''1'') s))),
     ser = Some, de = Some\<rparr>"

lemma utf8_ascii: "\<forall>c \<in> set s. of_char c < (128 :: nat) \<Longrightarrow> utf8_valid (as_bytes s)"
  by (induction s) (auto simp: as_bytes_def word_less_nat_alt unat_of_nat)

interpretation mem_kv: kv_store mem_sled mem_get mem_wf bit_codec
proof unfold_locales
  fix k :: did
  show "utf8_valid (key_bytes bit_codec k)"
    unfolding key_bytes_def by (rule utf8_ascii) (auto simp: bit_codec_def)
  have "map (\<lambda>c. c = CHR ''1'') (map (\<lambda>b. if b then CHR ''1'' else CHR ''0'') bs) = bs" for bs
    by (induction bs) auto
  then show "key_from_str bit_codec (key_to_string bit_codec k) = Some k"
    by (simp add: bit_codec_def horner_sum_bit_eq_take_bit take_bit_word_eq_self del: map_map)
qed (auto simp: mem_sled_def bit_codec_def mem_items_props mem_set_fst mem_get_new)

section \<open>Properties\<close>

text \<open>
  The in-memory table is a map: \<open>set\<close> returns the previous value and overwrites,
  \<open>get_or_set\<close> keeps an existing value, \<open>remove\<close> returns and deletes, other keys are never
  affected, and the enumerations list exactly the entries, once each.
\<close>

lemma mem_storage_is_map:
  "mem_get (mem_new :: ('k, 'v) mem_storage) k = None
   \<and> fst (mem_set k v m) = mem_get m k
   \<and> mem_get (snd (mem_set k v m)) = (mem_get m)(k \<mapsto> v)
   \<and> fst (mem_get_or_set k v m) = (case mem_get m k of None \<Rightarrow> v | Some w \<Rightarrow> w)
   \<and> mem_get (snd (mem_get_or_set k v m)) k = Some (fst (mem_get_or_set k v m))
   \<and> fst (mem_remove k m) = map_option (Pair k) (mem_get m k)
   \<and> mem_get (snd (mem_remove k m)) = (mem_get m)(k := None)
   \<and> set (mem_keys m) = dom (mem_get m)
   \<and> map_of (mem_items m) = mem_get m
   \<and> mem_items m = zip (mem_keys m) (mem_values m)
   \<and> (mem_is_empty m \<longleftrightarrow> mem_get m = Map.empty)"
proof -
  have e: "mem_get m = map_of (mem_table m)" by (simp add: fun_eq_iff mem_get_def)
  have "mem_items m = zip (mem_keys m) (mem_values m)" "set (mem_keys m) = dom (mem_get m)"
    "mem_is_empty m \<longleftrightarrow> mem_get m = Map.empty"
    unfolding e by (simp_all add: mem_items_def mem_keys_def mem_values_def mem_is_empty_def
        map_fst_conv dom_map_of_conv_image_fst zip_map_fst_snd map_of_eq_empty_iff)
  moreover have "fst (mem_get_or_set k v m) = (case mem_get m k of None \<Rightarrow> v | Some w \<Rightarrow> w)"
    "fst (mem_remove k m) = map_option (Pair k) (mem_get m k)" "fst (mem_set k v m) = mem_get m k"
    by (simp_all add: mem_defs split: option.split)
  moreover have "map_of (mem_items m) = mem_get m" by (rule mem_items_props)
  ultimately show ?thesis by (simp split: option.split)
qed

text \<open>
  C31: over a lawful database and lossless codecs, the sled-backed store reads its writes:
  \<open>put\<close> succeeds and afterwards \<open>get\<close> returns the new value for that key and the old answer
  for every other key, \<open>remove\<close> makes the key absent, \<open>get_all\<close> enumerates exactly the stored
  entries, once each, and the good states are kept.
\<close>

theorem kv_storage_reads_writes:
  assumes "kv_store SL tree dok KC" "kv_ok KC tree dok s"
  shows "\<exists>s1 s2 xs. kv_put SL KC k v s = (Inr (), s1) \<and> kv_ok KC tree dok s1
      \<and> kv_get SL KC s1 k = Inr (Some v)
      \<and> kv_remove SL KC k s1 = (Inr (), s2) \<and> kv_ok KC tree dok s2 \<and> kv_get SL KC s2 k = Inr None
      \<and> (\<forall>k'. k' \<noteq> k \<longrightarrow> kv_get SL KC s1 k' = kv_get SL KC s k'
            \<and> kv_get SL KC s2 k' = kv_get SL KC s k')
      \<and> kv_get_all SL KC s1 = Inr xs \<and> distinct (map fst xs)
      \<and> (\<forall>k' v'. (k', v') \<in> set xs \<longleftrightarrow> kv_get SL KC s1 k' = Inr (Some v'))"
  using kv_store.kv_reads_writes [OF assms(1,2), of k v] unfolding kv_persist_def by simp

theorem kv_storage_reads_writes_witness:
  "\<exists>s1. kv_put mem_sled bit_codec 5 [1, 2] \<lparr>kv_db = mem_new, kv_cap = 10, kv_path = ''db''\<rparr> = (Inr (), s1)
      \<and> kv_get mem_sled bit_codec s1 5 = Inr (Some [1, 2])"
proof -
  have "kv_ok bit_codec mem_get mem_wf \<lparr>kv_db = mem_new, kv_cap = 10, kv_path = ''db''\<rparr>"
    by (simp add: kv_ok_def)
  from kv_storage_reads_writes [OF mem_kv.kv_store_axioms this, of 5 "[1, 2]"]
  show ?thesis by blast
qed

end
