(* ===== verification/Chord.thy ===== *)
theory Chord
  imports Successor Storage
begin

text \<open>
  One node of the ring: \<open>PeerRing\<close> of \<open>rings-core/src/dht/chord.rs\<close>. The methods of the
  traits \<open>Chord\<close> and \<open>ChordStorage\<close> are state-passing functions on the record \<open>peer_ring\<close>;
  those that only read take the ring and return a result. The locks are not part of the
  state: every operation here runs with its locks held.
\<close>

record 's peer_ring =
  pr_did :: did
  pr_finger :: finger_table
  pr_successor :: successor_seq
  pr_predecessor :: "did option"
  pr_storage :: 's
  pr_cache :: "(did, virtual_node) mem_storage"

datatype remote_action =
    FindSuccessor did
  | FindVNode did
  | FindVNodeForOperate vnode_operation
  | Notify did
  | SyncVNodeWithSuccessor "virtual_node list"
  | FindSuccessorForConnect did
  | FindSuccessorForFix did
  | CheckPredecessor

datatype peer_ring_action =
    PNone
  | PSomeVNode virtual_node
  | PSome did
  | PRemoteAction did remote_action
  | PMultiActions "peer_ring_action list"

definition pra_is_none :: "peer_ring_action \<Rightarrow> bool" where
  "pra_is_none a = (case a of PNone \<Rightarrow> True | _ \<Rightarrow> False)"

definition pra_is_some :: "peer_ring_action \<Rightarrow> bool" where
  "pra_is_some a = (case a of PSome _ \<Rightarrow> True | _ \<Rightarrow> False)"

definition pra_is_remote :: "peer_ring_action \<Rightarrow> bool" where
  "pra_is_remote a = (case a of PRemoteAction _ _ \<Rightarrow> True | _ \<Rightarrow> False)"

definition pra_is_multi :: "peer_ring_action \<Rightarrow> bool" where
  "pra_is_multi a = (case a of PMultiActions _ \<Rightarrow> True | _ \<Rightarrow> False)"

section \<open>Construction and removal\<close>

definition pr_new_with_storage :: "did \<Rightarrow> 8 word \<Rightarrow> 's \<Rightarrow> 's peer_ring" where
  "pr_new_with_storage d succ_max storage =
     \<lparr>pr_did = d, pr_finger = FingerTable_new d 160, pr_successor = SuccessorSeq_new d succ_max,
      pr_predecessor = None, pr_storage = storage, pr_cache = mem_new\<rparr>"

text \<open>\<open>open_storage\<close> stands for \<open>PersistenceStorage::new()\<close>.\<close>

definition pr_new_with_config :: "'s result \<Rightarrow> did \<Rightarrow> 8 word \<Rightarrow> 's peer_ring result" where
  "pr_new_with_config open_storage d succ_max =
     rbind open_storage (\<lambda>storage. Inr (pr_new_with_storage d succ_max storage))"

definition pr_new :: "'s result \<Rightarrow> did \<Rightarrow> 's peer_ring result" where
  "pr_new open_storage d = pr_new_with_config open_storage d 3"

definition pr_remove :: "did \<Rightarrow> 's peer_ring \<Rightarrow> 's peer_ring" where
  "pr_remove d s =
     (let predecessor = (case pr_predecessor s of
              Some pid \<Rightarrow> if pid = d then None else pr_predecessor s
            | None \<Rightarrow> None);
          fingers = ft_remove (pr_finger s) d;
          successor = ss_remove (pr_successor s) d;
          successor = (if ss_is_empty successor
            then (case ft_first fingers of Some x \<Rightarrow> ss_update successor x | None \<Rightarrow> successor)
            else successor)
      in s\<lparr>pr_finger := fingers, pr_successor := successor, pr_predecessor := predecessor\<rparr>)"

definition pr_bias :: "'s peer_ring \<Rightarrow> did \<Rightarrow> bias_id" where
  "pr_bias s d = BiasId_new (pr_did s) d"

section \<open>The Chord operations\<close>

definition chord_join :: "did \<Rightarrow> ('s peer_ring, peer_ring_action) action" where
  "chord_join d s =
     (if d = pr_did s then (Inr PNone, s)
      else case ft_join (pr_finger s) d of
          Inl e \<Rightarrow> (Inl e, s)
        | Inr fingers \<Rightarrow>
            let successor = pr_successor s;
                successor =
                  (if bid_lt (pr_bias s d) (pr_bias s (ss_last successor)) \<or> \<not> ss_is_full successor
                   then ss_update successor d else successor)
            in (Inr (PRemoteAction d (FindSuccessorForConnect (pr_did s))),
                s\<lparr>pr_finger := fingers, pr_successor := successor\<rparr>))"

definition chord_find_successor :: "'s peer_ring \<Rightarrow> did \<Rightarrow> peer_ring_action result" where
  "chord_find_successor s d =
     (let successor = pr_successor s in
      if ss_is_empty successor \<or> bid_le (pr_bias s d) (pr_bias s (ss_min successor))
      then Inr (PSome (ss_min successor))
      else rbind (ft_closest (pr_finger s) d) (\<lambda>closest.
             Inr (PRemoteAction closest (FindSuccessor d))))"

definition chord_notify :: "did \<Rightarrow> 's peer_ring \<Rightarrow> did option \<times> 's peer_ring" where
  "chord_notify d s =
     (case pr_predecessor s of
        Some pre \<Rightarrow>
          if bid_lt (pr_bias s pre) (pr_bias s d) then (Some d, s\<lparr>pr_predecessor := Some d\<rparr>)
          else (None, s)
      | None \<Rightarrow> (Some d, s\<lparr>pr_predecessor := Some d\<rparr>))"

definition next_fix_index :: "8 word \<Rightarrow> 8 word" where
  "next_fix_index i = (let i = i + 1 in if i \<ge> 159 then 0 else i)"

definition chord_fix_fingers :: "('s peer_ring, peer_ring_action) action" where
  "chord_fix_fingers s =
     (let idx = next_fix_index (fix_finger_index (pr_finger s));
          d = (biguint_of_did (pr_did s) + 2 ^ unat idx) mod 2 ^ 160;
          s' = s\<lparr>pr_finger := (pr_finger s)\<lparr>fix_finger_index := idx\<rparr>\<rparr>
      in case chord_find_successor s (did_of_biguint d) of
          Inr (PSome v) \<Rightarrow> (Inr PNone, s'\<lparr>pr_finger := ft_set_fix (pr_finger s') v\<rparr>)
        | Inr (PRemoteAction a (FindSuccessor b)) \<Rightarrow>
            (Inr (PRemoteAction a (FindSuccessorForFix b)), s')
        | Inr _ \<Rightarrow> (Inl PeerRingInvalidAction, s')
        | Inl (Panicked m) \<Rightarrow> (Inl (Panicked m), s)
        | Inl e \<Rightarrow> (Inl PeerRingFindSuccessor, s'))"

definition chord_check_predecessor :: "'s peer_ring \<Rightarrow> peer_ring_action result" where
  "chord_check_predecessor s =
     Inr (case pr_predecessor s of
            Some p \<Rightarrow> PRemoteAction p CheckPredecessor
          | None \<Rightarrow> PNone)"

section \<open>The ChordStorage operations\<close>

definition on_storage :: "('s, 'a) action \<Rightarrow> ('s peer_ring, 'a) action" where
  "on_storage m s = (case m (pr_storage s) of (r, st) \<Rightarrow> (r, s\<lparr>pr_storage := st\<rparr>))"

definition vnode_lookup ::
  "('s, did, virtual_node) persist \<Rightarrow> 's peer_ring \<Rightarrow> did \<Rightarrow> peer_ring_action result" where
  "vnode_lookup P s vid =
     (case chord_find_successor s vid of
        Inr (PSome _) \<Rightarrow>
          (case p_get P (pr_storage s) vid of
             Inr (Some v) \<Rightarrow> Inr (PSomeVNode v)
           | Inr None \<Rightarrow> Inr PNone
           | Inl _ \<Rightarrow> Inr PNone)
      | Inr (PRemoteAction n (FindSuccessor d)) \<Rightarrow> Inr (PRemoteAction n (FindVNode d))
      | Inr a \<Rightarrow> Inl PeerRingUnexpectedAction
      | Inl e \<Rightarrow> Inl e)"

definition vnode_operate ::
  "codec \<Rightarrow> ('s, did, virtual_node) persist \<Rightarrow> vnode_operation
     \<Rightarrow> ('s peer_ring, peer_ring_action) action" where
  "vnode_operate C P op =
     sbind (slift (op_did C op)) (\<lambda>vid s.
       case chord_find_successor s vid of
         Inr (PSome _) \<Rightarrow>
           sbind (slift (case p_get P (pr_storage s) vid of
                           Inr (Some this) \<Rightarrow> Inr this
                         | _ \<Rightarrow> gen_default_vnode C op)) (\<lambda>this.
           sbind (slift (vn_operate C this op)) (\<lambda>vnode.
           sbind (on_storage (p_put P vid vnode)) (\<lambda>_. sret PNone))) s
       | Inr (PRemoteAction n (FindSuccessor _)) \<Rightarrow>
           (Inr (PRemoteAction n (FindVNodeForOperate op)), s)
       | Inr a \<Rightarrow> (Inl PeerRingUnexpectedAction, s)
       | Inl e \<Rightarrow> (Inl e, s))"

text \<open>The loop of \<open>sync_vnode_with_successor\<close>: a failed removal leaves its item in place.\<close>

fun sync_loop ::
  "('s, did, virtual_node) persist \<Rightarrow> did \<Rightarrow> (did \<times> virtual_node) list \<Rightarrow> virtual_node list
     \<Rightarrow> 's peer_ring \<Rightarrow> virtual_node list \<times> 's peer_ring" where
  "sync_loop P new_successor [] data s = (data, s)"
| "sync_loop P new_successor ((vid, vnode) # items) data s =
     (if bid_lt (pr_bias s new_successor) (pr_bias s vid) then
        (case on_storage (p_remove P vid) s of
           (Inr _, s) \<Rightarrow> sync_loop P new_successor items (data @ [vnode]) s
         | (Inl _, s) \<Rightarrow> sync_loop P new_successor items data s)
      else sync_loop P new_successor items data s)"

definition sync_vnode_with_successor ::
  "('s, did, virtual_node) persist \<Rightarrow> did \<Rightarrow> ('s peer_ring, peer_ring_action) action" where
  "sync_vnode_with_successor P new_successor s =
     sbind (slift (p_get_all P (pr_storage s))) (\<lambda>all_items s.
       let (data, s) = sync_loop P new_successor all_items [] s in
       if data \<noteq> [] then (Inr (PRemoteAction new_successor (SyncVNodeWithSuccessor data)), s)
       else (Inr PNone, s)) s"

definition local_cache_set :: "virtual_node \<Rightarrow> 's peer_ring \<Rightarrow> 's peer_ring" where
  "local_cache_set vnode s = s\<lparr>pr_cache := snd (mem_set (vn_did vnode) vnode (pr_cache s))\<rparr>"

definition local_cache_get :: "'s peer_ring \<Rightarrow> did \<Rightarrow> virtual_node option" where
  "local_cache_get s vid = mem_get (pr_cache s) vid"

section \<open>Well-formed rings\<close>

definition pr_wf :: "'s peer_ring \<Rightarrow> bool" where
  "pr_wf s \<longleftrightarrow> ft_wf (pr_finger s) \<and> ft_size (pr_finger s) = 160 \<and> ft_did (pr_finger s) = pr_did s
     \<and> ss_wf (pr_successor s) \<and> ss_did (pr_successor s) = pr_did s
     \<and> fix_finger_index (pr_finger s) < 159"

lemma pr_bias_simps [simp]:
  "bid_lt (pr_bias s x) (pr_bias s y) \<longleftrightarrow> x - pr_did s < y - pr_did s"
  "bid_le (pr_bias s x) (pr_bias s y) \<longleftrightarrow> x - pr_did s \<le> y - pr_did s"
  by (simp_all add: pr_bias_def)

lemma pr_new_sel [simp]:
  "pr_did (pr_new_with_storage d m st) = d"
  "pr_finger (pr_new_with_storage d m st) = FingerTable_new d 160"
  "pr_successor (pr_new_with_storage d m st) = SuccessorSeq_new d m"
  "pr_predecessor (pr_new_with_storage d m st) = None"
  "pr_storage (pr_new_with_storage d m st) = st"
  by (simp_all add: pr_new_with_storage_def)

lemma pr_wf_new: "pr_wf (pr_new_with_storage d m st)"
  by (simp add: pr_wf_def ft_wf_new ss_wf_new) (simp add: FingerTable_new_def)

lemma pr_wf_remove: "pr_wf s \<Longrightarrow> pr_wf (pr_remove d s)"
  by (auto simp: pr_wf_def pr_remove_def Let_def intro: ss_wf_intros split: option.split)

text \<open>The guard of \<open>join\<close> only skips updates that would change nothing.\<close>

lemma ss_full_update:
  assumes "ss_wf s" "ss_is_full s" "\<not> dist (ss_did s) d < dist (ss_did s) (ss_last s)"
  shows "ss_update s d = s"
proof (cases "d \<in> set (successors s) \<or> d = ss_did s")
  case False
  have len: "length (successors s) \<le> unat (ss_max s)" using assms(1) by (simp add: ss_wf_def)
  moreover have "unat (ss_max s) < 256" using unsigned_less [where ?'a = nat, of "ss_max s"] by simp
  ultimately have max: "length (successors s) = unat (ss_max s)"
    using assms(2) by (simp add: ss_is_full_def word_le_nat_alt unat_of_nat)
  have "dist (ss_did s) y < dist (ss_did s) d" if y: "y \<in> set (successors s)" for y
  proof -
    have "dist (ss_did s) y \<le> dist (ss_did s) (ss_last s)"
      using assms(1) y
      by (cases "successors s" rule: rev_cases)
         (auto simp: ss_wf_def ss_last_def ss_is_empty_def sorted_append)
    then have "dist (ss_did s) y \<le> dist (ss_did s) d" using assms(3) by simp
    moreover have "dist (ss_did s) y \<noteq> dist (ss_did s) d" using y False by auto
    ultimately show ?thesis by (simp only: order_le_less) blast
  qed
  then have "insort_key (dist (ss_did s)) d (successors s) = successors s @ [d]"
    by (rule insort_key_greatest)
  then have "successors (ss_update s d) = successors s"
    using False max successors_update [OF assms(1)] by simp
  moreover have "\<exists>xs. ss_update s d = s\<lparr>successors := xs\<rparr>"
    using False by (auto simp: ss_update_def Let_def)
  ultimately show ?thesis by auto
qed (simp add: ss_update_def)

lemma chord_join_eq:
  assumes "pr_wf s" "d \<noteq> pr_did s"
  shows "\<exists>f. ft_join (pr_finger s) d = Inr f \<and> chord_join d s =
      (Inr (PRemoteAction d (FindSuccessorForConnect (pr_did s))),
       s\<lparr>pr_finger := f, pr_successor := ss_update (pr_successor s) d\<rparr>)"
proof -
  obtain f where f: "ft_join (pr_finger s) d = Inr f"
    using assms(1) by (auto simp: pr_wf_def ft_join_eq)
  have "ss_update (pr_successor s) d = pr_successor s"
    if "\<not> (d - pr_did s < ss_last (pr_successor s) - pr_did s \<or> \<not> ss_is_full (pr_successor s))"
    using assms(1) that by (intro ss_full_update) (auto simp: pr_wf_def)
  then show ?thesis using f assms(2) by (auto simp: chord_join_def Let_def)
qed

lemma chord_join_self: "chord_join (pr_did s) s = (Inr PNone, s)"
  by (simp add: chord_join_def)

lemma pr_wf_join: "pr_wf s \<Longrightarrow> pr_wf (snd (chord_join d s))"
proof (cases "d = pr_did s")
  case False
  assume wf: "pr_wf s"
  obtain f where f: "ft_join (pr_finger s) d = Inr f"
    "chord_join d s = (Inr (PRemoteAction d (FindSuccessorForConnect (pr_did s))),
       s\<lparr>pr_finger := f, pr_successor := ss_update (pr_successor s) d\<rparr>)"
    using chord_join_eq [OF wf False] by blast
  have "ft_wf (pr_finger s)" using wf by (simp add: pr_wf_def)
  from ft_join_Inr [OF this f(1)] wf show ?thesis
    by (simp add: f pr_wf_def ss_wf_update)
qed (simp add: chord_join_self)

lemma pr_wf_notify: "pr_wf s \<Longrightarrow> pr_wf (snd (chord_notify d s))"
  by (auto simp: chord_notify_def pr_wf_def split: option.split)

lemma ft_set_sel [simp]:
  "ft_did (ft_set t k d) = ft_did t" "ft_size (ft_set t k d) = ft_size t"
  "fix_finger_index (ft_set t k d) = fix_finger_index t"
  "ft_wf (ft_set t k d) = ft_wf t"
  "finger (ft_set t k d) = (if k < length (finger t) then (finger t)[k := Some d] else finger t)"
  by (simp_all add: ft_set_def ft_wf_def)

lemma next_fix_index_less: "next_fix_index i < 159"
  by (simp add: next_fix_index_def Let_def not_le)

lemma unat_next_fix_index: "i < 159 \<Longrightarrow> unat (next_fix_index i) = (unat i + 1) mod 159"
proof -
  assume "i < 159"
  then have i: "unat i < 159" by (simp add: word_less_nat_alt)
  then have "unat (i + 1) = unat i + 1" by (simp add: unat_word_ariths)
  moreover have "i + 1 \<ge> 159 \<longleftrightarrow> unat i + 1 \<ge> 159"
    using calculation by (simp add: word_le_nat_alt)
  ultimately show ?thesis using i by (simp add: next_fix_index_def Let_def le_less)
qed

lemma chord_find_successor_cases:
  assumes "pr_wf s"
  obtains (local) "chord_find_successor s d = Inr (PSome (ss_min (pr_successor s)))"
      "ss_is_empty (pr_successor s) \<or> d - pr_did s \<le> ss_min (pr_successor s) - pr_did s"
  | (remote) v where "chord_find_successor s d = Inr (PRemoteAction v (FindSuccessor d))"
      "\<not> ss_is_empty (pr_successor s)" "ss_min (pr_successor s) - pr_did s < d - pr_did s"
      "ft_closest (pr_finger s) d = Inr v"
      "v = pr_did s \<or> (v - pr_did s < d - pr_did s \<and> Some v \<in> set (finger (pr_finger s)))"
proof (cases "ss_is_empty (pr_successor s) \<or> d - pr_did s \<le> ss_min (pr_successor s) - pr_did s")
  case True
  then show ?thesis by (intro local) (auto simp: chord_find_successor_def)
next
  case False
  have wf: "ft_wf (pr_finger s)" "ft_did (pr_finger s) = pr_did s"
    using assms by (simp_all add: pr_wf_def)
  have nth: "Some v \<in> set (finger (pr_finger s))"
    if "k < ft_size (pr_finger s)" "finger (pr_finger s) ! k = Some v" for k v
    using that wf(1) nth_mem [of k "finger (pr_finger s)"] by (simp add: ft_wf_def)
  show ?thesis
    by (rule ft_closest_cases [OF wf(1), of d];
        rule remote) (use False wf in \<open>auto simp: chord_find_successor_def dest: nth\<close>)
qed

lemma did_of_biguint_mod: "did_of_biguint (n mod 2 ^ 160) = word_of_nat n"
proof -
  have "did_of_biguint (n mod 2 ^ 160) = did_of_biguint n" by (simp add: did_of_biguint_def)
  then show ?thesis by (simp add: did_of_biguint_eq)
qed

lemma chord_fix_fingers_eq:
  assumes "pr_wf s"
  defines "idx \<equiv> next_fix_index (fix_finger_index (pr_finger s))"
  defines "d \<equiv> pr_did s + 2 ^ unat idx"
  defines "s' \<equiv> s\<lparr>pr_finger := (pr_finger s)\<lparr>fix_finger_index := idx\<rparr>\<rparr>"
  shows "chord_fix_fingers s =
    (case chord_find_successor s d of
       Inr (PSome v) \<Rightarrow> (Inr PNone, s'\<lparr>pr_finger := ft_set (pr_finger s') (unat idx) v\<rparr>)
     | Inr (PRemoteAction a _) \<Rightarrow> (Inr (PRemoteAction a (FindSuccessorForFix d)), s')
     | _ \<Rightarrow> undefined)"
proof -
  have "did_of_biguint ((biguint_of_did (pr_did s) + 2 ^ unat idx) mod 2 ^ 160) = d"
    unfolding did_of_biguint_mod by (simp add: d_def biguint_of_did_def)
  then show ?thesis
    by (rule_tac chord_find_successor_cases [OF assms(1), of d])
       (simp_all add: chord_fix_fingers_def Let_def idx_def [symmetric] s'_def ft_set_fix_def)
qed

lemma pr_wf_fix: "pr_wf s \<Longrightarrow> pr_wf (snd (chord_fix_fingers s))"
proof -
  assume wf: "pr_wf s"
  show ?thesis
    unfolding chord_fix_fingers_eq [OF wf]
    by (rule chord_find_successor_cases [OF wf, of
          "pr_did s + 2 ^ unat (next_fix_index (fix_finger_index (pr_finger s)))"])
       (use wf in \<open>simp_all add: pr_wf_def next_fix_index_less ft_wf_def ft_set_def\<close>)
qed

lemmas pr_wf_intros = pr_wf_new pr_wf_remove pr_wf_join pr_wf_notify pr_wf_fix

section \<open>Steps of a ring\<close>

text \<open>
  What the node does to its ring: the operations above, and the two updates the message
  handlers make directly (a reported finger and a reported successor).
\<close>

inductive ring_step :: "'s peer_ring \<Rightarrow> 's peer_ring \<Rightarrow> bool" where
  step_join: "ring_step s (snd (chord_join d s))"
| step_remove: "ring_step s (pr_remove d s)"
| step_notify: "ring_step s (snd (chord_notify d s))"
| step_fix: "ring_step s (snd (chord_fix_fingers s))"
| step_set_fix: "ring_step s (s\<lparr>pr_finger := ft_set_fix (pr_finger s) d\<rparr>)"
| step_successor: "ring_step s (s\<lparr>pr_successor := ss_update (pr_successor s) d\<rparr>)"
| step_storage: "ring_step s (snd (on_storage (m :: ('s, unit) action) s))"
| step_cache: "ring_step s (local_cache_set v s)"

inductive_cases ring_stepE: "ring_step s s'"

inductive ring_reachable :: "'s peer_ring \<Rightarrow> bool" where
  reach_new: "ring_reachable (pr_new_with_storage d m st)"
| reach_step: "ring_reachable s \<Longrightarrow> ring_step s s' \<Longrightarrow> ring_reachable s'"

lemma on_storage_sel [simp]:
  "pr_did (snd (on_storage m s)) = pr_did s" "pr_finger (snd (on_storage m s)) = pr_finger s"
  "pr_successor (snd (on_storage m s)) = pr_successor s"
  "pr_storage (snd (on_storage m s)) = snd (m (pr_storage s))"
  "fst (on_storage m s) = fst (m (pr_storage s))"
  by (simp_all add: on_storage_def split: prod.split)

lemma ring_step_wf: "ring_step s s' \<Longrightarrow> pr_wf s \<Longrightarrow> pr_wf s'"
  by (erule ring_stepE)
     (auto intro: pr_wf_intros, auto simp: pr_wf_def ft_set_fix_def local_cache_set_def ss_wf_update)

lemma ring_reachable_wf: "ring_reachable s \<Longrightarrow> pr_wf s"
  by (induction rule: ring_reachable.induct) (auto intro: pr_wf_new ring_step_wf)

section \<open>Joining many nodes\<close>

definition join_all :: "did list \<Rightarrow> 's peer_ring \<Rightarrow> 's peer_ring" where
  "join_all ds s = fold (\<lambda>d s. snd (chord_join d s)) ds s"

lemma join_all_simps [simp]:
  "join_all [] s = s"
  "join_all (ds @ [d]) s = snd (chord_join d (join_all ds s))"
  by (simp_all add: join_all_def)

lemma chord_join_did [simp]: "pr_did (snd (chord_join d s)) = pr_did s"
  by (auto simp: chord_join_def Let_def split: sum.split)

lemma chord_join_other [simp]:
  "pr_storage (snd (chord_join d s)) = pr_storage s"
  "pr_predecessor (snd (chord_join d s)) = pr_predecessor s"
  by (auto simp: chord_join_def Let_def split: sum.split)

lemma join_all_wf: "pr_wf s \<Longrightarrow> pr_wf (join_all ds s) \<and> pr_did (join_all ds s) = pr_did s
    \<and> pr_storage (join_all ds s) = pr_storage s"
  by (induction ds rule: rev_induct) (auto intro: pr_wf_join)

lemma join_all_parts:
  assumes "pr_wf s"
  shows "pr_successor (join_all ds s) = fold (\<lambda>d t. ss_update t d) ds (pr_successor s)
    \<and> ft_join_all (pr_finger s) (filter (\<lambda>d. d \<noteq> pr_did s) ds) = Inr (pr_finger (join_all ds s))"
proof (induction ds rule: rev_induct)
  case (snoc d ds)
  have wf: "pr_wf (join_all ds s)" and n: "pr_did (join_all ds s) = pr_did s"
    using join_all_wf [OF assms] by auto
  show ?case
  proof (cases "d = pr_did s")
    case True
    then have "d = ss_did (pr_successor (join_all ds s))" using wf n by (simp add: pr_wf_def)
    then show ?thesis using snoc True n
      by (simp add: chord_join_def ss_update_def)
  next
    case False
    then obtain f where "ft_join (pr_finger (join_all ds s)) d = Inr f"
      "snd (chord_join d (join_all ds s)) =
         (join_all ds s)\<lparr>pr_finger := f, pr_successor := ss_update (pr_successor (join_all ds s)) d\<rparr>"
      using chord_join_eq [OF wf] n by fastforce
    then show ?thesis using snoc False by (simp add: ft_join_all_snoc)
  qed
qed simp

lemma join_all_new:
  fixes ds n m st
  defines "s \<equiv> join_all ds (pr_new_with_storage n m st)"
  shows "pr_wf s" "pr_did s = n" "pr_storage s = st"
    and "successors (pr_successor s) = nearest n (unat m) ds"
    and "ft_ordered (pr_finger s)"
    and "\<And>k. k < 160 \<Longrightarrow> slot_spec n (set ds - {n}) k (finger (pr_finger s) ! k)"
proof -
  note wf = pr_wf_new [of n m st]
  show "pr_wf s" "pr_did s = n" "pr_storage s = st"
    using join_all_wf [OF wf, of ds] by (simp_all add: s_def)
  note parts = join_all_parts [OF wf, of ds, folded s_def, simplified]
  show "successors (pr_successor s) = nearest n (unat m) ds"
    using parts by (simp add: successors_fold_update)
  obtain t where t: "ft_join_all (FingerTable_new n 160) (filter (\<lambda>d. d \<noteq> n) ds) = Inr t"
    "ft_ordered t" "\<forall>k < 160. slot_spec n (set (filter (\<lambda>d. d \<noteq> n) ds)) k (finger t ! k)"
    using ft_join_all_spec [of 160 n "filter (\<lambda>d. d \<noteq> n) ds"] by auto
  have "t = pr_finger s" using t(1) parts by simp
  moreover have "set (filter (\<lambda>d. d \<noteq> n) ds) = set ds - {n}" by auto
  ultimately show "ft_ordered (pr_finger s)"
    "\<And>k. k < 160 \<Longrightarrow> slot_spec n (set ds - {n}) k (finger (pr_finger s) ! k)"
    using t(2,3) by auto
qed

lemma sort_key_Nil_iff [simp]: "sort_key f xs = [] \<longleftrightarrow> xs = []"
  by (metis set_empty set_sort)

lemma nearest_Nil_iff: "nearest n k ds = [] \<longleftrightarrow> k = 0 \<or> set ds \<subseteq> {n}"
  by (auto simp: nearest_def filter_empty_conv)

lemma nearest_hd:
  assumes "x \<in> set ds" "x \<noteq> n" "k \<noteq> 0"
  shows "nearest n k ds ! 0 \<in> set ds - {n} \<and> (\<forall>y\<in>set ds - {n}. dist n (nearest n k ds ! 0) \<le> dist n y)"
proof -
  let ?L = "sort_key (dist n) (remdups (filter (\<lambda>x. x \<noteq> n) ds))"
  have ne: "?L \<noteq> []"
    using assms(1,2) by (auto simp: filter_empty_conv)
  then have hd: "nearest n k ds ! 0 = hd ?L"
    using assms(3) by (simp add: nearest_def hd_conv_nth)
  have "sorted (map (dist n) ?L)" by simp
  then have "\<forall>y\<in>set ?L. dist n (hd ?L) \<le> dist n y" using ne by (cases ?L) auto
  moreover have "hd ?L \<in> set ?L" using ne by (rule hd_in_set)
  moreover have "set ?L = set ds - {n}" by auto
  ultimately show ?thesis unfolding hd by (simp only:)
qed

lemma join_all_min:
  fixes ds n m and st :: 's
  assumes "x \<in> set ds" "x \<noteq> n" "m \<noteq> 0"
  defines "s \<equiv> join_all ds (pr_new_with_storage n m st)"
  shows "\<not> ss_is_empty (pr_successor s)" "ss_min (pr_successor s) \<in> set ds - {n}"
    "\<And>y. y \<in> set ds - {n} \<Longrightarrow> dist n (ss_min (pr_successor s)) \<le> dist n y"
proof -
  have k: "unat m \<noteq> 0" using assms(3) by (simp add: unat_eq_zero)
  show ne: "\<not> ss_is_empty (pr_successor s)"
    using assms(1,2) k by (auto simp: s_def ss_is_empty_def join_all_new nearest_Nil_iff)
  then have "ss_min (pr_successor s) = nearest n (unat m) ds ! 0"
    by (simp add: ss_min_def s_def join_all_new)
  then show "ss_min (pr_successor s) \<in> set ds - {n}"
    "\<And>y. y \<in> set ds - {n} \<Longrightarrow> dist n (ss_min (pr_successor s)) \<le> dist n y"
    using nearest_hd [OF assms(1,2) k] by auto
qed

section \<open>Fixing fingers on a lonely node\<close>

definition fix_n :: "nat \<Rightarrow> 's peer_ring \<Rightarrow> 's peer_ring" where
  "fix_n j s = ((\<lambda>s. snd (chord_fix_fingers s)) ^^ j) s"

lemma fix_n_simps [simp]:
  "fix_n 0 s = s" "fix_n (Suc j) s = snd (chord_fix_fingers (fix_n j s))"
  by (simp_all add: fix_n_def)

lemma fix_step:
  assumes "pr_wf s"
  defines "s' \<equiv> snd (chord_fix_fingers s)" and "i \<equiv> (unat (fix_finger_index (pr_finger s)) + 1) mod 159"
  shows "unat (fix_finger_index (pr_finger s')) = i"
    and "\<exists>x. finger (pr_finger s') = (finger (pr_finger s))[i := x]
        \<and> (ss_is_empty (pr_successor s) \<longrightarrow> x = Some (pr_did s))"
    and "pr_successor s' = pr_successor s" "pr_did s' = pr_did s"
    and "pr_predecessor s' = pr_predecessor s" "pr_storage s' = pr_storage s"
proof -
  let ?idx = "next_fix_index (fix_finger_index (pr_finger s))"
  have i: "unat ?idx = i"
    using assms(1) by (simp add: i_def unat_next_fix_index pr_wf_def)
  then have "i < length (finger (pr_finger s))"
    using assms(1) next_fix_index_less [of "fix_finger_index (pr_finger s)"]
    by (simp add: pr_wf_def ft_wf_def word_less_nat_alt)
  moreover have "\<exists>x. finger (pr_finger s) = (finger (pr_finger s))[i := x]"
    by (metis list_update_id)
  moreover have "ss_is_empty (pr_successor s) \<Longrightarrow> ss_min (pr_successor s) = pr_did s"
    using assms(1) by (simp add: ss_min_def pr_wf_def)
  ultimately have
    "unat (fix_finger_index (pr_finger s')) = i \<and>
     (\<exists>x. finger (pr_finger s') = (finger (pr_finger s))[i := x]
        \<and> (ss_is_empty (pr_successor s) \<longrightarrow> x = Some (pr_did s)))
     \<and> pr_successor s' = pr_successor s \<and> pr_did s' = pr_did s
     \<and> pr_predecessor s' = pr_predecessor s \<and> pr_storage s' = pr_storage s"
    unfolding s'_def chord_fix_fingers_eq [OF assms(1)]
    by (rule_tac chord_find_successor_cases [OF assms(1), of "pr_did s + 2 ^ unat ?idx"])
       (auto simp: i)
  then show "unat (fix_finger_index (pr_finger s')) = i"
    and "\<exists>x. finger (pr_finger s') = (finger (pr_finger s))[i := x]
        \<and> (ss_is_empty (pr_successor s) \<longrightarrow> x = Some (pr_did s))"
    and "pr_successor s' = pr_successor s" "pr_did s' = pr_did s"
    and "pr_predecessor s' = pr_predecessor s" "pr_storage s' = pr_storage s"
    by blast+
qed

lemma fix_n_invariant:
  assumes "pr_wf s"
  shows "pr_wf (fix_n j s)
    \<and> unat (fix_finger_index (pr_finger (fix_n j s))) = (unat (fix_finger_index (pr_finger s)) + j) mod 159
    \<and> finger (pr_finger (fix_n j s)) ! 159 = finger (pr_finger s) ! 159"
proof (induction j)
  case 0
  have "fix_finger_index (pr_finger s) < 159" using assms by (simp add: pr_wf_def)
  then have "unat (fix_finger_index (pr_finger s)) < 159" by (simp add: word_less_nat_alt)
  then show ?case using assms by simp
next
  case (Suc j)
  then have wf: "pr_wf (fix_n j s)" by simp
  note f = fix_step [OF wf]
  obtain x where "finger (pr_finger (fix_n (Suc j) s)) = (finger (pr_finger (fix_n j s)))
      [(unat (fix_finger_index (pr_finger (fix_n j s))) + 1) mod 159 := x]"
    using f(2) by auto
  moreover have "(unat (fix_finger_index (pr_finger (fix_n j s))) + 1) mod 159 \<noteq> 159"
    by (metis less_irrefl mod_less_divisor zero_less_numeral)
  ultimately show ?case using f(1) Suc pr_wf_fix [OF wf] by (simp add: mod_Suc_eq)
qed

lemma ss_is_empty_new [simp]: "ss_is_empty (SuccessorSeq_new n m)"
  by (simp add: ss_is_empty_def)

text \<open>A node without successors records itself as its own finger.\<close>

lemma fix_n_lonely:
  assumes "j < 159"
  shows "pr_wf (fix_n j (pr_new_with_storage n m st)) \<and> pr_did (fix_n j (pr_new_with_storage n m st)) = n
    \<and> ss_is_empty (pr_successor (fix_n j (pr_new_with_storage n m st)))
    \<and> pr_successor (fix_n j (pr_new_with_storage n m st)) = SuccessorSeq_new n m
    \<and> unat (fix_finger_index (pr_finger (fix_n j (pr_new_with_storage n m st)))) = j
    \<and> (\<forall>k < 160. finger (pr_finger (fix_n j (pr_new_with_storage n m st))) ! k =
          (if 1 \<le> k \<and> k \<le> j then Some n else None))"
  using assms
proof (induction j)
  case 0
  show ?case using pr_wf_new [of n m st]
    by (simp add: ss_is_empty_def) (simp add: FingerTable_new_def)
next
  case (Suc j)
  let ?s = "fix_n j (pr_new_with_storage n m st)"
  have IH: "pr_wf ?s" "pr_did ?s = n" "ss_is_empty (pr_successor ?s)"
    "unat (fix_finger_index (pr_finger ?s)) = j" "pr_successor ?s = SuccessorSeq_new n m"
    "\<And>k. k < 160 \<Longrightarrow> finger (pr_finger ?s) ! k = (if 1 \<le> k \<and> k \<le> j then Some n else None)"
    using Suc by simp_all
  note f = fix_step [OF IH(1), unfolded IH]
  have j: "(j + 1) mod 159 = Suc j" using Suc.prems by simp
  have "finger (pr_finger (fix_n (Suc j) (pr_new_with_storage n m st)))
      = (finger (pr_finger ?s))[Suc j := Some n]"
    using f(2) IH(3,5) j by auto
  moreover have "length (finger (pr_finger ?s)) = 160" using IH(1) by (simp add: pr_wf_def ft_wf_def)
  ultimately show ?case
    using f(1,3,4) IH pr_wf_fix [OF IH(1)] j by (auto simp: nth_list_update)
qed

lemma join_keeps_self_finger:
  assumes "pr_wf s" "k < 160" "finger (pr_finger s) ! k = Some (pr_did s)"
  shows "finger (pr_finger (join_all ds s)) ! k = Some (pr_did s)"
proof (induction ds rule: rev_induct)
  case (snoc d ds)
  have wf: "pr_wf (join_all ds s)" "pr_did (join_all ds s) = pr_did s"
    using join_all_wf [OF assms(1)] by auto
  show ?case
  proof (cases "d = pr_did s")
    case True
    then show ?thesis using snoc wf(2) by (metis chord_join_self join_all_simps(2) snd_conv)
  next
    case False
    then obtain f where f: "ft_join (pr_finger (join_all ds s)) d = Inr f"
      "pr_finger (snd (chord_join d (join_all ds s))) = f"
      using chord_join_eq [OF wf(1)] wf(2) by fastforce
    have "ft_wf (pr_finger (join_all ds s))" "ft_size (pr_finger (join_all ds s)) = 160"
      "ft_did (pr_finger (join_all ds s)) = pr_did s" using wf by (simp_all add: pr_wf_def)
    then show ?thesis
      using ft_join_Inr(5) [OF _ f(1), of k] assms(2) snoc f(2) by (simp add: join_entry_def)
  qed
qed (use assms in simp)

lemma join_top_finger:
  assumes "pr_wf s" "finger (pr_finger s) ! 159 = None"
  shows "finger (pr_finger (join_all ds s)) ! 159 = Some v \<Longrightarrow> 2 ^ 159 \<le> unat (dist (pr_did s) v)"
proof (induction ds arbitrary: v rule: rev_induct)
  case (snoc d ds)
  have wf: "pr_wf (join_all ds s)" "pr_did (join_all ds s) = pr_did s"
    using join_all_wf [OF assms(1)] by auto
  show ?case
  proof (cases "d = pr_did s")
    case True
    then show ?thesis using snoc wf(2) by (metis chord_join_self join_all_simps(2) snd_conv)
  next
    case False
    then obtain f where f: "ft_join (pr_finger (join_all ds s)) d = Inr f"
      "pr_finger (snd (chord_join d (join_all ds s))) = f"
      using chord_join_eq [OF wf(1)] wf(2) by fastforce
    have "ft_wf (pr_finger (join_all ds s))" "ft_size (pr_finger (join_all ds s)) = 160"
      "ft_did (pr_finger (join_all ds s)) = pr_did s" using wf by (simp_all add: pr_wf_def)
    then have "finger (pr_finger (join_all (ds @ [d]) s)) ! 159
        = join_entry (pr_did s) d 159 (finger (pr_finger (join_all ds s)) ! 159)"
      using ft_join_Inr(5) [OF _ f(1), of 159] f(2) by simp
    then show ?thesis using snoc by (auto dest: join_entry_SomeD)
  qed
qed (use assms in simp)

end
