(* ===== verification/Swarm.thy ===== *)
theory Swarm
  imports Transport Chord
begin

text \<open>
  The node: \<open>rings-core/src/swarm.rs\<close>, \<open>transports/manager.rs\<close> and the trait
  \<open>PayloadSender\<close> of \<open>message/payload.rs\<close>. A node is the \<open>Swarm\<close> together with the world its
  transports live in; every method is a state-passing action on it. \<open>env\<close> collects what the
  code takes from other crates: the cryptography, serde and bincode at the type of messages,
  uuid parsing, the persistence back end and the transport.
\<close>

section \<open>State\<close>

datatype measure_counter = Sent | FailedToSend | Received | FailedToReceive

text \<open>
  \<open>sw_pending_locked\<close> says that another task holds the lock of the pending list, on which
  \<open>try_lock\<close> fails.
\<close>

record ('s, 'w) node =
  sw_pending :: "uuid list"
  sw_pending_locked :: bool
  sw_transports :: "(did, uuid) mem_storage"
  sw_ice_servers :: "ice_server list"
  sw_external_address :: "string option"
  sw_dht :: "'s peer_ring"
  sw_measure :: "(did \<Rightarrow> measure_counter \<Rightarrow> 'w \<Rightarrow> 'w) option"
  sw_session :: session_with_key
  sw_world :: 'w

record ('s, 'w) env =
  en_ecc :: ecc
  en_codec :: codec
  en_json :: "message \<Rightarrow> string option"
  en_bin :: "message payload \<Rightarrow> bytes option"
  en_unbin :: "bytes \<Rightarrow> message payload option"
  en_uuid_str :: "uuid \<Rightarrow> string"
  en_uuid_from_str :: "string \<Rightarrow> uuid option"
  en_persist :: "('s, did, virtual_node) persist"
  en_transport :: "'w transport_ops"

text \<open>Running an action on a part of the node.\<close>

definition on_world :: "('w, 'a) action \<Rightarrow> (('s, 'w) node, 'a) action" where
  "on_world m n = (case m (sw_world n) of (r, w) \<Rightarrow> (r, n\<lparr>sw_world := w\<rparr>))"

definition on_ring :: "('s peer_ring, 'a) action \<Rightarrow> (('s, 'w) node, 'a) action" where
  "on_ring m n = (case m (sw_dht n) of (r, s) \<Rightarrow> (r, n\<lparr>sw_dht := s\<rparr>))"

definition sw_did :: "('s, 'w) node \<Rightarrow> did" where
  "sw_did n = pr_did (sw_dht n)"

section \<open>Building\<close>

record 's swarm_builder =
  sb_key :: "secret_key option"
  sb_ice_servers :: "ice_server list"
  sb_external_address :: "string option"
  sb_dht_did :: "did option"
  sb_dht_succ_max :: "8 word"
  sb_dht_storage :: 's
  sb_session_manager :: "session_with_key option"
  sb_session_ttl :: "ttl option"

fun split_on :: "char \<Rightarrow> string \<Rightarrow> string list" where
  "split_on c [] = [[]]"
| "split_on c (x # xs) =
     (if x = c then [] # split_on c xs
      else case split_on c xs of [] \<Rightarrow> [[x]] | y # ys \<Rightarrow> (x # y) # ys)"

fun all_ok :: "'a result list \<Rightarrow> 'a list result" where
  "all_ok [] = Inr []"
| "all_ok (Inl e # rs) = Inl e"
| "all_ok (Inr x # rs) = rbind (all_ok rs) (\<lambda>xs. Inr (x # xs))"

definition SwarmBuilder_new :: "(string \<Rightarrow> url option) \<Rightarrow> string \<Rightarrow> 's \<Rightarrow> 's swarm_builder result" where
  "SwarmBuilder_new parse ice_servers dht_storage =
     rbind (all_ok (map (\<lambda>s. case IceServer_from_str parse s of
              Inl _ \<Rightarrow> Inl (Panicked ''unwrap'') | Inr i \<Rightarrow> Inr i) (split_on (CHR '';'') ice_servers)))
       (\<lambda>ice_servers. Inr \<lparr>sb_key = None, sb_ice_servers = ice_servers, sb_external_address = None,
          sb_dht_did = None, sb_dht_succ_max = 3, sb_dht_storage = dht_storage,
          sb_session_manager = None, sb_session_ttl = None\<rparr>)"

definition builder_dht_succ_max :: "8 word \<Rightarrow> 's swarm_builder \<Rightarrow> 's swarm_builder" where
  "builder_dht_succ_max succ_max b = b\<lparr>sb_dht_succ_max := succ_max\<rparr>"

definition builder_external_address :: "string option \<Rightarrow> 's swarm_builder \<Rightarrow> 's swarm_builder" where
  "builder_external_address a b = b\<lparr>sb_external_address := a\<rparr>"

definition builder_key :: "ecc \<Rightarrow> secret_key \<Rightarrow> 's swarm_builder \<Rightarrow> 's swarm_builder" where
  "builder_key E key b = b\<lparr>sb_key := Some key, sb_dht_did := Some (secret_key_address E key)\<rparr>"

definition builder_session_manager :: "did \<Rightarrow> session_with_key \<Rightarrow> 's swarm_builder \<Rightarrow> 's swarm_builder" where
  "builder_session_manager d sm b = b\<lparr>sb_session_manager := Some sm, sb_dht_did := Some d\<rparr>"

definition builder_session_ttl :: "ttl \<Rightarrow> 's swarm_builder \<Rightarrow> 's swarm_builder" where
  "builder_session_ttl t b = b\<lparr>sb_session_ttl := Some t\<rparr>"

text \<open>
  \<open>now\<close> and \<open>fresh_key\<close> are the clock and the random session key that
  \<open>SessionManager::new_with_seckey\<close> reads; \<open>world\<close> is the one the swarm starts in and
  \<open>counter\<close> the argument of the setter \<open>measure\<close>.
\<close>

definition builder_build ::
  "ecc \<Rightarrow> u128 \<Rightarrow> secret_key \<Rightarrow> (did \<Rightarrow> measure_counter \<Rightarrow> 'w \<Rightarrow> 'w) option \<Rightarrow> 'w
     \<Rightarrow> 's swarm_builder \<Rightarrow> ('s, 'w) node result" where
  "builder_build E now fresh_key counter world b =
     rbind (case sb_session_manager b of
              Some sm \<Rightarrow> Inr sm
            | None \<Rightarrow> (case sb_key b of
                Some key \<Rightarrow> SessionManager_new_with_seckey E fresh_key now key (sb_session_ttl b)
              | None \<Rightarrow> Inl (SwarmBuildFailed ''Should set session_manager or key'')))
       (\<lambda>session_manager.
     rbind (ok_or (sb_dht_did b) (SwarmBuildFailed ''Should set session_manager or key'')) (\<lambda>dht_did.
       Inr \<lparr>sw_pending = [], sw_pending_locked = False, sw_transports = mem_new,
            sw_ice_servers = sb_ice_servers b, sw_external_address = sb_external_address b,
            sw_dht = pr_new_with_storage dht_did (sb_dht_succ_max b) (sb_dht_storage b),
            sw_measure = counter, sw_session = session_manager, sw_world = world\<rparr>))"

section \<open>Pending transports\<close>

definition push_pending_transport :: "uuid \<Rightarrow> (('s, 'w) node, unit) action" where
  "push_pending_transport t n =
     (if sw_pending_locked n then (Inl SwarmPendingTransTryLockFailed, n)
      else (Inr (), n\<lparr>sw_pending := sw_pending n @ [t]\<rparr>))"

definition pop_pending_transport :: "uuid \<Rightarrow> (('s, 'w) node, unit) action" where
  "pop_pending_transport transport_id n =
     (if sw_pending_locked n then (Inl SwarmPendingTransTryLockFailed, n)
      else case position (\<lambda>x. x = transport_id) (sw_pending n) of
             None \<Rightarrow> (Inl SwarmPendingTransNotFound, n)
           | Some i \<Rightarrow> (Inr (), n\<lparr>sw_pending := take i (sw_pending n) @ drop (Suc i) (sw_pending n)\<rparr>))"

definition pending_transports :: "(('s, 'w) node, uuid list) action" where
  "pending_transports n =
     (if sw_pending_locked n then (Inl SwarmPendingTransTryLockFailed, n) else (Inr (sw_pending n), n))"

definition find_pending_transport :: "uuid \<Rightarrow> (('s, 'w) node, uuid option) action" where
  "find_pending_transport t n =
     (if sw_pending_locked n then (Inl SwarmPendingTransTryLockFailed, n)
      else (Inr (find (\<lambda>x. x = t) (sw_pending n)), n))"

section \<open>The transport manager\<close>

definition get_transport :: "('s, 'w) node \<Rightarrow> did \<Rightarrow> uuid option" where
  "get_transport n d = mem_get (sw_transports n) d"

definition remove_transport :: "did \<Rightarrow> (('s, 'w) node, (did \<times> uuid) option) action" where
  "remove_transport d n =
     (case mem_remove d (sw_transports n) of (r, m) \<Rightarrow> (Inr r, n\<lparr>sw_transports := m\<rparr>))"

definition get_transport_numbers :: "('s, 'w) node \<Rightarrow> nat" where
  "get_transport_numbers n = mem_len (sw_transports n)"

definition get_dids :: "('s, 'w) node \<Rightarrow> did list" where
  "get_dids n = mem_keys (sw_transports n)"

definition get_transports :: "('s, 'w) node \<Rightarrow> (did \<times> uuid) list" where
  "get_transports n = mem_items (sw_transports n)"

definition set_transport :: "did \<Rightarrow> uuid \<Rightarrow> ('s, 'w) node \<Rightarrow> ('s, 'w) node" where
  "set_transport d t n = n\<lparr>sw_transports := snd (mem_set d t (sw_transports n))\<rparr>"

definition new_transport :: "('s, 'w) env \<Rightarrow> (('s, 'w) node, uuid) action" where
  "new_transport X n =
     (case tr_new (en_transport X) (sw_did n) (sw_world n) of (t, w) \<Rightarrow>
        sbind (on_world (tr_start (en_transport X) (sw_ice_servers n) (sw_external_address n) t)) (\<lambda>_.
        sbind (on_world (tr_apply_callback (en_transport X) t)) (\<lambda>_.
          sret t)) (n\<lparr>sw_world := w\<rparr>))"

definition is_connected :: "('s, 'w) env \<Rightarrow> ('s, 'w) node \<Rightarrow> uuid \<Rightarrow> bool" where
  "is_connected X n t = tr_is_connected (en_transport X) (sw_world n) t"

definition is_disconnected :: "('s, 'w) env \<Rightarrow> ('s, 'w) node \<Rightarrow> uuid \<Rightarrow> bool" where
  "is_disconnected X n t = tr_is_disconnected (en_transport X) (sw_world n) t"

definition close_transport :: "('s, 'w) env \<Rightarrow> uuid \<Rightarrow> (('s, 'w) node, unit) action" where
  "close_transport X t = on_world (tr_close (en_transport X) t)"

definition register :: "('s, 'w) env \<Rightarrow> did \<Rightarrow> uuid \<Rightarrow> (('s, 'w) node, unit) action" where
  "register X d tr n =
     (if is_disconnected X n tr then (Inl InvalidTransport, n)
      else case mem_get (sw_transports n) d of
        Some t \<Rightarrow>
          if is_connected X n t \<and> \<not> is_connected X n tr then (Inl InvalidTransport, n)
          else if t \<noteq> tr then
            sbind (attempt (close_transport X t)) (\<lambda>r.
              if is_ok r then sret () else serr SwarmToClosePrevTransport) (set_transport d tr n)
          else (Inr (), n)
      | None \<Rightarrow> (Inr (), set_transport d tr n))"

definition get_and_check_transport :: "('s, 'w) env \<Rightarrow> did \<Rightarrow> (('s, 'w) node, uuid option) action" where
  "get_and_check_transport X d n =
     (case get_transport n d of
        Some t \<Rightarrow>
          if is_disconnected X n t then
            sbind (attempt (close_transport X t)) (\<lambda>_. sret None) n
          else (Inr (Some t), n)
      | None \<Rightarrow> (Inr None, n))"

section \<open>Sending\<close>

text \<open>Sealing a payload reads the clock and, unless it fails, draws the transaction id.\<close>

definition seal :: "('s, 'w) env \<Rightarrow> (session_with_key \<Rightarrow> u128 \<Rightarrow> uuid \<Rightarrow> 'a result) \<Rightarrow> (('s, 'w) node, 'a) action" where
  "seal X f n =
     (case tr_uuid (en_transport X) (sw_world n) of (u, w) \<Rightarrow>
        case f (sw_session n) (tr_now (en_transport X) (sw_world n)) u of
          Inl e \<Rightarrow> (Inl e, n)
        | Inr p \<Rightarrow> (Inr p, n\<lparr>sw_world := w\<rparr>))"

definition seal_send :: "('s, 'w) env \<Rightarrow> message \<Rightarrow> did \<Rightarrow> did \<Rightarrow> (('s, 'w) node, message payload) action" where
  "seal_send X msg next_hop destination =
     seal X (\<lambda>sm now u. MessagePayload_new_send (en_ecc X) (en_json X) now u msg sm next_hop destination)"

definition incr_measure :: "did \<Rightarrow> measure_counter \<Rightarrow> ('s, 'w) node \<Rightarrow> ('s, 'w) node" where
  "incr_measure d c n = (case sw_measure n of Some incr \<Rightarrow> n\<lparr>sw_world := incr d c (sw_world n)\<rparr> | None \<Rightarrow> n)"

definition do_send_payload :: "('s, 'w) env \<Rightarrow> did \<Rightarrow> message payload \<Rightarrow> (('s, 'w) node, unit) action" where
  "do_send_payload X d p =
     sbind (get_and_check_transport X d) (\<lambda>t.
     sbind (slift (ok_or t (SwarmMissDidInTable d))) (\<lambda>transport.
     sbind (slift (pl_to_bincode (en_bin X) p)) (\<lambda>data.
     sbind (on_world (tr_wait_for_data_channel_open (en_transport X) transport)) (\<lambda>_.
     sbind (attempt (on_world (tr_send_message (en_transport X) data transport))) (\<lambda>result.
     sbind (smod (\<lambda>n. case rl_next_hop (pl_relay p) of
              Some d \<Rightarrow> incr_measure d (if is_ok result then Sent else FailedToSend) n
            | None \<Rightarrow> n)) (\<lambda>_.
     slift result))))))"

definition send_payload :: "('s, 'w) env \<Rightarrow> message payload \<Rightarrow> (('s, 'w) node, unit) action" where
  "send_payload X p =
     (case rl_next_hop (pl_relay p) of
        Some d \<Rightarrow> do_send_payload X d p
      | None \<Rightarrow> serr NoNextHop)"

definition send_message :: "('s, 'w) env \<Rightarrow> message \<Rightarrow> did \<Rightarrow> (('s, 'w) node, uuid) action" where
  "send_message X msg destination =
     sbind (sget (\<lambda>n. chord_find_successor (sw_dht n) destination)) (\<lambda>r.
     sbind (slift r) (\<lambda>a.
     sbind (case a of
              PSome d \<Rightarrow> sret d
            | PRemoteAction d _ \<Rightarrow> sret d
            | _ \<Rightarrow> serr NoNextHop) (\<lambda>next_hop.
     sbind (seal_send X msg next_hop destination) (\<lambda>p.
     sbind (send_payload X p) (\<lambda>_.
     sret (pl_tx_id p))))))"

definition send_direct_message :: "('s, 'w) env \<Rightarrow> message \<Rightarrow> did \<Rightarrow> (('s, 'w) node, uuid) action" where
  "send_direct_message X msg destination =
     sbind (seal_send X msg destination destination) (\<lambda>p.
     sbind (send_payload X p) (\<lambda>_.
     sret (pl_tx_id p)))"

definition send_report_message ::
  "('s, 'w) env \<Rightarrow> message \<Rightarrow> uuid \<Rightarrow> message_relay \<Rightarrow> (('s, 'w) node, unit) action" where
  "send_report_message X msg tx_id relay =
     sbind (seal X (\<lambda>sm now u. MessagePayload_new_report (en_ecc X) (en_json X) now u msg tx_id sm relay))
       (send_payload X)"

definition forward_payload ::
  "('s, 'w) env \<Rightarrow> message payload \<Rightarrow> message_relay \<Rightarrow> (('s, 'w) node, unit) action" where
  "forward_payload X p relay =
     sbind (seal X (\<lambda>sm now u. MessagePayload_new (en_ecc X) (en_json X) now u (pl_data p) sm
                       (Stick (pl_origin_verification p)) relay)) (\<lambda>new_pl.
     send_payload X (new_pl\<lparr>pl_tx_id := pl_tx_id p\<rparr>))"

section \<open>Connecting\<close>

definition swarm_disconnect :: "('s, 'w) env \<Rightarrow> did \<Rightarrow> (('s, 'w) node, unit) action" where
  "swarm_disconnect X d =
     sbind (smod (\<lambda>n. n\<lparr>sw_dht := pr_remove d (sw_dht n)\<rparr>)) (\<lambda>_.
     sbind (remove_transport d) (\<lambda>r.
       case r of Some (_, tr) \<Rightarrow> close_transport X tr | None \<Rightarrow> sret ()))"

definition swarm_connect :: "('s, 'w) env \<Rightarrow> did \<Rightarrow> (('s, 'w) node, uuid) action" where
  "swarm_connect X d =
     sbind (get_and_check_transport X d) (\<lambda>t.
     case t of
       Some t \<Rightarrow> sret t
     | None \<Rightarrow>
         sbind (new_transport X) (\<lambda>transport.
         sbind (sget sw_session) (\<lambda>sm.
         sbind (on_world (tr_get_handshake_info (en_transport X) sm Offer transport)) (\<lambda>handshake_info.
         sbind (push_pending_transport transport) (\<lambda>_.
         sbind (send_message X (ConnectNodeSend (en_uuid_str X transport) (encoded_value handshake_info)) d) (\<lambda>_.
         sret transport))))))"

section \<open>Events\<close>

definition load_message ::
  "('s, 'w) env \<Rightarrow> event option result \<Rightarrow> (('s, 'w) node, message payload option) action" where
  "load_message X ev =
     sbind (slift ev) (\<lambda>ev.
     case ev of
       Some (DataChannelMessage msg) \<Rightarrow>
         sbind (slift (pl_from_bincode (en_unbin X) msg)) (\<lambda>p. sret (Some p))
     | Some (RegisterTransport d i) \<Rightarrow>
         sbind (attempt (find_pending_transport i)) (\<lambda>pending.
         sbind (case pending of
                  Inr (Some t) \<Rightarrow> sbind (register X d t) (\<lambda>_. pop_pending_transport i)
                | _ \<Rightarrow> sret ()) (\<lambda>_.
         sbind (sget (\<lambda>n. get_transport n d)) (\<lambda>t.
           case t of
             Some _ \<Rightarrow>
               sbind (sget sw_did) (\<lambda>me.
               sbind (seal_send X (JoinDHT d) me me) (\<lambda>p. sret (Some p)))
           | None \<Rightarrow> serr (SwarmMissTransport d))))
     | Some (ConnectClosed d i) \<Rightarrow>
         sbind (attempt (pop_pending_transport i)) (\<lambda>_.
         sbind (sget (\<lambda>n. get_transport n d)) (\<lambda>t.
           if t = Some i then
             sbind (remove_transport d) (\<lambda>r.
               if r \<noteq> None then
                 sbind (sget sw_did) (\<lambda>me.
                 sbind (seal_send X (LeaveDHT d) me me) (\<lambda>p. sret (Some p)))
               else sret None)
           else sret None))
     | None \<Rightarrow> sret None)"

text \<open>An error while loading is dropped; a panic is not.\<close>

definition poll_message :: "('s, 'w) env \<Rightarrow> (('s, 'w) node, message payload option) action" where
  "poll_message X =
     sbind (sget sw_did) (\<lambda>me.
     sbind (attempt (on_world (tr_recv (en_transport X) me))) (\<lambda>ev.
     sbind (attempt (load_message X ev)) (\<lambda>r.
       case r of Inr (Some msg) \<Rightarrow> sret (Some msg) | Inr None \<Rightarrow> sret None | Inl _ \<Rightarrow> sret None)))"

end
