(* ===== verification/Handlers.thy ===== *)
theory Handlers
  imports Swarm
begin

text \<open>
  What a node does with a message: \<open>rings-core/src/message/handlers/\<close> and
  \<open>dht/stabilization.rs\<close>. Every \<open>impl HandleMsg<T>\<close> is one action \<open>handle_T\<close>, from the code's
  first statement to its last; \<open>handle_message\<close> is the dispatch with validation and callback,
  \<open>handle_payload\<close> verification and measuring around it. \<open>ctx\<close> is the payload being handled.
\<close>

section \<open>Storage and subrings\<close>

text \<open>\<open>ChordStorageInterface for Swarm\<close>, \<open>handlers/storage.rs\<close>.\<close>

definition storage_check_cache :: "('s, 'w) node \<Rightarrow> did \<Rightarrow> virtual_node option" where
  "storage_check_cache n vid = local_cache_get (sw_dht n) vid"

definition storage_fetch :: "('s, 'w) env \<Rightarrow> did \<Rightarrow> (('s, 'w) node, unit) action" where
  "storage_fetch X vid =
     sbind (sget (\<lambda>n. vnode_lookup (en_persist X) (sw_dht n) vid)) (\<lambda>r.
     sbind (slift r) (\<lambda>a.
     case a of
       PNone \<Rightarrow> sret ()
     | PSomeVNode v \<Rightarrow> smod (\<lambda>n. n\<lparr>sw_dht := local_cache_set v (sw_dht n)\<rparr>)
     | PRemoteAction next_node _ \<Rightarrow> sbind (send_message X (SearchVNode vid) next_node) (\<lambda>_. sret ())
     | _ \<Rightarrow> serr PeerRingUnexpectedAction))"

text \<open>The match that the storing methods and \<open>subring_join\<close> share.\<close>

definition operate_or_send :: "('s, 'w) env \<Rightarrow> vnode_operation \<Rightarrow> (('s, 'w) node, unit) action" where
  "operate_or_send X op =
     sbind (on_ring (vnode_operate (en_codec X) (en_persist X) op)) (\<lambda>a.
     case a of
       PNone \<Rightarrow> sret ()
     | PRemoteAction target (FindVNodeForOperate op) \<Rightarrow>
         sbind (send_message X (OperateVNode op) target) (\<lambda>_. sret ())
     | _ \<Rightarrow> serr PeerRingUnexpectedAction)"

definition storage_store :: "('s, 'w) env \<Rightarrow> virtual_node \<Rightarrow> (('s, 'w) node, unit) action" where
  "storage_store X vnode = (let op = Overwrite vnode in operate_or_send X op)"

definition storage_append_data :: "('s, 'w) env \<Rightarrow> string \<Rightarrow> encoded \<Rightarrow> (('s, 'w) node, unit) action" where
  "storage_append_data X topic data =
     sbind (slift (vnode_of_topic (en_codec X) topic data)) (\<lambda>vnode.
     operate_or_send X (Extend vnode))"

definition storage_touch_data :: "('s, 'w) env \<Rightarrow> string \<Rightarrow> encoded \<Rightarrow> (('s, 'w) node, unit) action" where
  "storage_touch_data X topic data =
     sbind (slift (vnode_of_topic (en_codec X) topic data)) (\<lambda>vnode.
     operate_or_send X (Touch vnode))"

text \<open>\<open>SubringInterface for Swarm\<close>, \<open>handlers/subring.rs\<close>.\<close>

definition subring_join :: "('s, 'w) env \<Rightarrow> string \<Rightarrow> (('s, 'w) node, unit) action" where
  "subring_join X name = sbind (sget sw_did) (\<lambda>me. operate_or_send X (JoinSubring name me))"

definition handle_SearchVNode ::
  "('s, 'w) env \<Rightarrow> message payload \<Rightarrow> did \<Rightarrow> (('s, 'w) node, unit) action" where
  "handle_SearchVNode X ctx vid =
     sbind (sget (\<lambda>n. (sw_did n, vnode_lookup (en_persist X) (sw_dht n) vid))) (\<lambda>(me, r).
     sbind (slift r) (\<lambda>a.
     case a of
       PNone \<Rightarrow> sret ()
     | PSomeVNode v \<Rightarrow>
         sbind (slift (rl_relay me None (pl_relay ctx))) (\<lambda>relay.
         send_report_message X (FoundVNode [v]) (pl_tx_id ctx) relay)
     | PRemoteAction next_node _ \<Rightarrow>
         sbind (slift (rl_relay me (Some next_node) (pl_relay ctx))) (\<lambda>relay.
         forward_payload X ctx relay)
     | _ \<Rightarrow> serr PeerRingUnexpectedAction))"

definition handle_FoundVNode ::
  "('s, 'w) env \<Rightarrow> message payload \<Rightarrow> virtual_node list \<Rightarrow> (('s, 'w) node, unit) action" where
  "handle_FoundVNode X ctx data =
     sbind (sget sw_did) (\<lambda>me.
     sbind (slift (rl_relay me None (pl_relay ctx))) (\<lambda>relay.
     if rl_next_hop relay \<noteq> None then forward_payload X ctx relay
     else smod (\<lambda>n. n\<lparr>sw_dht := fold local_cache_set data (sw_dht n)\<rparr>)))"

definition handle_OperateVNode ::
  "('s, 'w) env \<Rightarrow> message payload \<Rightarrow> vnode_operation \<Rightarrow> (('s, 'w) node, unit) action" where
  "handle_OperateVNode X ctx op =
     sbind (on_ring (vnode_operate (en_codec X) (en_persist X) op)) (\<lambda>a.
     case a of
       PNone \<Rightarrow> sret ()
     | PRemoteAction next_node _ \<Rightarrow>
         sbind (sget sw_did) (\<lambda>me.
         sbind (slift (rl_reset_destination next_node (pl_relay ctx))) (\<lambda>relay.
         sbind (slift (rl_relay me (Some next_node) relay)) (\<lambda>relay.
         forward_payload X ctx relay)))
     | _ \<Rightarrow> serr PeerRingUnexpectedAction)"

text \<open>A loop of actions that stops at the first error.\<close>

fun for_each :: "('a \<Rightarrow> ('s, unit) action) \<Rightarrow> 'a list \<Rightarrow> ('s, unit) action" where
  "for_each f [] = sret ()"
| "for_each f (x # xs) = sbind (f x) (\<lambda>_. for_each f xs)"

definition handle_SyncVNodeWithSuccessor ::
  "('s, 'w) env \<Rightarrow> message payload \<Rightarrow> virtual_node list \<Rightarrow> (('s, 'w) node, unit) action" where
  "handle_SyncVNodeWithSuccessor X ctx data = for_each (storage_store X) data"

section \<open>Connections\<close>

text \<open>\<open>handlers/connection.rs\<close>. \<open>pick_next_hop\<close> is the match that picks the next hop to a destination.\<close>

definition pick_next_hop :: "did \<Rightarrow> (('s, 'w) node, did) action" where
  "pick_next_hop destination =
     sbind (sget (\<lambda>n. chord_find_successor (sw_dht n) destination)) (\<lambda>r.
     sbind (slift r) (\<lambda>a.
     case a of
       PSome d \<Rightarrow> sret d
     | PRemoteAction d _ \<Rightarrow> sret d
     | _ \<Rightarrow> serr MessageHandlerMissNextNode))"

definition relay_and_forward ::
  "('s, 'w) env \<Rightarrow> message payload \<Rightarrow> did \<Rightarrow> (('s, 'w) node, unit) action" where
  "relay_and_forward X ctx hop =
     sbind (sget sw_did) (\<lambda>me.
     sbind (slift (rl_relay me (Some hop) (pl_relay ctx))) (\<lambda>relay.
     forward_payload X ctx relay))"

definition handle_LeaveDHT ::
  "('s, 'w) env \<Rightarrow> message payload \<Rightarrow> did \<Rightarrow> (('s, 'w) node, unit) action" where
  "handle_LeaveDHT X ctx d = swarm_disconnect X d"

definition handle_JoinDHT ::
  "('s, 'w) env \<Rightarrow> message payload \<Rightarrow> did \<Rightarrow> (('s, 'w) node, unit) action" where
  "handle_JoinDHT X ctx d =
     sbind (on_ring (chord_join d)) (\<lambda>a.
     case a of
       PNone \<Rightarrow> sret ()
     | PRemoteAction next_node (FindSuccessorForConnect d) \<Rightarrow>
         if next_node \<noteq> pl_addr ctx then
           sbind (send_direct_message X (FindSuccessorSend d False (ThenReport HandlerConnect)) next_node)
             (\<lambda>_. sret ())
         else sret ()
     | _ \<Rightarrow> serr (Panicked ''unreachable''))"

definition handle_ConnectNodeSend ::
  "('s, 'w) env \<Rightarrow> message payload \<Rightarrow> string \<Rightarrow> string \<Rightarrow> (('s, 'w) node, unit) action" where
  "handle_ConnectNodeSend X ctx transport_uuid handshake_info =
     sbind (sget sw_did) (\<lambda>me.
     let destination = rl_destination (pl_relay ctx) in
     if me \<noteq> destination then
       sbind (get_and_check_transport X destination) (\<lambda>t.
       if t \<noteq> None then relay_and_forward X ctx destination
       else sbind (pick_next_hop destination) (\<lambda>hop. relay_and_forward X ctx hop))
     else
       sbind (slift (rl_relay me None (pl_relay ctx))) (\<lambda>relay.
       sbind (slift (rl_sender relay)) (\<lambda>sender.
       sbind (get_and_check_transport X sender) (\<lambda>t.
       case t of
         None \<Rightarrow>
           sbind (new_transport X) (\<lambda>tr.
           sbind (on_world (tr_register_remote_info (en_transport X) (Encoded handshake_info) tr)) (\<lambda>_.
           sbind (sget sw_session) (\<lambda>sm.
           sbind (on_world (tr_get_handshake_info (en_transport X) sm Answer tr)) (\<lambda>handshake_info.
           sbind (send_report_message X (ConnectNodeReport transport_uuid (encoded_value handshake_info))
                    (pl_tx_id ctx) relay) (\<lambda>_.
           push_pending_transport tr)))))
       | Some _ \<Rightarrow> send_report_message X AlreadyConnected (pl_tx_id ctx) relay))))"

definition handle_ConnectNodeReport ::
  "('s, 'w) env \<Rightarrow> message payload \<Rightarrow> string \<Rightarrow> string \<Rightarrow> (('s, 'w) node, unit) action" where
  "handle_ConnectNodeReport X ctx transport_uuid handshake_info =
     sbind (sget sw_did) (\<lambda>me.
     sbind (slift (rl_relay me None (pl_relay ctx))) (\<lambda>relay.
     if rl_next_hop relay \<noteq> None then forward_payload X ctx relay
     else
       sbind (slift (ok_or (en_uuid_from_str X transport_uuid) InvalidTransportUuid)) (\<lambda>i.
       sbind (find_pending_transport i) (\<lambda>t.
       sbind (slift (ok_or t MessageHandlerMissTransportConnectedNode)) (\<lambda>transport.
       sbind (on_world (tr_register_remote_info (en_transport X) (Encoded handshake_info) transport)) (\<lambda>_.
       sret ()))))))"

definition handle_AlreadyConnected ::
  "('s, 'w) env \<Rightarrow> message payload \<Rightarrow> (('s, 'w) node, unit) action" where
  "handle_AlreadyConnected X ctx =
     sbind (sget sw_did) (\<lambda>me.
     sbind (slift (rl_relay me None (pl_relay ctx))) (\<lambda>relay.
     if rl_next_hop relay \<noteq> None then forward_payload X ctx relay
     else
       sbind (slift (rl_sender relay)) (\<lambda>sender.
       sbind (get_and_check_transport X sender) (\<lambda>t.
       slift (case t of Some _ \<Rightarrow> Inr () | None \<Rightarrow> Inl MessageHandlerMissTransportAlreadyConnected)))))"

definition handle_FindSuccessorSend ::
  "('s, 'w) env \<Rightarrow> message payload \<Rightarrow> did \<Rightarrow> bool \<Rightarrow> find_successor_then \<Rightarrow> (('s, 'w) node, unit) action" where
  "handle_FindSuccessorSend X ctx msg_did strict th =
     sbind (sget (\<lambda>n. (sw_did n, chord_find_successor (sw_dht n) msg_did))) (\<lambda>(me, r).
     sbind (slift r) (\<lambda>a.
     case a of
       PSome d \<Rightarrow>
         if \<not> strict \<or> me = msg_did then
           (case th of ThenReport h \<Rightarrow>
              sbind (slift (rl_relay me None (pl_relay ctx))) (\<lambda>relay.
              send_report_message X (FindSuccessorReport d h) (pl_tx_id ctx) relay))
         else
           sbind (get_and_check_transport X msg_did) (\<lambda>t.
           if t \<noteq> None then
             sbind (slift (rl_relay me (Some (rl_destination (pl_relay ctx))) (pl_relay ctx))) (\<lambda>relay.
             forward_payload X ctx relay)
           else serr MessageHandlerMissNextNode)
     | PRemoteAction next_node _ \<Rightarrow>
         sbind (slift (rl_relay me (Some next_node) (pl_relay ctx))) (\<lambda>relay.
         sbind (slift (rl_reset_destination next_node relay)) (\<lambda>relay.
         forward_payload X ctx relay))
     | _ \<Rightarrow> serr PeerRingUnexpectedAction))"

text \<open>
  Handing over the vnodes past a new successor, after a report or a notification: an error of
  the storage is ignored, one of the sending is not.
\<close>

definition sync_and_send :: "('s, 'w) env \<Rightarrow> did \<Rightarrow> (('s, 'w) node, unit) action" where
  "sync_and_send X d =
     sbind (attempt (on_ring (sync_vnode_with_successor (en_persist X) d))) (\<lambda>r.
     case r of
       Inr (PRemoteAction next_node (SyncVNodeWithSuccessor data)) \<Rightarrow>
         sbind (send_message X (MSyncVNodeWithSuccessor data) next_node) (\<lambda>_. sret ())
     | _ \<Rightarrow> sret ())"

definition update_successor :: "did \<Rightarrow> ('s, 'w) node \<Rightarrow> ('s, 'w) node" where
  "update_successor d n = n\<lparr>sw_dht := (sw_dht n)\<lparr>pr_successor := ss_update (pr_successor (sw_dht n)) d\<rparr>\<rparr>"

definition handle_FindSuccessorReport ::
  "('s, 'w) env \<Rightarrow> message payload \<Rightarrow> did \<Rightarrow> report_handler \<Rightarrow> (('s, 'w) node, unit) action" where
  "handle_FindSuccessorReport X ctx msg_did h =
     sbind (sget sw_did) (\<lambda>me.
     sbind (slift (rl_relay me None (pl_relay ctx))) (\<lambda>relay.
     if rl_next_hop relay \<noteq> None then forward_payload X ctx relay
     else case h of
       HandlerFixFingerTable \<Rightarrow>
         smod (\<lambda>n. n\<lparr>sw_dht := (sw_dht n)\<lparr>pr_finger := ft_set_fix (pr_finger (sw_dht n)) msg_did\<rparr>\<rparr>)
     | HandlerConnect \<Rightarrow>
         sbind (get_and_check_transport X msg_did) (\<lambda>t.
         if t = None \<and> msg_did \<noteq> me then sbind (swarm_connect X msg_did) (\<lambda>_. sret ()) else sret ())
     | HandlerSyncStorage \<Rightarrow>
         sbind (smod (update_successor msg_did)) (\<lambda>_. sync_and_send X msg_did)
     | _ \<Rightarrow> sret ()))"

section \<open>Stabilisation messages\<close>

text \<open>\<open>handlers/stabilization.rs\<close>.\<close>

definition handle_NotifyPredecessorSend ::
  "('s, 'w) env \<Rightarrow> message payload \<Rightarrow> did \<Rightarrow> (('s, 'w) node, unit) action" where
  "handle_NotifyPredecessorSend X ctx msg_did =
     sbind (sget (\<lambda>n. (sw_did n, pr_predecessor (sw_dht n)))) (\<lambda>(me, predecessor).
     sbind (slift (rl_relay me None (pl_relay ctx))) (\<lambda>relay.
     sbind (smod (\<lambda>n. n\<lparr>sw_dht := snd (chord_notify msg_did (sw_dht n))\<rparr>)) (\<lambda>_.
     case predecessor of
       Some d \<Rightarrow>
         sbind (slift (rl_origin relay)) (\<lambda>origin.
         if d \<noteq> origin then send_report_message X (NotifyPredecessorReport d) (pl_tx_id ctx) relay
         else sret ())
     | None \<Rightarrow> sret ())))"

definition handle_NotifyPredecessorReport ::
  "('s, 'w) env \<Rightarrow> message payload \<Rightarrow> did \<Rightarrow> (('s, 'w) node, unit) action" where
  "handle_NotifyPredecessorReport X ctx msg_did =
     sbind (get_and_check_transport X msg_did) (\<lambda>t.
     sbind (sget sw_did) (\<lambda>me.
     if t = None \<and> msg_did \<noteq> me then sbind (swarm_connect X msg_did) (\<lambda>_. sret ())
     else
       sbind (smod (update_successor msg_did)) (\<lambda>_. sync_and_send X msg_did)))"

section \<open>Custom messages\<close>

text \<open>\<open>handlers/custom.rs\<close>: a message for another node is passed on.\<close>

definition handle_CustomMessage ::
  "('s, 'w) env \<Rightarrow> message payload \<Rightarrow> custom_message maybe_encrypted \<Rightarrow> (('s, 'w) node, unit) action" where
  "handle_CustomMessage X ctx msg =
     sbind (sget (\<lambda>n. (sw_did n, get_transport n (rl_destination (pl_relay ctx))))) (\<lambda>(me, t).
     let destination = rl_destination (pl_relay ctx) in
     if me \<noteq> destination then
       if t \<noteq> None then relay_and_forward X ctx destination
       else sbind (pick_next_hop destination) (\<lambda>hop. relay_and_forward X ctx hop)
     else sret ())"

section \<open>Dispatch\<close>

text \<open>
  \<open>handlers/mod.rs\<close>. The callback and the validator are trait objects of the application:
  actions on the node of which the code uses no error, only the panic.
\<close>

record ('s, 'w) message_callback =
  cb_custom_message :: "message payload \<Rightarrow> custom_message maybe_encrypted \<Rightarrow> (('s, 'w) node, unit) action"
  cb_builtin_message :: "message payload \<Rightarrow> (('s, 'w) node, unit) action"

record ('s, 'w) message_handler =
  mh_callback :: "('s, 'w) message_callback option"
  mh_validator :: "(message payload \<Rightarrow> (('s, 'w) node, string option) action) option"

definition invoke_callback ::
  "('s, 'w) message_handler \<Rightarrow> message payload \<Rightarrow> (('s, 'w) node, unit) action" where
  "invoke_callback H p =
     (case mh_callback H of
        Some cb \<Rightarrow>
          (case pl_data p of
             CustomMessage msg \<Rightarrow>
               sbind (sget sw_did) (\<lambda>me.
               if me = rl_destination (pl_relay p) then cb_custom_message cb p msg else sret ())
           | _ \<Rightarrow> cb_builtin_message cb p)
      | None \<Rightarrow> sret ())"

definition validate ::
  "('s, 'w) message_handler \<Rightarrow> message payload \<Rightarrow> (('s, 'w) node, unit) action" where
  "validate H p =
     (case mh_validator H of
        Some v \<Rightarrow>
          sbind (v p) (\<lambda>info. case info of Some i \<Rightarrow> serr (InvalidMessage i) | None \<Rightarrow> sret ())
      | None \<Rightarrow> sret ())"

definition decrypt_msg ::
  "custom_message cipher \<Rightarrow> ('s, 'w) node \<Rightarrow> custom_message maybe_encrypted \<Rightarrow> custom_message result" where
  "decrypt_msg Z n msg =
     rbind (maybe_decrypt Z (sk_session_key (sw_session n)) msg) (\<lambda>(m, _). Inr m)"

text \<open>
  The loop over the parts of a \<open>MultiCall\<close>: every part is sealed again with the origin
  verification of the whole, and its own failure does not stop the loop.
\<close>

fun multi_call ::
  "('s, 'w) env \<Rightarrow> message payload \<Rightarrow> (message \<times> (message payload \<Rightarrow> (('s, 'w) node, unit) action)) list
     \<Rightarrow> (('s, 'w) node, unit) action" where
  "multi_call X p [] = sret ()"
| "multi_call X p ((m, handle) # rest) =
     sbind (seal X (\<lambda>sm now u. MessagePayload_new (en_ecc X) (en_json X) now u m sm
                       (Stick (pl_origin_verification p)) (pl_relay p))) (\<lambda>q.
     sbind (attempt (handle q)) (\<lambda>_.
     multi_call X p rest))"

text \<open>The first message argument is the payload's data, on which the recursion goes.\<close>

fun handle_data ::
  "('s, 'w) env \<Rightarrow> ('s, 'w) message_handler \<Rightarrow> message \<Rightarrow> message payload \<Rightarrow> (('s, 'w) node, unit) action" where
  "handle_data X H msg p =
     sbind (validate H p) (\<lambda>_.
     sbind (case msg of
         JoinDHT d \<Rightarrow> handle_JoinDHT X p d
       | LeaveDHT d \<Rightarrow> handle_LeaveDHT X p d
       | ConnectNodeSend u h \<Rightarrow> handle_ConnectNodeSend X p u h
       | ConnectNodeReport u h \<Rightarrow> handle_ConnectNodeReport X p u h
       | AlreadyConnected \<Rightarrow> handle_AlreadyConnected X p
       | FindSuccessorSend d strict th \<Rightarrow> handle_FindSuccessorSend X p d strict th
       | FindSuccessorReport d h \<Rightarrow> handle_FindSuccessorReport X p d h
       | NotifyPredecessorSend d \<Rightarrow> handle_NotifyPredecessorSend X p d
       | NotifyPredecessorReport d \<Rightarrow> handle_NotifyPredecessorReport X p d
       | SearchVNode vid \<Rightarrow> handle_SearchVNode X p vid
       | FoundVNode data \<Rightarrow> handle_FoundVNode X p data
       | OperateVNode op \<Rightarrow> handle_OperateVNode X p op
       | CustomMessage m \<Rightarrow> handle_CustomMessage X p m
       | MultiCall ms \<Rightarrow> multi_call X p (map (\<lambda>m. (m, handle_data X H m)) ms)
       | MSyncVNodeWithSuccessor data \<Rightarrow> serr MessageHandlerUnsupportedMessageType) (\<lambda>_.
     sbind (attempt (invoke_callback H p)) (\<lambda>_. sret ())))"

declare handle_data.simps [simp del]

definition handle_message ::
  "('s, 'w) env \<Rightarrow> ('s, 'w) message_handler \<Rightarrow> message payload \<Rightarrow> (('s, 'w) node, unit) action" where
  "handle_message X H p = handle_data X H (pl_data p) p"

definition handle_payload ::
  "('s, 'w) env \<Rightarrow> ('s, 'w) message_handler \<Rightarrow> message payload \<Rightarrow> (('s, 'w) node, unit option) action" where
  "handle_payload X H p =
     sbind (sget (\<lambda>n. pl_verify (en_ecc X) (en_json X) (tr_now (en_transport X) (sw_world n)) p)) (\<lambda>ok.
     if \<not> ok then sret None
     else
       sbind (attempt (handle_message X H p)) (\<lambda>r.
       if is_ok r then sbind (smod (incr_measure (pl_addr p) Received)) (\<lambda>_. sret (Some ()))
       else sbind (smod (incr_measure (pl_addr p) FailedToReceive)) (\<lambda>_. sret None)))"

definition listen_once ::
  "('s, 'w) env \<Rightarrow> ('s, 'w) message_handler \<Rightarrow> (('s, 'w) node, message payload option) action" where
  "listen_once X H =
     sbind (poll_message X) (\<lambda>r.
     case r of
       None \<Rightarrow> sret None
     | Some p \<Rightarrow> sbind (handle_payload X H p) (\<lambda>h.
         case h of None \<Rightarrow> sret None | Some _ \<Rightarrow> sret (Some p)))"

section \<open>Stabilisation\<close>

text \<open>\<open>dht/stabilization.rs\<close>: one round, run by \<open>wait\<close> at every timeout.\<close>

definition notify_predecessor :: "('s, 'w) env \<Rightarrow> (('s, 'w) node, unit) action" where
  "notify_predecessor X =
     sbind (sget (\<lambda>n. (ss_min (pr_successor (sw_dht n)), ss_list (pr_successor (sw_dht n)), sw_did n)))
       (\<lambda>(successor_min, successor_list, me).
     if me \<noteq> successor_min then
       for_each (\<lambda>s. sbind (seal_send X (NotifyPredecessorSend me) s me) (send_payload X)) successor_list
     else sret ())"

definition stab_fix_fingers :: "('s, 'w) env \<Rightarrow> (('s, 'w) node, unit) action" where
  "stab_fix_fingers X =
     sbind (on_ring chord_fix_fingers) (\<lambda>a.
     case a of
       PNone \<Rightarrow> sret ()
     | PRemoteAction next_node (FindSuccessorForFix current) \<Rightarrow>
         sbind (sget sw_did) (\<lambda>me.
         sbind (seal_send X (FindSuccessorSend current True (ThenReport HandlerFixFingerTable)) next_node me)
           (\<lambda>p. sbind (send_payload X p) (\<lambda>_. sret ())))
     | _ \<Rightarrow> serr (Panicked ''unreachable''))"

definition stabilize :: "('s, 'w) env \<Rightarrow> (('s, 'w) node, unit) action" where
  "stabilize X =
     sbind (attempt (notify_predecessor X)) (\<lambda>_.
     sbind (attempt (stab_fix_fingers X)) (\<lambda>_.
     sret ()))"

end
