(* ===== verification/NodeError.thy ===== *)
theory NodeError
  imports Handlers
begin

text \<open>
  The error type of the node crate, \<open>rings-node/src/error.rs\<close>, and the conversion of the
  errors of the core crate into it. \<open>NodePanicked\<close> stands for a panic, as \<open>Panicked\<close> does in
  the core crate: \<open>map_err\<close> does not catch one.
\<close>

datatype (plugins only: code) node_error =
    RemoteRpcError string
  | PendingTransport error
  | TransportNotFound
  | NewTransportError
  | CloseTransportError error
  | DecodedError
  | EncodedError
  | RegisterIceError error
  | CreateOffer error
  | CreateAnswer error
  | InvalidTransportId
  | InvalidDid
  | JsonSerializeError
  | JsonDeserializeError
  | InvalidMethod
  | InternalError
  | ConnectWithDidError error
  | ConnectError error
  | SendMessage error
  | MessagePayloadError error
  | NoPermission
  | VNodeError error
  | ServiceRegisterError error
  | JsError string
  | HttpRequestError string
  | InvalidMessageError
  | NotSupportMessage
  | SerializeError
  | DeserializeErr
  | InvalidUrl
  | InvalidData
  | InvalidService
  | InvalidAddress
  | InvalidAuthData
  | StorageError error
  | SwarmError error
  | CreateFileError string
  | OpenFileError string
  | NodePanicked string

fun node_error_index :: "node_error \<Rightarrow> int" where
  "node_error_index (RemoteRpcError _) = 0"
| "node_error_index (PendingTransport _) = 1"
| "node_error_index TransportNotFound = 2"
| "node_error_index NewTransportError = 3"
| "node_error_index (CloseTransportError _) = 4"
| "node_error_index DecodedError = 5"
| "node_error_index EncodedError = 6"
| "node_error_index (RegisterIceError _) = 7"
| "node_error_index (CreateOffer _) = 8"
| "node_error_index (CreateAnswer _) = 9"
| "node_error_index InvalidTransportId = 10"
| "node_error_index InvalidDid = 11"
| "node_error_index JsonSerializeError = 12"
| "node_error_index JsonDeserializeError = 13"
| "node_error_index InvalidMethod = 14"
| "node_error_index InternalError = 15"
| "node_error_index (ConnectWithDidError _) = 16"
| "node_error_index (ConnectError _) = 17"
| "node_error_index (SendMessage _) = 18"
| "node_error_index (MessagePayloadError _) = 19"
| "node_error_index NoPermission = 20"
| "node_error_index (VNodeError _) = 21"
| "node_error_index (JsError _) = 22"
| "node_error_index (HttpRequestError _) = 23"
| "node_error_index InvalidMessageError = 24"
| "node_error_index NotSupportMessage = 25"
| "node_error_index SerializeError = 26"
| "node_error_index DeserializeErr = 27"
| "node_error_index InvalidUrl = 28"
| "node_error_index InvalidData = 29"
| "node_error_index InvalidService = 30"
| "node_error_index (ServiceRegisterError _) = 31"
| "node_error_index InvalidAddress = 32"
| "node_error_index InvalidAuthData = 33"
| "node_error_index (StorageError _) = 34"
| "node_error_index (SwarmError _) = 35"
| "node_error_index (CreateFileError _) = 36"
| "node_error_index (OpenFileError _) = 37"
| "node_error_index (NodePanicked _) = 38"

text \<open>The last equation is there for totality: a panic has no code and is never reported.\<close>

definition node_error_code :: "node_error \<Rightarrow> int" where
  "node_error_code e = (let code = node_error_index e in - 32000 - code)"

lemma node_error_code_range: "- 32038 \<le> node_error_code e \<and> node_error_code e \<le> - 32000"
  by (cases e) (simp_all add: node_error_code_def)

text \<open>\<open>.map_err(f)\<close> on a result of the core crate.\<close>

definition into_node_error :: "(error \<Rightarrow> node_error) \<Rightarrow> error \<Rightarrow> node_error" where
  "into_node_error f e = (case e of Panicked m \<Rightarrow> NodePanicked m | _ \<Rightarrow> f e)"

abbreviation core :: "(error \<Rightarrow> node_error) \<Rightarrow> ('s, 'a) action \<Rightarrow> ('s, node_error, 'a) eaction" where
  "core f m \<equiv> map_err (into_node_error f) m"

text \<open>Running an action of the node crate for its result: a panic goes on, an error is a value.\<close>

definition attempt_node :: "('s, node_error, 'a) eaction \<Rightarrow> ('s, node_error, node_error + 'a) eaction" where
  "attempt_node m s = (case m s of
       (Inl (NodePanicked p), s) \<Rightarrow> (Inl (NodePanicked p), s)
     | (Inl e, s) \<Rightarrow> (Inr (Inl e), s)
     | (Inr x, s) \<Rightarrow> (Inr (Inr x), s))"

lemma attempt_node_snd [simp]: "snd (attempt_node m s) = snd (m s)"
  by (simp add: attempt_node_def split: prod.split sum.split node_error.split)

lemma keeps_attempt_node: "keeps R m \<Longrightarrow> keeps R (attempt_node m)"
  by (simp add: keeps_def)

end
