(* ===== verification/Chunk.thy ===== *)
theory Chunk
  imports Payload
begin

text \<open>
  Message chunking: \<open>rings-core/src/chunk.rs\<close>. A \<open>ChunkList\<close> is the list of its chunks; the
  constant parameter \<open>MTU\<close>, the clock and the fresh identifier of a message are arguments.
  Positions and totals are only compared, so they are natural numbers.
\<close>

definition TRANSPORT_MTU :: nat where "TRANSPORT_MTU = 60000"
definition TRANSPORT_MAX_SIZE :: nat where "TRANSPORT_MAX_SIZE = TRANSPORT_MTU * 16"

record chunk_meta =
  cm_id :: uuid
  cm_ts_ms :: u128
  cm_ttl_ms :: usize

record chunk =
  ch_chunk :: "nat \<times> nat"
  ch_data :: bytes
  ch_meta :: chunk_meta

definition tx_eq :: "chunk \<Rightarrow> chunk \<Rightarrow> bool" where
  "tx_eq a b \<longleftrightarrow> cm_id (ch_meta a) = cm_id (ch_meta b) \<and> snd (ch_chunk a) = snd (ch_chunk b)"

definition chunk_to_bincode :: "(chunk \<Rightarrow> bytes option) \<Rightarrow> chunk \<Rightarrow> bytes result" where
  "chunk_to_bincode ser_chunk c = ok_or (ser_chunk c) BincodeSerialize"

definition chunk_from_bincode :: "(bytes \<Rightarrow> chunk option) \<Rightarrow> bytes \<Rightarrow> chunk result" where
  "chunk_from_bincode de_chunk data = ok_or (de_chunk data) BincodeDeserialize"

definition ChunkMeta_default :: "uuid \<Rightarrow> u128 \<Rightarrow> chunk_meta" where
  "ChunkMeta_default fresh now = \<lparr>cm_id = fresh, cm_ts_ms = now, cm_ttl_ms = DEFAULT_TTL_MS\<rparr>"

text \<open>\<open>Vec::dedup_by_key\<close> drops an element equal to its predecessor.\<close>

fun dedup_by_key :: "('a \<Rightarrow> 'k) \<Rightarrow> 'a list \<Rightarrow> 'a list" where
  "dedup_by_key f (x # y # xs) =
     (if f x = f y then dedup_by_key f (x # xs) else x # dedup_by_key f (y # xs))"
| "dedup_by_key f xs = xs"

definition cl_formalize :: "chunk list \<Rightarrow> chunk list" where
  "cl_formalize l =
     (let chunks = l; chunks = dedup_by_key (\<lambda>c. fst (ch_chunk c)) chunks
      in sort_key (\<lambda>a. fst (ch_chunk a)) chunks)"

definition cl_search :: "chunk list \<Rightarrow> uuid \<Rightarrow> chunk list" where
  "cl_search l i = cl_formalize (filter (\<lambda>e. cm_id (ch_meta e) = i) l)"

definition cl_is_completed :: "chunk list \<Rightarrow> bool" where
  "cl_is_completed l =
     (case cl_formalize l of
        [] \<Rightarrow> False
      | c # cs \<Rightarrow> length (c # cs) = snd (ch_chunk c))"

definition cl_try_withdraw :: "chunk list \<Rightarrow> bytes option" where
  "cl_try_withdraw l =
     (if \<not> cl_is_completed l then None
      else let data = cl_formalize l in Some (concat (map ch_data data)))"

text \<open>\<open>slice::chunks\<close>, which panics for size 0; the source fixes a positive \<open>MTU\<close>.\<close>

fun slice_chunks :: "nat \<Rightarrow> 'a list \<Rightarrow> 'a list list" where
  "slice_chunks n xs =
     (if xs = [] \<or> n = 0 then [] else take n xs # slice_chunks n (drop n xs))"

declare slice_chunks.simps [simp del]

definition cl_from_bytes :: "nat \<Rightarrow> chunk_meta \<Rightarrow> bytes \<Rightarrow> chunk list" where
  "cl_from_bytes MTU meta bs =
     (let chunks = slice_chunks MTU bs; chunks_len = length chunks
      in map (\<lambda>(i, data). \<lparr>ch_chunk = (i, chunks_len), ch_data = data, ch_meta = meta\<rparr>)
           (enumerate 0 chunks))"

text \<open>\<open>Itertools::group_by\<close>: runs of consecutive equal elements, with the first of each run.\<close>

function group_runs :: "('a \<Rightarrow> 'a \<Rightarrow> bool) \<Rightarrow> 'a list \<Rightarrow> 'a list list" where
  "group_runs eq [] = []"
| "group_runs eq (x # xs) =
     (x # takeWhile (eq x) xs) # group_runs eq (dropWhile (eq x) xs)"
  by pat_completeness auto
termination
  by (relation "measure (\<lambda>(eq, xs). length xs)") (auto simp: less_Suc_eq_le length_dropWhile_le)

definition cl_list_completed :: "chunk list \<Rightarrow> uuid list" where
  "cl_list_completed l =
     map (\<lambda>g. cm_id (ch_meta (hd g))) (filter cl_is_completed (group_runs tx_eq l))"

definition cl_list_pending :: "chunk list \<Rightarrow> uuid list" where
  "cl_list_pending l =
     map (\<lambda>g. cm_id (ch_meta (hd g))) (filter (\<lambda>g. \<not> cl_is_completed g) (group_runs tx_eq l))"

definition cl_get :: "chunk list \<Rightarrow> uuid \<Rightarrow> bytes option" where
  "cl_get l i = cl_try_withdraw (cl_search l i)"

definition cl_remove :: "uuid \<Rightarrow> chunk list \<Rightarrow> chunk list" where
  "cl_remove i l = filter (\<lambda>e. cm_id (ch_meta e) \<noteq> i) l"

definition chunk_alive :: "u128 \<Rightarrow> chunk \<Rightarrow> bool" where
  "chunk_alive now e \<longleftrightarrow> cm_ts_ms (ch_meta e) + ucast (cm_ttl_ms (ch_meta e)) > now"

definition cl_remove_expired :: "u128 \<Rightarrow> chunk list \<Rightarrow> chunk list" where
  "cl_remove_expired now l = filter (chunk_alive now) l"

definition cl_handle :: "u128 \<Rightarrow> chunk \<Rightarrow> chunk list \<Rightarrow> bytes option \<times> chunk list" where
  "cl_handle now c l =
     (if cm_ttl_ms (ch_meta c) > MAX_TTL_MS then (None, l)
      else if cm_ts_ms (ch_meta c) - TS_OFFSET_TOLERANCE_MS > now then (None, l)
      else
        let l = l @ [c]; l = cl_remove_expired now l; i = cm_id (ch_meta c) in
        case cl_get l i of
          None \<Rightarrow> (None, l)
        | Some data \<Rightarrow> (Some data, cl_remove i l))"

section \<open>Reassembly\<close>

lemma concat_slice_chunks: "n > 0 \<Longrightarrow> concat (slice_chunks n xs) = xs"
proof (induction n xs rule: slice_chunks.induct)
  case (1 n xs)
  show ?case
  proof (cases "xs = []")
    case True
    then show ?thesis by (simp add: slice_chunks.simps [of n "[]"])
  next
    case False
    then show ?thesis using 1 by (simp add: slice_chunks.simps [of n xs])
  qed
qed

lemma slice_chunks_Nil_iff: "n > 0 \<Longrightarrow> slice_chunks n xs = [] \<longleftrightarrow> xs = []"
  by (simp add: slice_chunks.simps [of n xs])

lemma cl_from_bytes_props:
  fixes MTU meta bs
  defines "cs \<equiv> cl_from_bytes MTU meta bs"
  shows "length cs = length (slice_chunks MTU bs)"
    and "map (\<lambda>c. fst (ch_chunk c)) cs = [0..<length cs]"
    and "\<And>c. c \<in> set cs \<Longrightarrow> snd (ch_chunk c) = length cs \<and> ch_meta c = meta"
    and "MTU > 0 \<Longrightarrow> concat (map ch_data cs) = bs"
proof -
  let ?f = "\<lambda>(i, data). \<lparr>ch_chunk = (i, length (slice_chunks MTU bs)), ch_data = data, ch_meta = meta\<rparr>"
  have cs: "cs = map ?f (enumerate 0 (slice_chunks MTU bs))"
    by (simp add: cs_def cl_from_bytes_def Let_def)
  then show len: "length cs = length (slice_chunks MTU bs)" by simp
  have "(\<lambda>c. fst (ch_chunk c)) \<circ> ?f = fst" "ch_data \<circ> ?f = snd" by (auto simp: fun_eq_iff)
  then show "map (\<lambda>c. fst (ch_chunk c)) cs = [0..<length cs]"
    "MTU > 0 \<Longrightarrow> concat (map ch_data cs) = bs"
    by (simp_all add: cs concat_slice_chunks)
  show "\<And>c. c \<in> set cs \<Longrightarrow> snd (ch_chunk c) = length cs \<and> ch_meta c = meta"
    unfolding len by (auto simp: cs)
qed

text \<open>
  \<open>formalize\<close> removes neighbours only, before sorting; applied twice, as \<open>get\<close> does through
  \<open>search\<close> and \<open>try_withdraw\<close>, it removes every repetition.
\<close>

lemma set_dedup_by_key:
  "set (dedup_by_key f xs) \<subseteq> set xs"
  "inj_on f (set xs) \<Longrightarrow> set (dedup_by_key f xs) = set xs"
proof (induction f xs rule: dedup_by_key.induct)
  case (1 f x y xs)
  { case 1 then show ?case using "1.IH" by (auto split: if_splits) }
  { case 2 then show ?case using "1.IH" by (auto simp: inj_on_def) }
qed auto

lemma sorted_dedup_by_key:
  "sorted (map f xs) \<Longrightarrow> sorted_wrt (<) (map f (dedup_by_key f xs))"
proof (induction f xs rule: dedup_by_key.induct)
  case (1 f x y xs)
  show ?case
  proof (cases "f x = f y")
    case True
    then show ?thesis using 1 by simp
  next
    case False
    then have "f x < f y" using 1(3) by (simp add: le_less)
    moreover have "f y \<le> f z" if "z \<in> set (dedup_by_key f (y # xs))" for z
      using that set_dedup_by_key(1) [of f "y # xs"] 1(3) by fastforce
    ultimately show ?thesis using 1 False by (fastforce simp: less_le_trans)
  qed
qed auto

lemma formalize_twice:
  assumes "inj_on (\<lambda>c. fst (ch_chunk c)) (set l)"
  shows "set (cl_formalize (cl_formalize l)) = set l"
    and "sorted_wrt (<) (map (\<lambda>c. fst (ch_chunk c)) (cl_formalize (cl_formalize l)))"
proof -
  let ?k = "\<lambda>c. fst (ch_chunk c)"
  have one: "set (cl_formalize l) = set l" if "inj_on ?k (set l)" for l
    using that by (simp add: cl_formalize_def set_dedup_by_key(2))
  then show "set (cl_formalize (cl_formalize l)) = set l" using assms by metis
  have "sorted (map ?k (cl_formalize l))" by (simp add: cl_formalize_def)
  then have "sorted_wrt (<) (map ?k (dedup_by_key ?k (cl_formalize l)))" by (rule sorted_dedup_by_key)
  moreover from this have "sorted (map ?k (dedup_by_key ?k (cl_formalize l)))"
    by (simp add: strict_sorted_iff)
  ultimately show "sorted_wrt (<) (map ?k (cl_formalize (cl_formalize l)))"
    by (subst (1) cl_formalize_def) (simp add: sort_key_id_if_sorted)
qed

text \<open>Once every chunk of a message is in the pool, in any order and number, its data comes out.\<close>

lemma cl_get_one:
  assumes "set ds \<subseteq> set (cl_from_bytes MTU meta bs)" "MTU > 0" "ds \<noteq> []"
    and "\<And>c. c \<in> set l \<Longrightarrow> cm_id (ch_meta c) \<noteq> cm_id meta"
  shows "cl_get (l @ ds) (cm_id meta) =
    (if set ds = set (cl_from_bytes MTU meta bs) then Some bs else None)"
proof -
  let ?cs = "cl_from_bytes MTU meta bs" and ?k = "\<lambda>c. fst (ch_chunk c)"
  let ?f = "cl_formalize (cl_formalize ds)"
  note cs = cl_from_bytes_props [where MTU = MTU and meta = meta and bs = bs]
  have mem: "c \<in> set ds \<Longrightarrow> snd (ch_chunk c) = length ?cs \<and> ch_meta c = meta" for c
    using cs(3) assms(1) by blast
  have dcs: "distinct (map ?k ?cs)" by (simp add: cs(2))
  then have "inj_on ?k (set ?cs)" by (simp add: distinct_map)
  then have inj: "inj_on ?k (set ds)" using assms(1) by (rule inj_on_subset)
  note f = formalize_twice [OF inj]
  have df: "distinct ?f" using f(2) by (simp add: strict_sorted_iff distinct_map)
  have "filter (\<lambda>e. cm_id (ch_meta e) = cm_id meta) (l @ ds) = ds"
    using assms(4) mem by (simp add: filter_empty_conv filter_id_conv)
  then have search: "cl_search (l @ ds) (cm_id meta) = cl_formalize ds" unfolding cl_search_def by simp
  have "?f \<noteq> []" using f(1) assms(3) by (metis set_empty)
  then obtain c r where c: "?f = c # r" by (cases ?f) auto
  then have "snd (ch_chunk c) = length ?cs" using mem [of c] f(1) by (metis list.set_intros(1))
  then have comp: "cl_is_completed (cl_formalize ds) \<longleftrightarrow> length ?f = length ?cs"
    using c by (simp add: cl_is_completed_def)
  have "length ?f = card (set ds)" using df f(1) distinct_card by metis
  moreover have "length ?cs = card (set ?cs)" using dcs by (metis distinct_card distinct_map)
  ultimately have all: "length ?f = length ?cs \<longleftrightarrow> set ds = set ?cs"
    using assms(1) by (metis card_subset_eq finite_set)
  have "?f = ?cs" if "set ds = set ?cs"
  proof (rule map_inj_on [of ?k])
    have "sorted (map ?k ?f)" "distinct (map ?k ?f)" using f(2) by (simp_all only: strict_sorted_iff)
    moreover have "set (map ?k ?f) = set (map ?k ?cs)" using f(1) that by simp
    ultimately show "map ?k ?f = map ?k ?cs"
      using cs(2) dcs by (intro sorted_distinct_set_unique) simp_all
    show "inj_on ?k (set ?f \<union> set ?cs)" using f(1) that \<open>inj_on ?k (set ?cs)\<close> by simp
  qed
  then show ?thesis
    using comp all cs(4) [OF assms(2)] by (simp add: cl_get_def search cl_try_withdraw_def)
qed

text \<open>Handling one chunk after another.\<close>

fun deliver :: "u128 \<Rightarrow> chunk list \<Rightarrow> chunk list \<Rightarrow> bytes option list \<times> chunk list" where
  "deliver now [] l = ([], l)"
| "deliver now (c # cs) l =
     (case cl_handle now c l of (r, l) \<Rightarrow> (case deliver now cs l of (rs, l) \<Rightarrow> (r # rs, l)))"

definition meta_accepted :: "u128 \<Rightarrow> chunk_meta \<Rightarrow> bool" where
  "meta_accepted now m \<longleftrightarrow> \<not> cm_ttl_ms m > MAX_TTL_MS
     \<and> \<not> cm_ts_ms m - TS_OFFSET_TOLERANCE_MS > now
     \<and> cm_ts_ms m + ucast (cm_ttl_ms m) > now"

lemma cl_handle_accepted:
  assumes "meta_accepted now meta" "ch_meta c = meta" "\<forall>e\<in>set ds. ch_meta e = meta"
  shows "cl_handle now c (l @ ds) =
    (let l' = filter (chunk_alive now) l @ ds @ [c] in
     case cl_get l' (cm_id meta) of None \<Rightarrow> (None, l') | Some data \<Rightarrow> (Some data, cl_remove (cm_id meta) l'))"
proof -
  have "chunk_alive now e" if "ch_meta e = meta" for e
    using assms(1) that by (simp add: chunk_alive_def meta_accepted_def)
  then have e: "cl_remove_expired now ((l @ ds) @ [c]) = filter (chunk_alive now) l @ ds @ [c]"
    using assms(2,3) by (simp add: cl_remove_expired_def)
  show ?thesis using assms(1) unfolding cl_handle_def Let_def e assms(2) by (simp add: meta_accepted_def)
qed

lemma deliver_rest:
  assumes meta: "meta_accepted now meta" and MTU: "MTU > 0"
    and "\<And>c. c \<in> set l \<Longrightarrow> cm_id (ch_meta c) \<noteq> cm_id meta"
    and "set (got @ rest) = set (cl_from_bytes MTU meta bs)"
    and "set (got @ butlast rest) \<noteq> set (cl_from_bytes MTU meta bs)"
  shows "deliver now rest (l @ got)
    = (replicate (length rest - 1) None @ [Some bs], filter (chunk_alive now) l)"
  using assms(3-)
proof (induction rest arbitrary: l got)
  case (Cons c rest)
  let ?cs = "cl_from_bytes MTU meta bs" and ?l = "filter (chunk_alive now) l"
  have mem: "e \<in> set (got @ c # rest) \<Longrightarrow> ch_meta e = meta" for e
    using Cons.prems(2) cl_from_bytes_props(3) [of e MTU meta bs] by blast
  have sub: "set (got @ [c]) \<subseteq> set ?cs" unfolding Cons.prems(2) [symmetric] by auto
  have eq: "set (got @ [c]) = set ?cs \<longleftrightarrow> rest = []"
  proof
    show "rest = []" if "set (got @ [c]) = set ?cs"
    proof (rule ccontr)
      assume "rest \<noteq> []"
      then have "set (got @ [c]) \<subseteq> set (got @ butlast (c # rest))" by auto
      moreover have "set (got @ butlast (c # rest)) \<subseteq> set ?cs"
        unfolding Cons.prems(2) [symmetric] by (auto dest: in_set_butlastD split: if_splits)
      ultimately show False using that Cons.prems(3) by blast
    qed
  qed (use Cons.prems(2) in simp)
  have get: "cl_get (?l @ got @ [c]) (cm_id meta) = (if rest = [] then Some bs else None)"
    using cl_get_one [OF sub MTU, of ?l] Cons.prems(1) eq by simp
  have h: "cl_handle now c (l @ got) =
      (if rest = [] then (Some bs, cl_remove (cm_id meta) (?l @ got @ [c])) else (None, ?l @ got @ [c]))"
    using cl_handle_accepted [OF meta, of c got l] mem get by (simp add: Let_def)
  show ?case
  proof (cases "rest = []")
    case True
    have "filter (\<lambda>e. cm_id (ch_meta e) \<noteq> cm_id meta) ?l = ?l"
      using Cons.prems(1) by (intro filter_True) simp
    then have "cl_remove (cm_id meta) (?l @ got @ [c]) = ?l"
      using mem by (simp add: cl_remove_def filter_empty_conv)
    then show ?thesis using h True by simp
  next
    case False
    have "deliver now rest (?l @ (got @ [c]))
        = (replicate (length rest - 1) None @ [Some bs], filter (chunk_alive now) ?l)"
      using Cons.prems False by (intro Cons.IH) auto
    moreover have "replicate (length rest) None = (None :: bytes option) # replicate (length rest - 1) None"
      using False by (cases rest) simp_all
    ultimately show ?thesis using h False by simp
  qed
qed simp

section \<open>Properties\<close>

text \<open>
  C22: chunking is lossless whatever the order of arrival and however often chunks are
  repeated. A message split into chunks of at most \<open>MTU\<close> bytes and handled in any order, with
  repetitions, by a pool that holds no chunk of this message, yields nothing until the chunk
  arrives that completes the set, and then exactly the message; the pool afterwards holds
  what it held before, less the expired chunks.
\<close>

theorem chunks_reassemble:
  assumes "MTU > 0" "set ds = set (cl_from_bytes MTU meta bs)"
    and "set (butlast ds) \<noteq> set (cl_from_bytes MTU meta bs)" "meta_accepted now meta"
    and "\<forall>c\<in>set l. cm_id (ch_meta c) \<noteq> cm_id meta"
  shows "deliver now ds l
    = (replicate (length ds - 1) None @ [Some bs], filter (chunk_alive now) l)"
  using deliver_rest [OF assms(4,1), of l "[]" ds bs] assms(2,3,5) by simp

theorem chunks_reassemble_witness:
  "let cs = cl_from_bytes 2 \<lparr>cm_id = 1, cm_ts_ms = 4000, cm_ttl_ms = 9000\<rparr> [7, 8, 9]
   in fst (deliver 5000 [cs ! 1, cs ! 1, cs ! 0] []) = [None, None, Some [7, 8, 9]]"
proof -
  let ?m = "\<lparr>cm_id = 1, cm_ts_ms = 4000, cm_ttl_ms = 9000\<rparr>"
  let ?cs = "cl_from_bytes 2 ?m [7, 8, 9]"
  have "meta_accepted 5000 ?m"
    by (simp add: meta_accepted_def MAX_TTL_MS_def DEFAULT_TTL_MS_def TS_OFFSET_TOLERANCE_MS_def)
  moreover have "?cs = [\<lparr>ch_chunk = (0, 2), ch_data = [7, 8], ch_meta = ?m\<rparr>,
      \<lparr>ch_chunk = (1, 2), ch_data = [9], ch_meta = ?m\<rparr>]"
    by (simp add: cl_from_bytes_def slice_chunks.simps)
  ultimately show ?thesis
    using chunks_reassemble [of 2 "[?cs ! 1, ?cs ! 1, ?cs ! 0]" ?m "[7, 8, 9]" 5000 "[]"]
    by (simp add: Let_def insert_commute numeral_2_eq_2 del: deliver.simps)
qed

end
