(* ===== verification/Backend.thy ===== *)
theory Backend
  imports NodeError Chunk
begin

text \<open>
  Application messages of a node: \<open>rings-node/src/backend/types.rs\<close> and
  \<open>backend/service/\<close>. A custom message carries four framing bytes and a \<open>BackendMessage\<close>; the
  \<open>Backend\<close> is the message callback that decodes it, hands texts and HTTP requests to their
  endpoints and broadcasts it to the RPC server. The HTTP client, gzip, bincode and the
  broadcast channel are the record \<open>backend_ops\<close>.
\<close>

section \<open>Message types\<close>

type_synonym u16 = "16 word"
type_synonym u64 = "64 word"

datatype message_type = MtUnknown | MtEmpty | MtSimpleText | MtHttpRequest | MtHttpResponse

definition u16_to_le_bytes :: "u16 \<Rightarrow> bytes" where
  "u16_to_le_bytes t = [ucast t, ucast (drop_bit 8 t)]"

definition u16_from_le_bytes :: "byte \<Rightarrow> byte \<Rightarrow> u16" where
  "u16_from_le_bytes lo hi = ucast lo + push_bit 8 (ucast hi)"

definition message_type_of_u16 :: "u16 \<Rightarrow> message_type" where
  "message_type_of_u16 v =
     (if v = 1 then MtEmpty else if v = 2 then MtSimpleText else if v = 3 then MtHttpRequest
      else if v = 4 then MtHttpResponse else MtUnknown)"

definition message_type_of_bytes :: "byte \<times> byte \<Rightarrow> message_type" where
  "message_type_of_bytes v = message_type_of_u16 (u16_from_le_bytes (fst v) (snd v))"

fun u16_of_message_type :: "message_type \<Rightarrow> u16" where
  "u16_of_message_type MtUnknown = 0"
| "u16_of_message_type MtEmpty = 1"
| "u16_of_message_type MtSimpleText = 2"
| "u16_of_message_type MtHttpRequest = 3"
| "u16_of_message_type MtHttpResponse = 4"

lemma message_type_roundtrip [simp]: "message_type_of_u16 (u16_of_message_type t) = t"
  by (cases t) (simp_all add: message_type_of_u16_def)

lemma u16_le_roundtrip: "u16_from_le_bytes (ucast t) (ucast (drop_bit 8 t)) = t"
proof -
  have "unat t = unat t mod 256 + 256 * (unat t div 256 mod 256)"
    using unsigned_less [where ?'a = nat, of t] by simp
  then show ?thesis
    by (simp add: u16_from_le_bytes_def word_unat_eq_iff unat_word_ariths unsigned_ucast_eq
        unsigned_push_bit_eq unsigned_drop_bit_eq push_bit_eq_mult drop_bit_eq_div take_bit_eq_mod)
qed

section \<open>Backend messages\<close>

record backend_message =
  bm_message_type :: u16
  bm_extra :: bytes
  bm_data :: bytes

definition BackendMessage_new :: "u16 \<Rightarrow> bytes \<Rightarrow> bytes \<Rightarrow> backend_message" where
  "BackendMessage_new message_type extra data =
     \<lparr>bm_message_type = message_type, bm_extra = extra, bm_data = data\<rparr>"

definition bm_from_pair :: "u16 \<times> bytes \<Rightarrow> backend_message" where
  "bm_from_pair p = (case p of (message_type, data) \<Rightarrow>
     BackendMessage_new message_type (replicate 30 0) data)"

text \<open>\<open>TryFrom<(MessageType, &T)>\<close>; \<open>serialize\<close> is bincode at \<open>T\<close>.\<close>

definition bm_try_from_value ::
  "('t \<Rightarrow> bytes option) \<Rightarrow> message_type \<times> 't \<Rightarrow> node_error + backend_message" where
  "bm_try_from_value serialize p = (case p of (message_type, data) \<Rightarrow>
     rbind (ok_or (serialize data) SerializeError) (\<lambda>bytes.
       Inr (BackendMessage_new (u16_of_message_type message_type) (replicate 30 0) bytes)))"

definition bm_try_from :: "bytes \<Rightarrow> node_error + backend_message" where
  "bm_try_from v =
     (if length v < 32 then Inl NotSupportMessage
      else let left = take 32 v; right = drop 32 v
           in Inr (BackendMessage_new (u16_from_le_bytes (left ! 0) (left ! 1)) (replicate 30 0) right))"

definition bm_into_bytes :: "backend_message \<Rightarrow> bytes" where
  "bm_into_bytes v = u16_to_le_bytes (bm_message_type v) @ bm_extra v @ bm_data v"

lemma bm_roundtrip:
  assumes "length (bm_extra m) = 30"
  shows "bm_try_from (bm_into_bytes m) = Inr (m\<lparr>bm_extra := replicate 30 0\<rparr>)"
  using assms
  by (simp add: bm_try_from_def bm_into_bytes_def u16_to_le_bytes_def BackendMessage_new_def
      u16_le_roundtrip Let_def)

section \<open>HTTP messages\<close>

type_synonym timeout = u64

definition Timeout_default :: timeout where
  "Timeout_default = 30 * 1000"

text \<open>\<open>Duration::from_millis\<close>, in nanoseconds.\<close>

definition Timeout_into_duration :: "timeout \<Rightarrow> nat" where
  "Timeout_into_duration t = unat t * 10 ^ 6"

record http_request =
  hq_name :: string
  hq_method :: string
  hq_path :: string
  hq_timeout :: timeout
  hq_headers :: "string \<Rightarrow> string option"
  hq_body :: "bytes option"

record http_response =
  hs_status :: u16
  hs_headers :: "string \<Rightarrow> string option"
  hs_body :: "bytes option"

text \<open>Collecting pairs into a \<open>HashMap\<close>: a later pair replaces an earlier one.\<close>

definition collect_map :: "(string \<times> string) list \<Rightarrow> string \<Rightarrow> string option" where
  "collect_map kvs = map_of (rev kvs)"

definition HttpRequest_from :: "string \<times> string \<times> string \<times> timeout \<Rightarrow> http_request" where
  "HttpRequest_from p = (case p of (name, meth, path, timeout) \<Rightarrow>
     \<lparr>hq_name = name, hq_method = meth, hq_path = path, hq_timeout = timeout,
      hq_headers = Map.empty, hq_body = None\<rparr>)"

definition HttpRequest_from_u64 :: "string \<times> string \<times> string \<times> u64 \<Rightarrow> http_request" where
  "HttpRequest_from_u64 p = (case p of (name, meth, url, timeout) \<Rightarrow>
     HttpRequest_from (name, meth, url, timeout))"

definition HttpRequest_new ::
  "string \<Rightarrow> string \<Rightarrow> string \<Rightarrow> timeout \<Rightarrow> (string \<times> string) list \<Rightarrow> bytes option \<Rightarrow> http_request" where
  "HttpRequest_new name meth path timeout headers body =
     \<lparr>hq_name = name, hq_method = meth, hq_path = path, hq_timeout = timeout,
      hq_headers = collect_map headers, hq_body = body\<rparr>"

definition HttpRequest_get ::
  "string \<Rightarrow> string \<Rightarrow> timeout \<Rightarrow> (string \<times> string) list \<Rightarrow> bytes option \<Rightarrow> http_request" where
  "HttpRequest_get name url timeout headers body =
     HttpRequest_new name ''GET'' url timeout headers body"

section \<open>The interface to other crates\<close>

text \<open>
  What a response offers: its status, its headers with the values that are text, and the
  download of its body. The reqwest client may fail while sending or while downloading.
\<close>

record http_answer =
  ha_status :: u16
  ha_headers :: "(string \<times> string option) list"
  ha_bytes :: "string + bytes"

record 'w backend_ops =
  be_parse_uri :: "string \<Rightarrow> string option"
  be_parse_method :: "string \<Rightarrow> string option"
  be_parse_headers :: "(string \<Rightarrow> string option) \<Rightarrow> (string \<times> string) list option"
  be_send_http :: "string \<Rightarrow> string \<Rightarrow> (string \<times> string) list \<Rightarrow> nat \<Rightarrow> bytes option
     \<Rightarrow> 'w \<Rightarrow> (string + http_answer) \<times> 'w"
  be_de_request :: "bytes \<Rightarrow> http_request option"
  be_ser_request :: "http_request \<Rightarrow> bytes option"
  be_ser_response :: "http_response \<Rightarrow> bytes option"
  be_ser_chunk :: "chunk \<Rightarrow> bytes option"
  be_gzip :: "bytes \<Rightarrow> nat \<Rightarrow> bytes option"
  be_cipher :: "custom_message cipher"
  be_broadcast :: "backend_message \<Rightarrow> 'w \<Rightarrow> 'w"
  be_recv :: "bool \<Rightarrow> 'w \<Rightarrow> backend_message option \<times> 'w"

section \<open>Reports in chunks\<close>

definition BACKEND_MTU :: nat where "BACKEND_MTU = TRANSPORT_MAX_SIZE - TRANSPORT_MTU"

definition send_chunk_report_message ::
  "('s, 'w) env \<Rightarrow> 'w backend_ops \<Rightarrow> message payload \<Rightarrow> message_relay \<Rightarrow> bytes
     \<Rightarrow> (('s, 'w) node, node_error, unit) eaction" where
  "send_chunk_report_message X B ctx relay data =
     (let new_bytes = [1] @ replicate 3 0 @ data in
      sbind (map_err (into_node_error (\<lambda>_. InvalidMessageError))
               (slift (Message_custom (en_ecc X) (be_cipher B) new_bytes None))) (\<lambda>msg.
      sbind (core SendMessage (send_report_message X msg (pl_tx_id ctx) relay)) (\<lambda>_.
      sret ())))"

section \<open>Endpoints\<close>

text \<open>The text endpoint only writes to the log.\<close>

definition text_handle_message ::
  "message_relay \<Rightarrow> backend_message \<Rightarrow> (('s, 'w) node, node_error, unit) eaction" where
  "text_handle_message relay data =
     slift (rbind (ok_or (from_utf8 (bm_data data)) InvalidMessageError) (\<lambda>_. Inr ()))"

record hidden_server_config =
  hc_name :: string
  hc_prefix :: string

definition ascii_lower :: "char \<Rightarrow> char" where
  "ascii_lower c = (let n = of_char c :: nat in if 65 \<le> n \<and> n \<le> 90 then char_of (n + 32) else c)"

definition eq_ignore_ascii_case :: "string \<Rightarrow> string \<Rightarrow> bool" where
  "eq_ignore_ascii_case a b \<longleftrightarrow> map ascii_lower a = map ascii_lower b"

definition trim_start_slashes :: "string \<Rightarrow> string" where
  "trim_start_slashes s = dropWhile (\<lambda>c. c = CHR ''/'') s"

text \<open>\<open>unwrap\<close>: the error of the other crate becomes a panic.\<close>

definition unwrap_or_panic :: "'a option \<Rightarrow> node_error + 'a" where
  "unwrap_or_panic x = ok_or x (NodePanicked ''unwrap'')"

definition http_execute ::
  "'w backend_ops \<Rightarrow> hidden_server_config list \<Rightarrow> http_request
     \<Rightarrow> (('s, 'w) node, node_error, http_response) eaction" where
  "http_execute B services request =
     sbind (slift (ok_or (find (\<lambda>x. eq_ignore_ascii_case (hc_name x) (hq_name request)) services)
              InvalidService)) (\<lambda>service.
     let url = hc_prefix service @ ''/'' @ trim_start_slashes (hq_path request) in
     sbind (slift (unwrap_or_panic (be_parse_uri B url))) (\<lambda>request_url.
     sbind (slift (unwrap_or_panic (be_parse_method B (hq_method request)))) (\<lambda>meth.
     sbind (slift (unwrap_or_panic (be_parse_headers B (hq_headers request)))) (\<lambda>headers.
     sbind (\<lambda>n. case be_send_http B meth request_url headers
                      (Timeout_into_duration (hq_timeout request)) (hq_body request) (sw_world n) of
                    (Inl e, w) \<Rightarrow> (Inl (HttpRequestError e), n\<lparr>sw_world := w\<rparr>)
                  | (Inr r, w) \<Rightarrow> (Inr r, n\<lparr>sw_world := w\<rparr>)) (\<lambda>resp.
     let headers = collect_map (map (\<lambda>(k, v). (k, case v of Some t \<Rightarrow> t | None \<Rightarrow> []))
                     (ha_headers resp)) in
     sbind (slift (case ha_bytes resp of Inl e \<Rightarrow> Inl (HttpRequestError e) | Inr b \<Rightarrow> Inr b)) (\<lambda>body.
     sret \<lparr>hs_status = ha_status resp, hs_headers = headers, hs_body = Some body\<rparr>))))))"

fun for_each_node :: "('a \<Rightarrow> ('s, node_error, unit) eaction) \<Rightarrow> 'a list \<Rightarrow> ('s, node_error, unit) eaction" where
  "for_each_node f [] = sret ()"
| "for_each_node f (x # xs) = sbind (f x) (\<lambda>_. for_each_node f xs)"

text \<open>\<open>ChunkList::from\<close> stamps the chunks with a fresh id and the time.\<close>

definition make_chunks :: "('s, 'w) env \<Rightarrow> bytes \<Rightarrow> (('s, 'w) node, node_error, chunk list) eaction" where
  "make_chunks X bs n =
     (case tr_uuid (en_transport X) (sw_world n) of (u, w) \<Rightarrow>
        (Inr (cl_from_bytes BACKEND_MTU
                (ChunkMeta_default u (tr_now (en_transport X) (sw_world n))) bs),
         n\<lparr>sw_world := w\<rparr>))"

definition http_handle_message ::
  "('s, 'w) env \<Rightarrow> 'w backend_ops \<Rightarrow> hidden_server_config list \<Rightarrow> message payload \<Rightarrow> message_relay
     \<Rightarrow> backend_message \<Rightarrow> (('s, 'w) node, node_error, unit) eaction" where
  "http_handle_message X B services ctx relay msg =
     sbind (slift (ok_or (be_de_request B (bm_data msg)) DeserializeErr)) (\<lambda>req.
     sbind (http_execute B services req) (\<lambda>resp.
     sbind (slift (ok_or (be_ser_response B resp) JsonSerializeError)) (\<lambda>json_bytes.
     sbind (slift (ok_or (be_gzip B json_bytes 9) EncodedError)) (\<lambda>resp_bytes.
     let resp_bytes = bm_into_bytes (bm_from_pair (u16_of_message_type MtHttpResponse, resp_bytes)) in
     sbind (make_chunks X resp_bytes) (\<lambda>chunks.
     for_each_node (\<lambda>c.
         sbind (slift (ok_or (be_ser_chunk B c) SerializeError)) (\<lambda>bytes.
         send_chunk_report_message X B ctx relay bytes)) chunks)))))"

section \<open>The backend\<close>

text \<open>
  \<open>Backend::custom_message\<close>, the callback of the node for custom messages that have arrived:
  unwrapping a relay that does not validate, and taking the four framing bytes of a shorter
  message, panics.
\<close>

definition panic_of :: "('s, node_error, 'a) eaction \<Rightarrow> ('s, 'a) action" where
  "panic_of m s = (case m s of
       (Inl (NodePanicked p), s) \<Rightarrow> (Inl (Panicked p), s)
     | (Inl e, s) \<Rightarrow> (Inl (InvalidMessage []), s)
     | (Inr x, s) \<Rightarrow> (Inr x, s))"

definition backend_custom_message ::
  "('s, 'w) env \<Rightarrow> 'w backend_ops \<Rightarrow> hidden_server_config list \<Rightarrow> message payload
     \<Rightarrow> custom_message maybe_encrypted \<Rightarrow> (('s, 'w) node, unit) action" where
  "backend_custom_message X B services ctx msg =
     sbind (slift (case rl_relay (rl_destination (pl_relay ctx)) None (pl_relay ctx) of
              Inl _ \<Rightarrow> Inl (Panicked ''unwrap'') | Inr relay \<Rightarrow> Inr relay)) (\<lambda>relay.
     sbind (sget (\<lambda>n. decrypt_msg (be_cipher B) n msg)) (\<lambda>msg.
     case msg of
       Inl _ \<Rightarrow> sret ()
     | Inr msg \<Rightarrow>
         if length msg < 4 then serr (Panicked ''array_refs'')
         else let flag = msg ! 0; msg = drop 4 msg in
           if flag \<noteq> 0 then sret ()
           else case bm_try_from msg of
               Inl _ \<Rightarrow> sret ()
             | Inr msg \<Rightarrow>
                 sbind (panic_of (attempt_node
                    (case message_type_of_u16 (bm_message_type msg) of
                       MtSimpleText \<Rightarrow> text_handle_message relay msg
                     | MtHttpRequest \<Rightarrow> http_handle_message X B services ctx relay msg
                     | _ \<Rightarrow> sret ()))) (\<lambda>result.
                 smod (\<lambda>n. n\<lparr>sw_world := be_broadcast B msg (sw_world n)\<rparr>))))"

definition backend_callback ::
  "('s, 'w) env \<Rightarrow> 'w backend_ops \<Rightarrow> hidden_server_config list \<Rightarrow> ('s, 'w) message_callback" where
  "backend_callback X B services =
     \<lparr>cb_custom_message = backend_custom_message X B services,
      cb_builtin_message = (\<lambda>_. sret ())\<rparr>"

end
