(* ===== verification/Rpc.thy ===== *)
theory Rpc
  imports Backend
begin

text \<open>
  The vocabulary of the node's JSON-RPC interface: JSON values as serde_json has them, the
  method names of \<open>jsonrpc/method.rs\<close>, the answers of \<open>jsonrpc/response.rs\<close>, the connection
  states of \<open>util.rs\<close> and the errors of a request. Parsing and printing JSON text is left to
  the libraries; the values are translated here.
\<close>

section \<open>JSON values\<close>

text \<open>The entries of an object stand in the order of its keys, as in serde_json's map.\<close>

datatype json_number = PosInt "64 word" | NegInt "64 word" | Float string

datatype json =
    JNull
  | JBool bool
  | JNumber json_number
  | JString string
  | JArray "json list"
  | JObject "(string \<times> json) list"

definition json_as_str :: "json \<Rightarrow> string option" where
  "json_as_str v = (case v of JString s \<Rightarrow> Some s | _ \<Rightarrow> None)"

definition json_as_bool :: "json \<Rightarrow> bool option" where
  "json_as_bool v = (case v of JBool b \<Rightarrow> Some b | _ \<Rightarrow> None)"

definition json_as_u64 :: "json \<Rightarrow> 64 word option" where
  "json_as_u64 v = (case v of JNumber (PosInt n) \<Rightarrow> Some n | _ \<Rightarrow> None)"

text \<open>An \<open>i64\<close>, as a word to be read with \<open>sint\<close>.\<close>

definition json_as_i64 :: "json \<Rightarrow> 64 word option" where
  "json_as_i64 v = (case v of
       JNumber (PosInt n) \<Rightarrow> if n < 2 ^ 63 then Some n else None
     | JNumber (NegInt n) \<Rightarrow> Some n
     | _ \<Rightarrow> None)"

definition json_get :: "string \<Rightarrow> json \<Rightarrow> json option" where
  "json_get k v = (case v of JObject kvs \<Rightarrow> map_of kvs k | _ \<Rightarrow> None)"

text \<open>\<open>slice::get\<close>.\<close>

definition list_get :: "'a list \<Rightarrow> nat \<Rightarrow> 'a option" where
  "list_get xs i = (if i < length xs then Some (xs ! i) else None)"

fun all_some :: "'a option list \<Rightarrow> 'a list option" where
  "all_some [] = Some []"
| "all_some (None # xs) = None"
| "all_some (Some x # xs) = map_option ((#) x) (all_some xs)"

lemma all_some_map_Some [simp]: "all_some (map (\<lambda>x. Some (f x)) xs) = Some (map f xs)"
  by (induction xs) simp_all

section \<open>Requests\<close>

datatype params = ParamsArray "json list" | ParamsMap "(string \<times> json) list" | ParamsNone

definition params_value :: "params \<Rightarrow> json" where
  "params_value p = (case p of ParamsArray xs \<Rightarrow> JArray xs | ParamsMap kvs \<Rightarrow> JObject kvs | ParamsNone \<Rightarrow> JNull)"

text \<open>
  The errors of a request: the codes of \<open>jsonrpc_core::ErrorCode\<close> that occur. \<open>RpcPanicked\<close> is
  a panic of the handler.
\<close>

datatype rpc_error = RpcInvalidParams | RpcMethodNotFound | RpcServerError int | RpcPanicked string

definition rpc_error_of :: "node_error \<Rightarrow> rpc_error" where
  "rpc_error_of e = (case e of NodePanicked p \<Rightarrow> RpcPanicked p | _ \<Rightarrow> RpcServerError (node_error_code e))"

text \<open>\<open>params.parse()\<close> at the types the handlers ask for.\<close>

definition parse_strings :: "params \<Rightarrow> rpc_error + string list" where
  "parse_strings p = (case params_value p of
       JArray xs \<Rightarrow> ok_or (all_some (map json_as_str xs)) RpcInvalidParams
     | _ \<Rightarrow> Inl RpcInvalidParams)"

definition parse_values :: "params \<Rightarrow> rpc_error + json list" where
  "parse_values p = (case params_value p of JArray xs \<Rightarrow> Inr xs | _ \<Rightarrow> Inl RpcInvalidParams)"

definition parse_map :: "params \<Rightarrow> rpc_error + (string \<times> json) list" where
  "parse_map p = (case params_value p of JObject kvs \<Rightarrow> Inr kvs | _ \<Rightarrow> Inl RpcInvalidParams)"

section \<open>Methods\<close>

datatype rpc_method =
    ConnectPeerViaHttp
  | ConnectWithDid
  | ConnectWithSeed
  | ListPeers
  | CreateOfferMethod
  | AnswerOffer
  | AcceptAnswer
  | SendTo
  | Disconnect
  | ListPendings
  | ClosePendingTransport
  | SendSimpleText
  | SendHttpRequestMessage
  | SendCustomMessage
  | PublishMessageToTopic
  | FetchMessagesOfTopic
  | RegisterService
  | LookupService
  | PollMessage

fun method_as_str :: "rpc_method \<Rightarrow> string" where
  "method_as_str ConnectPeerViaHttp = ''connectPeerViaHttp''"
| "method_as_str ConnectWithDid = ''connectWithDid''"
| "method_as_str ConnectWithSeed = ''connectWithSeed''"
| "method_as_str ListPeers = ''listPeers''"
| "method_as_str CreateOfferMethod = ''createOffer''"
| "method_as_str AnswerOffer = ''answerOffer''"
| "method_as_str SendTo = ''sendTo''"
| "method_as_str Disconnect = ''disconnect''"
| "method_as_str AcceptAnswer = ''acceptAnswer''"
| "method_as_str ListPendings = ''listPendings''"
| "method_as_str ClosePendingTransport = ''closePendingTransport''"
| "method_as_str SendSimpleText = ''sendSimpleText''"
| "method_as_str SendHttpRequestMessage = ''sendHttpRequestMessage''"
| "method_as_str SendCustomMessage = ''sendCustomMessage''"
| "method_as_str PublishMessageToTopic = ''publishMessageToTopic''"
| "method_as_str FetchMessagesOfTopic = ''fetchMessagesOfTopic''"
| "method_as_str RegisterService = ''registerService''"
| "method_as_str LookupService = ''lookupService''"
| "method_as_str PollMessage = ''pollMessage''"

definition method_try_from :: "string \<Rightarrow> node_error + rpc_method" where
  "method_try_from v =
     (if v = ''connectPeerViaHttp'' then Inr ConnectPeerViaHttp
      else if v = ''connectWithDid'' then Inr ConnectWithDid
      else if v = ''connectWithSeed'' then Inr ConnectWithSeed
      else if v = ''listPeers'' then Inr ListPeers
      else if v = ''createOffer'' then Inr CreateOfferMethod
      else if v = ''answerOffer'' then Inr AnswerOffer
      else if v = ''sendTo'' then Inr SendTo
      else if v = ''disconnect'' then Inr Disconnect
      else if v = ''acceptAnswer'' then Inr AcceptAnswer
      else if v = ''listPendings'' then Inr ListPendings
      else if v = ''closePendingTransport'' then Inr ClosePendingTransport
      else if v = ''sendSimpleText'' then Inr SendSimpleText
      else if v = ''sendHttpRequestMessage'' then Inr SendHttpRequestMessage
      else if v = ''sendCustomMessage'' then Inr SendCustomMessage
      else if v = ''publishMessageToTopic'' then Inr PublishMessageToTopic
      else if v = ''fetchMessagesOfTopic'' then Inr FetchMessagesOfTopic
      else if v = ''registerService'' then Inr RegisterService
      else if v = ''lookupService'' then Inr LookupService
      else if v = ''pollMessage'' then Inr PollMessage
      else Inl InvalidMethod)"

lemma method_roundtrip [simp]: "method_try_from (method_as_str m) = Inr m"
  by (cases m) (simp_all add: method_try_from_def)

lemma method_try_from_Inr: "method_try_from v = Inr m \<Longrightarrow> v = method_as_str m"
  by (auto simp: method_try_from_def split: if_splits)

section \<open>Connection states\<close>

fun from_rtc_ice_connection_state :: "ice_state \<Rightarrow> string" where
  "from_rtc_ice_connection_state IceNew = ''new''"
| "from_rtc_ice_connection_state IceChecking = ''checking''"
| "from_rtc_ice_connection_state IceConnected = ''connected''"
| "from_rtc_ice_connection_state IceCompleted = ''completed''"
| "from_rtc_ice_connection_state IceFailed = ''failed''"
| "from_rtc_ice_connection_state IceDisconnected = ''disconnected''"
| "from_rtc_ice_connection_state IceClosed = ''closed''"
| "from_rtc_ice_connection_state IceUnspecified = ''unknown''"

definition into_rtc_ice_connection_state :: "string \<Rightarrow> ice_state option" where
  "into_rtc_ice_connection_state v =
     (if v = ''new'' then Some IceNew
      else if v = ''checking'' then Some IceChecking
      else if v = ''connected'' then Some IceConnected
      else if v = ''completed'' then Some IceCompleted
      else if v = ''failed'' then Some IceFailed
      else if v = ''disconnected'' then Some IceDisconnected
      else if v = ''closed'' then Some IceClosed
      else None)"

lemma ice_state_roundtrip:
  "s \<noteq> IceUnspecified \<Longrightarrow> into_rtc_ice_connection_state (from_rtc_ice_connection_state s) = Some s"
  by (cases s) (simp_all add: into_rtc_ice_connection_state_def)

section \<open>Answers\<close>

record peer_info =
  pi_did :: string
  pi_transport_id :: string
  pi_state :: string

record transport_info =
  ti_transport_id :: string
  ti_state :: string

record transport_and_ice =
  tai_transport_id :: string
  tai_ice :: string

record custom_backend_message =
  cbm_message_type :: "16 word"
  cbm_data :: string

definition state_or_unknown :: "string option \<Rightarrow> string" where
  "state_or_unknown s = (case s of Some t \<Rightarrow> t | None \<Rightarrow> ''Unknown'')"

definition peer_info_from :: "string \<Rightarrow> string \<Rightarrow> string option \<Rightarrow> peer_info" where
  "peer_info_from d transport_id s =
     \<lparr>pi_did = d, pi_transport_id = transport_id, pi_state = state_or_unknown s\<rparr>"

definition TransportInfo_new :: "string \<Rightarrow> string option \<Rightarrow> transport_info" where
  "TransportInfo_new transport_id s = \<lparr>ti_transport_id = transport_id, ti_state = state_or_unknown s\<rparr>"

definition TransportAndIce_new :: "string \<Rightarrow> string \<Rightarrow> transport_and_ice" where
  "TransportAndIce_new transport_id ice = \<lparr>tai_transport_id = transport_id, tai_ice = ice\<rparr>"

definition TransportAndIce_from :: "('s, 'w) env \<Rightarrow> uuid \<times> encoded \<Rightarrow> transport_and_ice" where
  "TransportAndIce_from X p = (case p of (transport, handshake_info) \<Rightarrow>
     \<lparr>tai_transport_id = en_uuid_str X transport, tai_ice = encoded_value handshake_info\<rparr>)"

definition custom_backend_message_from :: "(bytes \<Rightarrow> string) \<Rightarrow> backend_message \<Rightarrow> custom_backend_message" where
  "custom_backend_message_from b64 v =
     \<lparr>cbm_message_type = bm_message_type v, cbm_data = b64 (bm_data v)\<rparr>"

text \<open>Their JSON objects, as serde derives them; serialising them does not fail.\<close>

definition peer_info_json :: "peer_info \<Rightarrow> json" where
  "peer_info_json p = JObject [(''did'', JString (pi_did p)), (''state'', JString (pi_state p)),
     (''transport_id'', JString (pi_transport_id p))]"

definition transport_info_json :: "transport_info \<Rightarrow> json" where
  "transport_info_json p = JObject [(''state'', JString (ti_state p)),
     (''transport_id'', JString (ti_transport_id p))]"

definition transport_and_ice_json :: "transport_and_ice \<Rightarrow> json" where
  "transport_and_ice_json p = JObject [(''ice'', JString (tai_ice p)),
     (''transport_id'', JString (tai_transport_id p))]"

definition custom_backend_message_json :: "custom_backend_message \<Rightarrow> json" where
  "custom_backend_message_json p = JObject [(''data'', JString (cbm_data p)),
     (''message_type'', JNumber (PosInt (ucast (cbm_message_type p))))]"

text \<open>
  \<open>from_value\<close> at \<open>TransportAndIce\<close>: an object with both fields, other fields ignored, or an
  array of the two.
\<close>

definition transport_and_ice_of_json :: "json \<Rightarrow> transport_and_ice option" where
  "transport_and_ice_of_json v = (case v of
       JObject kvs \<Rightarrow>
         Option.bind (Option.bind (map_of kvs ''transport_id'') json_as_str) (\<lambda>t.
         Option.bind (Option.bind (map_of kvs ''ice'') json_as_str) (\<lambda>i.
           Some (TransportAndIce_new t i)))
     | JArray [JString t, JString i] \<Rightarrow> Some (TransportAndIce_new t i)
     | _ \<Rightarrow> None)"

lemma transport_and_ice_roundtrip [simp]:
  "transport_and_ice_of_json (transport_and_ice_json t) = Some t"
  by (simp add: transport_and_ice_of_json_def transport_and_ice_json_def TransportAndIce_new_def
      json_as_str_def)

end
