(* ===== verification/Measure.thy ===== *)
theory Measure
  imports Swarm
begin

text \<open>
  The message counters of a node: \<open>rings-node/src/measure.rs\<close>. Instants and durations are
  nanoseconds. An operation reads the clock once when it creates a counter (\<open>created\<close>) and
  once when it looks whether the period is over (\<open>now\<close>). The address printer is an argument.
  The locks of the counters are taken as free and not poisoned.
\<close>

section \<open>One counter\<close>

record periodic_counter =
  pc_period :: int
  pc_count :: "64 word"
  pc_previous :: int
  pc_previous_count :: "64 word"

definition DURATION :: "64 word" where
  "DURATION = 60 * 60"

definition PeriodicCounter_new :: "int \<Rightarrow> 64 word \<Rightarrow> 64 word \<Rightarrow> periodic_counter" where
  "PeriodicCounter_new created period previous_count =
     \<lparr>pc_period = sint period * 10 ^ 9, pc_count = 0, pc_previous = created,
      pc_previous_count = previous_count\<rparr>"

definition pc_refresh :: "int \<Rightarrow> periodic_counter \<Rightarrow> bool \<times> periodic_counter" where
  "pc_refresh now c =
     (if now - pc_previous c < pc_period c then (False, c)
      else (True, c\<lparr>pc_previous_count := pc_count c, pc_count := 0, pc_previous := now\<rparr>))"

definition pc_barely_get :: "periodic_counter \<Rightarrow> 64 word" where
  "pc_barely_get c = (if pc_previous_count c = 0 then pc_count c else pc_previous_count c)"

definition pc_incr :: "int \<Rightarrow> periodic_counter \<Rightarrow> (64 word \<times> bool) \<times> periodic_counter" where
  "pc_incr now c =
     (let (is_refreshed, c) = pc_refresh now c; c = c\<lparr>pc_count := pc_count c + 1\<rparr>
      in ((pc_barely_get c, is_refreshed), c))"

definition pc_get :: "int \<Rightarrow> periodic_counter \<Rightarrow> (64 word \<times> bool) \<times> periodic_counter" where
  "pc_get now c =
     (let (is_refreshed, c) = pc_refresh now c in ((pc_barely_get c, is_refreshed), c))"

section \<open>The counters of a node\<close>

record 's periodic_measure =
  pm_storage :: 's
  pm_counters :: "did \<times> measure_counter \<Rightarrow> periodic_counter option"

definition PeriodicMeasure_new :: "'s \<Rightarrow> 's periodic_measure" where
  "PeriodicMeasure_new storage = \<lparr>pm_storage = storage, pm_counters = Map.empty\<rparr>"

fun counter_debug :: "measure_counter \<Rightarrow> string" where
  "counter_debug Sent = ''Sent''"
| "counter_debug FailedToSend = ''FailedToSend''"
| "counter_debug Received = ''Received''"
| "counter_debug FailedToReceive = ''FailedToReceive''"

definition gen_storage_key :: "(did \<Rightarrow> string) \<Rightarrow> did \<Rightarrow> measure_counter \<Rightarrow> string" where
  "gen_storage_key addr d counter =
     ''PeriodicMeasure/counters/'' @ addr d @ ''/'' @ counter_debug counter"

text \<open>\<open>ensure_counter\<close> returns the counter found or made, and the table that holds it.\<close>

definition ensure_counter ::
  "('s, string, 64 word) persist \<Rightarrow> (did \<Rightarrow> string) \<Rightarrow> int \<Rightarrow> did \<Rightarrow> measure_counter
     \<Rightarrow> 's periodic_measure \<Rightarrow> periodic_counter \<times> 's periodic_measure" where
  "ensure_counter P addr created d counter m =
     (let k = gen_storage_key addr d counter;
          cnt = (case p_get P (pm_storage m) k of Inl _ \<Rightarrow> 0 | Inr (Some v) \<Rightarrow> v | Inr None \<Rightarrow> 0)
      in case pm_counters m (d, counter) of
           Some c \<Rightarrow> (c, m)
         | None \<Rightarrow>
             let c = PeriodicCounter_new created DURATION cnt
             in (c, m\<lparr>pm_counters := (pm_counters m)((d, counter) \<mapsto> c)\<rparr>))"

definition save_counter ::
  "('s, string, 64 word) persist \<Rightarrow> (did \<Rightarrow> string) \<Rightarrow> did \<Rightarrow> measure_counter \<Rightarrow> 64 word
     \<Rightarrow> 's periodic_measure \<Rightarrow> 's periodic_measure" where
  "save_counter P addr d counter cnt m =
     (let k = gen_storage_key addr d counter
      in m\<lparr>pm_storage := snd (p_put P k cnt (pm_storage m))\<rparr>)"

definition pm_incr ::
  "('s, string, 64 word) persist \<Rightarrow> (did \<Rightarrow> string) \<Rightarrow> int \<Rightarrow> int \<Rightarrow> did \<Rightarrow> measure_counter
     \<Rightarrow> 's periodic_measure \<Rightarrow> 's periodic_measure" where
  "pm_incr P addr created now d counter m =
     (let (c, m) = ensure_counter P addr created d counter m;
          ((n, is_refreshed), c) = pc_incr now c;
          m = m\<lparr>pm_counters := (pm_counters m)((d, counter) \<mapsto> c)\<rparr>
      in if is_refreshed then save_counter P addr d counter n m else m)"

definition pm_get_count ::
  "('s, string, 64 word) persist \<Rightarrow> (did \<Rightarrow> string) \<Rightarrow> int \<Rightarrow> int \<Rightarrow> did \<Rightarrow> measure_counter
     \<Rightarrow> 's periodic_measure \<Rightarrow> 64 word \<times> 's periodic_measure" where
  "pm_get_count P addr created now d counter m =
     (let (c, m) = ensure_counter P addr created d counter m;
          ((n, is_refreshed), c) = pc_get now c;
          m = m\<lparr>pm_counters := (pm_counters m)((d, counter) \<mapsto> c)\<rparr>
      in (n, if is_refreshed then save_counter P addr d counter n m else m))"

lemma DURATION_ns: "sint DURATION = 3600"
  by (simp add: DURATION_def)

section \<open>Counting through a period\<close>

text \<open>A call of \<open>incr\<close>: its two clock readings, the peer and the kind of event.\<close>

type_synonym incr_call = "(int \<times> int) \<times> did \<times> measure_counter"

definition do_incr ::
  "('s, string, 64 word) persist \<Rightarrow> (did \<Rightarrow> string) \<Rightarrow> incr_call \<Rightarrow> 's periodic_measure \<Rightarrow> 's periodic_measure" where
  "do_incr P addr e m = (case e of ((created, now), d, c) \<Rightarrow> pm_incr P addr created now d c m)"

definition calls_of :: "did \<Rightarrow> measure_counter \<Rightarrow> incr_call list \<Rightarrow> nat" where
  "calls_of d c es = length (filter (\<lambda>(_, x). x = (d, c)) es)"

text \<open>
  The calls of one period of the counter of \<open>d\<close> and \<open>c\<close>, which was made at \<open>t0\<close>; the calls for
  other counters may come at any time.
\<close>

definition in_period :: "did \<Rightarrow> measure_counter \<Rightarrow> int \<Rightarrow> incr_call list \<Rightarrow> bool" where
  "in_period d c t0 es \<longleftrightarrow> (\<forall>((created, now), x) \<in> set es. x = (d, c) \<longrightarrow> now < t0 + 3600000000000)"

text \<open>What the counter was last saved as; a counter never saved, or not readable, counts as 0.\<close>

definition saved_count ::
  "('s, string, 64 word) persist \<Rightarrow> (did \<Rightarrow> string) \<Rightarrow> did \<Rightarrow> measure_counter \<Rightarrow> 's \<Rightarrow> 64 word" where
  "saved_count P addr d c s = (case p_get P s (gen_storage_key addr d c) of Inr (Some v) \<Rightarrow> v | _ \<Rightarrow> 0)"

lemma ensure_counter_new:
  "pm_counters m (d, c) = None \<Longrightarrow> ensure_counter P addr created d c m =
     (PeriodicCounter_new created DURATION (saved_count P addr d c (pm_storage m)),
      m\<lparr>pm_counters := (pm_counters m)((d, c) \<mapsto>
        PeriodicCounter_new created DURATION (saved_count P addr d c (pm_storage m)))\<rparr>)"
  by (simp add: ensure_counter_def saved_count_def Let_def split: sum.split option.split)

text \<open>A call leaves the counters of other pairs alone, and the storage in order.\<close>

lemma incr_other:
  assumes "(d', c') \<noteq> (d, c)"
  shows "pm_counters (pm_incr P addr created now d' c' m) (d, c) = pm_counters m (d, c)"
  using assms by (auto simp: pm_incr_def ensure_counter_def save_counter_def Let_def split: prod.split option.split)

lemma incr_storage:
  assumes "persistence P view ok" "ok (pm_storage m)"
  shows "ok (pm_storage (pm_incr P addr created now d c m))"
proof -
  have "ok (snd (p_put P k v (pm_storage m)))" for k v
    using persistence.put_ok [OF assms] by (metis snd_conv)
  then show ?thesis
    using assms(2) by (auto simp: pm_incr_def ensure_counter_def save_counter_def Let_def split: prod.split option.split)
qed

lemma incr_running:
  assumes "pm_counters m (d, c) = Some k" "now < pc_previous k + pc_period k"
  shows "pm_counters (pm_incr P addr created now d c m) (d, c) = Some (k\<lparr>pc_count := pc_count k + 1\<rparr>)"
  using assms by (simp add: pm_incr_def ensure_counter_def pc_incr_def pc_refresh_def Let_def)

lemma counts_through_period:
  assumes "persistence P view ok" "ok (pm_storage m)" "in_period d c t0 es"
    and "pm_counters m (d, c) = Some k" "pc_previous k = t0" "pc_period k = 3600000000000"
  shows "pm_counters (fold (do_incr P addr) es m) (d, c) = Some (k\<lparr>pc_count := pc_count k + of_nat (calls_of d c es)\<rparr>)
    \<and> ok (pm_storage (fold (do_incr P addr) es m))"
  using assms(2-)
proof (induction es arbitrary: m k)
  case (Cons e es)
  obtain created now d' c' where e: "e = ((created, now), d', c')" by (cases e) auto
  have es: "in_period d c t0 es" using Cons.prems(2) by (simp add: in_period_def)
  have st: "ok (pm_storage (do_incr P addr e m))"
    using incr_storage [OF assms(1) Cons.prems(1)] by (simp add: do_incr_def e)
  show ?case
  proof (cases "(d', c') = (d, c)")
    case True
    then have "now < t0 + 3600000000000" using Cons.prems(2) by (auto simp: in_period_def e)
    then have "pm_counters (do_incr P addr e m) (d, c) = Some (k\<lparr>pc_count := pc_count k + 1\<rparr>)"
      using incr_running [OF Cons.prems(3)] Cons.prems(4,5) True by (simp add: do_incr_def e)
    from Cons.IH [OF st es this] Cons.prems(4,5) show ?thesis using True by (simp add: calls_of_def e add.assoc)
  next
    case False
    then have "pm_counters (do_incr P addr e m) (d, c) = Some k"
      using incr_other [OF False, of P addr created now m] Cons.prems(3) by (simp add: do_incr_def e)
    from Cons.IH [OF st es this Cons.prems(4,5)] show ?thesis using False by (simp add: calls_of_def e)
  qed
qed (simp add: calls_of_def)

lemma get_running:
  assumes "pm_counters m (d, c) = Some k" "now < pc_previous k + pc_period k"
  shows "fst (pm_get_count P addr created now d c m) = pc_barely_get k"
  using assms by (simp add: pm_get_count_def ensure_counter_def pc_get_def pc_refresh_def Let_def)

lemma get_after:
  assumes "persistence P view ok" "ok (pm_storage m)" "pm_counters m (d, c) = Some k"
    and "pc_previous k + pc_period k \<le> now"
  obtains m' where "pm_get_count P addr created now d c m = (pc_count k, m')" "ok (pm_storage m')"
    "view (pm_storage m') = (view (pm_storage m))(gen_storage_key addr d c \<mapsto> pc_count k)"
proof -
  obtain s where s: "p_put P (gen_storage_key addr d c) (pc_count k) (pm_storage m) = (Inr (), s)" "ok s"
      "view s = (view (pm_storage m))(gen_storage_key addr d c \<mapsto> pc_count k)"
    using persistence.put_ok [OF assms(1,2)] by blast
  have "pm_get_count P addr created now d c m = (pc_count k, m\<lparr>pm_storage := s, pm_counters := (pm_counters m)
      ((d, c) \<mapsto> k\<lparr>pc_previous_count := pc_count k, pc_count := 0, pc_previous := now\<rparr>)\<rparr>)"
    using assms(3,4) s(1)
    by (cases "pc_count k = 0") (simp_all add: pm_get_count_def ensure_counter_def save_counter_def pc_get_def
        pc_refresh_def pc_barely_get_def Let_def)
  then show thesis using that s by simp
qed

lemma get_restarted:
  assumes "now < created + 3600000000000"
  shows "fst (pm_get_count P addr created now d c (PeriodicMeasure_new s)) = saved_count P addr d c s"
proof -
  let ?k = "PeriodicCounter_new created DURATION (saved_count P addr d c s)"
  have "pc_refresh now ?k = (False, ?k)"
    using assms by (simp add: pc_refresh_def PeriodicCounter_new_def DURATION_ns)
  then show ?thesis
    using ensure_counter_new [of "PeriodicMeasure_new s" d c P addr created]
    by (simp add: pm_get_count_def pc_get_def pc_barely_get_def PeriodicMeasure_new_def PeriodicCounter_new_def)
qed

section \<open>Properties\<close>



end
