(* ===== verification/Processor.thy ===== *)
theory Processor
  imports Rpc Measure
begin

text \<open>
  The operations behind the node's RPC interface, \<open>rings-node/src/processor.rs\<close>: handshakes
  carried by hand or over HTTP, peers, pending transports, the messages an application sends,
  and the services on the DHT. A \<open>Processor\<close> is the swarm it wraps; the address printer,
  base64, the RPC client, the curve's verification and the readings of a transport's state are
  the record \<open>node_ops\<close>.
\<close>

record 'w node_ops =
  no_addr :: "did \<Rightarrow> string"
  no_b64 :: "bytes \<Rightarrow> string"
  no_unb64 :: "bytes \<Rightarrow> bytes option"
  no_secp_verify :: "bytes \<Rightarrow> bytes \<Rightarrow> bytes \<Rightarrow> bool"
  no_call :: "string \<Rightarrow> string \<Rightarrow> json list \<Rightarrow> 'w \<Rightarrow> (string + json) \<times> 'w"
  no_ice_state :: "'w \<Rightarrow> uuid \<Rightarrow> ice_state option"
  no_de_http_request :: "json \<Rightarrow> http_request option"
  no_de_seeds :: "json \<Rightarrow> (did \<times> string) list list option"
  no_from_base58 :: "string \<Rightarrow> bytes option"

type_synonym ('s, 'w, 'a) proc = "('s, 'w) node \<Rightarrow> (node_error + 'a) \<times> ('s, 'w) node"

section \<open>Unsigned information\<close>

datatype address_type = AddrDefault | AddrED25519

record unsigned_info =
  ui_key_addr :: did
  ui_auth :: authorized_info
  ui_random_key :: secret_key

text \<open>\<open>key\<close> is the random session key, \<open>now\<close> the clock.\<close>

definition UnsignedInfo_new_with_signer ::
  "ecc \<Rightarrow> codec \<Rightarrow> secret_key \<Rightarrow> u128 \<Rightarrow> string \<Rightarrow> signer \<Rightarrow> node_error + unsigned_info" where
  "UnsignedInfo_new_with_signer E C key now key_addr sg =
     (case did_from_str C key_addr of
        Inl _ \<Rightarrow> Inl InvalidDid
      | Inr key_addr \<Rightarrow>
          let (auth, random_key) = gen_unsign_info E key now key_addr None (Some sg)
          in Inr \<lparr>ui_key_addr = key_addr, ui_auth = auth, ui_random_key = random_key\<rparr>)"

definition UnsignedInfo_new ::
  "ecc \<Rightarrow> codec \<Rightarrow> secret_key \<Rightarrow> u128 \<Rightarrow> string \<Rightarrow> node_error + unsigned_info" where
  "UnsignedInfo_new E C key now key_addr = UnsignedInfo_new_with_signer E C key now key_addr EIP191"

definition UnsignedInfo_new_with_address ::
  "ecc \<Rightarrow> codec \<Rightarrow> (string \<Rightarrow> bytes option) \<Rightarrow> secret_key \<Rightarrow> u128 \<Rightarrow> string \<Rightarrow> address_type
     \<Rightarrow> node_error + unsigned_info" where
  "UnsignedInfo_new_with_address E C from_base58 key now address addr_type =
     (case addr_type of
        AddrDefault \<Rightarrow>
          (case did_from_str C address of
             Inl _ \<Rightarrow> Inl InvalidDid
           | Inr key_addr \<Rightarrow>
               let (auth, random_key) = gen_unsign_info E key now key_addr None (Some EIP191)
               in Inr \<lparr>ui_key_addr = key_addr, ui_auth = auth, ui_random_key = random_key\<rparr>)
      | AddrED25519 \<Rightarrow>
          (case try_from_b58t from_base58 address of
             Inl _ \<Rightarrow> Inl InvalidAddress
           | Inr pubkey \<Rightarrow>
               let (auth, random_key) = gen_unsign_info_with_ed25519_pubkey E key now None pubkey
               in Inr \<lparr>ui_key_addr = public_key_address E pubkey, ui_auth = auth,
                       ui_random_key = random_key\<rparr>))"

definition ui_auth_string :: "ecc \<Rightarrow> unsigned_info \<Rightarrow> node_error + string" where
  "ui_auth_string E ui =
     (case authorized_info_to_string E (ui_auth ui) of Inl _ \<Rightarrow> Inl InvalidAuthData | Inr s \<Rightarrow> Inr s)"

section \<open>Starting\<close>

text \<open>
  \<open>start\<close> puts the counters into the world the swarm starts in and says how they are
  incremented there. \<open>SwarmBuilder::new\<close> panics on a bad server URL.
\<close>

definition core_result :: "(error \<Rightarrow> node_error) \<Rightarrow> 'a result \<Rightarrow> node_error + 'a" where
  "core_result f r = (case r of Inl e \<Rightarrow> Inl (into_node_error f e) | Inr x \<Rightarrow> Inr x)"

definition Processor_new_with_storage ::
  "ecc \<Rightarrow> (string \<Rightarrow> url option) \<Rightarrow> (string \<Rightarrow> usize \<Rightarrow> 'd option)
     \<Rightarrow> ('d kv_storage periodic_measure \<Rightarrow> (did \<Rightarrow> measure_counter \<Rightarrow> 'w \<Rightarrow> 'w) \<times> 'w)
     \<Rightarrow> u128 \<Rightarrow> secret_key \<Rightarrow> unsigned_info \<Rightarrow> bytes \<Rightarrow> string \<Rightarrow> string
     \<Rightarrow> node_error + ('d kv_storage, 'w) node" where
  "Processor_new_with_storage E parse open_db start now rand unsigned_info signed_data stuns storage_name =
     (let storage_path = storage_name; measure_path = storage_path @ ''/'' @ ''measure'' in
      rbind (core_result StorageError (kv_new_with_cap_and_name open_db 50000 storage_path)) (\<lambda>storage.
      rbind (core_result StorageError (kv_new_with_cap_and_path open_db 50000 measure_path)) (\<lambda>ms.
      let ms = PeriodicMeasure_new ms; random_key = ui_random_key unsigned_info;
          session_manager = SessionManager_new signed_data (ui_auth unsigned_info) random_key;
          (incr, world) = start ms
      in rbind (core_result SwarmError (SwarmBuilder_new parse stuns storage)) (\<lambda>builder.
         core_result SwarmError (builder_build E now rand (Some incr) world
           (builder_session_manager (ui_key_addr unsigned_info) session_manager builder))))))"

definition Processor_new where
  "Processor_new E parse open_db start now rand unsigned_info signed_data stuns =
     Processor_new_with_storage E parse open_db start now rand unsigned_info signed_data stuns ''rings-node''"

section \<open>Authorisation\<close>

definition auth_message :: "'w node_ops \<Rightarrow> did \<Rightarrow> string" where
  "auth_message N a = ''rings-node: '' @ no_addr N a"

definition generate_signature :: "ecc \<Rightarrow> 'w node_ops \<Rightarrow> secret_key \<Rightarrow> string" where
  "generate_signature E N sk =
     (let message = auth_message N (secret_key_address E sk)
      in case secp_sign E (keccak256 E (as_bytes message)) sk of (r, s, _) \<Rightarrow> no_b64 N (r @ s))"

definition verify_signature :: "ecc \<Rightarrow> 'w node_ops \<Rightarrow> bytes \<Rightarrow> public_key \<Rightarrow> node_error + bool" where
  "verify_signature E N signature pk =
     (let message = auth_message N (public_key_address E pk) in
      rbind (ok_or (no_unb64 N signature) DecodedError) (\<lambda>sig.
      rbind (if secp_parse_sig E sig then Inr () else Inl DecodedError) (\<lambda>_.
      rbind (ok_or (secp_parse_compressed E pk) DecodedError) (\<lambda>pk.
        Inr (no_secp_verify N (keccak256 E (as_bytes message)) sig pk)))))"

section \<open>Handshakes\<close>

definition proc_create_offer :: "('s, 'w) env \<Rightarrow> ('s, 'w, uuid \<times> encoded) proc" where
  "proc_create_offer X =
     sbind (core (\<lambda>_. NewTransportError) (new_transport X)) (\<lambda>transport.
     sbind (attempt_node (
       sbind (sget sw_session) (\<lambda>sm.
       sbind (core CreateOffer (on_world (tr_get_handshake_info (en_transport X) sm Offer transport))) (\<lambda>hs_info.
       sbind (core PendingTransport (push_pending_transport transport)) (\<lambda>_.
       sret hs_info))))) (\<lambda>r.
     case r of
       Inr hs_info \<Rightarrow> sret (transport, hs_info)
     | Inl e \<Rightarrow>
         sbind (attempt_node (core CloseTransportError (close_transport X transport))) (\<lambda>_.
         serr e)))"

text \<open>
  The question marks inside the block that computes \<open>addr_result\<close> return from the function, so
  the clean-up after it never runs on an error.
\<close>

definition do_connect_peer_via_http ::
  "('s, 'w) env \<Rightarrow> 'w node_ops \<Rightarrow> string \<Rightarrow> ('s, 'w, uuid \<times> string) proc" where
  "do_connect_peer_via_http X N node_url =
     sbind (proc_create_offer X) (\<lambda>(transport, hs_info).
     sbind (\<lambda>n. case no_call N node_url (method_as_str AnswerOffer) [JString (encoded_value hs_info)]
                       (sw_world n) of
                  (Inl e, w) \<Rightarrow> (Inl (RemoteRpcError e), n\<lparr>sw_world := w\<rparr>)
                | (Inr v, w) \<Rightarrow> (Inr v, n\<lparr>sw_world := w\<rparr>)) (\<lambda>resp.
     sbind (slift (ok_or (transport_and_ice_of_json resp) JsonDeserializeError)) (\<lambda>info.
     sbind (core RegisterIceError (on_world (tr_register_remote_info (en_transport X)
              (Encoded (tai_ice info)) transport))) (\<lambda>d.
     sbind (core RegisterIceError (register X d transport)) (\<lambda>_.
     let addr_result = Inr d in
     case addr_result of
       Inl e \<Rightarrow>
         sbind (attempt_node (core CloseTransportError (close_transport X transport))) (\<lambda>_. serr e)
     | Inr d \<Rightarrow> sret (transport, no_addr N d))))))"

definition proc_connect_peer_via_http ::
  "('s, 'w) env \<Rightarrow> 'w node_ops \<Rightarrow> string \<Rightarrow> ('s, 'w, uuid) proc" where
  "proc_connect_peer_via_http X N peer_url =
     sbind (do_connect_peer_via_http X N peer_url) (\<lambda>(transport, _). sret transport)"

definition proc_handshake :: "('s, 'w) env \<Rightarrow> uuid \<Rightarrow> string \<Rightarrow> ('s, 'w, encoded) proc" where
  "proc_handshake X transport data =
     (let hs_info = Encoded data in
      sbind (core RegisterIceError (on_world (tr_register_remote_info (en_transport X) hs_info transport))) (\<lambda>d.
      sbind (core RegisterIceError (register X d transport)) (\<lambda>_.
      sbind (sget sw_session) (\<lambda>sm.
      sbind (core CreateAnswer (on_world (tr_get_handshake_info (en_transport X) sm Answer transport)))
        sret))))"

definition proc_answer_offer :: "('s, 'w) env \<Rightarrow> string \<Rightarrow> ('s, 'w, uuid \<times> encoded) proc" where
  "proc_answer_offer X ice_info =
     sbind (core (\<lambda>_. NewTransportError) (new_transport X)) (\<lambda>transport.
     sbind (attempt_node (proc_handshake X transport ice_info)) (\<lambda>r.
     case r of
       Inr v \<Rightarrow> sret (transport, v)
     | Inl e \<Rightarrow>
         sbind (core CloseTransportError (close_transport X transport)) (\<lambda>_.
         serr e)))"

text \<open>A \<open>Peer\<close> is the identifier and the transport.\<close>

type_synonym peer = "did \<times> uuid"

definition proc_connect_with_did :: "('s, 'w) env \<Rightarrow> did \<Rightarrow> bool \<Rightarrow> ('s, 'w, peer) proc" where
  "proc_connect_with_did X d wait_for_open =
     sbind (core ConnectWithDidError (swarm_connect X d)) (\<lambda>transport.
     sbind (if wait_for_open then
              core ConnectWithDidError (on_world (tr_wait_for_data_channel_open (en_transport X) transport))
            else sret ()) (\<lambda>_.
     sret (d, transport)))"

definition parse_uuid :: "('s, 'w) env \<Rightarrow> string \<Rightarrow> node_error + uuid" where
  "parse_uuid X s = ok_or (en_uuid_from_str X s) InvalidTransportId"

definition proc_accept_answer :: "('s, 'w) env \<Rightarrow> string \<Rightarrow> string \<Rightarrow> ('s, 'w, peer) proc" where
  "proc_accept_answer X transport_id ice =
     (let ice = Encoded ice in
      sbind (slift (parse_uuid X transport_id)) (\<lambda>transport_id.
      sbind (core PendingTransport (find_pending_transport transport_id)) (\<lambda>t.
      sbind (slift (ok_or t TransportNotFound)) (\<lambda>transport.
      sbind (core RegisterIceError (on_world (tr_register_remote_info (en_transport X) ice transport))) (\<lambda>d.
      sbind (core RegisterIceError (register X d transport)) (\<lambda>_.
      sbind (attempt_node (core PendingTransport (pop_pending_transport transport))) (\<lambda>_.
      sret (d, transport))))))))"

section \<open>Peers and pending transports\<close>

definition proc_list_peers :: "('s, 'w, peer list) proc" where
  "proc_list_peers = sget get_transports"

definition proc_get_peer :: "did \<Rightarrow> ('s, 'w, peer) proc" where
  "proc_get_peer d =
     sbind (sget (\<lambda>n. get_transport n d)) (\<lambda>t.
     sbind (slift (ok_or t TransportNotFound)) (\<lambda>transport.
     sret (d, transport)))"

definition proc_disconnect :: "('s, 'w) env \<Rightarrow> did \<Rightarrow> ('s, 'w, unit) proc" where
  "proc_disconnect X d =
     sbind (sget (\<lambda>n. get_transport n d)) (\<lambda>t.
     sbind (slift (ok_or t TransportNotFound)) (\<lambda>transport.
     sbind (core CloseTransportError (close_transport X transport)) (\<lambda>_.
     sbind (core SwarmError (remove_transport d)) (\<lambda>_.
     sret ()))))"

definition proc_list_pendings :: "('s, 'w, uuid list) proc" where
  "proc_list_pendings = core (\<lambda>_. InternalError) pending_transports"

definition proc_close_pending_transport :: "('s, 'w) env \<Rightarrow> string \<Rightarrow> ('s, 'w, unit) proc" where
  "proc_close_pending_transport X transport_id =
     sbind (slift (parse_uuid X transport_id)) (\<lambda>transport_id.
     sbind (core (\<lambda>_. TransportNotFound) (find_pending_transport transport_id)) (\<lambda>t.
     sbind (slift (ok_or t TransportNotFound)) (\<lambda>transport.
     sbind (sget (\<lambda>n. is_connected X n transport)) (\<lambda>connected.
     sbind (if connected then core CloseTransportError (close_transport X transport) else sret ()) (\<lambda>_.
     sbind (core CloseTransportError (pop_pending_transport transport_id)) (\<lambda>_.
     sret ()))))))"

section \<open>Messages\<close>

definition proc_send_message ::
  "('s, 'w) env \<Rightarrow> 'w backend_ops \<Rightarrow> string \<Rightarrow> bytes \<Rightarrow> ('s, 'w, uuid) proc" where
  "proc_send_message X B destination msg =
     sbind (slift (core_result (\<lambda>_. InvalidDid) (did_from_str (en_codec X) destination))) (\<lambda>destination.
     let new_msg = [0] @ replicate 3 0 @ msg in
     sbind (slift (core_result SendMessage (Message_custom (en_ecc X) (be_cipher B) new_msg None))) (\<lambda>msg.
     core SendMessage (send_message X msg destination)))"

definition proc_send_http_request_message ::
  "('s, 'w) env \<Rightarrow> 'w backend_ops \<Rightarrow> string \<Rightarrow> string \<Rightarrow> string \<Rightarrow> string \<Rightarrow> timeout
     \<Rightarrow> (string \<times> string) list \<Rightarrow> bytes option \<Rightarrow> ('s, 'w, uuid) proc" where
  "proc_send_http_request_message X B destination name meth url timeout headers body =
     sbind (slift (bm_try_from_value (be_ser_request B)
              (MtHttpRequest, HttpRequest_new name meth url timeout headers body))) (\<lambda>msg.
     proc_send_message X B destination (bm_into_bytes msg))"

definition proc_send_simple_text_message ::
  "('s, 'w) env \<Rightarrow> 'w backend_ops \<Rightarrow> string \<Rightarrow> string \<Rightarrow> ('s, 'w, uuid) proc" where
  "proc_send_simple_text_message X B destination txt =
     (let msg = bm_from_pair (u16_of_message_type MtSimpleText, as_bytes txt)
      in proc_send_message X B destination (bm_into_bytes msg))"

definition proc_send_custom_message ::
  "('s, 'w) env \<Rightarrow> 'w backend_ops \<Rightarrow> string \<Rightarrow> u16 \<Rightarrow> bytes \<Rightarrow> bytes \<Rightarrow> ('s, 'w, uuid) proc" where
  "proc_send_custom_message X B destination message_type data extra =
     (let msg = BackendMessage_new message_type extra data
      in proc_send_message X B destination (bm_into_bytes msg))"

text \<open>\<open>unpack_text_message\<close>: splitting off four bytes of a shorter message panics.\<close>

definition unpack_text_message :: "custom_message \<Rightarrow> node_error + string" where
  "unpack_text_message msg =
     (if length msg < 4 then Inl (NodePanicked ''split_at'')
      else let left = take 4 msg; right = drop 4 msg in
        if left ! 0 \<noteq> 0 then Inl InvalidData
        else unwrap_or_panic (from_utf8 right))"

section \<open>Storage and services\<close>

definition proc_storage_check_cache :: "did \<Rightarrow> ('s, 'w, virtual_node option) proc" where
  "proc_storage_check_cache d = sget (\<lambda>n. storage_check_cache n d)"

definition proc_storage_fetch :: "('s, 'w) env \<Rightarrow> did \<Rightarrow> ('s, 'w, unit) proc" where
  "proc_storage_fetch X d = core VNodeError (storage_fetch X d)"

definition proc_storage_store :: "('s, 'w) env \<Rightarrow> virtual_node \<Rightarrow> ('s, 'w, unit) proc" where
  "proc_storage_store X v = core VNodeError (storage_store X v)"

definition proc_storage_append_data :: "('s, 'w) env \<Rightarrow> string \<Rightarrow> encoded \<Rightarrow> ('s, 'w, unit) proc" where
  "proc_storage_append_data X topic data = core VNodeError (storage_append_data X topic data)"

definition proc_register_service :: "('s, 'w) env \<Rightarrow> 'w node_ops \<Rightarrow> string \<Rightarrow> ('s, 'w, unit) proc" where
  "proc_register_service X N name =
     sbind (sget sw_did) (\<lambda>me.
     sbind (slift (core_result ServiceRegisterError (encode_string (en_codec X) (no_addr N me)))) (\<lambda>encoded_did.
     core ServiceRegisterError (storage_touch_data X name encoded_did)))"

end
