(* ===== verification/Server.thy ===== *)
theory Server
  imports Processor
begin

text \<open>
  The JSON-RPC handlers of \<open>jsonrpc/server.rs\<close> and the HTTP entry point of \<open>service/mod.rs\<close>.
  Every handler is an action on the node that takes the request's parameters and whether the
  caller is authorised. Finding the method of a request and the parsing of its text are the
  library's (\<open>MetaIoHandler\<close>); the table it is given by \<open>build_handler\<close> is \<open>rpc_dispatch\<close>.
\<close>

type_synonym ('s, 'w) rpc = "params \<Rightarrow> bool \<Rightarrow> ('s, 'w) node \<Rightarrow> (rpc_error + json) \<times> ('s, 'w) node"

abbreviation proc :: "('s, 'w, 'a) proc \<Rightarrow> ('s, 'w) node \<Rightarrow> (rpc_error + 'a) \<times> ('s, 'w) node" where
  "proc m \<equiv> map_err rpc_error_of m"

definition require_authed :: "bool \<Rightarrow> rpc_error + unit" where
  "require_authed is_auth = (if \<not> is_auth then Inl (rpc_error_of NoPermission) else Inr ())"

text \<open>The \<open>i\<close>-th parameter, converted; missing or of the wrong type is \<open>InvalidParams\<close>.\<close>

definition param :: "json list \<Rightarrow> nat \<Rightarrow> (json \<Rightarrow> 'a option) \<Rightarrow> rpc_error + 'a" where
  "param ps i conv = rbind (ok_or (list_get ps i) RpcInvalidParams) (\<lambda>v. ok_or (conv v) RpcInvalidParams)"

definition first_string :: "params \<Rightarrow> rpc_error + string" where
  "first_string p = rbind (parse_strings p) (\<lambda>ps. ok_or (list_get ps 0) RpcInvalidParams)"

definition tx_id_json :: "('s, 'w) env \<Rightarrow> uuid \<Rightarrow> json" where
  "tx_id_json X tx = JObject [(''tx_id'', JString (en_uuid_str X tx))]"

section \<open>Connections\<close>

definition rpc_connect_peer_via_http :: "('s, 'w) env \<Rightarrow> 'w node_ops \<Rightarrow> ('s, 'w) rpc" where
  "rpc_connect_peer_via_http X N p is_auth =
     sbind (slift (first_string p)) (\<lambda>peer_url.
     sbind (proc (proc_connect_peer_via_http X N peer_url)) (\<lambda>transport.
     sret (JString (en_uuid_str X transport))))"

text \<open>
  The connection attempts of \<open>join_all\<close> are taken one after the other; each is run whatever
  happens to the others, and the first error is reported.
\<close>

fun rpc_join_all :: "('s, 'w, 'a) proc list \<Rightarrow> ('s, 'w, (node_error + 'a) list) proc" where
  "rpc_join_all [] = sret []"
| "rpc_join_all (m # ms) = sbind (attempt_node m) (\<lambda>r. sbind (rpc_join_all ms) (\<lambda>rs. sret (r # rs)))"

definition rpc_connect_with_seed :: "('s, 'w) env \<Rightarrow> 'w node_ops \<Rightarrow> ('s, 'w) rpc" where
  "rpc_connect_with_seed X N p is_auth =
     sbind (slift (ok_or (no_de_seeds N (params_value p)) RpcInvalidParams)) (\<lambda>seeds.
     sbind (slift (ok_or (list_get seeds 0) RpcInvalidParams)) (\<lambda>seed.
     sbind (sget (\<lambda>n. get_dids n @ [sw_did n])) (\<lambda>connected_addresses.
     sbind (proc (rpc_join_all (map (\<lambda>x. proc_connect_peer_via_http X N (snd x))
              (filter (\<lambda>x. fst x \<notin> set connected_addresses) seed)))) (\<lambda>results.
     case find (\<lambda>r. \<not> is_ok r) results of
       Some (Inl e) \<Rightarrow> serr (rpc_error_of e)
     | _ \<Rightarrow> sret JNull))))"

definition rpc_answer_offer :: "('s, 'w) env \<Rightarrow> ('s, 'w) rpc" where
  "rpc_answer_offer X p is_auth =
     sbind (slift (first_string p)) (\<lambda>ice_info.
     sbind (proc (proc_answer_offer X ice_info)) (\<lambda>r.
     sret (transport_and_ice_json (TransportAndIce_from X r))))"

definition rpc_connect_with_did :: "('s, 'w) env \<Rightarrow> ('s, 'w) rpc" where
  "rpc_connect_with_did X p is_auth =
     sbind (slift (require_authed is_auth)) (\<lambda>_.
     sbind (slift (first_string p)) (\<lambda>address_str.
     sbind (slift (case did_from_str (en_codec X) address_str of
              Inl _ \<Rightarrow> Inl RpcInvalidParams | Inr d \<Rightarrow> Inr d)) (\<lambda>d.
     sbind (proc (proc_connect_with_did X d True)) (\<lambda>_.
     sret JNull))))"

definition rpc_create_offer :: "('s, 'w) env \<Rightarrow> ('s, 'w) rpc" where
  "rpc_create_offer X p is_auth =
     sbind (slift (require_authed is_auth)) (\<lambda>_.
     sbind (proc (proc_create_offer X)) (\<lambda>r.
     sret (transport_and_ice_json (TransportAndIce_from X r))))"

definition ice_state_string :: "'w node_ops \<Rightarrow> 'w \<Rightarrow> uuid \<Rightarrow> string option" where
  "ice_state_string N w t = map_option from_rtc_ice_connection_state (no_ice_state N w t)"

definition peer_json :: "('s, 'w) env \<Rightarrow> 'w node_ops \<Rightarrow> 'w \<Rightarrow> peer \<Rightarrow> json" where
  "peer_json X N w p =
     peer_info_json (peer_info_from (no_addr N (fst p)) (en_uuid_str X (snd p)) (ice_state_string N w (snd p)))"

text \<open>\<open>split_at(2)\<close> of fewer than two parameters panics.\<close>

definition rpc_accept_answer :: "('s, 'w) env \<Rightarrow> 'w node_ops \<Rightarrow> ('s, 'w) rpc" where
  "rpc_accept_answer X N p is_auth =
     sbind (slift (require_authed is_auth)) (\<lambda>_.
     sbind (slift (parse_strings p)) (\<lambda>ps.
     case ps of
       transport_id # ice # _ \<Rightarrow>
         sbind (proc (proc_accept_answer X transport_id ice)) (\<lambda>p.
         sget (\<lambda>n. peer_json X N (sw_world n) p))
     | _ \<Rightarrow> serr (RpcPanicked ''split_at'')))"

definition rpc_list_peers :: "('s, 'w) env \<Rightarrow> 'w node_ops \<Rightarrow> ('s, 'w) rpc" where
  "rpc_list_peers X N p is_auth =
     sbind (slift (require_authed is_auth)) (\<lambda>_.
     sbind (proc proc_list_peers) (\<lambda>peers.
     sget (\<lambda>n. JArray (map (peer_json X N (sw_world n)) peers))))"

definition rpc_close_connection :: "('s, 'w) env \<Rightarrow> ('s, 'w) rpc" where
  "rpc_close_connection X p is_auth =
     sbind (slift (require_authed is_auth)) (\<lambda>_.
     sbind (slift (first_string p)) (\<lambda>d.
     sbind (slift (case did_from_str (en_codec X) d of
              Inl _ \<Rightarrow> Inl (rpc_error_of InvalidDid) | Inr d \<Rightarrow> Inr d)) (\<lambda>d.
     sbind (proc (proc_disconnect X d)) (\<lambda>_.
     sret (JObject [])))))"

definition rpc_list_pendings :: "('s, 'w) env \<Rightarrow> 'w node_ops \<Rightarrow> ('s, 'w) rpc" where
  "rpc_list_pendings X N p is_auth =
     sbind (slift (require_authed is_auth)) (\<lambda>_.
     sbind (proc proc_list_pendings) (\<lambda>transports.
     sget (\<lambda>n. JArray (map (\<lambda>t. transport_info_json
       (TransportInfo_new (en_uuid_str X t) (ice_state_string N (sw_world n) t))) transports))))"

definition rpc_close_pending_transport :: "('s, 'w) env \<Rightarrow> ('s, 'w) rpc" where
  "rpc_close_pending_transport X p is_auth =
     sbind (slift (require_authed is_auth)) (\<lambda>_.
     sbind (slift (first_string p)) (\<lambda>transport_id.
     sbind (proc (proc_close_pending_transport X transport_id)) (\<lambda>_.
     sret (JObject []))))"

section \<open>Messages\<close>

definition rpc_send_raw_message :: "('s, 'w) env \<Rightarrow> 'w backend_ops \<Rightarrow> ('s, 'w) rpc" where
  "rpc_send_raw_message X B p is_auth =
     sbind (slift (require_authed is_auth)) (\<lambda>_.
     sbind (slift (parse_map p)) (\<lambda>ps.
     sbind (slift (ok_or (Option.bind (map_of ps ''destination'') json_as_str) RpcInvalidParams)) (\<lambda>destination.
     sbind (slift (ok_or (Option.bind (map_of ps ''text'') json_as_str) RpcInvalidParams)) (\<lambda>txt.
     sbind (proc (proc_send_message X B destination (as_bytes txt))) (\<lambda>tx_id.
     sret (tx_id_json X tx_id))))))"

definition u16_of_u64 :: "64 word \<Rightarrow> u16 option" where
  "u16_of_u64 n = (if n < 2 ^ 16 then Some (ucast n) else None)"

definition rpc_send_custom_message ::
  "('s, 'w) env \<Rightarrow> 'w node_ops \<Rightarrow> 'w backend_ops \<Rightarrow> ('s, 'w) rpc" where
  "rpc_send_custom_message X N B p is_auth =
     sbind (slift (require_authed is_auth)) (\<lambda>_.
     sbind (slift (parse_values p)) (\<lambda>ps.
     sbind (slift (param ps 0 json_as_str)) (\<lambda>destination.
     sbind (slift (param ps 1 json_as_u64)) (\<lambda>n.
     sbind (slift (ok_or (u16_of_u64 n) RpcInvalidParams)) (\<lambda>message_type.
     sbind (slift (param ps 2 json_as_str)) (\<lambda>data.
     sbind (slift (ok_or (no_unb64 N (as_bytes data)) RpcInvalidParams)) (\<lambda>data.
     let msg = bm_from_pair (message_type, data) in
     sbind (proc (proc_send_message X B destination (bm_into_bytes msg))) (\<lambda>tx_id.
     sret (tx_id_json X tx_id)))))))))"

definition rpc_send_simple_text_message :: "('s, 'w) env \<Rightarrow> 'w backend_ops \<Rightarrow> ('s, 'w) rpc" where
  "rpc_send_simple_text_message X B p is_auth =
     sbind (slift (require_authed is_auth)) (\<lambda>_.
     sbind (slift (parse_values p)) (\<lambda>ps.
     sbind (slift (param ps 0 json_as_str)) (\<lambda>destination.
     sbind (slift (param ps 1 json_as_str)) (\<lambda>txt.
     let msg = bm_from_pair (u16_of_message_type MtSimpleText, as_bytes txt) in
     sbind (proc (proc_send_message X B destination (bm_into_bytes msg))) (\<lambda>tx_id.
     sret (tx_id_json X tx_id))))))"

definition rpc_send_http_request_message ::
  "('s, 'w) env \<Rightarrow> 'w node_ops \<Rightarrow> 'w backend_ops \<Rightarrow> ('s, 'w) rpc" where
  "rpc_send_http_request_message X N B p is_auth =
     sbind (slift (require_authed is_auth)) (\<lambda>_.
     sbind (slift (parse_values p)) (\<lambda>ps.
     sbind (slift (param ps 0 json_as_str)) (\<lambda>destination.
     sbind (slift (param ps 1 (no_de_http_request N))) (\<lambda>http_request.
     sbind (map_err rpc_error_of (slift (bm_try_from_value (be_ser_request B) (MtHttpRequest, http_request)))) (\<lambda>msg.
     sbind (proc (proc_send_message X B destination (bm_into_bytes msg))) (\<lambda>tx_id.
     sret (tx_id_json X tx_id)))))))"

section \<open>Topics and services\<close>

definition rpc_publish_message_to_topic :: "('s, 'w) env \<Rightarrow> ('s, 'w) rpc" where
  "rpc_publish_message_to_topic X p is_auth =
     sbind (slift (require_authed is_auth)) (\<lambda>_.
     sbind (slift (parse_values p)) (\<lambda>ps.
     sbind (slift (param ps 0 json_as_str)) (\<lambda>topic.
     sbind (slift (param ps 1 json_as_str)) (\<lambda>data.
     sbind (slift (case encode_string (en_codec X) data of
              Inl _ \<Rightarrow> Inl RpcInvalidParams | Inr e \<Rightarrow> Inr e)) (\<lambda>data.
     sbind (proc (proc_storage_append_data X topic data)) (\<lambda>_.
     sret (JObject [])))))))"

text \<open>The texts that decode, from a given index on.\<close>

definition decoded_strings :: "codec \<Rightarrow> nat \<Rightarrow> virtual_node option \<Rightarrow> json" where
  "decoded_strings C index v = (case v of
       Some vnode \<Rightarrow> JArray (map JString (List.map_filter
         (\<lambda>e. case decode_string C e of Inl _ \<Rightarrow> None | Inr s \<Rightarrow> Some s) (drop index (vn_data vnode))))
     | None \<Rightarrow> JArray [])"

text \<open>\<open>index as usize\<close> turns a negative index into a huge one.\<close>

definition rpc_fetch_messages_of_topic :: "('s, 'w) env \<Rightarrow> ('s, 'w) rpc" where
  "rpc_fetch_messages_of_topic X p is_auth =
     sbind (slift (require_authed is_auth)) (\<lambda>_.
     sbind (slift (parse_values p)) (\<lambda>ps.
     sbind (slift (param ps 0 json_as_str)) (\<lambda>topic.
     sbind (slift (param ps 1 json_as_i64)) (\<lambda>index.
     sbind (slift (case gen_did (en_codec X) topic of
              Inl _ \<Rightarrow> Inl RpcInvalidParams | Inr d \<Rightarrow> Inr d)) (\<lambda>vid.
     sbind (proc (proc_storage_fetch X vid)) (\<lambda>_.
     sbind (proc (proc_storage_check_cache vid)) (\<lambda>result.
     sret (decoded_strings (en_codec X) (unat index) result))))))))"

definition rpc_register_service :: "('s, 'w) env \<Rightarrow> 'w node_ops \<Rightarrow> ('s, 'w) rpc" where
  "rpc_register_service X N p is_auth =
     sbind (slift (require_authed is_auth)) (\<lambda>_.
     sbind (slift (parse_values p)) (\<lambda>ps.
     sbind (slift (param ps 0 json_as_str)) (\<lambda>name.
     sbind (proc (proc_register_service X N name)) (\<lambda>_.
     sret (JObject [])))))"

definition rpc_lookup_service :: "('s, 'w) env \<Rightarrow> ('s, 'w) rpc" where
  "rpc_lookup_service X p is_auth =
     sbind (slift (require_authed is_auth)) (\<lambda>_.
     sbind (slift (parse_values p)) (\<lambda>ps.
     sbind (slift (param ps 0 json_as_str)) (\<lambda>name.
     sbind (slift (case gen_did (en_codec X) name of
              Inl _ \<Rightarrow> Inl RpcInvalidParams | Inr d \<Rightarrow> Inr d)) (\<lambda>rid.
     sbind (proc (proc_storage_fetch X rid)) (\<lambda>_.
     sbind (proc (proc_storage_check_cache rid)) (\<lambda>result.
     sret (decoded_strings (en_codec X) 0 result)))))))"

text \<open>\<open>be_recv B wait\<close> receives from the broadcast channel, waiting for a message or not.\<close>

definition rpc_poll_message :: "'w node_ops \<Rightarrow> 'w backend_ops \<Rightarrow> ('s, 'w) rpc" where
  "rpc_poll_message N B p is_auth =
     sbind (slift (parse_values p)) (\<lambda>ps.
     let wait_recv = (case list_get ps 0 of
           Some v \<Rightarrow> (case json_as_bool v of Some b \<Rightarrow> b | None \<Rightarrow> False) | None \<Rightarrow> False) in
     sbind (\<lambda>n. case be_recv B wait_recv (sw_world n) of (m, w) \<Rightarrow> (Inr m, n\<lparr>sw_world := w\<rparr>)) (\<lambda>msg.
     let msg = (case msg of
           Some m \<Rightarrow> custom_backend_message_json (custom_backend_message_from (no_b64 N) m)
         | None \<Rightarrow> JNull) in
     sret (JObject [(''message'', msg)])))"

section \<open>Dispatch\<close>

fun rpc_handler ::
  "('s, 'w) env \<Rightarrow> 'w node_ops \<Rightarrow> 'w backend_ops \<Rightarrow> rpc_method \<Rightarrow> ('s, 'w) rpc" where
  "rpc_handler X N B ConnectPeerViaHttp = rpc_connect_peer_via_http X N"
| "rpc_handler X N B ConnectWithSeed = rpc_connect_with_seed X N"
| "rpc_handler X N B AnswerOffer = rpc_answer_offer X"
| "rpc_handler X N B ConnectWithDid = rpc_connect_with_did X"
| "rpc_handler X N B CreateOfferMethod = rpc_create_offer X"
| "rpc_handler X N B AcceptAnswer = rpc_accept_answer X N"
| "rpc_handler X N B ListPeers = rpc_list_peers X N"
| "rpc_handler X N B Disconnect = rpc_close_connection X"
| "rpc_handler X N B ListPendings = rpc_list_pendings X N"
| "rpc_handler X N B ClosePendingTransport = rpc_close_pending_transport X"
| "rpc_handler X N B SendTo = rpc_send_raw_message X B"
| "rpc_handler X N B SendHttpRequestMessage = rpc_send_http_request_message X N B"
| "rpc_handler X N B SendSimpleText = rpc_send_simple_text_message X B"
| "rpc_handler X N B SendCustomMessage = rpc_send_custom_message X N B"
| "rpc_handler X N B PublishMessageToTopic = rpc_publish_message_to_topic X"
| "rpc_handler X N B FetchMessagesOfTopic = rpc_fetch_messages_of_topic X"
| "rpc_handler X N B RegisterService = rpc_register_service X N"
| "rpc_handler X N B LookupService = rpc_lookup_service X"
| "rpc_handler X N B PollMessage = rpc_poll_message N B"

definition rpc_methods :: "rpc_method list" where
  "rpc_methods = [ConnectPeerViaHttp, ConnectWithSeed, AnswerOffer, ConnectWithDid, CreateOfferMethod,
     AcceptAnswer, ListPeers, Disconnect, ListPendings, ClosePendingTransport, SendTo,
     SendHttpRequestMessage, SendSimpleText, SendCustomMessage, PublishMessageToTopic,
     FetchMessagesOfTopic, RegisterService, LookupService, PollMessage]"

text \<open>\<open>build_handler\<close>: the table of the handlers under their names, and its lookup.\<close>

definition build_handler ::
  "('s, 'w) env \<Rightarrow> 'w node_ops \<Rightarrow> 'w backend_ops \<Rightarrow> (string \<times> ('s, 'w) rpc) list" where
  "build_handler X N B = map (\<lambda>m. (method_as_str m, rpc_handler X N B m)) rpc_methods"

definition rpc_dispatch ::
  "('s, 'w) env \<Rightarrow> 'w node_ops \<Rightarrow> 'w backend_ops \<Rightarrow> string \<Rightarrow> ('s, 'w) rpc" where
  "rpc_dispatch X N B name p is_auth =
     (case map_of (build_handler X N B) name of
        Some h \<Rightarrow> h p is_auth
      | None \<Rightarrow> serr RpcMethodNotFound)"

text \<open>
  The HTTP entry point: the caller is authorised by a signature in the header \<open>X-SIGNATURE\<close>
  that verifies under the node's key; a malformed one is a bad request.
\<close>

datatype http_error = BadRequest | Internal

definition jsonrpc_io_handler ::
  "('s, 'w) env \<Rightarrow> 'w node_ops \<Rightarrow> 'w backend_ops \<Rightarrow> public_key \<Rightarrow> bytes option \<Rightarrow> string \<Rightarrow> params
     \<Rightarrow> ('s, 'w) node \<Rightarrow> (http_error + (rpc_error + json)) \<times> ('s, 'w) node" where
  "jsonrpc_io_handler X N B pubkey signature name p =
     sbind (slift (case signature of
              Some sig \<Rightarrow> (case verify_signature (en_ecc X) N sig pubkey of
                  Inl _ \<Rightarrow> Inl BadRequest | Inr b \<Rightarrow> Inr b)
            | None \<Rightarrow> Inr False)) (\<lambda>is_auth.
     \<lambda>n. case rpc_dispatch X N B name p is_auth n of (r, n) \<Rightarrow> (Inr r, n))"

lemma rpc_methods_all: "m \<in> set rpc_methods"
  by (cases m) (simp_all add: rpc_methods_def)

lemma method_as_str_inj [simp]: "method_as_str m = method_as_str m' \<longleftrightarrow> m = m'"
  by (metis method_roundtrip sum.inject(2))

lemma map_of_build:
  "map_of (map (\<lambda>m. (method_as_str m, f m)) ms) (method_as_str m) = (if m \<in> set ms then Some (f m) else None)"
  by (induction ms) auto

lemma rpc_dispatch_method [simp]: "rpc_dispatch X N B (method_as_str m) = rpc_handler X N B m"
  by (simp add: rpc_dispatch_def build_handler_def map_of_build rpc_methods_all fun_eq_iff)

lemma rpc_dispatch_unknown:
  assumes "\<And>m. name \<noteq> method_as_str m"
  shows "rpc_dispatch X N B name p is_auth = serr RpcMethodNotFound"
proof -
  have "map_of (build_handler X N B) name = None"
    by (simp add: build_handler_def map_of_eq_None_iff image_iff assms)
  then show ?thesis by (simp add: rpc_dispatch_def)
qed

end
