(* ===== verification/NodeRel.thy ===== *)
theory NodeRel
  imports Handlers
begin

text \<open>
  Which state changes a node can make while it handles messages. Three locales, each extending
  the one before, say what a relation on nodes must contain for sending, for handling, and for
  connecting; inside each, every operation of that kind is shown to move the node only along
  the relation. They are interpreted on two relations: the ring moves only along \<open>ring_step\<close>
  (\<open>ring_moves\<close>), and no transport changes its state (\<open>links_kept\<close>).
\<close>

section \<open>Sending\<close>

lemma keeps_on_world: "(\<And>n. R n (n\<lparr>sw_world := snd (m (sw_world n))\<rparr>)) \<Longrightarrow> keeps R (on_world m)"
  by (simp add: keeps_def on_world_def split: prod.split) (metis snd_conv)

lemma keeps_if: "(b \<Longrightarrow> keeps R m) \<Longrightarrow> (\<not> b \<Longrightarrow> keeps R k) \<Longrightarrow> keeps R (if b then m else k)"
  by simp

locale sending_relation =
  fixes X :: "('s, 'w) env" and R :: "('s, 'w) node \<Rightarrow> ('s, 'w) node \<Rightarrow> bool"
  assumes refl: "reflp R" and trns: "transp R"
    and uuid_step: "R n (n\<lparr>sw_world := snd (tr_uuid (en_transport X) (sw_world n))\<rparr>)"
    and close_step: "is_disconnected X n t \<Longrightarrow>
          R n (n\<lparr>sw_world := snd (tr_close (en_transport X) t (sw_world n))\<rparr>)"
    and wait_step: "R n (n\<lparr>sw_world := snd (tr_wait_for_data_channel_open (en_transport X) t (sw_world n))\<rparr>)"
    and send_step: "R n (n\<lparr>sw_world := snd (tr_send_message (en_transport X) data t (sw_world n))\<rparr>)"
    and measure_step: "R n (incr_measure d c n)"
begin

lemmas bind = keeps_sbind [OF trns]
lemmas pure = keeps_pure [OF refl]

lemma seal: "keeps R (seal X f)"
  unfolding keeps_def
proof
  fix n :: "('s, 'w) node"
  obtain u w where uuid: "tr_uuid (en_transport X) (sw_world n) = (u, w)" by fastforce
  show "R n (snd (seal X f n))"
    using uuid_step [of n] reflpD [OF refl, of n] by (simp add: seal_def uuid split: sum.split)
qed

lemma get_and_check: "keeps R (get_and_check_transport X d)"
  unfolding keeps_def
proof
  fix n
  show "R n (snd (get_and_check_transport X d n))"
    using close_step [of n] reflpD [OF refl]
    by (auto simp: get_and_check_transport_def snd_sbind close_transport_def on_world_def
        split: option.split prod.split sum.split) (metis snd_conv)+
qed

lemma do_send: "keeps R (do_send_payload X d p)"
  unfolding do_send_payload_def
  by (intro bind pure get_and_check keeps_on_world wait_step keeps_attempt send_step keeps_smod)
     (auto split: option.split intro: measure_step reflpD [OF refl])

lemma send: "keeps R (send_payload X p)"
  by (auto simp: send_payload_def intro: do_send pure split: option.split)

lemma seal_send: "keeps R (seal_send X msg h d)"
  by (simp add: seal_send_def seal)

lemma send_message: "keeps R (send_message X msg d)"
  unfolding send_message_def
  by (intro bind pure seal_send send) (auto split: peer_ring_action.split intro: pure)

lemma send_direct: "keeps R (send_direct_message X msg d)"
  unfolding send_direct_message_def by (intro bind pure seal_send send)

lemma send_report: "keeps R (send_report_message X msg tx relay)"
  unfolding send_report_message_def by (intro bind seal send)

lemma forward: "keeps R (forward_payload X p relay)"
  unfolding forward_payload_def by (intro bind seal send)

lemma for_each: "(\<And>x. keeps R (f x)) \<Longrightarrow> keeps R (for_each f xs)"
  by (induction xs) (auto intro: bind pure)

lemma pick: "keeps R (pick_next_hop d)"
  unfolding pick_next_hop_def by (intro bind pure) (auto split: peer_ring_action.split intro: pure)

lemma relay_and_forward: "keeps R (relay_and_forward X ctx h)"
  unfolding relay_and_forward_def by (intro bind pure forward)

lemma AlreadyConnected: "keeps R (handle_AlreadyConnected X ctx)"
  unfolding handle_AlreadyConnected_def by (intro bind pure keeps_if forward get_and_check)

lemma FindSuccessorSend: "keeps R (handle_FindSuccessorSend X ctx d strict th)"
  unfolding handle_FindSuccessorSend_def
  by (auto intro!: bind pure keeps_if forward get_and_check send_report
      split: peer_ring_action.split find_successor_then.split)

lemma SearchVNode: "keeps R (handle_SearchVNode X ctx vid)"
  unfolding handle_SearchVNode_def
  by (auto intro!: bind pure forward send_report split: peer_ring_action.split)

lemma CustomMessage: "keeps R (handle_CustomMessage X ctx msg)"
  unfolding handle_CustomMessage_def
  by (auto simp: Let_def intro!: bind pure keeps_if relay_and_forward pick)

lemma notify_predecessor: "keeps R (notify_predecessor X)"
  unfolding notify_predecessor_def
  by (auto intro!: bind pure keeps_if for_each seal_send send)

end

section \<open>Handling\<close>

text \<open>The application's callback and validator must move along the relation too.\<close>

definition good_handler :: "(('s, 'w) node \<Rightarrow> ('s, 'w) node \<Rightarrow> bool) \<Rightarrow> ('s, 'w) message_handler \<Rightarrow> bool" where
  "good_handler R H \<longleftrightarrow> (\<forall>p. keeps R (validate H p) \<and> keeps R (invoke_callback H p))"

text \<open>Messages whose handling opens and closes no transport.\<close>

fun link_free :: "message \<Rightarrow> bool" where
  "link_free (LeaveDHT _) = False"
| "link_free (ConnectNodeSend _ _) = False"
| "link_free (ConnectNodeReport _ _) = False"
| "link_free (FindSuccessorReport _ h) = (h \<noteq> HandlerConnect)"
| "link_free (NotifyPredecessorReport _) = False"
| "link_free (MultiCall ms) = list_all link_free ms"
| "link_free _ = True"

lemma size_part: "m \<in> set ms \<Longrightarrow> size m < Suc (size_list size ms)"
  by (induction ms) auto


lemma keeps_on_ring:
  "(\<And>n. R n (n\<lparr>sw_dht := snd (m (sw_dht n))\<rparr>)) \<Longrightarrow> keeps R (on_ring m)"
  by (simp add: keeps_def on_ring_def split: prod.split) (metis snd_conv)

locale handling_relation = sending_relation X R for X :: "('s, 'w) env" and R +
  assumes ring_change: "ring_step\<^sup>*\<^sup>* (sw_dht n) r \<Longrightarrow> R n (n\<lparr>sw_dht := r\<rparr>)"
begin

lemma ring_action:
  "(\<And>s. ring_step\<^sup>*\<^sup>* s (snd (m s))) \<Longrightarrow> keeps R (on_ring m)"
  by (intro keeps_on_ring ring_change)

lemma ring_mod: "(\<And>s. ring_step\<^sup>*\<^sup>* s (f s)) \<Longrightarrow> keeps R (smod (\<lambda>n. n\<lparr>sw_dht := f (sw_dht n)\<rparr>))"
  by (intro keeps_smod ring_change)

end

text \<open>Every operation on a ring is a sequence of its steps.\<close>

lemma ring_steps1: "ring_step s s' \<Longrightarrow> ring_step\<^sup>*\<^sup>* s s'"
  by (rule r_into_rtranclp)

lemma on_storage_steps: "ring_step\<^sup>*\<^sup>* s (snd (on_storage m s))"
proof -
  have upd: "snd (on_storage k s) = s\<lparr>pr_storage := snd (k (pr_storage s))\<rparr>" for k :: "('a, 'c) action"
    by (simp add: on_storage_def split: prod.split)
  have "snd (on_storage m s) = s\<lparr>pr_storage := snd (sbind m (\<lambda>_. sret ()) (pr_storage s))\<rparr>"
    by (simp add: upd snd_sbind split: sum.split)
  then have "snd (on_storage m s) = snd (on_storage (sbind m (\<lambda>_. sret ())) s)"
    by (simp add: on_storage_def split: prod.split)
  then show ?thesis by (metis ring_steps1 step_storage)
qed

lemma vnode_operate_steps: "ring_step\<^sup>*\<^sup>* s (snd (vnode_operate C P op s))"
  by (auto simp: vnode_operate_def snd_sbind on_storage_steps
      split: sum.split peer_ring_action.split remote_action.split)

lemma sync_loop_steps: "ring_step\<^sup>*\<^sup>* s (snd (sync_loop P d items data s))"
proof (induction P d items data s rule: sync_loop.induct)
  case (2 P d vid vnode items data s)
  obtain r s1 where m: "on_storage (p_remove P vid) s = (r, s1)" by fastforce
  have "ring_step\<^sup>*\<^sup>* s s1" using on_storage_steps [of s "p_remove P vid"] by (simp add: m)
  then show ?case
    using 2 m by (cases r) (auto intro: rtranclp_trans)
qed simp

lemma sync_steps: "ring_step\<^sup>*\<^sup>* s (snd (sync_vnode_with_successor P d s))"
  using sync_loop_steps [of s P d _ "[]"]
  by (auto simp: sync_vnode_with_successor_def snd_sbind split: sum.split prod.split) (metis snd_conv)+

lemma cache_steps: "ring_step\<^sup>*\<^sup>* s (fold local_cache_set data s)"
proof (induction data arbitrary: s)
  case (Cons v data)
  have "ring_step\<^sup>*\<^sup>* s (local_cache_set v s)" by (rule ring_steps1 [OF step_cache])
  also have "ring_step\<^sup>*\<^sup>* (local_cache_set v s) (fold local_cache_set data (local_cache_set v s))"
    by (rule Cons.IH)
  finally show ?case by simp
qed simp

context handling_relation
begin

lemma vnode_operate: "keeps R (on_ring (vnode_operate C P op))"
  by (rule ring_action [OF vnode_operate_steps])

lemma operate_or_send: "keeps R (operate_or_send X op)"
  unfolding operate_or_send_def
  by (auto intro!: bind pure vnode_operate send_message split: peer_ring_action.split remote_action.split)

lemma storing:
  "keeps R (storage_store X v)" "keeps R (storage_append_data X t e)"
  "keeps R (storage_touch_data X t e)" "keeps R (subring_join X name)"
  by (auto simp: storage_store_def storage_append_data_def storage_touch_data_def subring_join_def
      intro!: bind pure operate_or_send)

lemma storage_fetch: "keeps R (storage_fetch X vid)"
  unfolding storage_fetch_def
  by (auto intro!: bind pure send_message ring_mod ring_steps1 [OF step_cache] split: peer_ring_action.split)

lemma JoinDHT: "keeps R (handle_JoinDHT X ctx d)"
  unfolding handle_JoinDHT_def
  by (auto intro!: bind pure keeps_if send_direct ring_action ring_steps1 [OF step_join]
      split: peer_ring_action.split remote_action.split)

lemma FoundVNode: "keeps R (handle_FoundVNode X ctx data)"
  unfolding handle_FoundVNode_def
  by (auto intro!: bind pure keeps_if forward ring_mod cache_steps)

lemma OperateVNode: "keeps R (handle_OperateVNode X ctx op)"
  unfolding handle_OperateVNode_def
  by (auto intro!: bind pure forward vnode_operate split: peer_ring_action.split)

lemma SyncVNodeWithSuccessor: "keeps R (handle_SyncVNodeWithSuccessor X ctx data)"
  unfolding handle_SyncVNodeWithSuccessor_def by (intro for_each storing)

lemma NotifyPredecessorSend: "keeps R (handle_NotifyPredecessorSend X ctx d)"
  unfolding handle_NotifyPredecessorSend_def
  by (auto intro!: bind pure keeps_if send_report ring_mod ring_steps1 [OF step_notify] split: option.split)

lemma sync_and_send: "keeps R (sync_and_send X d)"
  unfolding sync_and_send_def
  by (auto intro!: bind pure keeps_attempt send_message ring_action sync_steps
      split: sum.split peer_ring_action.split remote_action.split)

lemma update_successor: "keeps R (smod (update_successor d))"
  unfolding update_successor_def
  by (rule ring_mod [of "\<lambda>s. s\<lparr>pr_successor := ss_update (pr_successor s) d\<rparr>"])
     (rule ring_steps1 [OF step_successor])

lemma set_fix:
  "keeps R (smod (\<lambda>n. n\<lparr>sw_dht := (sw_dht n)\<lparr>pr_finger := ft_set_fix (pr_finger (sw_dht n)) d\<rparr>\<rparr>))"
  by (rule ring_mod [of "\<lambda>s. s\<lparr>pr_finger := ft_set_fix (pr_finger s) d\<rparr>"])
     (rule ring_steps1 [OF step_set_fix])

lemma stab_fix_fingers: "keeps R (stab_fix_fingers X)"
  unfolding stab_fix_fingers_def
  by (auto intro!: bind pure seal_send send ring_action ring_steps1 [OF step_fix]
      split: peer_ring_action.split remote_action.split)

lemma stabilize: "keeps R (stabilize X)"
  unfolding stabilize_def
  by (intro bind pure keeps_attempt stab_fix_fingers notify_predecessor)

lemma multi_call:
  "(\<And>m h q. (m, h) \<in> set ms \<Longrightarrow> keeps R (h q)) \<Longrightarrow> keeps R (multi_call X p ms)"
proof (induction ms)
  case (Cons mh ms)
  obtain m h where mh: "mh = (m, h)" by fastforce
  have "keeps R (multi_call X p ms)" by (rule Cons.IH) (use Cons.prems in auto)
  moreover have "keeps R (h q)" for q using Cons.prems [of m h q] by (simp add: mh)
  ultimately show ?case by (auto simp: mh intro!: bind keeps_attempt seal)
qed (simp add: pure)

lemma FindSuccessorReport_free:
  assumes "h \<noteq> HandlerConnect"
  shows "keeps R (handle_FindSuccessorReport X ctx d h)"
  unfolding handle_FindSuccessorReport_def using assms
  by (auto intro!: bind pure keeps_if forward set_fix update_successor sync_and_send
      split: report_handler.split)

lemma handle_free:
  assumes "good_handler R H" "link_free msg"
  shows "keeps R (handle_data X H msg p)"
  using assms(2)
proof (induction msg arbitrary: p rule: measure_induct_rule [where f = size])
  case (less msg)
  have parts: "keeps R (multi_call X p (map (\<lambda>m. (m, handle_data X H m)) ms))" if "msg = MultiCall ms" for ms
    using less that by (intro multi_call) (auto simp: list_all_iff size_part)
  show ?case
    using assms(1) less(2) unfolding handle_data.simps [of X H msg p] good_handler_def
    by (intro bind pure keeps_attempt)
       (auto simp: parts JoinDHT AlreadyConnected FindSuccessorSend FindSuccessorReport_free
          NotifyPredecessorSend SearchVNode FoundVNode OperateVNode CustomMessage pure
          split: message.split)
qed

lemma handle_payload_free:
  assumes "good_handler R H" "link_free (pl_data p)"
  shows "keeps R (handle_payload X H p)"
  unfolding handle_payload_def handle_message_def
  by (intro bind pure keeps_if keeps_attempt handle_free [OF assms] keeps_smod measure_step)

end

section \<open>Connecting\<close>

locale connecting_relation = handling_relation X R for X :: "('s, 'w) env" and R +
  assumes new_step: "R n (n\<lparr>sw_world := snd (tr_new (en_transport X) (sw_did n) (sw_world n))\<rparr>)"
    and start_step: "R n (n\<lparr>sw_world := snd (tr_start (en_transport X) servers ext t (sw_world n))\<rparr>)"
    and callback_step: "R n (n\<lparr>sw_world := snd (tr_apply_callback (en_transport X) t (sw_world n))\<rparr>)"
    and handshake_step: "R n (n\<lparr>sw_world := snd (tr_get_handshake_info (en_transport X) sm kind t (sw_world n))\<rparr>)"
    and register_step: "R n (n\<lparr>sw_world := snd (tr_register_remote_info (en_transport X) enc t (sw_world n))\<rparr>)"
    and any_close_step: "R n (n\<lparr>sw_world := snd (tr_close (en_transport X) t (sw_world n))\<rparr>)"
    and recv_step: "R n (n\<lparr>sw_world := snd (tr_recv (en_transport X) ch (sw_world n))\<rparr>)"
    and pending_step: "R n (n\<lparr>sw_pending := ts\<rparr>)"
    and remove_step: "R n (n\<lparr>sw_transports := snd (mem_remove d (sw_transports n))\<rparr>)"
    and set_step: "R n (set_transport d t n)"
begin

lemma new_transport: "keeps R (new_transport X)"
  unfolding keeps_def
proof
  fix n :: "('s, 'w) node"
  obtain t w where new: "tr_new (en_transport X) (sw_did n) (sw_world n) = (t, w)" by fastforce
  have "keeps R (sbind (on_world (tr_start (en_transport X) a b t)) (\<lambda>_.
      sbind (on_world (tr_apply_callback (en_transport X) t)) (\<lambda>_. sret t)))" for a b
    by (intro bind pure keeps_on_world start_step callback_step)
  then have "R (n\<lparr>sw_world := w\<rparr>) (snd (new_transport X n))"
    by (simp add: new_transport_def new keeps_def)
  then show "R n (snd (new_transport X n))"
    using transpD [OF trns new_step [of n]] by (simp add: new)
qed

lemma pending:
  "keeps R (push_pending_transport t)" "keeps R (pop_pending_transport t)" "keeps R (find_pending_transport t)"
  using pending_step reflpD [OF refl]
  by (auto simp: keeps_def push_pending_transport_def pop_pending_transport_def
      find_pending_transport_def split: option.split)

lemma remove: "keeps R (remove_transport d)"
  using remove_step by (auto simp: keeps_def remove_transport_def split: prod.split) (metis snd_conv)

lemma close: "keeps R (close_transport X t)"
  unfolding close_transport_def by (intro keeps_on_world any_close_step)

lemma disconnect: "keeps R (swarm_disconnect X d)"
  unfolding swarm_disconnect_def
  by (auto intro!: bind pure remove close ring_mod ring_steps1 [OF step_remove] split: option.split)

lemma connect: "keeps R (swarm_connect X d)"
  unfolding swarm_connect_def
  by (auto intro!: bind pure get_and_check new_transport keeps_on_world handshake_step pending send_message
      split: option.split)

lemma LeaveDHT: "keeps R (handle_LeaveDHT X ctx d)"
  unfolding handle_LeaveDHT_def by (rule disconnect)

lemma ConnectNodeSend: "keeps R (handle_ConnectNodeSend X ctx u h)"
  unfolding handle_ConnectNodeSend_def Let_def
  by (auto intro!: bind pure keeps_if get_and_check relay_and_forward pick new_transport
      keeps_on_world handshake_step register_step pending send_report split: option.split)

lemma ConnectNodeReport: "keeps R (handle_ConnectNodeReport X ctx u h)"
  unfolding handle_ConnectNodeReport_def
  by (intro bind pure keeps_if forward pending keeps_on_world register_step)

lemma FindSuccessorReport: "keeps R (handle_FindSuccessorReport X ctx d h)"
  unfolding handle_FindSuccessorReport_def
  by (auto intro!: bind pure keeps_if forward set_fix get_and_check connect update_successor sync_and_send
      split: report_handler.split)

lemma NotifyPredecessorReport: "keeps R (handle_NotifyPredecessorReport X ctx d)"
  unfolding handle_NotifyPredecessorReport_def
  by (auto intro!: bind pure keeps_if get_and_check connect update_successor sync_and_send)

lemma handle_data:
  assumes "good_handler R H"
  shows "keeps R (handle_data X H msg p)"
proof (induction msg arbitrary: p rule: measure_induct_rule [where f = size])
  case (less msg)
  have parts: "keeps R (multi_call X p (map (\<lambda>m. (m, handle_data X H m)) ms))" if "msg = MultiCall ms" for ms
    using less that by (intro multi_call) (auto simp: size_part)
  show ?case
    using assms unfolding handle_data.simps [of X H msg p] good_handler_def
    by (intro bind pure keeps_attempt)
       (auto simp: parts JoinDHT LeaveDHT ConnectNodeSend ConnectNodeReport AlreadyConnected
          FindSuccessorSend FindSuccessorReport NotifyPredecessorSend NotifyPredecessorReport
          SearchVNode FoundVNode OperateVNode CustomMessage pure split: message.split)
qed

lemma handle_payload:
  assumes "good_handler R H"
  shows "keeps R (handle_payload X H p)"
  unfolding handle_payload_def handle_message_def
  by (intro bind pure keeps_if keeps_attempt handle_data [OF assms] keeps_smod measure_step)

lemma register: "keeps R (register X d t)"
  unfolding keeps_def
proof
  fix n
  have "keeps R (sbind (attempt (close_transport X u)) (\<lambda>r.
      if is_ok r then sret () else serr SwarmToClosePrevTransport))" for u
    by (intro bind keeps_attempt close keeps_if pure)
  then show "R n (snd (register X d t n))"
    using set_step [of n d t] reflpD [OF refl, of n] transpD [OF trns set_step [of n d t]]
    by (auto simp: register_def keeps_def split: option.split)
qed

lemma load_message: "keeps R (load_message X ev)"
  unfolding load_message_def
  by (auto intro!: bind pure keeps_attempt pending register seal_send remove keeps_if
      split: option.split event.split sum.split)

lemma listen_once:
  assumes "good_handler R H"
  shows "keeps R (listen_once X H)"
  unfolding listen_once_def poll_message_def
  by (auto intro!: bind pure keeps_attempt keeps_on_world recv_step load_message handle_payload [OF assms]
      split: option.split sum.split)

end

end
