(* ===== verification/ChordProps.thy ===== *)
theory ChordProps
  imports Chord
begin

text \<open>
  What the ring of one node guarantees: the invariant of every reachable ring, what a node
  knows after joining others, predecessors, finger repair, and the storage operations over
  any back end that meets the contract \<open>persistence\<close>.
\<close>

section \<open>The storage operations over a lawful back end\<close>

definition in_arc :: "'s peer_ring \<Rightarrow> did \<Rightarrow> bool" where
  "in_arc s vid \<longleftrightarrow> ss_is_empty (pr_successor s)
     \<or> vid - pr_did s \<le> ss_min (pr_successor s) - pr_did s"

lemma find_successor_in_arc:
  "in_arc s vid \<Longrightarrow> chord_find_successor s vid = Inr (PSome (ss_min (pr_successor s)))"
  by (auto simp: in_arc_def chord_find_successor_def)

lemma find_successor_not_in_arc:
  assumes "pr_wf s" "\<not> in_arc s vid"
  shows "\<exists>v. chord_find_successor s vid = Inr (PRemoteAction v (FindSuccessor vid))
    \<and> ft_closest (pr_finger s) vid = Inr v"
  using assms by (rule_tac chord_find_successor_cases [OF assms(1), of vid]) (auto simp: in_arc_def)

text \<open>The contract at the types the ring uses: virtual nodes under identifiers.\<close>

locale vnode_store = persistence P view ok
  for P :: "('s, did, virtual_node) persist"
    and view :: "'s \<Rightarrow> did \<Rightarrow> virtual_node option"
    and ok :: "'s \<Rightarrow> bool"
begin

lemma lookup_local:
  assumes "ok (pr_storage s)" "in_arc s vid"
  shows "vnode_lookup P s vid
    = Inr (case view (pr_storage s) vid of Some v \<Rightarrow> PSomeVNode v | None \<Rightarrow> PNone)"
  using assms
  by (simp add: vnode_lookup_def find_successor_in_arc get_ok split: option.split)

text \<open>A successful operation stores exactly the operated virtual node under its identifier.\<close>

lemma operate_local:
  assumes "ok (pr_storage s)" "in_arc s vid" "op_did C op = Inr vid"
    and "(case view (pr_storage s) vid of Some v \<Rightarrow> Inr v | None \<Rightarrow> gen_default_vnode C op) = Inr this"
    and w: "vn_operate C this op = Inr w"
  shows "\<exists>st. vnode_operate C P op s = (Inr PNone, s\<lparr>pr_storage := st\<rparr>) \<and> ok st
    \<and> view st = (view (pr_storage s))(vid \<mapsto> w)"
proof -
  obtain st where st: "p_put P vid w (pr_storage s) = (Inr (), st)" "ok st"
    "view st = (view (pr_storage s))(vid \<mapsto> w)"
    using put_ok [OF assms(1)] by blast
  have "(case p_get P (pr_storage s) vid of Inr (Some this) \<Rightarrow> Inr this | _ \<Rightarrow> gen_default_vnode C op) = Inr this"
    using assms(1,4) by (simp add: get_ok split: option.splits)
  then show ?thesis
    using st assms(2,3) w
    by (intro exI [of _ st]) (simp add: vnode_operate_def find_successor_in_arc sbind_def on_storage_def)
qed

text \<open>A failing operation changes nothing, and a remote one neither.\<close>

lemma operate_error:
  assumes "ok (pr_storage s)" "vnode_operate C P op s = (Inl e, s')"
  shows "s' = s"
proof (cases "op_did C op")
  case (Inr vid)
  show ?thesis
  proof (cases "\<exists>this w. (case p_get P (pr_storage s) vid of Inr (Some this) \<Rightarrow> Inr this
        | _ \<Rightarrow> gen_default_vnode C op) = Inr this \<and> vn_operate C this op = Inr w")
    case True
    then show ?thesis
      using assms Inr put_ok [OF assms(1)]
      by (auto simp: vnode_operate_def sbind_def on_storage_def get_ok
          split: sum.splits peer_ring_action.splits remote_action.splits option.splits prod.splits)
        (metis Inl_Inr_False fst_conv)+
  next
    case False
    then show ?thesis
      using assms Inr
      by (auto simp: vnode_operate_def sbind_def get_ok
          split: sum.splits peer_ring_action.splits remote_action.splits option.splits)
  qed
qed (use assms in \<open>simp add: vnode_operate_def sbind_def\<close>)

lemma operate_then_lookup:
  assumes "ok (pr_storage s)" "in_arc s vid" "op_did C op = Inr vid"
    and "(case view (pr_storage s) vid of Some v \<Rightarrow> Inr v | None \<Rightarrow> gen_default_vnode C op) = Inr this"
    and "vn_operate C this op = Inr w"
  shows "fst (vnode_operate C P op s) = Inr PNone
    \<and> vnode_lookup P (snd (vnode_operate C P op s)) vid = Inr (PSomeVNode w)
    \<and> (\<forall>vid'. vid' \<noteq> vid \<longrightarrow>
         vnode_lookup P (snd (vnode_operate C P op s)) vid' = vnode_lookup P s vid')"
proof -
  obtain st where st: "vnode_operate C P op s = (Inr PNone, s\<lparr>pr_storage := st\<rparr>)" "ok st"
    "view st = (view (pr_storage s))(vid \<mapsto> w)"
    using operate_local [OF assms] by blast
  have f: "chord_find_successor (s\<lparr>pr_storage := st\<rparr>) x = chord_find_successor s x" for x
    by (simp add: chord_find_successor_def pr_bias_def Let_def)
  have "vnode_lookup P (s\<lparr>pr_storage := st\<rparr>) vid' = vnode_lookup P s vid'" if "vid' \<noteq> vid" for vid'
  proof -
    have g: "p_get P (pr_storage (s\<lparr>pr_storage := st\<rparr>)) vid' = p_get P (pr_storage s) vid'"
      using that st(2,3) assms(1) by (simp add: get_ok)
    show ?thesis unfolding vnode_lookup_def f g ..
  qed
  moreover have "vnode_lookup P (s\<lparr>pr_storage := st\<rparr>) vid = Inr (PSomeVNode w)"
    using st(2,3) assms(2) by (simp add: vnode_lookup_def f find_successor_in_arc get_ok)
  ultimately show ?thesis by (simp add: st(1))
qed

text \<open>The synchronisation loop moves the out-of-range items, in order, and keeps the rest.\<close>

lemma sync_loop_spec:
  assumes "ok (pr_storage s)" "distinct (map fst items)"
    and "\<forall>(k, v) \<in> set items. view (pr_storage s) k = Some v"
  shows "\<exists>st. sync_loop P x items data s =
      (data @ map snd (filter (\<lambda>(k, _). x - pr_did s < k - pr_did s) items), s\<lparr>pr_storage := st\<rparr>)
    \<and> ok st \<and> view st = (\<lambda>k. if k \<in> fst ` set items \<and> x - pr_did s < k - pr_did s then None
                               else view (pr_storage s) k)"
  using assms
proof (induction items arbitrary: s data)
  case Nil
  then show ?case by (intro exI [of _ "pr_storage s"]) auto
next
  case (Cons item items)
  obtain k v where item: "item = (k, v)" by (cases item)
  show ?case
  proof (cases "x - pr_did s < k - pr_did s")
    case False
    obtain st where st: "sync_loop P x items data s =
        (data @ map snd (filter (\<lambda>(k, _). x - pr_did s < k - pr_did s) items), s\<lparr>pr_storage := st\<rparr>)"
      "ok st" "view st = (\<lambda>k. if k \<in> fst ` set items \<and> x - pr_did s < k - pr_did s then None
                               else view (pr_storage s) k)"
      using Cons.IH [of s data] Cons.prems by auto
    then show ?thesis
      using False item by (intro exI [of _ st]) (auto simp: fun_eq_iff)
  next
    case True
    obtain st1 where st1: "p_remove P k (pr_storage s) = (Inr (), st1)" "ok st1"
      "view st1 = (view (pr_storage s))(k := None)"
      using remove_ok [OF Cons.prems(1)] by blast
    let ?s = "s\<lparr>pr_storage := st1\<rparr>"
    have mem: "\<forall>(k', v') \<in> set items. view (pr_storage ?s) k' = Some v'"
      using Cons.prems(2,3) item st1(3) by (auto simp: image_iff) force+
    obtain st where st: "sync_loop P x items (data @ [v]) ?s =
        (data @ [v] @ map snd (filter (\<lambda>(k, _). x - pr_did s < k - pr_did s) items), s\<lparr>pr_storage := st\<rparr>)"
      "ok st" "view st = (\<lambda>k. if k \<in> fst ` set items \<and> x - pr_did s < k - pr_did s then None
                               else view (pr_storage ?s) k)"
      using Cons.IH [of ?s "data @ [v]"] Cons.prems(2) st1(2) mem by auto
    show ?thesis
    proof (intro exI [of _ st] conjI)
      show "sync_loop P x (item # items) data s =
          (data @ map snd (filter (\<lambda>(k, _). x - pr_did s < k - pr_did s) (item # items)),
           s\<lparr>pr_storage := st\<rparr>)"
        using True item st(1) st1(1) by (simp add: on_storage_def)
      show "view st = (\<lambda>k. if k \<in> fst ` set (item # items) \<and> x - pr_did s < k - pr_did s then None
                               else view (pr_storage s) k)"
        using True item st(3) st1(3) by (auto simp: fun_eq_iff)
    qed (fact st(2))
  qed
qed

lemma sync_spec:
  assumes "ok (pr_storage s)"
  shows "\<exists>data st. sync_vnode_with_successor P x s =
      (Inr (if data = [] then PNone else PRemoteAction x (SyncVNodeWithSuccessor data)),
       s\<lparr>pr_storage := st\<rparr>)
    \<and> ok st
    \<and> (\<forall>k. view st k = (if x - pr_did s < k - pr_did s then None else view (pr_storage s) k))
    \<and> (\<exists>ks. distinct ks \<and> set ks = {k \<in> dom (view (pr_storage s)). x - pr_did s < k - pr_did s}
         \<and> map Some data = map (view (pr_storage s)) ks)"
proof -
  obtain xs where xs: "p_get_all P (pr_storage s) = Inr xs" "distinct (map fst xs)"
    "map_of xs = view (pr_storage s)"
    using get_all_ok [OF assms] by blast
  have m: "(k, v) \<in> set xs \<longleftrightarrow> view (pr_storage s) k = Some v" for k v
    using xs(2) by (simp flip: xs(3))
  let ?moved = "filter (\<lambda>(k, _). x - pr_did s < k - pr_did s) xs"
  obtain st where st: "sync_loop P x xs [] s = (map snd ?moved, s\<lparr>pr_storage := st\<rparr>)" "ok st"
    "view st = (\<lambda>k. if k \<in> fst ` set xs \<and> x - pr_did s < k - pr_did s then None
                               else view (pr_storage s) k)"
    using sync_loop_spec [OF assms xs(2), of x "[]"] m by auto
  have "k \<in> fst ` set xs \<longleftrightarrow> view (pr_storage s) k \<noteq> None" for k
    by (simp flip: xs(3) add: map_of_eq_None_iff)
  then have v: "view st k = (if x - pr_did s < k - pr_did s then None else view (pr_storage s) k)" for k
    by (simp add: st(3))
  have ks: "distinct (map fst ?moved)"
    "set (map fst ?moved) = {k \<in> dom (view (pr_storage s)). x - pr_did s < k - pr_did s}"
    "map Some (map snd ?moved) = map (view (pr_storage s)) (map fst ?moved)"
    using xs(2) m by (auto simp: distinct_map_filter image_iff)
  have "sync_vnode_with_successor P x s =
      (Inr (if map snd ?moved = [] then PNone
            else PRemoteAction x (SyncVNodeWithSuccessor (map snd ?moved))), s\<lparr>pr_storage := st\<rparr>)"
    by (simp only: sync_vnode_with_successor_def xs(1) sbind_slift st(1) Let_def prod.case) simp
  then show ?thesis using st(2) v ks by blast
qed

end

interpretation mem_vnodes: vnode_store mem_persist mem_get mem_wf
  by unfold_locales

section \<open>Predecessors\<close>

definition notify_all :: "did list \<Rightarrow> 's peer_ring \<Rightarrow> 's peer_ring" where
  "notify_all ds s = fold (\<lambda>d s. snd (chord_notify d s)) ds s"

lemma chord_notify_did [simp]: "pr_did (snd (chord_notify d s)) = pr_did s"
  by (auto simp: chord_notify_def split: option.split)

lemma notify_all_spec:
  assumes "pr_predecessor s = None" "ds \<noteq> []"
  shows "pr_did (notify_all ds s) = pr_did s
    \<and> (\<exists>p\<in>set ds. pr_predecessor (notify_all ds s) = Some p
         \<and> (\<forall>x\<in>set ds. dist (pr_did s) x \<le> dist (pr_did s) p))"
  using assms(2)
proof (induction ds rule: rev_nonempty_induct)
  case (single x)
  show ?case using assms(1) by (simp add: notify_all_def chord_notify_def)
next
  case (snoc x xs)
  then obtain p where p: "p \<in> set xs" "pr_predecessor (notify_all xs s) = Some p"
    "\<forall>x\<in>set xs. dist (pr_did s) x \<le> dist (pr_did s) p" "pr_did (notify_all xs s) = pr_did s"
    by blast
  then show ?case
    by (cases "p - pr_did s < x - pr_did s")
       (auto simp: notify_all_def chord_notify_def not_less intro: order_trans less_imp_le)
qed

section \<open>Properties\<close>

text \<open>
  Every ring a node can reach from \<open>new_with_storage\<close> by joins, removals,
  notifications, finger repairs, reported fingers and successors and storage steps is well
  formed: the finger table has 160 slots, the successor sequence is sorted, duplicate-free,
  within capacity and without the node itself, both agree with the node's identifier, and
  the repair index stays below 159. On such a ring \<open>join\<close>, \<open>find_successor\<close> and
  \<open>fix_fingers\<close> neither panic nor fail.
\<close>

lemma ring_reachable_safe:
  assumes "ring_reachable s"
  shows "pr_wf s \<and> is_ok (fst (chord_join d s)) \<and> is_ok (chord_find_successor s d)
    \<and> is_ok (fst (chord_fix_fingers s))"
proof -
  from assms have wf: "pr_wf s" by (rule ring_reachable_wf)
  have "is_ok (fst (chord_join d s))"
    using chord_join_eq [OF wf, of d] by (cases "d = pr_did s") (auto simp: chord_join_self)
  moreover have ok: "is_ok (chord_find_successor s d)" for d
    by (rule chord_find_successor_cases [OF wf, of d]) simp_all
  moreover have "is_ok (fst (chord_fix_fingers s))"
    by (rule chord_find_successor_cases [OF wf, of
        "pr_did s + 2 ^ unat (next_fix_index (fix_finger_index (pr_finger s)))"])
       (simp_all add: chord_fix_fingers_eq [OF wf])
  ultimately show ?thesis using wf by blast
qed

text \<open>
  C5: joining nodes in any order gives a ring that knows the right ones: the successor
  sequence is the list of the nearest of them, every finger slot holds the nearest of them
  at its distance or more, and the guard that skips a full sequence never loses a node.
  Joining the node itself changes nothing.
\<close>

theorem chord_join_refines:
  fixes ds n m st
  defines "s \<equiv> join_all ds (pr_new_with_storage n m st)"
  shows "ss_list (pr_successor s) = nearest n (unat m) ds
    \<and> (\<forall>k < 160. slot_spec n (set ds - {n}) k (ft_get (pr_finger s) k))
    \<and> chord_join (pr_did s) s = (Inr PNone, s)"
proof -
  have "pr_wf s" unfolding s_def by (rule join_all_new)
  then have "\<forall>k < 160. ft_get (pr_finger s) k = finger (pr_finger s) ! k"
    by (simp add: ft_get_def pr_wf_def ft_wf_def)
  then show ?thesis
    using join_all_new(4,6) [where ds = ds and n = n and m = m and st = st, folded s_def] by (simp add: ss_list_def chord_join_self)
qed

theorem chord_join_refines_witness:
  "slot_spec 0 ({7, 3} - {0}) 2 (ft_get (pr_finger (join_all [7, 3] (pr_new_with_storage 0 3 ()))) 2)"
proof -
  have "(2::nat) < 160" by simp
  then show ?thesis using chord_join_refines [of "[7, 3]" 0 3 "()"] by auto
qed

text \<open>
  C6: on a ring with room for a successor that is built by joins, \<open>find_successor\<close>
  answers with the nearest joined node exactly when the identifier lies in the arc up to it (with
  the node itself when it joined nobody); otherwise it forwards to a joined node that lies strictly
  between the node and the identifier and whose distance from the node is at least half that of any
  joined node in between: the hop to it covers more than half of the way to the identifier's
  predecessor.
\<close>

theorem find_successor_routes:
  fixes ds n m st
  assumes "m \<noteq> 0"
  defines "s \<equiv> join_all ds (pr_new_with_storage n m st)" and "A \<equiv> set ds - {n}"
  shows "(A = {} \<longrightarrow> chord_find_successor s d = Inr (PSome n))
    \<and> (A \<noteq> {} \<longrightarrow>
        (\<exists>v\<in>A. (\<forall>x\<in>A. dist n v \<le> dist n x)
           \<and> (dist n d \<le> dist n v \<longrightarrow> chord_find_successor s d = Inr (PSome v))
           \<and> (dist n v < dist n d \<longrightarrow>
                (\<exists>u\<in>A. chord_find_successor s d = Inr (PRemoteAction u (FindSuccessor d))
                   \<and> dist n u < dist n d
                   \<and> (\<forall>x\<in>A. dist n x < dist n d \<longrightarrow> unat (dist n x) < 2 * unat (dist n u))))))"
proof (cases "A = {}")
  case True
  then have "set ds \<subseteq> {n}" by (auto simp: A_def)
  then have "nearest n (unat m) ds = []" by (simp add: nearest_Nil_iff)
  then have "successors (pr_successor s) = []" by (simp add: s_def join_all_new(4))
  moreover have "ss_did (pr_successor s) = n"
    using join_all_new(1,2) [where ds = ds and n = n and m = m and st = st] by (simp add: s_def pr_wf_def)
  ultimately show ?thesis
    using True by (simp add: chord_find_successor_def ss_is_empty_def ss_min_def)
next
  case False
  then obtain y where y: "y \<in> set ds" "y \<noteq> n" by (auto simp: A_def)
  note j = join_all_new [where ds = ds and n = n and m = m and st = st, folded s_def A_def]
  note m = join_all_min [OF y assms(1), where st = st, folded s_def A_def]
  let ?v = "ss_min (pr_successor s)"
  have far: "\<exists>u\<in>A. chord_find_successor s d = Inr (PRemoteAction u (FindSuccessor d))
                   \<and> dist n u < dist n d
                   \<and> (\<forall>x\<in>A. dist n x < dist n d \<longrightarrow> unat (dist n x) < 2 * unat (dist n u))"
    if "dist n ?v < dist n d"
  proof -
    have "ft_did (pr_finger s) = n" "ft_size (pr_finger s) = 160" using j(1,2) by (simp_all add: pr_wf_def)
    then have "\<exists>u\<in>A. ft_closest (pr_finger s) d = Inr u \<and> dist n u < dist n d
      \<and> (\<forall>x\<in>A. dist n x < dist n d \<longrightarrow> unat (dist n x) < 2 * unat (dist n u))"
      using closest_halves [of "pr_finger s" A ?v d] j(5,6) m(2) that by (simp add: A_def)
    then show ?thesis using that j(2) m(1) by (auto simp: chord_find_successor_def Let_def)
  qed
  have "dist n d \<le> dist n ?v \<Longrightarrow> chord_find_successor s d = Inr (PSome ?v)"
    using j(2) by (simp add: chord_find_successor_def)
  then show ?thesis using False m far by blast
qed

theorem find_successor_routes_witness:
  "\<exists>u\<in>{7, 3}. chord_find_successor (join_all [7, 3] (pr_new_with_storage 0 3 ())) 100
      = Inr (PRemoteAction u (FindSuccessor 100))"
proof -
  have "(3 :: 8 word) \<noteq> 0" by simp
  note r = find_successor_routes [OF this, where ds = "[7, 3]" and n = 0 and d = 100 and st = "()"]
  have A: "set [7, 3] - {0} = {7, 3 :: did}" "{7, 3 :: did} \<noteq> {}" by auto
  obtain v where v: "v \<in> {7, 3 :: did}" "dist 0 v < dist 0 100 \<longrightarrow>
      (\<exists>u\<in>{7, 3}. chord_find_successor (join_all [7, 3] (pr_new_with_storage 0 3 ())) 100
          = Inr (PRemoteAction u (FindSuccessor 100)) \<and> dist 0 u < dist 0 100
          \<and> (\<forall>x\<in>{7, 3}. dist 0 x < dist 0 100 \<longrightarrow> unat (dist 0 x) < 2 * unat (dist 0 u)))"
    using conjunct2 [OF r, THEN mp, unfolded A(1), OF A(2)] by (elim bexE conjE) (rule that; assumption)
  have "dist 0 v < dist 0 100" using v(1) by auto
  with v(2) show ?thesis by blast
qed

text \<open>
  Whatever nodes notify a ring in whatever order, its predecessor is afterwards the one
  closest before it among them (the one farthest clockwise), and \<open>notify\<close> returns the
  notifier exactly when it replaced the recorded predecessor.
\<close>

lemma notify_closest_predecessor:
  fixes s :: "'s peer_ring"
  assumes "pr_predecessor s = None" "ds \<noteq> []"
  shows "(\<exists>p\<in>set ds. pr_predecessor (notify_all ds s) = Some p
         \<and> (\<forall>x\<in>set ds. dist (pr_did s) x \<le> dist (pr_did s) p))
    \<and> (\<forall>(t :: 's peer_ring) d. fst (chord_notify d t) =
         (if pr_predecessor (snd (chord_notify d t)) = pr_predecessor t then None else Some d))"
  using notify_all_spec [OF assms]
  by (auto simp: chord_notify_def split: option.split)

text \<open>
  Finger repair visits the slots in turn: after \<open>j\<close> calls on a well-formed ring the
  index has advanced by \<open>j\<close> modulo 159, so that within any 159 calls every slot below 159 is
  visited, while slot 159, the farthest finger, is never repaired. A call changes only the
  slot of its index, sets it when the answer is local, and asks the closest finger with
  \<open>FindSuccessorForFix\<close> otherwise.
\<close>

lemma fix_fingers_round_robin:
  assumes "pr_wf s"
  shows "unat (fix_finger_index (pr_finger (fix_n j s)))
      = (unat (fix_finger_index (pr_finger s)) + j) mod 159
    \<and> ft_get (pr_finger (fix_n j s)) 159 = ft_get (pr_finger s) 159
    \<and> (let i = unat (fix_finger_index (pr_finger (fix_n 1 s))); d = pr_did s + 2 ^ i;
           t = pr_finger (fix_n 1 s)
       in (\<forall>k. k \<noteq> i \<longrightarrow> ft_get t k = ft_get (pr_finger s) k)
         \<and> (in_arc s d \<longrightarrow> fst (chord_fix_fingers s) = Inr PNone
              \<and> ft_get t i = Some (ss_min (pr_successor s)))
         \<and> (\<not> in_arc s d \<longrightarrow> ft_get t i = ft_get (pr_finger s) i
              \<and> (\<exists>v. ft_closest (pr_finger s) d = Inr v
                   \<and> fst (chord_fix_fingers s) = Inr (PRemoteAction v (FindSuccessorForFix d)))))"
proof -
  let ?idx = "next_fix_index (fix_finger_index (pr_finger s))"
  have len: "length (finger (pr_finger s)) = 160" using assms by (simp add: pr_wf_def ft_wf_def)
  have fx: "unat (fix_finger_index (pr_finger (snd (chord_fix_fingers s)))) = unat ?idx"
    using fix_step(1) [OF assms] assms by (simp add: unat_next_fix_index pr_wf_def)
  have i: "unat ?idx < 160"
    using next_fix_index_less [of "fix_finger_index (pr_finger s)"] by (simp add: word_less_nat_alt)
  have "length (finger (pr_finger (fix_n j s))) = 160"
    using fix_n_invariant [OF assms, of j] by (simp add: pr_wf_def ft_wf_def)
  then have "ft_get (pr_finger (fix_n j s)) 159 = ft_get (pr_finger s) 159"
    using len fix_n_invariant [OF assms, of j] by (simp add: ft_get_def)
  moreover have "(let i = unat ?idx; d = pr_did s + 2 ^ i; t = pr_finger (snd (chord_fix_fingers s))
       in (\<forall>k. k \<noteq> i \<longrightarrow> ft_get t k = ft_get (pr_finger s) k)
         \<and> (in_arc s d \<longrightarrow> fst (chord_fix_fingers s) = Inr PNone
              \<and> ft_get t i = Some (ss_min (pr_successor s)))
         \<and> (\<not> in_arc s d \<longrightarrow> ft_get t i = ft_get (pr_finger s) i
              \<and> (\<exists>v. ft_closest (pr_finger s) d = Inr v
                   \<and> fst (chord_fix_fingers s) = Inr (PRemoteAction v (FindSuccessorForFix d)))))"
  proof (cases "in_arc s (pr_did s + 2 ^ unat ?idx)")
    case True
    then show ?thesis
      using i len
      by (simp add: chord_fix_fingers_eq [OF assms] find_successor_in_arc Let_def ft_get_def)
  next
    case False
    obtain v where "chord_find_successor s (pr_did s + 2 ^ unat ?idx)
        = Inr (PRemoteAction v (FindSuccessor (pr_did s + 2 ^ unat ?idx)))"
      "ft_closest (pr_finger s) (pr_did s + 2 ^ unat ?idx) = Inr v"
      using find_successor_not_in_arc [OF assms False] by blast
    then show ?thesis
      using i len False
      by (simp add: chord_fix_fingers_eq [OF assms] Let_def ft_get_def)
  qed
  ultimately show ?thesis using fix_n_invariant [OF assms, of j] fx by (simp add: fix_n_def)
qed

text \<open>
  \<open>remove\<close> forgets the node: afterwards it is neither a finger, nor a successor, nor the
  predecessor. Other successors keep their order; when the last successor is removed and
  another finger is known, the nearest finger slot becomes the successor.
\<close>

lemma remove_forgets:
  assumes "pr_wf s" "d \<noteq> pr_did s"
  shows "\<not> ft_contains (pr_finger (pr_remove d s)) (Some d)
    \<and> d \<notin> set (ss_list (pr_successor (pr_remove d s)))
    \<and> pr_predecessor (pr_remove d s) \<noteq> Some d
    \<and> (filter (\<lambda>v. v \<noteq> d) (ss_list (pr_successor s)) \<noteq> [] \<longrightarrow>
         ss_list (pr_successor (pr_remove d s)) = filter (\<lambda>v. v \<noteq> d) (ss_list (pr_successor s)))
    \<and> (filter (\<lambda>v. v \<noteq> d) (ss_list (pr_successor s)) = [] \<longrightarrow>
         ss_list (pr_successor (pr_remove d s)) =
           (case ft_first (pr_finger (pr_remove d s)) of
              Some x \<Rightarrow> if x = pr_did s \<or> ss_max (pr_successor s) = 0 then [] else [x]
            | None \<Rightarrow> []))"
proof -
  have nc: "Some d \<notin> set (finger (ft_remove (pr_finger s) d))" by (rule ft_remove_not_contains)
  have first: "ft_first (ft_remove (pr_finger s) d) = Some x \<Longrightarrow> x \<noteq> d" for x
    using nc by (auto simp: ft_first_def filter_eq_Cons_iff split: list.splits)
  have did: "ss_did (pr_successor s) = pr_did s" using assms(1) by (simp add: pr_wf_def)
  have wf: "ss_wf (ss_remove (pr_successor s) d)" using assms(1) by (auto simp: pr_wf_def intro: ss_wf_remove)
  have "successors (ss_update (ss_remove (pr_successor s) d) x) =
      (if x = pr_did s \<or> ss_max (pr_successor s) = 0 then [] else [x])"
    if "filter (\<lambda>v. v \<noteq> d) (successors (pr_successor s)) = []" for x
    using that successors_update [OF wf, of x] did
    by (auto simp: unat_eq_zero take_Cons' )
  then show ?thesis
    using nc first
    by (auto simp: pr_remove_def Let_def ft_contains_def ss_list_def ss_is_empty_def split: option.splits)
qed

text \<open>
  Finger repair on a node that knows nobody poisons its routing. The lookup of a finger
  then answers with the node itself, and the node is recorded as its own finger in every
  repaired slot; a later join never replaces it, since nothing is closer. After 158 repairs
  every identifier beyond the first successor, up to half the ring away, is forwarded to
  the node itself, however many nodes it joined.
\<close>

lemma lonely_repair_routes_to_self:
  fixes n m st ds
  defines "s \<equiv> join_all ds (fix_n 158 (pr_new_with_storage n m st))"
  assumes "unat (dist n d) \<le> 2 ^ 159" "\<not> in_arc s d"
  shows "chord_find_successor s d = Inr (PRemoteAction n (FindSuccessor d))"
proof -
  let ?l = "fix_n 158 (pr_new_with_storage n m st)"
  have l: "pr_wf ?l" "pr_did ?l = n" "\<And>k. k < 160 \<Longrightarrow>
      finger (pr_finger ?l) ! k = (if 1 \<le> k \<and> k \<le> 158 then Some n else None)"
    using fix_n_lonely [of 158 n m st] by simp_all
  have s: "pr_wf s" "pr_did s = n" using join_all_wf [OF l(1), of ds] l(2) by (simp_all add: s_def)
  have top: "finger (pr_finger s) ! 158 = Some n"
    using join_keeps_self_finger [OF l(1), of 158 ds] l(2,3) by (simp add: s_def)
  have "\<not> dist n v < dist n d" if "finger (pr_finger s) ! 159 = Some v" for v
  proof -
    have "2 ^ 159 \<le> unat (dist n v)"
      using join_top_finger [OF l(1) _ that [unfolded s_def]] l(2,3) by simp
    with assms(2) show ?thesis unfolding word_less_nat_alt by linarith
  qed
  moreover have "dist n n < dist n d"
    using assms(3) s(2) by (auto simp: in_arc_def word_less_nat_alt not_le)
  moreover have "rev [0..<160] = 159 # 158 # rev [0..<158]"
    using upt_Suc [of 0 158] upt_Suc [of 0 159] by (simp del: upt_rec_numeral upt_Suc)
  moreover have "length (finger (pr_finger s)) = 160" "ft_size (pr_finger s) = 160"
    "ft_did (pr_finger s) = n"
    using s by (simp_all add: pr_wf_def ft_wf_def)
  ultimately have "ft_closest (pr_finger s) d = Inr n"
    using top by (simp add: ft_closest_def Let_def split: option.split del: upt_rec_numeral)
  then show ?thesis
    using find_successor_not_in_arc [OF s(1) assms(3)] by auto
qed

text \<open>
  Removing a node can leave a successor that no finger knows. When two joined nodes
  \<open>a\<close> and \<open>b\<close> are in the same power-of-two range of distances, all slots hold the nearer
  \<open>a\<close>; after \<open>remove(a)\<close> the finger table is empty although \<open>b\<close> is still the successor, and every
  identifier beyond \<open>b\<close> is forwarded to the node itself.
\<close>

lemma remove_loses_successor_finger:
  fixes n a b m st
  assumes "2 ^ i \<le> unat (dist n a)" "dist n a < dist n b" "unat (dist n b) < 2 ^ (i + 1)"
    and "dist n b < dist n d" "2 \<le> unat m"
  defines "s \<equiv> pr_remove a (join_all [a, b] (pr_new_with_storage n m st))"
  shows "ss_list (pr_successor s) = [b] \<and> ft_is_empty (pr_finger s)
    \<and> chord_find_successor s d = Inr (PRemoteAction n (FindSuccessor d))"
proof -
  let ?s = "join_all [a, b] (pr_new_with_storage n m st)"
  note j = join_all_new [where ds = "[a, b]" and n = n and m = m and st = st]
  have ab: "a \<noteq> n" "b \<noteq> n" "a \<noteq> b" using assms(1,2) by auto
  then have set: "set [a, b] - {n} = {a, b}" by auto
  have len: "length (finger (pr_finger ?s)) = 160" using j(1) by (simp add: pr_wf_def ft_wf_def)
  have le: "dist n a \<le> dist n b" using assms(2) by simp
  have only_a: "finger (pr_finger ?s) ! k = Some v \<Longrightarrow> v = a" if k: "k < 160" for k v
  proof (cases "k \<le> i")
    case True
    then have "(2::nat) ^ k \<le> 2 ^ i" by (intro power_increasing) simp_all
    then have "2 ^ k \<le> unat (dist n a)" using assms(1) by linarith
    then show "finger (pr_finger ?s) ! k = Some v \<Longrightarrow> v = a"
      using j(6) [OF k] assms(2) unfolding set by (auto simp: slot_spec_def not_le [symmetric])
  next
    case False
    then have "(2::nat) ^ (i + 1) \<le> 2 ^ k" by (intro power_increasing) simp_all
    then have "unat (dist n b) < 2 ^ k" "unat (dist n a) < 2 ^ k"
      using assms(3) le by (simp_all add: word_le_nat_alt)
    then show "finger (pr_finger ?s) ! k = Some v \<Longrightarrow> v = a"
      using j(6) [OF k] unfolding set by (auto simp: slot_spec_def)
  qed
  then have "Some x \<in> set (finger (pr_finger ?s)) \<Longrightarrow> x = a" for x
    using len by (auto simp: in_set_conv_nth)
  then have none: "Some x \<notin> set (finger (pr_finger s))" for x
    using ft_remove_ordered(2) [OF j(5), of x a] ft_remove_not_contains [of a]
    by (cases "x = a") (auto simp: s_def pr_remove_def Let_def)
  have near: "nearest n (unat m) [a, b] = [a, b]"
    using ab assms(2,5) by (simp add: nearest_def)
  have succ: "successors (pr_successor s) = [b]"
    using ab j(4) near by (simp add: s_def pr_remove_def Let_def ss_is_empty_def)
  have wf: "pr_wf s" "pr_did s = n"
    using pr_wf_remove [OF j(1)] j(2) by (simp_all add: s_def pr_remove_def Let_def)
  have arc: "\<not> in_arc s d"
    using assms(4) wf(2) succ by (simp add: in_arc_def ss_is_empty_def ss_min_def)
  have "chord_find_successor s d = Inr (PRemoteAction n (FindSuccessor d))"
    by (rule chord_find_successor_cases [OF wf(1), of d])
       (use arc none wf(2) in \<open>auto simp: in_arc_def\<close>)
  moreover have "filter (\<lambda>x. x \<noteq> None) (finger (pr_finger s)) = []"
    using none by (metis (mono_tags, lifting) filter_False not_None_eq)
  ultimately show ?thesis using succ by (simp add: ss_list_def ft_is_empty_def ft_len_def)
qed

text \<open>
  Over any back end that meets the storage contract, an operation accepted in the node's
  arc is read back: \<open>vnode_operate\<close> applies the operation to the stored virtual node, or to
  the default one when there is none, and a following lookup returns the result, while
  lookups of other identifiers are not affected. An operation that fails leaves the ring
  as it was.
\<close>

lemma vnode_operate_read_back:
  assumes "vnode_store P view ok" "ok (pr_storage s)" "in_arc s vid" "op_did C op = Inr vid"
    and "(case view (pr_storage s) vid of Some v \<Rightarrow> Inr v | None \<Rightarrow> gen_default_vnode C op) = Inr this"
    and "vn_operate C this op = Inr w"
  shows "fst (vnode_operate C P op s) = Inr PNone
    \<and> vnode_lookup P (snd (vnode_operate C P op s)) vid = Inr (PSomeVNode w)
    \<and> (\<forall>vid'. vid' \<noteq> vid \<longrightarrow>
         vnode_lookup P (snd (vnode_operate C P op s)) vid' = vnode_lookup P s vid')
    \<and> (\<forall>op' e s'. vnode_operate C P op' s = (Inl e, s') \<longrightarrow> s' = s)"
  using vnode_store.operate_then_lookup [OF assms] vnode_store.operate_error [OF assms(1,2)] by blast

text \<open>
  Synchronising with a new successor partitions the stored virtual nodes: exactly those
  beyond the new successor leave the storage and are sent to it, each once; the others stay
  and no message is sent when nothing leaves.
\<close>

lemma sync_partitions_storage:
  assumes "vnode_store P view ok" "ok (pr_storage s)"
  shows "\<exists>data st. sync_vnode_with_successor P x s =
      (Inr (if data = [] then PNone else PRemoteAction x (SyncVNodeWithSuccessor data)),
       s\<lparr>pr_storage := st\<rparr>)
    \<and> ok st
    \<and> (\<forall>k. view st k = (if dist (pr_did s) x < dist (pr_did s) k then None else view (pr_storage s) k))
    \<and> (\<exists>ks. distinct ks
         \<and> set ks = {k \<in> dom (view (pr_storage s)). dist (pr_did s) x < dist (pr_did s) k}
         \<and> map Some data = map (view (pr_storage s)) ks)"
  by (rule vnode_store.sync_spec [OF assms])

end
