(* ===== verification/Lookup.thy ===== *)
theory Lookup
  imports Chord Relay
begin

text \<open>
  Finding a successor across nodes. A request \<open>FindSuccessorSend\<close> is handled at each node by
  \<open>find_successor\<close> (\<open>message/handlers/connection.rs\<close>): the node either reports the answer or
  relays the request to the closest preceding finger. A network is a function from
  identifiers to rings; every recorded finger is assumed connected. The fuel is the number
  of nodes allowed to handle the request; running out of it is \<open>None\<close>, and the theorems show
  how much is enough.
\<close>

section \<open>The request on its way\<close>

text \<open>One handling of the request (not strict): the answer, or the next node, with the relay.\<close>

definition fs_step ::
  "'s peer_ring \<Rightarrow> did \<Rightarrow> message_relay \<Rightarrow> ((did + did) \<times> message_relay) result" where
  "fs_step ring key relay =
     rbind (chord_find_successor ring key) (\<lambda>a.
       case a of
         PSome d \<Rightarrow> rbind (rl_relay (pr_did ring) None relay) (\<lambda>relay. Inr (Inl d, relay))
       | PRemoteAction next_node _ \<Rightarrow>
           rbind (rl_relay (pr_did ring) (Some next_node) relay) (\<lambda>relay.
           rbind (rl_reset_destination next_node relay) (\<lambda>relay. Inr (Inr next_node, relay)))
       | _ \<Rightarrow> Inl PeerRingUnexpectedAction)"

fun fs_hops ::
  "nat \<Rightarrow> (did \<Rightarrow> 's peer_ring) \<Rightarrow> did \<Rightarrow> message_relay \<Rightarrow> did \<Rightarrow> (did \<times> message_relay) result option" where
  "fs_hops 0 net key relay n = None"
| "fs_hops (Suc fuel) net key relay n =
     (case fs_step (net n) key relay of
        Inl e \<Rightarrow> Some (Inl e)
      | Inr (Inl d, relay) \<Rightarrow> Some (Inr (d, relay))
      | Inr (Inr next_node, relay) \<Rightarrow> fs_hops fuel net key relay next_node)"

text \<open>The same walk without the relay: the nodes visited and the answer.\<close>

fun lookup ::
  "nat \<Rightarrow> (did \<Rightarrow> 's peer_ring) \<Rightarrow> did \<Rightarrow> did \<Rightarrow> (did list \<times> did) option" where
  "lookup 0 net key n = None"
| "lookup (Suc fuel) net key n =
     (case chord_find_successor (net n) key of
        Inr (PSome r) \<Rightarrow> Some ([n], r)
      | Inr (PRemoteAction u _) \<Rightarrow> map_option (\<lambda>(hs, r). (n # hs, r)) (lookup fuel net key u)
      | _ \<Rightarrow> None)"

lemma lookup_cases:
  assumes "lookup (Suc fuel) net key n = Some (hs, r)"
  obtains (found) "chord_find_successor (net n) key = Inr (PSome r)" "hs = [n]"
  | (hop) u a hs' where "chord_find_successor (net n) key = Inr (PRemoteAction u a)"
      "lookup fuel net key u = Some (hs', r)" "hs = n # hs'"
  using assms by (auto split: sum.splits peer_ring_action.splits)

lemma lookup_hd: "lookup fuel net key n = Some (hs, r) \<Longrightarrow> hs \<noteq> [] \<and> hd hs = n"
  by (cases fuel) (auto split: sum.splits peer_ring_action.splits)

text \<open>On distinct nodes no relay check fails, so the request with its relay follows the walk.\<close>

lemma fs_hops_lookup:
  assumes "lookup fuel net key n = Some (hs, r)"
    and "rl_method relay = SEND" "rl_next_hop relay = Some n" "distinct (rl_path relay @ hs)"
    and "\<And>x. x \<in> set hs \<Longrightarrow> pr_did (net x) = x"
  shows "\<exists>relay'. fs_hops fuel net key relay n = Some (Inr (r, relay'))
    \<and> rl_path relay' = rl_path relay @ hs \<and> rl_next_hop relay' = None \<and> rl_method relay' = SEND
    \<and> rl_path_end_cursor relay' = rl_path_end_cursor relay"
  using assms
proof (induction fuel arbitrary: n hs relay)
  case (Suc fuel)
  have n: "pr_did (net n) = n" using Suc.prems(1,5) lookup_hd [OF Suc.prems(1)] by (cases hs) auto
  have valid: "rl_validate relay = Inr ()"
    using Suc.prems(2,4) has_infinite_loop_distinct [of "rl_path relay"]
      windows_equal_distinct [of "rl_path relay"]
    by (simp add: rl_validate_def)
  have relay: "rl_relay n h relay = Inr (relay\<lparr>rl_path := rl_path relay @ [n], rl_next_hop := h\<rparr>)" for h
    using valid Suc.prems(2,3) by (simp add: rl_relay_def)
  from Suc.prems(1) show ?case
  proof (cases rule: lookup_cases)
    case found
    then show ?thesis using n relay Suc.prems(2) by (simp add: fs_step_def)
  next
    case (hop u a hs')
    let ?r = "relay\<lparr>rl_path := rl_path relay @ [n], rl_next_hop := Some u, rl_destination := u\<rparr>"
    have "\<exists>relay'. fs_hops fuel net key ?r u = Some (Inr (r, relay'))
        \<and> rl_path relay' = rl_path ?r @ hs' \<and> rl_next_hop relay' = None \<and> rl_method relay' = SEND
        \<and> rl_path_end_cursor relay' = rl_path_end_cursor ?r"
      using Suc.prems(2,4,5) hop(3) by (intro Suc.IH [OF hop(2)]) auto
    moreover have "fs_step (net n) key relay = Inr (Inr u, ?r)"
      using hop(1) n relay Suc.prems(2) by (simp add: fs_step_def rl_reset_destination_def)
    ultimately show ?thesis using hop(3) by auto
  qed
qed simp

section \<open>Consistent networks\<close>

definition consistent :: "did set \<Rightarrow> (did \<Rightarrow> 's peer_ring) \<Rightarrow> bool" where
  "consistent N net \<longleftrightarrow> finite N \<and> (\<forall>n\<in>N. pr_wf (net n) \<and> pr_did (net n) = n
     \<and> (N = {n} \<longrightarrow> ss_is_empty (pr_successor (net n)))
     \<and> (N \<noteq> {n} \<longrightarrow> \<not> ss_is_empty (pr_successor (net n)) \<and> ss_min (pr_successor (net n)) \<in> N - {n}
          \<and> (\<forall>x\<in>N - {n}. dist n (ss_min (pr_successor (net n))) \<le> dist n x)
          \<and> (\<exists>u. finger (pr_finger (net n)) ! 0 = Some u
               \<and> dist n u \<le> dist n (ss_min (pr_successor (net n)))))
     \<and> (\<forall>v. Some v \<in> set (finger (pr_finger (net n))) \<longrightarrow> v \<in> N - {n}))"

text \<open>The node responsible for a key: the first one at or after it.\<close>

definition responsible :: "did set \<Rightarrow> did \<Rightarrow> did \<Rightarrow> bool" where
  "responsible N key r \<longleftrightarrow> r \<in> N \<and> (\<forall>x\<in>N. dist key r \<le> dist key x)"

lemma responsible_unique: "responsible N key r \<Longrightarrow> responsible N key r' \<Longrightarrow> r = r'"
proof -
  assume "responsible N key r" "responsible N key r'"
  then have "dist key r = dist key r'" unfolding responsible_def by (intro antisym) blast+
  then show ?thesis by simp
qed

lemma unat_minus_dist: "n \<noteq> (key :: did) \<Longrightarrow> unat (n - key) = 2 ^ 160 - unat (key - n)"
proof -
  assume ne: "n \<noteq> key"
  then have "unat (key - n) \<noteq> 0" by (simp add: unat_eq_zero)
  moreover have "unat (key - n) < 2 ^ 160" using unsigned_less [where ?'a = nat, of "key - n"] by simp
  moreover have "n - key = did_of_biguint (2 ^ 160 - unat (key - n))"
    using did_neg_eq [of "key - n"] by (simp add: did_neg_def biguint_of_did_def del: did_neg_eq did_arith)
  moreover have "unat (did_of_biguint m) = m mod 2 ^ 160" for m
    by (simp add: did_of_biguint_eq unat_of_nat)
  ultimately show ?thesis by (simp only:) simp
qed

lemma responsible_min:
  assumes "consistent N net" "n \<in> N" "N \<noteq> {n}" "key \<noteq> n"
    and "dist n key \<le> dist n (ss_min (pr_successor (net n)))"
  shows "responsible N key (ss_min (pr_successor (net n)))"
proof -
  let ?v = "ss_min (pr_successor (net n))"
  have v: "?v \<in> N" "\<And>x. x \<in> N - {n} \<Longrightarrow> dist n ?v \<le> dist n x"
    using assms(1-3) unfolding consistent_def by blast+
  have vk: "unat (dist key ?v) = unat (dist n ?v) - unat (dist n key)"
    using dist_split [OF assms(5)] .
  have "dist key ?v \<le> dist key x" if x: "x \<in> N" for x
  proof (cases "x = n")
    case True
    have "unat (n - key) = 2 ^ 160 - unat (key - n)" using assms(4) by (intro unat_minus_dist) simp
    moreover have "unat (dist n ?v) < 2 ^ 160"
      using unsigned_less [where ?'a = nat, of "dist n ?v"] by simp
    ultimately show ?thesis using True vk by (simp add: word_le_nat_alt)
  next
    case False
    then have "dist n ?v \<le> dist n x" using v(2) x by blast
    moreover have "unat (dist key x) = unat (dist n x) - unat (dist n key)"
      using dist_split [of key n x] assms(5) calculation by simp
    ultimately show ?thesis using vk by (simp add: word_le_nat_alt)
  qed
  then show ?thesis using v(1) by (simp add: responsible_def)
qed

lemma consistent_step:
  assumes "consistent N net" "n \<in> N" "key \<noteq> n"
  obtains (found) r where "chord_find_successor (net n) key = Inr (PSome r)" "responsible N key r"
  | (hop) u a where "chord_find_successor (net n) key = Inr (PRemoteAction u a)" "u \<in> N" "u \<noteq> key"
      "dist n u < dist n key" "unat (dist u key) < unat (dist n key)"
proof -
  have wf: "pr_wf (net n)" "pr_did (net n) = n" using assms(1,2) by (simp_all add: consistent_def)
  show ?thesis
  proof (cases "N = {n}")
    case True
    then have e: "ss_is_empty (pr_successor (net n))" using assms(1,2) by (simp add: consistent_def)
    then have "chord_find_successor (net n) key = Inr (PSome n)"
      using wf by (simp add: chord_find_successor_def ss_min_def pr_wf_def)
    then show ?thesis using True by (intro found [of n]) (simp_all add: responsible_def)
  next
    case False
    have ne: "\<not> ss_is_empty (pr_successor (net n))" using assms(1,2) False by (simp add: consistent_def)
    have fingers: "Some v \<in> set (finger (pr_finger (net n))) \<Longrightarrow> v \<in> N - {n}" for v
      using assms(1,2) by (simp add: consistent_def)
    obtain u0 where u0: "finger (pr_finger (net n)) ! 0 = Some u0"
      "dist n u0 \<le> dist n (ss_min (pr_successor (net n)))"
      using assms(1,2) False unfolding consistent_def by blast
    show ?thesis
    proof (rule chord_find_successor_cases [OF wf(1), of key])
      assume "chord_find_successor (net n) key = Inr (PSome (ss_min (pr_successor (net n))))"
        "ss_is_empty (pr_successor (net n))
           \<or> key - pr_did (net n) \<le> ss_min (pr_successor (net n)) - pr_did (net n)"
      then show ?thesis
        using responsible_min [OF assms(1,2) False assms(3)] ne wf(2) by (intro found) auto
    next
      fix v
      assume v: "chord_find_successor (net n) key = Inr (PRemoteAction v (FindSuccessor key))"
        "ss_min (pr_successor (net n)) - pr_did (net n) < key - pr_did (net n)"
        "ft_closest (pr_finger (net n)) key = Inr v"
        "v = pr_did (net n) \<or> v - pr_did (net n) < key - pr_did (net n)
           \<and> Some v \<in> set (finger (pr_finger (net n)))"
      have t: "ft_wf (pr_finger (net n))" "ft_did (pr_finger (net n)) = n"
        "length (finger (pr_finger (net n))) = 160"
        using wf by (simp_all add: pr_wf_def ft_wf_def)
      have in0: "Some u0 \<in> set (finger (pr_finger (net n)))"
        using u0(1) t(3) nth_mem [of 0 "finger (pr_finger (net n))"] by simp
      have "dist n u0 < dist n key" using u0(2) v(2) wf(2) by simp
      have "v \<noteq> n"
      proof
        assume "v = n"
        show False
        proof (rule ft_closest_cases [OF t(1), of key])
          assume "\<And>x. Some x \<in> set (finger (pr_finger (net n))) \<Longrightarrow>
              dist (ft_did (pr_finger (net n))) key \<le> dist (ft_did (pr_finger (net n))) x"
          from this [OF in0] \<open>dist n u0 < dist n key\<close> show False using t(2) by simp
        next
          fix w k assume "ft_closest (pr_finger (net n)) key = Inr w" "k < ft_size (pr_finger (net n))"
            "finger (pr_finger (net n)) ! k = Some w"
          then have "Some v \<in> set (finger (pr_finger (net n)))"
            using v(3) t(1) nth_mem [of k "finger (pr_finger (net n))"] by (simp add: ft_wf_def)
          then show False using fingers [of v] \<open>v = n\<close> by blast
        qed
      qed
      then have vv: "v - n < key - n" "v \<in> N" using v(4) wf(2) fingers by auto
      moreover have "unat (dist v key) < unat (dist n key)"
        using vv(1) \<open>v \<noteq> n\<close> by (intro dist_decreases) simp_all
      ultimately show ?thesis using v(1) by (intro hop) auto
    qed
  qed
qed

text \<open>Every hop leaves fewer nodes between here and the key, so \<open>card N\<close> handlings are enough.\<close>

lemma lookup_terminates:
  assumes "consistent N net" "n \<in> N" "key \<noteq> n"
    and "card {x \<in> N. unat (dist x key) < unat (dist n key)} < fuel"
  shows "\<exists>hs r. lookup fuel net key n = Some (hs, r) \<and> responsible N key r \<and> set hs \<subseteq> N
    \<and> distinct hs \<and> (\<forall>x\<in>set hs. x \<noteq> key \<and> unat (dist x key) \<le> unat (dist n key))"
  using assms(2-)
proof (induction fuel arbitrary: n)
  case (Suc fuel)
  show ?case
  proof (cases rule: consistent_step [OF assms(1) Suc.prems(1,2)])
    case (1 r)
    then show ?thesis using Suc.prems by simp
  next
    case (2 u a)
    have fin: "finite N" using assms(1) by (simp add: consistent_def)
    have "{x \<in> N. unat (dist x key) < unat (dist u key)} \<subset> {x \<in> N. unat (dist x key) < unat (dist n key)}"
    proof (rule psubsetI)
      show "{x \<in> N. unat (dist x key) < unat (dist u key)} \<subseteq> {x \<in> N. unat (dist x key) < unat (dist n key)}"
        using 2(5) by (intro subsetI) simp
      have "u \<in> {x \<in> N. unat (dist x key) < unat (dist n key)}" using 2(2,5) by simp
      moreover have "u \<notin> {x \<in> N. unat (dist x key) < unat (dist u key)}" by simp
      ultimately show "{x \<in> N. unat (dist x key) < unat (dist u key)} \<noteq> {x \<in> N. unat (dist x key) < unat (dist n key)}"
        by metis
    qed
    moreover have finB: "finite {x \<in> N. unat (dist x key) < unat (dist n key)}" using fin by simp
    ultimately have "card {x \<in> N. unat (dist x key) < unat (dist u key)} < fuel"
      using Suc.prems(3) psubset_card_mono [OF finB] by (meson less_SucE less_trans order_less_le_trans less_Suc_eq_le)
    then obtain hs r where r: "lookup fuel net key u = Some (hs, r)" "responsible N key r" "set hs \<subseteq> N"
      "distinct hs" "\<forall>x\<in>set hs. x \<noteq> key \<and> unat (dist x key) \<le> unat (dist u key)"
      using Suc.IH [OF 2(2) 2(3) [symmetric]] by blast
    have "n \<notin> set hs" using r(5) 2(5) by fastforce
    moreover have "\<forall>x\<in>set hs. x \<noteq> key \<and> unat (dist x key) \<le> unat (dist n key)"
      using r(5) 2(5) by fastforce
    ultimately show ?thesis using r(1-4) 2(1) Suc.prems(1,2) by simp
  qed
qed simp

section \<open>Networks where every node joined every other\<close>

definition full_mesh :: "did set \<Rightarrow> (did \<Rightarrow> 's peer_ring) \<Rightarrow> bool" where
  "full_mesh N net \<longleftrightarrow> (\<forall>n\<in>N. \<exists>m st ds. m \<noteq> 0 \<and> insert n (set ds) = N
     \<and> net n = join_all ds (pr_new_with_storage n m st))"

lemma full_mesh_node:
  assumes "full_mesh N net" "n \<in> N"
  shows "pr_wf (net n) \<and> pr_did (net n) = n \<and> finite N \<and> ft_ordered (pr_finger (net n))
    \<and> (\<forall>k < 160. slot_spec n (N - {n}) k (finger (pr_finger (net n)) ! k))
    \<and> (N = {n} \<longrightarrow> ss_is_empty (pr_successor (net n)))
    \<and> (N \<noteq> {n} \<longrightarrow> \<not> ss_is_empty (pr_successor (net n)) \<and> ss_min (pr_successor (net n)) \<in> N - {n}
          \<and> (\<forall>x\<in>N - {n}. dist n (ss_min (pr_successor (net n))) \<le> dist n x))"
proof -
  obtain m st ds where m: "m \<noteq> 0" "insert n (set ds) = N"
    "net n = join_all ds (pr_new_with_storage n m st)"
    using assms unfolding full_mesh_def by blast
  note j = join_all_new [where ds = ds and n = n and m = m and st = st, folded m(3)]
  have A: "set ds - {n} = N - {n}" using m(2) by auto
  have "ss_is_empty (pr_successor (net n))" if "N = {n}"
  proof -
    have "set ds \<subseteq> {n}" using that m(2) by auto
    then show ?thesis by (simp add: ss_is_empty_def j(4) nearest_Nil_iff)
  qed
  moreover have "\<not> ss_is_empty (pr_successor (net n)) \<and> ss_min (pr_successor (net n)) \<in> N - {n}
      \<and> (\<forall>x\<in>N - {n}. dist n (ss_min (pr_successor (net n))) \<le> dist n x)" if ne: "N \<noteq> {n}"
  proof -
    obtain y where y: "y \<in> set ds" "y \<noteq> n" using ne m(2) by blast
    show ?thesis using join_all_min [OF y m(1), where st = st, folded m(3)] A by simp
  qed
  moreover have "finite N" using m(2) finite_insert [of n "set ds"] by simp
  ultimately show ?thesis using j(1,2,5,6) A by simp
qed

lemma full_mesh_consistent:
  assumes "full_mesh N net" "N \<noteq> {}"
  shows "consistent N net"
proof -
  have node: "pr_wf (net n) \<and> pr_did (net n) = n
     \<and> (N = {n} \<longrightarrow> ss_is_empty (pr_successor (net n)))
     \<and> (N \<noteq> {n} \<longrightarrow> \<not> ss_is_empty (pr_successor (net n)) \<and> ss_min (pr_successor (net n)) \<in> N - {n}
          \<and> (\<forall>x\<in>N - {n}. dist n (ss_min (pr_successor (net n))) \<le> dist n x)
          \<and> (\<exists>u. finger (pr_finger (net n)) ! 0 = Some u
               \<and> dist n u \<le> dist n (ss_min (pr_successor (net n)))))
     \<and> (\<forall>v. Some v \<in> set (finger (pr_finger (net n))) \<longrightarrow> v \<in> N - {n})" if n: "n \<in> N" for n
  proof -
    note f = full_mesh_node [OF assms(1) n]
    have t: "ft_wf (pr_finger (net n))" "ft_did (pr_finger (net n)) = n" "ft_size (pr_finger (net n)) = 160"
      using f by (simp_all add: pr_wf_def)
    have "\<exists>u. finger (pr_finger (net n)) ! 0 = Some u \<and> dist n u \<le> dist n (ss_min (pr_successor (net n)))"
      if "N \<noteq> {n}"
    proof -
      let ?m = "ss_min (pr_successor (net n))"
      have m: "?m \<in> N - {n}" using f that by blast
      then have "unat (dist n ?m) \<noteq> 0" by (simp add: unat_eq_zero)
      moreover have "slot_spec n (N - {n}) 0 (finger (pr_finger (net n)) ! 0)" using f by simp
      ultimately show ?thesis
        using m by (cases "finger (pr_finger (net n)) ! 0") (auto simp: slot_spec_def)
    qed
    moreover have "v \<in> N - {n}" if "Some v \<in> set (finger (pr_finger (net n)))" for v
      using slot_spec_contains [of "pr_finger (net n)" "N - {n}" v] f t that
      by (simp add: ft_contains_def)
    ultimately show ?thesis using f by blast
  qed
  obtain n where "n \<in> N" using assms(2) by blast
  then have "finite N" using full_mesh_node [OF assms(1)] by blast
  with node show ?thesis unfolding consistent_def by blast
qed

text \<open>In a full mesh each hop at least halves the distance to the key's predecessor.\<close>

lemma full_mesh_hop:
  assumes "full_mesh N net" "n \<in> N" "p \<in> N" "p \<noteq> key"
    and p: "\<And>x. x \<in> N \<Longrightarrow> x \<noteq> key \<Longrightarrow> dist p key \<le> dist x key"
    and hop: "chord_find_successor (net n) key = Inr (PRemoteAction u a)" "u \<in> N" "u \<noteq> key"
    and n: "n \<noteq> key"
  shows "2 * unat (dist u p) < unat (dist n p)"
proof -
  note f = full_mesh_node [OF assms(1,2)]
  have t: "ft_did (pr_finger (net n)) = n" "ft_size (pr_finger (net n)) = 160"
    using f by (simp_all add: pr_wf_def)
  have far: "\<not> ss_is_empty (pr_successor (net n))" "dist n (ss_min (pr_successor (net n))) < dist n key"
    using hop(1) f by (auto simp: chord_find_successor_def Let_def not_le split: if_splits)
  then have ne: "N \<noteq> {n}" using f by blast
  then have y: "ss_min (pr_successor (net n)) \<in> N - {n}" using f by blast
  obtain u' where u': "u' \<in> N - {n}" "ft_closest (pr_finger (net n)) key = Inr u'" "dist n u' < dist n key"
    "\<forall>x\<in>N - {n}. dist n x < dist n key \<longrightarrow> unat (dist n x) < 2 * unat (dist n u')"
    using closest_halves [of "pr_finger (net n)" "N - {n}" "ss_min (pr_successor (net n))" key] f t far(2) y
    by auto
  have [simp]: "u' = u" using hop(1) far u'(2) f by (auto simp: chord_find_successor_def not_le[symmetric])
  have un: "unat (dist u key) = unat (dist n key) - unat (dist n u)"
    using u'(3) by (intro dist_split) simp
  have "p \<noteq> n"
  proof
    assume "p = n"
    then have "unat (dist n key) \<le> unat (dist u key)" using p [OF hop(2,3)] by (simp add: word_le_nat_alt)
    moreover have "unat (dist u key) < unat (dist n key)" using u'(1,3) by (intro dist_decreases) auto
    ultimately show False by simp
  qed
  have pk: "unat (dist p key) \<le> unat (dist n key)" "unat (dist p key) \<le> unat (dist u key)"
    using p [OF assms(2) n] p [OF hop(2,3)] by (simp_all add: word_le_nat_alt)
  have "p - n = (key - n) - (key - p)" by simp
  then have np: "unat (dist n p) = unat (dist n key) - unat (dist p key)"
    using unat_sub [of "key - p" "key - n"] pk(1) by (simp add: word_le_nat_alt)
  have up: "u - n \<le> p - n"
    using np un pk u'(3) by (simp add: word_le_nat_alt word_less_nat_alt)
  have "unat (dist p key) \<noteq> 0" using assms(4) by (auto simp: unat_eq_zero)
  then have "dist n p < dist n key" using np pk(1) by (simp add: word_less_nat_alt)
  then have "unat (dist n p) < 2 * unat (dist n u)" using u'(4) assms(3) \<open>p \<noteq> n\<close> by simp
  moreover have "unat (dist u p) = unat (dist n p) - unat (dist n u)" using up by (rule dist_split)
  moreover have "unat (dist n u) \<le> unat (dist n p)" using up by (simp add: word_le_nat_alt)
  ultimately show ?thesis by linarith
qed

lemma full_mesh_lookup:
  assumes "full_mesh N net" "p \<in> N" "p \<noteq> key"
    and p: "\<And>x. x \<in> N \<Longrightarrow> x \<noteq> key \<Longrightarrow> dist p key \<le> dist x key"
  shows "n \<in> N \<Longrightarrow> n \<noteq> key \<Longrightarrow> unat (dist n p) < 2 ^ k \<Longrightarrow>
    \<exists>hs r. lookup (Suc k) net key n = Some (hs, r) \<and> length hs \<le> Suc k"
proof (induction k arbitrary: n)
  case 0
  have c: "consistent N net" using full_mesh_consistent assms(1,2) by blast
  show ?case
    by (rule consistent_step [OF c 0(1) 0(2) [symmetric]])
       (use full_mesh_hop [OF assms(1) 0(1) assms(2,3) p] 0 in \<open>fastforce\<close>)+
next
  case (Suc k)
  have c: "consistent N net" using full_mesh_consistent assms(1,2) by blast
  show ?case
  proof (cases rule: consistent_step [OF c Suc.prems(1) Suc.prems(2) [symmetric]])
    case (2 u a)
    have "2 * unat (dist u p) < unat (dist n p)"
      using full_mesh_hop [OF assms(1) Suc.prems(1) assms(2,3) p 2(1-3) Suc.prems(2)] .
    then have "unat (dist u p) < 2 ^ k" using Suc.prems(3) by simp
    then obtain hs r where "lookup (Suc k) net key u = Some (hs, r)" "length hs \<le> Suc k"
      using Suc.IH [OF 2(2,3)] by blast
    then show ?thesis using 2(1) by (simp del: lookup.simps(2) add: lookup.simps(2) [of "Suc k"])
  qed simp
qed

lemma lookup_mono: "lookup k net key n = Some x \<Longrightarrow> lookup (k + j) net key n = Some x"
proof (induction k arbitrary: n x)
  case (Suc k)
  show ?case
    by (cases x, insert Suc.prems, hypsubst)
       (erule lookup_cases, simp, use Suc.IH in \<open>fastforce simp: add_Suc\<close>)
qed simp

section \<open>Properties\<close>

text \<open>
  C1: a lookup finds the right node. In a consistent network (every node's first successor is
  its nearest other node, every finger is another node of the network, and the first slot of
  every finger table is filled, with a node no farther than the successor; a lone node has no
  successor) a \<open>FindSuccessorSend\<close> that is not strict, started by node \<open>a\<close> for its own identifier
  or forwarded by \<open>a\<close> as a step towards the key, and first handled by a node other than the key,
  is answered after at most as many handlings as there are nodes. The answer is the node
  responsible for the key (no node is closer clockwise after it), no relay check fails on the
  way, no node handles the request twice, and the report then retraces the path to \<open>a\<close>.
\<close>

theorem lookup_finds_responsible:
  assumes "consistent N net" "n \<in> N" "n \<noteq> key"
    and "a \<in> N" "a = key \<or> unat (dist n key) < unat (dist a key)" "card N < 2 ^ 62"
  shows "\<exists>r relay report. fs_hops (card N) net key (MessageRelay_new SEND [a] None (Some n) n) n
      = Some (Inr (r, relay)) \<and> responsible N key r
    \<and> distinct (rl_path relay) \<and> length (rl_path relay) \<le> card N + 1
    \<and> rl_report relay = Inr report
    \<and> report_route (length (rl_path relay)) report = Inr (tl (rev (rl_path relay)))"
proof -
  have fin: "finite N" using assms(1) by (simp add: consistent_def)
  have "card {x \<in> N. unat (dist x key) < unat (dist n key)} < card N"
    by (rule psubset_card_mono [OF fin]) (use assms(2) in auto)
  then obtain hs r where r: "lookup (card N) net key n = Some (hs, r)" "responsible N key r"
    "set hs \<subseteq> N" "distinct hs" "\<forall>x\<in>set hs. x \<noteq> key \<and> unat (dist x key) \<le> unat (dist n key)"
    using lookup_terminates [OF assms(1,2), of key "card N"] assms(3) by blast
  have a: "a \<notin> set hs" using r(5) assms(5) by (metis not_le)
  let ?m = "MessageRelay_new SEND [a] None (Some n) n"
  have m: "rl_method ?m = SEND" "rl_next_hop ?m = Some n" "rl_path ?m = [a]" "rl_path_end_cursor ?m = 0"
    by (simp_all add: MessageRelay_new_def)
  have dids: "pr_did (net x) = x" if "x \<in> set hs" for x
    using that r(3) assms(1) by (auto simp: consistent_def)
  obtain relay where relay: "fs_hops (card N) net key ?m n = Some (Inr (r, relay))"
    "rl_path relay = a # hs" "rl_method relay = SEND" "rl_path_end_cursor relay = 0"
    using fs_hops_lookup [OF r(1) m(1,2) _ dids] a r(4) m(3,4) by auto
  have hs: "hs \<noteq> []" using lookup_hd [OF r(1)] by blast
  have len: "length hs \<le> card N" using r(3,4) fin by (metis card_mono distinct_card)
  have d: "distinct (a # hs)" using a r(4) by simp
  obtain report where report: "rl_report relay = Inr report"
    "report_route (length (a # hs)) report
       = Inr (takeWhile (\<lambda>x. x \<noteq> a) (tl (rev (a # hs))) @ [a])"
  proof -
    have "2 \<le> length (a # hs)" using hs by (cases hs) simp_all
    moreover have "length (a # hs) < 2 ^ 63" using len assms(6) by simp
    ultimately show thesis
      using report_route_of_path [OF relay(3,4)] relay(2) windows_equal_distinct [OF d] that by auto
  qed
  have "tl (rev (a # hs)) = tl (rev hs) @ [a]" using hs by simp
  moreover have "takeWhile (\<lambda>x. x \<noteq> a) (tl (rev hs) @ [a]) = tl (rev hs)"
  proof -
    have "set (tl (rev hs)) \<subseteq> set hs" using hs by (metis list.set_sel(2) rev_is_Nil_conv set_rev subsetI)
    then show ?thesis using a by (subst takeWhile_append2) auto
  qed
  ultimately have "report_route (length (rl_path relay)) report = Inr (tl (rev (rl_path relay)))"
    using report(2) relay(2) by simp
  then show ?thesis using relay(1,2) r(2) d len report(1) by auto
qed

definition demo_net :: "did \<Rightarrow> unit peer_ring" where
  "demo_net n = (if n = 1 then join_all [4] (pr_new_with_storage 1 3 ())
                 else join_all [1] (pr_new_with_storage 4 3 ()))"

lemma demo_net_full_mesh: "full_mesh {1, 4} demo_net"
proof -
  have "\<exists>m st ds. m \<noteq> 0 \<and> insert 1 (set ds) = {1, 4} \<and> demo_net 1 = join_all ds (pr_new_with_storage 1 m st)"
    by (intro exI [of _ 3] exI [of _ "()"] exI [of _ "[4]"]) (simp add: demo_net_def)
  moreover have "\<exists>m st ds. m \<noteq> 0 \<and> insert 4 (set ds) = {1, 4}
      \<and> demo_net 4 = join_all ds (pr_new_with_storage 4 m st)"
    by (intro exI [of _ 3] exI [of _ "()"] exI [of _ "[1]"]) (simp add: demo_net_def insert_commute)
  ultimately show ?thesis by (simp add: full_mesh_def)
qed

theorem lookup_finds_responsible_witness:
  "\<exists>r relay. fs_hops 2 demo_net 9 (MessageRelay_new SEND [1] None (Some 4) 4) 4 = Some (Inr (r, relay))
     \<and> responsible {1, 4} 9 r"
proof -
  have c: "consistent {1, 4} demo_net" by (rule full_mesh_consistent [OF demo_net_full_mesh]) simp
  have "(4 :: did) \<noteq> 9" "(4 :: did) \<in> {1, 4}" "(1 :: did) \<in> {1, 4}" "card {1, 4 :: did} < 2 ^ 62"
    "(1 :: did) = 9 \<or> unat (dist 4 9 :: did) < unat (dist 1 9 :: did)" by simp_all
  from lookup_finds_responsible [OF c this(2,1,3,5,4)]
  have "\<exists>r relay. fs_hops (card {1, 4 :: did}) demo_net 9 (MessageRelay_new SEND [1] None (Some 4) 4) 4
      = Some (Inr (r, relay)) \<and> responsible {1, 4} 9 r" by blast
  moreover have "card {1, 4 :: did} = 2" by simp
  ultimately show ?thesis by metis
qed

text \<open>A node asked for its own identifier answers with its first successor.\<close>

lemma lookup_own:
  assumes "consistent N net" "n \<in> N"
  shows "lookup (Suc k) net n n = Some ([n], ss_min (pr_successor (net n)))"
proof -
  have wf: "pr_wf (net n)" "pr_did (net n) = n" using assms by (simp_all add: consistent_def)
  have "chord_find_successor (net n) n = Inr (PSome (ss_min (pr_successor (net n))))"
    by (rule chord_find_successor_cases [OF wf(1), of n]) (simp_all add: wf(2))
  then show ?thesis by simp
qed

text \<open>
  C30: in a network where every node, with room for at least one successor, joined every other,
  at most 161 nodes handle a lookup, whatever the number of nodes, because each hop covers more
  than half of the remaining way to the key's predecessor on a ring of \<open>2^160\<close> identifiers. The
  answer is the node responsible for the key; only a node that is asked for its own identifier
  answers, at once, with the next node after it.
\<close>

theorem full_mesh_lookup_logarithmic:
  assumes "full_mesh N net" "n \<in> N"
  shows "\<exists>hs r. lookup 161 net key n = Some (hs, r) \<and> length hs \<le> 161
    \<and> (if n = key then hs = [n] \<and> (N = {n} \<or> r \<in> N - {n} \<and> (\<forall>x\<in>N - {n}. dist n r \<le> dist n x))
       else responsible N key r)"
proof -
  have c: "consistent N net" using full_mesh_consistent assms by blast
  then have fin: "finite N" by (simp add: consistent_def)
  show ?thesis
  proof (cases "n = key")
    case True
    have "lookup 161 net n n = Some ([n], ss_min (pr_successor (net n)))"
      using lookup_own [OF c assms(2), of 160] by simp
    moreover have "N = {n} \<or> ss_min (pr_successor (net n)) \<in> N - {n}
        \<and> (\<forall>x\<in>N - {n}. dist n (ss_min (pr_successor (net n))) \<le> dist n x)"
      using c assms(2) unfolding consistent_def by blast
    ultimately show ?thesis using True by simp
  next
    case False
    let ?p = "arg_min_on (\<lambda>x. dist x key) (N - {key})"
    have ne: "N - {key} \<noteq> {}" "finite (N - {key})" using assms(2) False fin by auto
    have p: "?p \<in> N - {key}" "\<And>x. x \<in> N \<Longrightarrow> x \<noteq> key \<Longrightarrow> dist ?p key \<le> dist x key"
      using arg_min_if_finite(1) [OF ne(2,1)] arg_min_least [OF ne(2,1), of _ "\<lambda>x. dist x key"] by auto
    have "unat (dist n ?p) < 2 ^ 160" using unsigned_less [where ?'a = nat, of "dist n ?p"] by simp
    then obtain hs r where r: "lookup (Suc 160) net key n = Some (hs, r)" "length hs \<le> Suc 160"
      using full_mesh_lookup [OF assms(1), of ?p key n 160] p assms(2) False by auto
    have "card {x \<in> N. unat (dist x key) < unat (dist n key)} < Suc (card N)"
      using card_mono [OF fin, of "{x \<in> N. unat (dist x key) < unat (dist n key)}"] by auto
    then obtain hs' r' where r': "lookup (Suc (card N)) net key n = Some (hs', r')" "responsible N key r'"
      using lookup_terminates [OF c assms(2) False [symmetric]] by blast
    have "Some (hs, r) = Some (hs', r')"
      using lookup_mono [OF r(1), of "Suc (card N)"] lookup_mono [OF r'(1), of "Suc 160"]
      by (metis add.commute)
    then show ?thesis using r r'(2) False by auto
  qed
qed

theorem full_mesh_lookup_logarithmic_witness:
  "\<exists>hs r. lookup 161 demo_net 9 4 = Some (hs, r) \<and> responsible {1, 4} 9 r"
  using full_mesh_lookup_logarithmic [OF demo_net_full_mesh, of 4 9] by auto

end
