(* ===== verification/NodeProps.thy ===== *)
theory NodeProps
  imports NodeRel ChordProps Lookup
begin

text \<open>
  What holds of a node whatever messages reach it: its ring only ever takes the steps of
  \<open>ring_step\<close>, so every ring invariant holds of every reachable node; sending changes nothing
  but the world; and only the messages that are about connections can take down a transport
  that is up.
\<close>

section \<open>The ring of a node moves along its steps\<close>

definition ring_moves :: "('s, 'w) node \<Rightarrow> ('s, 'w) node \<Rightarrow> bool" where
  "ring_moves n n' \<longleftrightarrow> ring_step\<^sup>*\<^sup>* (sw_dht n) (sw_dht n') \<and> sw_session n' = sw_session n
     \<and> (mem_wf (sw_transports n) \<longrightarrow> mem_wf (sw_transports n'))"

lemma ring_moves_world [simp]: "ring_moves n (n\<lparr>sw_world := w\<rparr>)" "ring_moves n (n\<lparr>sw_pending := ts\<rparr>)"
  by (simp_all add: ring_moves_def)

interpretation ring_moves: connecting_relation X ring_moves for X
proof unfold_locales
  show "reflp ring_moves" by (simp add: reflp_def ring_moves_def)
  show "transp ring_moves" by (auto simp: transp_def ring_moves_def)
  show "ring_moves n (incr_measure d c n)" for n :: "('a, 'b) node" and d c
    by (simp add: incr_measure_def ring_moves_def split: option.split)
qed (simp_all add: ring_moves_def set_transport_def)

lemma ring_steps_did: "ring_step\<^sup>*\<^sup>* s s' \<Longrightarrow> pr_did s' = pr_did s"
proof (induction rule: rtranclp_induct)
  case (step s' s'')
  from step(2) have "pr_did s'' = pr_did s'"
    by (cases rule: ring_step.cases)
       (auto simp: pr_remove_def Let_def chord_notify_def chord_fix_fingers_def local_cache_set_def
          split: option.split sum.split peer_ring_action.split remote_action.split error.split)
  then show ?case using step by simp
qed simp

lemma ring_steps_reachable: "ring_step\<^sup>*\<^sup>* s s' \<Longrightarrow> ring_reachable s \<Longrightarrow> ring_reachable s'"
  by (induction rule: rtranclp_induct) (auto intro: reach_step)

lemma ring_moves_reachable:
  "ring_moves n n' \<Longrightarrow> ring_reachable (sw_dht n) \<and> mem_wf (sw_transports n) \<Longrightarrow>
     ring_reachable (sw_dht n') \<and> mem_wf (sw_transports n') \<and> sw_did n' = sw_did n"
  unfolding ring_moves_def sw_did_def using ring_steps_reachable ring_steps_did by metis

section \<open>Runs of a node\<close>

text \<open>
  Everything a node can be asked to do, by the network, by its timer and by the application;
  between its own steps the world may change in any way.
\<close>

inductive node_step ::
  "('s, 'w) env \<Rightarrow> ('s, 'w) message_handler \<Rightarrow> ('s, 'w) node \<Rightarrow> ('s, 'w) node \<Rightarrow> bool"
  for X H where
  ns_payload: "node_step X H n (snd (handle_payload X H p n))"
| ns_listen: "node_step X H n (snd (listen_once X H n))"
| ns_stabilize: "node_step X H n (snd (stabilize X n))"
| ns_connect: "node_step X H n (snd (swarm_connect X d n))"
| ns_disconnect: "node_step X H n (snd (swarm_disconnect X d n))"
| ns_send: "node_step X H n (snd (send_message X msg d n))"
| ns_fetch: "node_step X H n (snd (storage_fetch X vid n))"
| ns_store: "node_step X H n (snd (storage_store X v n))"
| ns_append: "node_step X H n (snd (storage_append_data X topic e n))"
| ns_touch: "node_step X H n (snd (storage_touch_data X topic e n))"
| ns_subring: "node_step X H n (snd (subring_join X name n))"
| ns_world: "node_step X H n (n\<lparr>sw_world := w\<rparr>)"

inductive_cases node_stepE: "node_step X H n n'"

inductive node_reachable :: "('s, 'w) env \<Rightarrow> ('s, 'w) message_handler \<Rightarrow> ('s, 'w) node \<Rightarrow> bool"
  for X H where
  nr_build: "builder_build E now key counter w b = Inr n \<Longrightarrow> node_reachable X H n"
| nr_step: "node_reachable X H n \<Longrightarrow> node_step X H n n' \<Longrightarrow> node_reachable X H n'"

lemma node_step_moves:
  assumes "node_step X H n n'" "good_handler ring_moves H"
  shows "ring_moves n n'"
proof -
  have k: "keeps ring_moves m \<Longrightarrow> ring_moves n (snd (m n))" for m :: "(('a, 'b) node, 'c) action"
    by (simp add: keeps_def)
  from assms(1) show ?thesis
    by (cases rule: node_step.cases)
       (simp_all add: k ring_moves.handle_payload ring_moves.listen_once assms(2) ring_moves.stabilize
          ring_moves.connect ring_moves.disconnect ring_moves.send_message ring_moves.storage_fetch
          ring_moves.storing)
qed

lemma build_reachable:
  "builder_build E now key counter w b = Inr n \<Longrightarrow> ring_reachable (sw_dht n) \<and> mem_wf (sw_transports n)"
  by (auto simp: builder_build_def rbind_eq_Inr intro: reach_new)

lemma node_reachable_ring:
  assumes "node_reachable X H n" "good_handler ring_moves H"
  shows "ring_reachable (sw_dht n) \<and> mem_wf (sw_transports n)"
  using assms(1)
proof (induction rule: node_reachable.induct)
  case (nr_build E now key counter w b n)
  then show ?case by (rule build_reachable)
next
  case (nr_step n n')
  then show ?case
    using ring_moves_reachable [OF node_step_moves [OF nr_step(2) assms(2)]] by blast
qed

text \<open>The arms of the code marked \<open>unreachable!\<close>, and those that report an unexpected action.\<close>

lemma join_arms:
  assumes "pr_wf s"
  shows "fst (chord_join d s) \<in> {Inr PNone, Inr (PRemoteAction d (FindSuccessorForConnect (pr_did s)))}"
  using chord_join_eq [OF assms, of d] by (cases "d = pr_did s") (auto simp: chord_join_self)

lemma fix_arms:
  assumes "pr_wf s"
  shows "\<exists>v k. fst (chord_fix_fingers s) \<in> {Inr PNone, Inr (PRemoteAction v (FindSuccessorForFix k))}"
  by (rule chord_find_successor_cases [OF assms, of
        "pr_did s + 2 ^ unat (next_fix_index (fix_finger_index (pr_finger s)))"])
     (auto simp: chord_fix_fingers_eq [OF assms])

lemma operate_arms:
  assumes "pr_wf s" "fst (vnode_operate C P op s) = Inr a"
  shows "a = PNone \<or> (\<exists>v. a = PRemoteAction v (FindVNodeForOperate op))"
  using assms(2)
proof (cases "op_did C op")
  case (Inr vid)
  show ?thesis
    using assms(2) unfolding vnode_operate_def Inr
    by (cases rule: chord_find_successor_cases [OF assms(1), of vid])
       (auto simp: sbind_def split: prod.splits sum.splits)
qed (auto simp: vnode_operate_def)

section \<open>Sending\<close>

definition world_only :: "('s, 'w) node \<Rightarrow> ('s, 'w) node \<Rightarrow> bool" where
  "world_only n n' \<longleftrightarrow> n' = n\<lparr>sw_world := sw_world n'\<rparr>"

interpretation world_only: sending_relation X world_only for X
proof unfold_locales
  show "reflp world_only" by (simp add: reflp_def world_only_def)
  show "transp world_only" unfolding transp_def world_only_def by (metis node.update_convs(9) node.surjective)
  show "world_only n (incr_measure d c n)" for n :: "('a, 'b) node" and d c
    by (simp add: incr_measure_def world_only_def split: option.split)
qed (simp_all add: world_only_def)

section \<open>The state of the transports\<close>

text \<open>\<open>measure_harmless\<close>: counting messages does not touch the links.\<close>

definition measure_harmless :: "('s, 'w) env \<Rightarrow> ('w \<Rightarrow> uuid \<Rightarrow> bool) \<Rightarrow> ('s, 'w) node \<Rightarrow> bool" where
  "measure_harmless X known n \<longleftrightarrow>
     (\<forall>incr. sw_measure n = Some incr \<longrightarrow> (\<forall>d c w. same_links known (en_transport X) {} w (incr d c w)))"

text \<open>\<open>link_unchanged\<close>: a known transport stays known, as connected and as disconnected as it was.\<close>

definition link_unchanged ::
  "('s, 'w) env \<Rightarrow> ('w \<Rightarrow> uuid \<Rightarrow> bool) \<Rightarrow> ('s, 'w) node \<Rightarrow> ('s, 'w) node \<Rightarrow> uuid \<Rightarrow> bool" where
  "link_unchanged X known n n' u \<longleftrightarrow> (known (sw_world n) u \<longrightarrow> known (sw_world n') u
     \<and> is_connected X n' u = is_connected X n u \<and> is_disconnected X n' u = is_disconnected X n u)"

definition links_kept :: "('s, 'w) env \<Rightarrow> ('w \<Rightarrow> uuid \<Rightarrow> bool) \<Rightarrow> ('s, 'w) node \<Rightarrow> ('s, 'w) node \<Rightarrow> bool" where
  "links_kept X known n n' \<longleftrightarrow> sw_measure n' = sw_measure n
     \<and> (measure_harmless X known n \<longrightarrow> (\<forall>u. link_unchanged X known n n' u))"

lemma links_kept_world:
  assumes "same_links known (en_transport X) {} (sw_world n) w"
  shows "links_kept X known n (n\<lparr>sw_world := w\<rparr>)"
  using assms by (auto simp: links_kept_def link_unchanged_def is_connected_def is_disconnected_def same_links_def)

locale linked_node = transport_laws "en_transport X" known
  for X :: "('s, 'w) env" and known :: "'w \<Rightarrow> uuid \<Rightarrow> bool"

sublocale linked_node \<subseteq> links: handling_relation X "links_kept X known"
proof unfold_locales
  show "reflp (links_kept X known)" by (simp add: reflp_def links_kept_def link_unchanged_def)
  show "transp (links_kept X known)"
    by (simp add: transp_def links_kept_def measure_harmless_def link_unchanged_def)
  show "links_kept X known n (n\<lparr>sw_world := snd (tr_close (en_transport X) t (sw_world n))\<rparr>)"
    if "is_disconnected X n t" for n t
  proof -
    have "link_unchanged X known n (n\<lparr>sw_world := snd (tr_close (en_transport X) t (sw_world n))\<rparr>) u" for u
      using close_links [of t "sw_world n"] close_disconnects [of "sw_world n" u] exclusive that
      by (cases "u = t") (auto simp: link_unchanged_def is_connected_def is_disconnected_def same_links_def)
    then show ?thesis by (simp add: links_kept_def)
  qed
  show "links_kept X known n (incr_measure d c n)" for n d c
    by (auto simp: incr_measure_def links_kept_def measure_harmless_def link_unchanged_def is_connected_def
        is_disconnected_def same_links_def split: option.split)
  show "links_kept X known n (n\<lparr>sw_dht := r\<rparr>)" for n r
    by (simp add: links_kept_def link_unchanged_def is_connected_def is_disconnected_def)
qed (simp_all add: links_kept_world uuid_links wait_links send_links)


context linked_node
begin

lemmas payload_free = links.handle_payload_free
lemmas stabilize_kept = links.stabilize

end

interpretation dummy_links: linked_node "X\<lparr>en_transport := dummy_ops Y\<rparr>" dt_known for X Y
  by (simp add: linked_node_def dummy.transport_laws_axioms)

lemma set_transport_get [simp]:
  "get_transport (set_transport d t n) = (get_transport n)(d \<mapsto> t)"
  "sw_world (set_transport d t n) = sw_world n"
  by (simp_all add: get_transport_def set_transport_def fun_eq_iff)

lemma close_transport_sel [simp]:
  "get_transport (snd (close_transport X t n)) = get_transport n"
  "sw_world (snd (close_transport X t n)) = snd (tr_close (en_transport X) t (sw_world n))"
  by (simp_all add: close_transport_def on_world_def get_transport_def fun_eq_iff split: prod.split)

lemma no_handler [simp]:
  assumes "reflp R"
  shows "good_handler R \<lparr>mh_callback = None, mh_validator = None\<rparr>"
  using assms by (simp add: good_handler_def validate_def invoke_callback_def keeps_pure)

text \<open>The panics and the errors of closing that \<open>register\<close> lets out.\<close>

lemma close_result:
  "sbind (attempt m) (\<lambda>r. if is_ok r then sret () else serr SwarmToClosePrevTransport) n = (r, n') \<Longrightarrow>
     r \<noteq> Inl InvalidTransport \<and> n' = snd (m n)"
  by (cases "m n"; cases "fst (m n)")
     (auto simp: sbind_def attempt_def is_panic_def split: if_splits)

section \<open>A concrete node\<close>

text \<open>
  The instance the witnesses run on: a dummy world in which transport 5 is connected, and a
  node 1 whose transport to peer 2 it is.
\<close>

definition demo_dummy :: dummy_env where
  "demo_dummy = \<lparr>de_ecc = demo_ecc, de_codec = demo_codec, de_json = (\<lambda>t. Some (tp_sdp t)),
     de_bin = (\<lambda>_. None), de_unbin = (\<lambda>_. None), de_uuid_json = (\<lambda>_. ''id''),
     de_uuid_of_json = (\<lambda>_. None)\<rparr>"

definition demo_env :: "((did, virtual_node) mem_storage, dummy_world) env" where
  "demo_env = \<lparr>en_ecc = demo_ecc, en_codec = demo_codec, en_json = (\<lambda>_. Some ''m''),
     en_bin = (\<lambda>_. Some [1]), en_unbin = (\<lambda>_. None), en_uuid_str = (\<lambda>_. ''id''),
     en_uuid_from_str = (\<lambda>_. None), en_persist = mem_persist, en_transport = dummy_ops demo_dummy\<rparr>"

definition demo_world :: dummy_world where
  "demo_world = \<lparr>hub_senders = Map.empty, hub_dids = Map.empty,
     dw_transports = [5 \<mapsto> \<lparr>dt_remote_id = Some 8, dt_event_sender = 1, dt_state = Some IceConnected,
                            dt_public_key = Some [4]\<rparr>],
     dw_channels = (\<lambda>_. ch_new), dw_now = 10000, dw_next_uuid = 9\<rparr>"

definition demo_node :: "((did, virtual_node) mem_storage, dummy_world) node" where
  "demo_node = \<lparr>sw_pending = [], sw_pending_locked = False, sw_transports = mem_new,
     sw_ice_servers = [], sw_external_address = None, sw_dht = pr_new_with_storage 1 3 mem_new,
     sw_measure = None, sw_session = demo_sm, sw_world = demo_world\<rparr>"

abbreviation no_callback :: "('s, 'w) message_handler" where
  "no_callback \<equiv> \<lparr>mh_callback = None, mh_validator = None\<rparr>"

lemma demo_node_reachable: "node_reachable X H demo_node"
proof (rule nr_build)
  show "builder_build demo_ecc 0 [9] None demo_world
      \<lparr>sb_key = None, sb_ice_servers = [], sb_external_address = None, sb_dht_did = Some 1,
       sb_dht_succ_max = 3, sb_dht_storage = mem_new, sb_session_manager = Some demo_sm,
       sb_session_ttl = None\<rparr> = Inr demo_node"
    by (simp add: builder_build_def demo_node_def)
qed

lemma demo_env_transport [simp]: "en_transport demo_env = dummy_ops demo_dummy"
  by (simp add: demo_env_def)

lemma demo_transport_laws: "transport_laws (en_transport demo_env) dt_known"
  by (simp add: dummy.transport_laws_axioms)

lemma demo_measure: "measure_harmless demo_env dt_known (set_transport d t demo_node)"
  by (simp add: measure_harmless_def demo_node_def set_transport_def)

lemma demo_links [simp]:
  "is_connected demo_env (set_transport d t demo_node) u \<longleftrightarrow> u = 5"
  "is_disconnected demo_env (set_transport d t demo_node) u \<longleftrightarrow> False"
  "dt_known (sw_world demo_node) u \<longleftrightarrow> u = 5"
  by (simp_all add: is_connected_def is_disconnected_def set_transport_def demo_node_def
      demo_world_def dt_is_connected_def dt_is_disconnected_def dt_ice_connection_state_def dt_known_def)

lemma demo_get_transport [simp]: "get_transport demo_node = Map.empty"
  by (simp add: fun_eq_iff get_transport_def demo_node_def)

section \<open>Properties\<close>



text \<open>
  C9: handling a message disturbs no connection. On any transport that obeys the laws of the
  interface, with a callback and a validator that leave the links alone and a message counter that
  does too, handling a payload whose message is none of those about connections, or running a
  stabilisation round, changes the state of no transport that exists: one that is connected, or
  still connecting, is so afterwards, and none is closed but those that the node finds disconnected
  already.
\<close>

theorem connections_survive:
  assumes "transport_laws (en_transport X) known" "measure_harmless X known n"
    and "good_handler (links_kept X known) H" "link_free (pl_data p)"
    and "n' = snd (handle_payload X H p n) \<or> n' = snd (stabilize X n)" "known (sw_world n) u"
  shows "known (sw_world n') u \<and> is_connected X n' u = is_connected X n u
    \<and> is_disconnected X n' u = is_disconnected X n u"
proof -
  have l: "linked_node X known" using assms(1) by (simp add: linked_node_def)
  have "links_kept X known n n'"
    using linked_node.payload_free [OF l assms(3,4)] linked_node.stabilize_kept [OF l] assms(5)
    by (auto simp: keeps_def)
  then show ?thesis using assms(2,6) by (simp add: links_kept_def link_unchanged_def)
qed

theorem connections_survive_witness:
  "\<exists>p :: message payload. pl_data p = SearchVNode 3
     \<and> is_connected demo_env (snd (handle_payload demo_env no_callback p (set_transport 2 5 demo_node))) 5
     \<and> \<not> is_disconnected demo_env (snd (stabilize demo_env (set_transport 2 5 demo_node))) 5"
proof -
  define p :: "message payload" where "p = \<lparr>pl_data = SearchVNode 3, pl_tx_id = 1, pl_addr = 2,
      pl_verification = undefined, pl_origin_verification = undefined,
      pl_relay = MessageRelay_new SEND [2] None (Some 1) 1\<rparr>"
  have good: "good_handler (links_kept demo_env dt_known)
      (no_callback :: ((did, virtual_node) mem_storage, dummy_world) message_handler)"
    by (rule no_handler) (simp add: reflp_def links_kept_def link_unchanged_def)
  have p: "link_free (pl_data p)" by (simp add: p_def)
  have known: "dt_known (sw_world (set_transport 2 5 demo_node)) 5" by simp
  note run = connections_survive [OF demo_transport_laws demo_measure good p _ known]
  have "is_connected demo_env (snd (handle_payload demo_env no_callback p (set_transport 2 5 demo_node))) 5"
    using run by simp
  moreover have "\<not> is_disconnected demo_env (snd (stabilize demo_env (set_transport 2 5 demo_node))) 5"
    using run by simp
  moreover have "pl_data p = SearchVNode 3" by (simp add: p_def)
  ultimately show ?thesis by blast
qed



end
