(* ===== verification/ServerRel.thy ===== *)
theory ServerRel
  imports Server NodeProps
begin

text \<open>
  The node's own layer over the swarm, related to the swarm's: the locale \<open>serving_relation\<close>
  extends \<open>connecting_relation\<close> by the effects the backend, the processor and the RPC server
  have beside the swarm's (HTTP, the broadcast channel, the RPC client), and shows that each of
  their operations moves a node only along the relation. Interpreted on \<open>ring_moves\<close>, it gives
  the reachable states of a whole node with its RPC interface.
\<close>

locale serving_relation = connecting_relation X R
  for X :: "('s, 'w) env" and R +
  fixes N :: "'w node_ops" and B :: "'w backend_ops"
  assumes http_step: "R n (n\<lparr>sw_world := snd (be_send_http B m u h t b (sw_world n))\<rparr>)"
    and broadcast_step: "R n (n\<lparr>sw_world := be_broadcast B msg (sw_world n)\<rparr>)"
    and poll_step: "R n (n\<lparr>sw_world := snd (be_recv B wait (sw_world n))\<rparr>)"
    and call_step: "R n (n\<lparr>sw_world := snd (no_call N url meth ps (sw_world n))\<rparr>)"
begin

lemmas node_bind = bind pure keeps_map_err keeps_attempt_node keeps_if

lemma panic_of: "keeps R m \<Longrightarrow> keeps R (panic_of m)"
  unfolding keeps_def panic_of_def
  by (auto split: prod.split sum.split node_error.split) (metis snd_conv)+

section \<open>The backend\<close>

lemma chunk_report: "keeps R (send_chunk_report_message X B ctx relay data)"
  unfolding send_chunk_report_message_def Let_def by (intro node_bind send_report)

lemma text_message: "keeps R (text_handle_message relay msg)"
  unfolding text_handle_message_def by (intro node_bind)

lemma http_execute: "keeps R (http_execute B services req)"
proof -
  have "keeps R (\<lambda>n. case be_send_http B m u h t b (sw_world n) of
      (Inl e, w) \<Rightarrow> (Inl (HttpRequestError e), n\<lparr>sw_world := w\<rparr>)
    | (Inr r, w) \<Rightarrow> (Inr r, n\<lparr>sw_world := w\<rparr>))" for m u h t b
    unfolding keeps_def using http_step by (auto split: prod.split sum.split) (metis snd_conv)+
  then show ?thesis unfolding http_execute_def Let_def by (intro node_bind)
qed

lemma make_chunks: "keeps R (make_chunks X bs)"
  unfolding keeps_def make_chunks_def using uuid_step by (auto split: prod.split) (metis snd_conv)

lemma for_each_node: "(\<And>x. keeps R (f x)) \<Longrightarrow> keeps R (for_each_node f xs)"
  by (induction xs) (auto intro: node_bind)

lemma http_message: "keeps R (http_handle_message X B services ctx relay msg)"
  unfolding http_handle_message_def Let_def
  by (intro node_bind http_execute make_chunks for_each_node chunk_report)

lemma backend_message: "keeps R (backend_custom_message X B services ctx msg)"
  unfolding backend_custom_message_def Let_def
  by (intro node_bind)
     (auto intro!: node_bind panic_of text_message http_message keeps_smod broadcast_step
      split: sum.split message_type.split)

lemma backend_good:
  "good_handler R \<lparr>mh_callback = Some (backend_callback X B services), mh_validator = None\<rparr>"
  unfolding good_handler_def validate_def invoke_callback_def backend_callback_def
  by (auto intro!: node_bind backend_message split: message.split)

section \<open>The processor\<close>

lemma on_world_keeps:
  "keeps R (on_world (tr_get_handshake_info (en_transport X) sm kind t))"
  "keeps R (on_world (tr_register_remote_info (en_transport X) enc t))"
  "keeps R (on_world (tr_wait_for_data_channel_open (en_transport X) t))"
  by (intro keeps_on_world handshake_step register_step wait_step)+

lemma create_offer: "keeps R (proc_create_offer X)"
  unfolding proc_create_offer_def
  by (auto intro!: node_bind new_transport on_world_keeps pending close split: sum.split)

lemma http_connect: "keeps R (proc_connect_peer_via_http X N url)"
proof -
  have "keeps R (\<lambda>n. case no_call N u m ps (sw_world n) of
      (Inl e, w) \<Rightarrow> (Inl (RemoteRpcError e), n\<lparr>sw_world := w\<rparr>)
    | (Inr v, w) \<Rightarrow> (Inr v, n\<lparr>sw_world := w\<rparr>))" for u m ps
    unfolding keeps_def using call_step by (auto split: prod.split sum.split) (metis snd_conv)+
  then show ?thesis
    unfolding proc_connect_peer_via_http_def do_connect_peer_via_http_def Let_def
    by (auto intro!: node_bind create_offer on_world_keeps register)
qed

lemma handshake: "keeps R (proc_handshake X t data)"
  unfolding proc_handshake_def Let_def by (intro node_bind on_world_keeps register)

lemma answer_offer: "keeps R (proc_answer_offer X ice)"
  unfolding proc_answer_offer_def
  by (auto intro!: node_bind new_transport handshake close split: sum.split)

lemma accept_answer: "keeps R (proc_accept_answer X i ice)"
  unfolding proc_accept_answer_def Let_def
  by (intro node_bind pending on_world_keeps register)

lemma proc_connecting:
  "keeps R (proc_connect_with_did X d w)" "keeps R (proc_disconnect X d)"
  "keeps R (proc_close_pending_transport X i)"
  unfolding proc_connect_with_did_def proc_disconnect_def proc_close_pending_transport_def
  by (intro node_bind connect on_world_keeps close remove pending)+

lemma proc_reading: "keeps R proc_list_pendings" "keeps R proc_list_peers" "keeps R (proc_storage_check_cache d)"
proof -
  have "pending_transports n = (r, n') \<Longrightarrow> n' = n" for n r and n' :: "('s, 'w) node"
    by (auto simp: pending_transports_def split: if_splits)
  then have "keeps R pending_transports"
    using reflpD [OF refl] by (simp add: keeps_def) (metis prod.collapse)
  then show "keeps R proc_list_pendings" "keeps R proc_list_peers" "keeps R (proc_storage_check_cache d)"
    unfolding proc_list_pendings_def proc_list_peers_def proc_storage_check_cache_def
    by (auto intro: node_bind)
qed

lemma proc_sending: "keeps R (proc_send_message X B d msg)"
  unfolding proc_send_message_def Let_def by (intro node_bind send_message)

lemma proc_storing:
  "keeps R (proc_storage_fetch X v)" "keeps R (proc_storage_append_data X topic e)"
  "keeps R (proc_register_service X N name)"
  unfolding proc_storage_fetch_def proc_storage_append_data_def proc_register_service_def
  by (intro node_bind storage_fetch storing)+

section \<open>The server\<close>

lemma rpc_join_all: "(\<And>m. m \<in> set ms \<Longrightarrow> keeps R m) \<Longrightarrow> keeps R (rpc_join_all ms)"
  by (induction ms) (auto intro: node_bind)

lemma poll: "keeps R (rpc_poll_message N B p a)"
proof -
  have "keeps R (\<lambda>n. case be_recv B wait (sw_world n) of (m, w) \<Rightarrow> (Inr m, n\<lparr>sw_world := w\<rparr>))" for wait
    unfolding keeps_def using poll_step by (auto split: prod.split) (metis snd_conv)
  then show ?thesis unfolding rpc_poll_message_def Let_def by (intro node_bind)
qed

lemma rpc_handler: "keeps R (rpc_handler X N B m p a)"
  by (cases m)
     (auto simp: rpc_connect_peer_via_http_def rpc_connect_with_seed_def rpc_answer_offer_def
        rpc_connect_with_did_def rpc_create_offer_def rpc_accept_answer_def rpc_list_peers_def
        rpc_close_connection_def rpc_list_pendings_def rpc_close_pending_transport_def
        rpc_send_raw_message_def rpc_send_custom_message_def rpc_send_simple_text_message_def
        rpc_send_http_request_message_def rpc_publish_message_to_topic_def
        rpc_fetch_messages_of_topic_def rpc_register_service_def rpc_lookup_service_def Let_def
      intro!: node_bind rpc_join_all http_connect answer_offer create_offer accept_answer proc_connecting
        proc_reading proc_sending proc_storing poll
      split: list.split option.split sum.split)

lemma io_handler: "keeps R (jsonrpc_io_handler X N B pk sig name p)"
proof -
  have d: "keeps R (rpc_dispatch X N B name p a)" for a
    unfolding rpc_dispatch_def build_handler_def
    by (auto intro!: pure rpc_handler split: option.split dest!: map_of_SomeD)
  have "keeps R (\<lambda>n. case rpc_dispatch X N B name p a n of (r, n) \<Rightarrow> (Inr r, n))" for a
    using d [of a] unfolding keeps_def by (auto split: prod.split) (metis snd_conv)
  then show ?thesis unfolding jsonrpc_io_handler_def by (intro node_bind)
qed

end

interpretation serving_ring: serving_relation X ring_moves N B for X N B
  by unfold_locales simp_all

end
