(* ===== verification/Delivery.thy ===== *)
theory Delivery
  imports NodeProps
begin

text \<open>
  Messages between nodes: a lookup request is handled as the network walk of \<open>fs_step\<close> says,
  a forwarded payload verifies at the next hop, and over the dummy transport a message sent to
  a connected peer is what that peer loads and accepts.
\<close>

section \<open>Lookup requests\<close>

lemma seal_send_payload:
  assumes "tr_uuid (en_transport X) (sw_world n) = (u, w)"
    and "f (sw_session n) (tr_now (en_transport X) (sw_world n)) u = Inr p"
  shows "seal X f n = (Inr p, n\<lparr>sw_world := w\<rparr>)"
  using assms by (simp add: seal_def)

text \<open>
  A node handles a lookup request that is not strict exactly as the walk of the network
  says: one step of \<open>fs_step\<close> on its ring and the request's relay, followed by the report of
  the answer or by forwarding the request with the relay of the step. So the hops of a request
  are those for which the lookup is shown to find the responsible node.
\<close>

lemma find_successor_send_refines:
  "handle_FindSuccessorSend X ctx key False (ThenReport h) n =
     (case fs_step (sw_dht n) key (pl_relay ctx) of
        Inl e \<Rightarrow> (Inl e, n)
      | Inr (Inl d, relay) \<Rightarrow> send_report_message X (FindSuccessorReport d h) (pl_tx_id ctx) relay n
      | Inr (Inr _, relay) \<Rightarrow> forward_payload X ctx relay n)"
  by (cases "chord_find_successor (sw_dht n) key")
     (auto simp: handle_FindSuccessorSend_def fs_step_def sw_did_def rbind_def sbind_def
        split: peer_ring_action.split sum.split)

section \<open>Forwarding\<close>

lemma fresh_not_expired:
  assumes "mv_ts_ms (pl_verification p) = t0" "mv_ttl_ms (pl_verification p) = DEFAULT_TTL_MS"
    and "now \<le> t0 + 300000"
  shows "\<not> pl_is_expired now p"
  using assms leD [OF assms(3)] by (simp add: pl_is_expired_def DEFAULT_TTL_MS_def Let_def)

text \<open>
  A payload that is passed on is accepted by the next node. Forwarding seals the same data,
  with the same transaction, under the node's own session and keeps the origin's verification;
  whoever checks the result within the lifetime of a seal, while the forwarding node's session
  and the origin's verification are good, accepts it.
\<close>

lemma forwarded_payload_verifies:
  assumes "ecdsa_ok (en_ecc X)"
    and "tr_uuid (en_transport X) (sw_world n) = (u, w)" "tr_now (en_transport X) (sw_world n) = t0"
    and "en_json X (pl_data p) = Some json"
    and "now \<le> t0 + 300000" "sm_valid (en_ecc X) now (sw_session n)"
    and "mv_verify (en_ecc X) (en_json X) now (pl_origin_verification p) (pl_data p)"
  shows "\<exists>q. forward_payload X p relay n = send_payload X q (n\<lparr>sw_world := w\<rparr>)
    \<and> pl_verify (en_ecc X) (en_json X) now q \<and> pl_data q = pl_data p \<and> pl_tx_id q = pl_tx_id p
    \<and> pl_origin_verification q = pl_origin_verification p \<and> pl_relay q = relay
    \<and> pl_addr q = sm_authorizer (sw_session n)"
proof -
  let ?new = "MessagePayload_new (en_ecc X) (en_json X) t0 u (pl_data p) (sw_session n)
      (Stick (pl_origin_verification p)) relay"
  obtain q where q: "?new = Inr q"
    using assms(4) by (simp add: MessagePayload_new_def pack_msg_def Let_def)
  note f = MessagePayload_new_Inr [OF q]
  obtain msg where msg: "pack_msg (en_json X) (pl_data p) t0 DEFAULT_TTL_MS = Inr msg"
      "pl_verification q = \<lparr>mv_session = sk_session (sw_session n), mv_ttl_ms = DEFAULT_TTL_MS,
         mv_ts_ms = t0, mv_sig = sm_sign (en_ecc X) (sw_session n) msg\<rparr>"
    using f(8) by blast
  have "mv_verify (en_ecc X) (en_json X) now (pl_verification q) (pl_data p)"
    unfolding msg(2) by (rule mv_verify_fresh [OF assms(1,6) msg(1)])
  moreover have "\<not> pl_is_expired now (q\<lparr>pl_tx_id := pl_tx_id p\<rparr>)"
    using f(5,6) assms(5) by (intro fresh_not_expired) simp_all
  ultimately have "pl_verify (en_ecc X) (en_json X) now (q\<lparr>pl_tx_id := pl_tx_id p\<rparr>)"
    using f(1,7) assms(7) by (simp add: pl_verify_def)
  moreover have sealed: "seal X (\<lambda>sm now u. MessagePayload_new (en_ecc X) (en_json X) now u (pl_data p) sm
      (Stick (pl_origin_verification p)) relay) n = (Inr q, n\<lparr>sw_world := w\<rparr>)"
    by (rule seal_send_payload [OF assms(2)]) (simp add: q assms(3))
  moreover have "forward_payload X p relay n =
      send_payload X (q\<lparr>pl_tx_id := pl_tx_id p\<rparr>) (n\<lparr>sw_world := w\<rparr>)"
    by (simp add: forward_payload_def sealed)
  ultimately show ?thesis using f by (intro exI [of _ "q\<lparr>pl_tx_id := pl_tx_id p\<rparr>"]) simp
qed


section \<open>Delivery over the dummy transport\<close>

text \<open>
  \<open>linked w t d\<close>: transport \<open>t\<close> is not disconnected and delivers to the channel of node \<open>d\<close>,
  which is open.
\<close>

definition linked :: "dummy_world \<Rightarrow> uuid \<Rightarrow> did \<Rightarrow> bool" where
  "linked w t d \<longleftrightarrow> \<not> dt_is_disconnected w t \<and> \<not> ch_closed (dw_channels w d)
     \<and> (\<exists>tr r. dw_transports w t = Some tr \<and> dt_remote_id tr = Some r \<and> hub_senders w r = Some d)"

definition delivered :: "did \<Rightarrow> bytes \<Rightarrow> dummy_world \<Rightarrow> dummy_world" where
  "delivered d data w = w\<lparr>dw_channels := (dw_channels w)(d := (dw_channels w d)
     \<lparr>ch_queue := ch_queue (dw_channels w d) @ [DataChannelMessage data]\<rparr>)\<rparr>"

lemma dt_send_linked:
  assumes "linked w t d"
  shows "dt_send_message data t w = (Inr (), delivered d data w)"
proof -
  obtain tr r where "dw_transports w t = Some tr" "dt_remote_id tr = Some r" "hub_senders w r = Some d"
      "\<not> ch_closed (dw_channels w d)"
    using assms by (auto simp: linked_def)
  then show ?thesis
    by (simp add: dt_send_message_def dt_remote_sender_def sbind_def unwrap_def dt_emit_def
        ch_send_def delivered_def)
qed

lemma do_send_linked:
  assumes "en_transport X = dummy_ops Y" "sw_measure n = None"
    and "get_transport n d = Some t" "linked (sw_world n) t e" "en_bin X p = Some data"
  shows "do_send_payload X d p n = (Inr (), n\<lparr>sw_world := delivered e data (sw_world n)\<rparr>)"
proof -
  have "\<not> is_disconnected X n t"
    using assms(1,4) by (simp add: is_disconnected_def linked_def)
  then have "get_and_check_transport X d n = (Inr (Some t), n)"
    by (simp add: get_and_check_transport_def assms(3))
  moreover have "on_world (dt_wait_for_data_channel_open t) n = (Inr (), n)"
    by (simp add: on_world_def dt_wait_for_data_channel_open_def)
  moreover have "attempt (on_world (dt_send_message data t)) n =
      (Inr (Inr ()), n\<lparr>sw_world := delivered e data (sw_world n)\<rparr>)"
    by (simp add: attempt_def on_world_def dt_send_linked [OF assms(4)])
  ultimately show ?thesis
    using assms(1,2,5)
    by (simp add: do_send_payload_def pl_to_bincode_def incr_measure_def split: option.split)
qed


text \<open>What is sealed for a connected peer is what that peer loads and accepts.\<close>

lemma sealed_message_sent:
  fixes a :: "('s, dummy_world) node"
  assumes "en_transport X = dummy_ops Y"
    and "MessagePayload_new_send (en_ecc X) (en_json X) (dw_now (sw_world a))
      (dw_next_uuid (sw_world a)) msg (sw_session a) d d = Inr p"
    and "en_bin X p = Some data" "sw_measure a = None"
    and "get_transport a d = Some t" "linked (sw_world a) t d"
  defines "w1 \<equiv> sw_world a\<lparr>dw_next_uuid := dw_next_uuid (sw_world a) + 1\<rparr>"
  shows "seal_send X msg d d a = (Inr p, a\<lparr>sw_world := w1\<rparr>)"
    and "send_payload X p (a\<lparr>sw_world := w1\<rparr>) = (Inr (), a\<lparr>sw_world := delivered d data w1\<rparr>)"
proof -
  have uuid: "tr_uuid (en_transport X) (sw_world a) = (dw_next_uuid (sw_world a), w1)"
    by (simp add: assms(1) dt_uuid_def w1_def)
  note f = MessagePayload_new_Inr [OF assms(2) [unfolded MessagePayload_new_send_def Let_def]]
  show "seal_send X msg d d a = (Inr p, a\<lparr>sw_world := w1\<rparr>)"
    unfolding seal_send_def by (rule seal_send_payload [OF uuid]) (simp add: assms(1,2))
  have "do_send_payload X d p (a\<lparr>sw_world := w1\<rparr>) = (Inr (), a\<lparr>sw_world := delivered d data w1\<rparr>)"
    using do_send_linked [OF assms(1), of "a\<lparr>sw_world := w1\<rparr>" d t d p data] assms(3-6)
    by (simp add: linked_def dt_is_disconnected_def dt_ice_connection_state_def get_transport_def w1_def)
  then show "send_payload X p (a\<lparr>sw_world := w1\<rparr>) = (Inr (), a\<lparr>sw_world := delivered d data w1\<rparr>)"
    by (simp add: send_payload_def f(4) MessageRelay_new_def)
qed

definition dequeued :: "did \<Rightarrow> dummy_world \<Rightarrow> dummy_world" where
  "dequeued d w = w\<lparr>dw_channels := (dw_channels w)(d := (dw_channels w d)\<lparr>ch_queue := tl (ch_queue (dw_channels w d))\<rparr>)\<rparr>"

lemma poll_loads_next:
  assumes "en_transport X = dummy_ops Y" "sw_did b = d"
    and "ch_queue (dw_channels w d) = DataChannelMessage data # q" "en_unbin X data = Some p"
  shows "poll_message X (b\<lparr>sw_world := w\<rparr>) = (Inr (Some p), b\<lparr>sw_world := dequeued d w\<rparr>)"
proof -
  have "dt_recv d w = (Inr (Some (DataChannelMessage data)), dequeued d w)"
    by (simp add: dt_recv_def ch_recv_def assms(3) dequeued_def)
  then show ?thesis
    using assms(2,4)
    by (simp add: poll_message_def attempt_def on_world_def assms(1) load_message_def
        pl_from_bincode_def sw_did_def sbind_def)
qed

lemma poll_empty:
  assumes "en_transport X = dummy_ops Y" "sw_did b = d" "ch_queue (dw_channels w d) = []"
  shows "poll_message X (b\<lparr>sw_world := w\<rparr>) = (Inr None, b\<lparr>sw_world := w\<rparr>)"
proof -
  obtain r where "dt_recv d w = (r, w)" "r \<in> {Inr None, Inl ChannelRecvMessageFailed}"
    by (cases "ch_closed (dw_channels w d)") (auto simp: dt_recv_def ch_recv_def assms(3))
  then show ?thesis
    using assms(2) by (auto simp: poll_message_def attempt_def on_world_def assms(1) load_message_def
        sw_did_def sbind_def is_panic_def)
qed

lemma sealed_message_later:
  assumes "ecdsa_ok E" "MessagePayload_new_send E J ts u msg sm d d = Inr p"
    and "sm_valid E now sm" "now \<le> ts + 300000"
  shows "pl_verify E J now p" "pl_data p = msg"
proof -
  note f = MessagePayload_new_Inr [OF assms(2) [unfolded MessagePayload_new_send_def Let_def]]
  have "\<not> pl_is_expired now p"
    using f(5,6) assms(4) by (intro fresh_not_expired) simp_all
  then show "pl_verify E J now p"
    using mv_verify_fresh [OF assms(1,3)] f(1,7,8) by (auto simp: pl_verify_def)
  show "pl_data p = msg" by (simp add: f)
qed

lemma sealed_message_accepted:
  assumes "ecdsa_ok E" "MessagePayload_new_send E J now u msg sm d d = Inr p"
    and "sm_valid E now sm" "now \<le> now + 300000"
  shows "pl_verify E J now p" "pl_data p = msg" "pl_addr p = sm_authorizer sm"
    "pl_relay p = MessageRelay_new SEND [sm_authorizer sm] None (Some d) d"
  using sealed_message_later [OF assms] MessagePayload_new_Inr [OF assms(2) [unfolded MessagePayload_new_send_def Let_def]]
  by simp_all

lemma sealed_message_arrives:
  fixes a b :: "('s, dummy_world) node"
  assumes "en_transport X = dummy_ops Y" "ecdsa_ok (en_ecc X)"
    and "MessagePayload_new_send (en_ecc X) (en_json X) (dw_now (sw_world a))
      (dw_next_uuid (sw_world a)) msg (sw_session a) d d = Inr p"
    and "en_bin X p = Some data" "en_unbin X data = Some p" "sw_measure a = None"
    and "get_transport a d = Some t" "linked (sw_world a) t d" "ch_queue (dw_channels (sw_world a) d) = []"
    and "sw_did b = d" "sm_valid (en_ecc X) (dw_now (sw_world a)) (sw_session a)"
    and "dw_now (sw_world a) \<le> dw_now (sw_world a) + 300000"
  obtains w1 w2 w' where "seal_send X msg d d a = (Inr p, a\<lparr>sw_world := w1\<rparr>)"
    "send_payload X p (a\<lparr>sw_world := w1\<rparr>) = (Inr (), a\<lparr>sw_world := w2\<rparr>)"
    "poll_message X (b\<lparr>sw_world := w2\<rparr>) = (Inr (Some p), b\<lparr>sw_world := w'\<rparr>)"
    "pl_verify (en_ecc X) (en_json X) (dw_now w') p" "pl_data p = msg"
    "pl_addr p = sm_authorizer (sw_session a)"
    "pl_relay p = MessageRelay_new SEND [sm_authorizer (sw_session a)] None (Some d) d"
proof -
  let ?w1 = "sw_world a\<lparr>dw_next_uuid := dw_next_uuid (sw_world a) + 1\<rparr>"
  let ?w2 = "delivered d data ?w1"
  have "ch_queue (dw_channels ?w2 d) = [DataChannelMessage data]"
    by (simp add: delivered_def assms(9))
  then have poll: "poll_message X (b\<lparr>sw_world := ?w2\<rparr>) = (Inr (Some p), b\<lparr>sw_world := dequeued d ?w2\<rparr>)"
    using poll_loads_next [OF assms(1,10) _ assms(5)] by blast
  have "dw_now (dequeued d ?w2) = dw_now (sw_world a)" by (simp add: dequeued_def delivered_def)
  then show thesis
    using that [OF sealed_message_sent [OF assms(1,3,4,6,7,8)] poll]
      sealed_message_accepted [OF assms(2,3,11,12)] by simp
qed

text \<open>
  A message sent directly to a connected peer arrives. Over the dummy transport, when the
  encoding of the sealed payload decodes to it, \<open>send_direct_message\<close> succeeds and returns the
  transaction of that payload; the peer, whose channel was empty, loads it next; it carries
  the message and the sender's identifier, and the peer's check accepts it while the sender's
  session is valid. (The clock is assumed not to be about to overflow its 128 bits.)
\<close>

lemma direct_message_delivered:
  fixes a b :: "('s, dummy_world) node"
  assumes "en_transport X = dummy_ops Y" "ecdsa_ok (en_ecc X)"
    and "MessagePayload_new_send (en_ecc X) (en_json X) (dw_now (sw_world a))
      (dw_next_uuid (sw_world a)) msg (sw_session a) d d = Inr p"
    and "en_bin X p = Some data" "en_unbin X data = Some p" "sw_measure a = None"
    and "get_transport a d = Some t" "linked (sw_world a) t d" "ch_queue (dw_channels (sw_world a) d) = []"
    and "sw_did b = d" "sm_valid (en_ecc X) (dw_now (sw_world a)) (sw_session a)"
    and "dw_now (sw_world a) \<le> dw_now (sw_world a) + 300000"
  shows "\<exists>w w'. send_direct_message X msg d a = (Inr (pl_tx_id p), a\<lparr>sw_world := w\<rparr>)
    \<and> poll_message X (b\<lparr>sw_world := w\<rparr>) = (Inr (Some p), b\<lparr>sw_world := w'\<rparr>)
    \<and> pl_data p = msg \<and> pl_addr p = sm_authorizer (sw_session a)
    \<and> pl_verify (en_ecc X) (en_json X) (dw_now w') p"
proof -
  obtain w1 w2 w' where arrives: "seal_send X msg d d a = (Inr p, a\<lparr>sw_world := w1\<rparr>)"
    "send_payload X p (a\<lparr>sw_world := w1\<rparr>) = (Inr (), a\<lparr>sw_world := w2\<rparr>)"
    "poll_message X (b\<lparr>sw_world := w2\<rparr>) = (Inr (Some p), b\<lparr>sw_world := w'\<rparr>)"
    "pl_verify (en_ecc X) (en_json X) (dw_now w') p" "pl_data p = msg"
    "pl_addr p = sm_authorizer (sw_session a)"
    by (rule sealed_message_arrives [OF assms])
  then have "send_direct_message X msg d a = (Inr (pl_tx_id p), a\<lparr>sw_world := w2\<rparr>)"
    by (simp add: send_direct_message_def)
  then show ?thesis using arrives(3-6) by blast
qed

section \<open>Messages in order\<close>

text \<open>
  A link: node \<open>a\<close> sends messages to node \<open>b\<close> and \<open>b\<close> takes the next one, in any order. The
  nodes share a world; what \<open>b\<close> has loaded is kept.
\<close>

fun link_run ::
  "('s, dummy_world) env \<Rightarrow> did \<Rightarrow> ('s, dummy_world) node \<Rightarrow> ('s, dummy_world) node \<Rightarrow> message channel_op list
     \<Rightarrow> dummy_world \<Rightarrow> message payload list \<times> dummy_world" where
  "link_run X d a b [] w = ([], w)"
| "link_run X d a b (Put msg # ops) w =
     link_run X d a b ops (sw_world (snd (send_direct_message X msg d (a\<lparr>sw_world := w\<rparr>))))"
| "link_run X d a b (Take # ops) w =
     (case poll_message X (b\<lparr>sw_world := w\<rparr>) of (r, n) \<Rightarrow>
      case link_run X d a b ops (sw_world n) of (taken, w) \<Rightarrow>
        ((case r of Inr (Some p) \<Rightarrow> p # taken | _ \<Rightarrow> taken), w))"

definition event_payload :: "('s, 'w) env \<Rightarrow> event \<Rightarrow> message payload option" where
  "event_payload X e = (case e of DataChannelMessage data \<Rightarrow> en_unbin X data | _ \<Rightarrow> None)"

lemma event_payload_Some:
  "event_payload X e = Some p \<longleftrightarrow> (\<exists>data. e = DataChannelMessage data \<and> en_unbin X data = Some p)"
  by (auto simp: event_payload_def split: event.splits)

lemma link_run_keeps_order:
  fixes a b :: "('s, dummy_world) node"
  assumes "en_transport X = dummy_ops Y" "sw_measure a = None" "sw_did b = d" "get_transport a d = Some t"
    and sealed: "\<And>msg u. msg \<in> set (puts ops) \<Longrightarrow> \<exists>p data. MessagePayload_new_send (en_ecc X) (en_json X) now u msg
      (sw_session a) d d = Inr p \<and> en_bin X p = Some data \<and> en_unbin X data = Some p"
    and good: "\<And>msg u p. MessagePayload_new_send (en_ecc X) (en_json X) now u msg (sw_session a) d d = Inr p \<Longrightarrow>
      good p \<and> pl_data p = msg"
    and "link_run X d a b ops w = (taken, w')" "linked w t d" "dw_now w = now"
    and "map (event_payload X) (ch_queue (dw_channels w d)) = map Some before" "\<forall>p \<in> set before. good p"
  shows "\<exists>waiting. map (event_payload X) (ch_queue (dw_channels w' d)) = map Some waiting
    \<and> map pl_data before @ puts ops = map pl_data (taken @ waiting) \<and> (\<forall>p \<in> set (taken @ waiting). good p)
    \<and> dw_now w' = now"
  using assms(5,7-)
proof (induction ops arbitrary: w before taken)
  case (Cons op ops)
  show ?case
  proof (cases op)
    case (Put msg)
    let ?w1 = "w\<lparr>dw_next_uuid := dw_next_uuid w + 1\<rparr>"
    obtain p data where p: "MessagePayload_new_send (en_ecc X) (en_json X) now (dw_next_uuid w) msg
        (sw_session a) d d = Inr p" "en_bin X p = Some data" "en_unbin X data = Some p"
      using Cons.prems(1) [of msg "dw_next_uuid w"] by (auto simp: Put)
    have "get_transport (a\<lparr>sw_world := w\<rparr>) d = Some t" using assms(4) by (simp add: get_transport_def)
    then have "send_direct_message X msg d (a\<lparr>sw_world := w\<rparr>) =
        (Inr (pl_tx_id p), a\<lparr>sw_world := delivered d data ?w1\<rparr>)"
      using sealed_message_sent [OF assms(1), of "a\<lparr>sw_world := w\<rparr>" msg d p data t] p Cons.prems(3,4) assms(2)
      by (simp add: send_direct_message_def)
    then have "link_run X d a b ops (delivered d data ?w1) = (taken, w')"
      using Cons.prems(2) by (simp add: Put)
    moreover have "linked (delivered d data ?w1) t d"
      using Cons.prems(3) by (auto simp: linked_def delivered_def dt_is_disconnected_def dt_ice_connection_state_def)
    moreover have "map (event_payload X) (ch_queue (dw_channels (delivered d data ?w1) d)) = map Some (before @ [p])"
      using Cons.prems(5) p(3) by (simp add: delivered_def) (simp add: event_payload_def)
    moreover have "dw_now (delivered d data ?w1) = now" using Cons.prems(4) by (simp add: delivered_def)
    ultimately show ?thesis
      using Cons.IH [of "delivered d data ?w1" taken "before @ [p]"] Cons.prems(1,6) good [OF p(1)] by (simp add: Put)
  next
    case Take
    show ?thesis
    proof (cases before)
      case Nil
      then have "ch_queue (dw_channels w d) = []" using Cons.prems(5) by simp
      then have "link_run X d a b ops w = (taken, w')"
        using Cons.prems(2) by (simp add: Take poll_empty [OF assms(1,3)] split: prod.splits)
      then show ?thesis
        using Cons.IH Cons.prems(1,3-) by (simp add: Take)
    next
      case (Cons p rest)
      then obtain data q where q: "ch_queue (dw_channels w d) = DataChannelMessage data # q" "en_unbin X data = Some p"
          "map (event_payload X) q = map Some rest"
        using Cons.prems(5) by (auto simp: map_eq_Cons_conv event_payload_Some)
      obtain taken' where t: "link_run X d a b ops (dequeued d w) = (taken', w')" "taken = p # taken'"
        using Cons.prems(2) by (auto simp: Take poll_loads_next [OF assms(1,3) q(1,2)] split: prod.splits)
      have "linked (dequeued d w) t d" "dw_now (dequeued d w) = now"
          "ch_queue (dw_channels (dequeued d w) d) = q"
        using Cons.prems(3,4) q(1)
        by (auto simp: linked_def dequeued_def dt_is_disconnected_def dt_ice_connection_state_def)
      then show ?thesis
        using Cons.IH [OF _ t(1), of rest] Cons.prems(1,6) q(3) Cons t(2) by (simp add: Take)
    qed
  qed
qed auto

text \<open>
  C11: messages of a node to a connected peer arrive in the order in which they were sent, each
  once. Over the dummy transport, when the encoding of every sealed payload decodes to it, and
  for any interleaving of the sender's \<open>send_direct_message\<close> with the peer's polls: the
  messages that the peer has loaded, followed by those still in its channel, are the messages
  sent; all carry the sender's identifier and pass the peer's check while the sender's session
  is valid. (The clock is assumed not to be about to overflow its 128 bits.)
\<close>

theorem direct_messages_arrive_in_order:
  fixes a b :: "('s, dummy_world) node"
  assumes "en_transport X = dummy_ops Y" "ecdsa_ok (en_ecc X)" "sw_measure a = None" "sw_did b = d"
    and "get_transport a d = Some t" "linked w t d" "ch_queue (dw_channels w d) = []"
    and "\<And>msg u. msg \<in> set (puts ops) \<Longrightarrow> \<exists>p data. MessagePayload_new_send (en_ecc X) (en_json X) (dw_now w) u msg
      (sw_session a) d d = Inr p \<and> en_bin X p = Some data \<and> en_unbin X data = Some p"
    and "sm_valid (en_ecc X) (dw_now w) (sw_session a)" "dw_now w \<le> dw_now w + 300000"
    and "link_run X d a b ops w = (taken, w')"
  shows "\<exists>waiting. map (event_payload X) (ch_queue (dw_channels w' d)) = map Some waiting
    \<and> puts ops = map pl_data (taken @ waiting)
    \<and> (\<forall>p \<in> set (taken @ waiting). pl_verify (en_ecc X) (en_json X) (dw_now w') p
        \<and> pl_addr p = sm_authorizer (sw_session a))"
proof -
  let ?good = "\<lambda>p. pl_verify (en_ecc X) (en_json X) (dw_now w) p \<and> pl_addr p = sm_authorizer (sw_session a)"
  have good: "?good p \<and> pl_data p = msg"
    if "MessagePayload_new_send (en_ecc X) (en_json X) (dw_now w) u msg (sw_session a) d d = Inr p" for msg u p
    using sealed_message_accepted [OF assms(2) that assms(9,10)] by simp
  have "\<exists>waiting. map (event_payload X) (ch_queue (dw_channels w' d)) = map Some waiting
      \<and> map pl_data ([] :: message payload list) @ puts ops = map pl_data (taken @ waiting) \<and> (\<forall>p \<in> set (taken @ waiting). ?good p)
      \<and> dw_now w' = dw_now w"
    by (rule link_run_keeps_order [OF assms(1,3,4,5), where good = ?good and now = "dw_now w" and w = w])
      (fact assms(8) assms(11,6) | rule good, assumption | simp add: assms(7))+
  then show ?thesis by auto
qed

text \<open>Witness: payloads of two messages, encoded by their transaction and message.\<close>

definition demo_seal :: "uuid \<Rightarrow> message \<Rightarrow> message payload result" where
  "demo_seal u msg = MessagePayload_new_send demo_ecc (\<lambda>_. Some ''m'') 10000 u msg demo_sm 2 2"

definition demo_codec_env :: "((did, virtual_node) mem_storage, dummy_world) env" where
  "demo_codec_env = demo_env
     \<lparr>en_bin := (\<lambda>p. Some (replicate (2 * unat (pl_tx_id p) + (if pl_data p = SearchVNode 7 then 0 else 1)) 0)),
      en_unbin := (\<lambda>data. case demo_seal (word_of_nat (length data div 2))
          (SearchVNode (if even (length data) then 7 else 8)) of Inr p \<Rightarrow> Some p | Inl _ \<Rightarrow> None)\<rparr>"

lemma demo_codec_env_ok:
  assumes "msg \<in> {SearchVNode 7, SearchVNode 8}"
  shows "\<exists>p data. demo_seal u msg = Inr p \<and> en_bin demo_codec_env p = Some data \<and> en_unbin demo_codec_env data = Some p"
proof -
  obtain p where p: "demo_seal u msg = Inr p"
    by (simp add: demo_seal_def MessagePayload_new_send_def MessagePayload_new_def Let_def pack_msg_def)
  have "pl_tx_id p = u" "pl_data p = msg"
    using MessagePayload_new_Inr(1,2) [OF p [unfolded demo_seal_def MessagePayload_new_send_def Let_def]] by simp_all
  then show ?thesis using assms p by (auto simp: demo_codec_env_def)
qed

theorem direct_messages_arrive_in_order_witness:
  "\<exists>X (a :: ((did, virtual_node) mem_storage, dummy_world) node) b taken w waiting.
     link_run X 2 a b [Put (SearchVNode 7), Put (SearchVNode 8), Take, Put (SearchVNode 7)] (sw_world a) = (taken, w)
     \<and> map (event_payload X) (ch_queue (dw_channels w 2)) = map Some waiting
     \<and> [SearchVNode 7, SearchVNode 8, SearchVNode 7] = map pl_data (taken @ waiting)"
proof -
  define a where "a = set_transport 2 5 (demo_node\<lparr>sw_world := demo_world\<lparr>hub_senders := [8 \<mapsto> 2]\<rparr>\<rparr>)"
  define b where "b = demo_node\<lparr>sw_dht := pr_new_with_storage 2 3 mem_new\<rparr>"
  let ?X = demo_codec_env and ?ops = "[Put (SearchVNode 7), Put (SearchVNode 8), Take, Put (SearchVNode 7)]"
  have a: "dw_now (sw_world a) = 10000" "sw_session a = demo_sm" "sw_measure a = None" "get_transport a 2 = Some 5"
      "linked (sw_world a) 5 2" "ch_queue (dw_channels (sw_world a) 2) = []"
    by (simp_all add: a_def demo_node_def demo_world_def set_transport_def linked_def ch_new_def
        dt_is_disconnected_def dt_ice_connection_state_def get_transport_def)
  have X: "en_transport ?X = dummy_ops demo_dummy" "en_ecc ?X = demo_ecc" "en_json ?X = (\<lambda>_. Some ''m'')"
    by (simp_all add: demo_codec_env_def demo_env_def)
  have b: "sw_did b = 2" by (simp add: b_def sw_did_def)
  obtain taken w where run: "link_run ?X 2 a b ?ops (sw_world a) = (taken, w)" by fastforce
  have sealed: "\<exists>p data. MessagePayload_new_send (en_ecc ?X) (en_json ?X) (dw_now (sw_world a)) u msg
      (sw_session a) 2 2 = Inr p \<and> en_bin ?X p = Some data \<and> en_unbin ?X data = Some p"
    if "msg \<in> set (puts ?ops)" for msg u
    using that demo_codec_env_ok [of msg u] unfolding X a(1,2) demo_seal_def by auto
  obtain waiting where "map (event_payload ?X) (ch_queue (dw_channels w 2)) = map Some waiting"
      "[SearchVNode 7, SearchVNode 8, SearchVNode 7] = map pl_data (taken @ waiting)"
    using direct_messages_arrive_in_order [OF X(1) _ a(3) b a(4,5,6) sealed _ _ run]
    by (auto simp: X(2,3) a(1,2) demo_ecc_ok demo_sm_valid)
  with run show ?thesis by (intro exI conjI)
qed

section \<open>Messages that get lost\<close>

lemma as_bytes_inj: "as_bytes s = as_bytes t \<longleftrightarrow> s = t"
proof
  assume eq: "as_bytes s = as_bytes t"
  have "inj (\<lambda>c :: char. word_of_nat (of_char c) :: byte)"
  proof (rule injI)
    fix c d :: char
    assume "(word_of_nat (of_char c) :: byte) = word_of_nat (of_char d)"
    then have "unat (word_of_nat (of_char c) :: byte) = unat (word_of_nat (of_char d) :: byte)" by simp
    then show "c = d" by (simp add: unat_of_nat of_char_eq_iff)
  qed
  then show "s = t" using eq unfolding as_bytes_def by (rule map_injective [rotated])
qed simp

text \<open>A vnode hand-over is refused by \<open>handle_message\<close>, whose match has no arm for it.\<close>

lemma sync_message_refused:
  assumes "pl_data p = MSyncVNodeWithSuccessor data" "mh_validator H = None"
  shows "fst (handle_payload X H p b) = Inr None" "sw_dht (snd (handle_payload X H p b)) = sw_dht b"
proof -
  have h: "attempt (handle_message X H p) = (\<lambda>b. (Inr (Inl MessageHandlerUnsupportedMessageType), b))"
    using assms by (simp add: handle_message_def handle_data.simps validate_def attempt_def is_panic_def fun_eq_iff)
  show "fst (handle_payload X H p b) = Inr None" "sw_dht (snd (handle_payload X H p b)) = sw_dht b"
    by (simp_all add: handle_payload_def h sbind_def incr_measure_def split: option.split)
qed

text \<open>
  C40: virtual nodes handed over to a new successor are lost. A node that learns of a successor
  takes the virtual nodes beyond it out of its own storage before it hands them to
  \<open>send_message\<close>; whatever comes of that, they are gone here. A node that receives
  them refuses the message, because the dispatch has no case for it although a handler exists: its
  ring, storage included, does not change.
\<close>

theorem handed_over_vnodes_lost:
  assumes "vnode_store (en_persist X) view ok" "ok (pr_storage (sw_dht a))"
    and "dist (sw_did a) d < dist (sw_did a) k" "pl_data p = MSyncVNodeWithSuccessor data"
    and "mh_validator H = None"
  shows "view (pr_storage (sw_dht (snd (sync_and_send X d a)))) k = None
    \<and> fst (handle_payload X H p b) = Inr None \<and> sw_dht (snd (handle_payload X H p b)) = sw_dht b"
proof -
  obtain vs st where sync: "sync_vnode_with_successor (en_persist X) d (sw_dht a) =
      (Inr (if vs = [] then PNone else PRemoteAction d (SyncVNodeWithSuccessor vs)), (sw_dht a)\<lparr>pr_storage := st\<rparr>)"
    "view st k = None"
    using vnode_store.sync_spec [OF assms(1,2), of d] assms(3) unfolding sw_did_def by metis
  let ?a = "a\<lparr>sw_dht := (sw_dht a)\<lparr>pr_storage := st\<rparr>\<rparr>"
  have "world_only ?a (snd (send_message X (MSyncVNodeWithSuccessor vs) d ?a))"
    by (rule world_only.send_message [unfolded keeps_def, THEN spec])
  then have "sw_dht (snd (send_message X (MSyncVNodeWithSuccessor vs) d ?a)) = sw_dht ?a"
    by (metis world_only_def node.select_convs(6) node.surjective node.update_convs(9))
  then have "sw_dht (snd (sync_and_send X d a)) = (sw_dht a)\<lparr>pr_storage := st\<rparr>"
    by (simp add: sync_and_send_def snd_sbind attempt_def on_ring_def sync(1) split: sum.split)
  then show ?thesis using sync(2) sync_message_refused [OF assms(4,5)] by simp
qed

text \<open>
  The parts of a \<open>MultiCall\<close> cannot be passed on. Each part is sealed with the origin
  verification of the whole call; that verification covers the text of the whole, so when the
  origin's signature fits no other text, no node that receives the part from this one accepts
  it, at any time.
\<close>

lemma multi_call_parts_rejected:
  assumes "MessagePayload_new E J now u m sm (Stick (pl_origin_verification p)) (pl_relay p) = Inr q"
    and "mv_msg J (pl_origin_verification p) (pl_data p) = Inr whole"
    and "\<And>body d. default_verify E body d (mv_sig (pl_origin_verification p)) \<Longrightarrow> body = whole"
    and "J m \<noteq> J (pl_data p)"
    and "pl_data r = pl_data q" "pl_origin_verification r = pl_origin_verification q"
  shows "\<not> pl_verify E J t r"
proof
  assume v: "pl_verify E J t r"
  let ?ov = "pl_origin_verification p"
  have q: "pl_data q = m" "pl_origin_verification q = ?ov"
    using MessagePayload_new_Inr [OF assms(1)] by simp_all
  have "mv_verify E J t ?ov m"
    using v by (simp add: pl_verify_def assms(5,6) q split: if_splits)
  then obtain d body where body: "mv_msg J ?ov m = Inr body" "default_verify E body d (mv_sig ?ov)"
    by (auto simp: mv_verify_def split: if_splits sum.splits)
  have "body = whole" by (rule assms(3) [OF body(2)])
  then have "mv_msg J ?ov m = mv_msg J ?ov (pl_data p)" using body(1) assms(2) by simp
  then have "J m = J (pl_data p)"
    using assms(2) by (auto simp: mv_msg_def pack_msg_def rbind_def ok_or_def split: option.splits)
  then show False using assms(4) by simp
qed

theorem handed_over_vnodes_lost_witness:
  "\<exists>a :: ((did, virtual_node) mem_storage, dummy_world) node.
     mem_get (pr_storage (sw_dht a)) 9 \<noteq> None
     \<and> mem_get (pr_storage (sw_dht (snd (sync_and_send demo_env 4 a)))) 9 = None"
proof -
  define a where "a = demo_node\<lparr>sw_dht := pr_new_with_storage 1 3
      (snd (mem_set 9 \<lparr>vn_did = 9, vn_data = [], vn_kind = Data\<rparr> mem_new))\<rparr>"
  have store: "vnode_store (en_persist demo_env) mem_get mem_wf"
    by (simp add: demo_env_def mem_vnodes.vnode_store_axioms)
  have stored: "mem_wf (pr_storage (sw_dht a))" "mem_get (pr_storage (sw_dht a)) 9 \<noteq> None" "sw_did a = 1"
    by (simp_all add: a_def sw_did_def)
  define p :: "message payload" where "p = \<lparr>pl_data = MSyncVNodeWithSuccessor [], pl_tx_id = 1, pl_addr = 2,
      pl_verification = undefined, pl_origin_verification = undefined,
      pl_relay = MessageRelay_new SEND [2] None (Some 1) 1\<rparr>"
  have "mem_get (pr_storage (sw_dht (snd (sync_and_send demo_env 4 a)))) 9 = None"
    using handed_over_vnodes_lost [OF store stored(1), of 4 9 p "[]" no_callback a]
    by (simp add: stored(3) p_def)
  then show ?thesis using stored(2) by blast
qed

text \<open>
  A strict lookup request, as finger repair sends it, gets no answer. The node that knows
  the successor of the key answers only when it is the key itself; otherwise, unless the key
  happens to be a peer it has a transport to, it stops with an error and sends nothing. The
  key of a repair is the requesting node's identifier plus a power of two.
\<close>

lemma strict_request_unanswered:
  assumes "chord_find_successor (sw_dht n) key = Inr (PSome d)" "sw_did n \<noteq> key"
    and "get_transport n key = None"
  shows "handle_FindSuccessorSend X ctx key True th n = (Inl MessageHandlerMissNextNode, n)"
  using assms
  by (simp add: handle_FindSuccessorSend_def get_and_check_transport_def sbind_def)

section \<open>Messages that only the node itself should send\<close>

text \<open>
  \<open>JoinDHT\<close> and \<open>LeaveDHT\<close> are what a node tells itself when a connection comes up or goes
  down; their handlers do not look at the sender.
\<close>

definition idle_handler :: "('s, 'w) message_handler \<Rightarrow> bool" where
  "idle_handler H \<longleftrightarrow> mh_validator H = None
     \<and> (\<forall>cb p n. mh_callback H = Some cb \<longrightarrow> snd (cb_builtin_message cb p n) = n)"

lemma handle_payload_runs:
  assumes "idle_handler H" "pl_verify (en_ecc X) (en_json X) (tr_now (en_transport X) (sw_world n)) p"
    and "\<And>m. pl_data p \<noteq> CustomMessage m"
    and "handle_data X H (pl_data p) p = sbind (validate H p) (\<lambda>_. sbind act (\<lambda>_.
      sbind (attempt (invoke_callback H p)) (\<lambda>_. sret ())))"
  shows "\<exists>k. snd (handle_payload X H p n) = incr_measure (pl_addr p) k (snd (act n))
    \<or> snd (handle_payload X H p n) = snd (act n)"
proof -
  have cb: "attempt (invoke_callback H p) m = (r, k) \<Longrightarrow> k = m" for m r k
    using assms(1,3) attempt_snd [of "invoke_callback H p" m]
    by (cases "pl_data p") (auto simp: idle_handler_def invoke_callback_def split: option.splits)
  have "snd (handle_data X H (pl_data p) p n) = snd (act n)"
    using assms(1) by (auto simp: assms(4) validate_def idle_handler_def sbind_def dest!: cb split: sum.split prod.split)
  then have a: "snd (attempt (handle_message X H p) n) = snd (act n)" by (simp add: handle_message_def)
  show ?thesis
    using assms(2) a by (cases "attempt (handle_message X H p) n") (auto simp: handle_payload_def sbind_def split: sum.split)
qed

lemma snd_handle_payload:
  assumes "idle_handler H" "pl_verify (en_ecc X) (en_json X) (tr_now (en_transport X) (sw_world n)) p"
    and "\<And>m. pl_data p \<noteq> CustomMessage m"
    and "handle_data X H (pl_data p) p = sbind (validate H p) (\<lambda>_. sbind act (\<lambda>_.
      sbind (attempt (invoke_callback H p)) (\<lambda>_. sret ())))"
  shows "sw_transports (snd (handle_payload X H p n)) = sw_transports (snd (act n))"
    "sw_dht (snd (handle_payload X H p n)) = sw_dht (snd (act n))"
    "sw_measure (snd (act n)) = None \<Longrightarrow> snd (handle_payload X H p n) = snd (act n)"
  using handle_payload_runs [OF assms] by (auto simp: incr_measure_def split: option.splits)

lemma listen_once_handles:
  "poll_message X n = (Inr (Some p), n1) \<Longrightarrow> snd (listen_once X H n) = snd (handle_payload X H p n1)"
  by (cases "handle_payload X H p n1") (auto simp: listen_once_def sbind_def split: sum.split option.split)

lemma swarm_disconnect_forgets:
  assumes "n' = snd (swarm_disconnect X v n)"
  shows "get_transport n' v = None" "sw_dht n' = pr_remove v (sw_dht n)"
proof -
  obtain r ts where ts: "mem_remove v (sw_transports n) = (r, ts)" by fastforce
  then have "mem_get ts v = None" using mem_get_ops(3) [of v "sw_transports n"] by simp
  then show "get_transport n' v = None" "sw_dht n' = pr_remove v (sw_dht n)"
    using assms by (auto simp: swarm_disconnect_def sbind_def remove_transport_def get_transport_def ts
        close_transport_def on_world_def split: prod.splits option.splits)
qed

text \<open>Disconnecting a peer closes the transport to it.\<close>

lemma swarm_disconnect_eq:
  "snd (swarm_disconnect X v n) = n\<lparr>sw_dht := pr_remove v (sw_dht n),
     sw_transports := snd (mem_remove v (sw_transports n)),
     sw_world := (case get_transport n v of None \<Rightarrow> sw_world n
       | Some i \<Rightarrow> snd (tr_close (en_transport X) i (sw_world n)))\<rparr>"
  by (auto simp: swarm_disconnect_def sbind_def remove_transport_def get_transport_def mem_remove_def mem_get_def
      close_transport_def on_world_def split: prod.split option.split)

lemma swarm_disconnect_links:
  fixes v :: did
  assumes "transport_laws (en_transport X) known" "known (sw_world n) i"
  defines "n' \<equiv> snd (swarm_disconnect X v n)"
  shows "known (sw_world n') i" "get_transport n v = Some i \<Longrightarrow> is_disconnected X n' i"
    "get_transport n v \<noteq> Some i \<Longrightarrow> is_connected X n' i = is_connected X n i
       \<and> is_disconnected X n' i = is_disconnected X n i"
  using transport_laws.close_links [OF assms(1)] transport_laws.close_disconnects [OF assms(1)] assms(2)
  by (auto simp: n'_def swarm_disconnect_eq is_connected_def is_disconnected_def same_links_def split: option.split)

lemma incr_measure_links:
  assumes "measure_harmless X known n" "known (sw_world n) i"
  shows "is_connected X (incr_measure d c n) i = is_connected X n i"
    "is_disconnected X (incr_measure d c n) i = is_disconnected X n i"
    "sw_transports (incr_measure d c n) = sw_transports n" "sw_dht (incr_measure d c n) = sw_dht n"
  using assms
  by (auto simp: incr_measure_def measure_harmless_def same_links_def is_connected_def is_disconnected_def split: option.split)

text \<open>
  C38: any peer can sever a node's connections. It need only get a \<open>LeaveDHT v\<close> to the node, sealed
  by a valid session, whosever that is, within the five minutes of a seal. The turn of \<open>listen\<close>
  that loads the message closes the node's connection to \<open>v\<close>, whoever that is: its transport
  ends up disconnected and is forgotten, and \<open>v\<close> is out of the ring; the connections to other
  peers stay as they were. This holds over any transport that obeys its laws, on a node without
  a validator, whose message counter, if it has one, does not touch the transports and whose
  callback, if it has one, does not change the node on built-in messages.
\<close>

theorem peer_severs_connection:
  assumes "transport_laws (en_transport X) known" "ecdsa_ok (en_ecc X)"
    and "MessagePayload_new_send (en_ecc X) (en_json X) ts u (LeaveDHT v) sm d d = Inr p"
    and "poll_message X n = (Inr (Some p), n1)"
    and "sm_valid (en_ecc X) (tr_now (en_transport X) (sw_world n1)) sm"
    and "tr_now (en_transport X) (sw_world n1) \<le> ts + 300000"
    and "idle_handler H" "measure_harmless X known n1" "pr_wf (sw_dht n1)" "v \<noteq> sw_did n1"
  shows "let n' = snd (listen_once X H n) in
    get_transport n' = (get_transport n1)(v := None)
    \<and> (\<forall>i. known (sw_world n1) i \<and> get_transport n1 v = Some i \<longrightarrow> is_disconnected X n' i)
    \<and> (\<forall>i. known (sw_world n1) i \<and> get_transport n1 v \<noteq> Some i \<longrightarrow>
         is_connected X n' i = is_connected X n1 i \<and> is_disconnected X n' i = is_disconnected X n1 i)
    \<and> v \<notin> set (ss_list (pr_successor (sw_dht n'))) \<and> \<not> ft_contains (pr_finger (sw_dht n')) (Some v)
    \<and> pr_predecessor (sw_dht n') \<noteq> Some v"
proof -
  let ?d = "snd (swarm_disconnect X v n1)"
  have p: "pl_verify (en_ecc X) (en_json X) (tr_now (en_transport X) (sw_world n1)) p" "pl_data p = LeaveDHT v"
    using sealed_message_later [OF assms(2,3,5,6)] by simp_all
  have "\<exists>c. snd (handle_payload X H p n1) = incr_measure (pl_addr p) c ?d \<or> snd (handle_payload X H p n1) = ?d"
    by (rule handle_payload_runs [OF assms(7) p(1)]) (simp_all add: p(2) handle_data.simps handle_LeaveDHT_def)
  then obtain c where c: "snd (listen_once X H n) \<in> {incr_measure (pl_addr p) c ?d, ?d}"
    using listen_once_handles [OF assms(4), of H] by auto
  have same: "sw_measure ?d = sw_measure n1" "sw_dht ?d = pr_remove v (sw_dht n1)"
    "sw_transports ?d = snd (mem_remove v (sw_transports n1))"
    by (simp_all add: swarm_disconnect_eq)
  then have harmless: "measure_harmless X known ?d" using assms(8) by (simp add: measure_harmless_def)
  note links = swarm_disconnect_links [OF assms(1), of n1 _ v] incr_measure_links(1,2) [OF harmless]
  have "sw_transports (snd (listen_once X H n)) = snd (mem_remove v (sw_transports n1))"
      "sw_dht (snd (listen_once X H n)) = pr_remove v (sw_dht n1)"
    using c same by (auto simp: incr_measure_def split: option.splits)
  moreover have "is_disconnected X (snd (listen_once X H n)) i" if "known (sw_world n1) i" "get_transport n1 v = Some i" for i
    using c links that by auto
  moreover have "is_connected X (snd (listen_once X H n)) i = is_connected X n1 i
      \<and> is_disconnected X (snd (listen_once X H n)) i = is_disconnected X n1 i"
    if "known (sw_world n1) i" "get_transport n1 v \<noteq> Some i" for i
    using c links that by auto
  ultimately show ?thesis
    using remove_forgets [OF assms(9), of v] assms(10)
    by (simp add: get_transport_def sw_did_def Let_def fun_eq_iff)
qed

text \<open>Witness: node 2 is connected to node 7, until someone's message tells it to leave.\<close>

theorem peer_severs_connection_witness:
  "\<exists>X (b :: ((did, virtual_node) mem_storage, dummy_world) node) H n.
     get_transport b 7 = Some 5 \<and> is_connected X b 5 \<and> n = snd (listen_once X H b)
     \<and> get_transport n 7 = None \<and> is_disconnected X n 5"
proof -
  obtain p where p: "MessagePayload_new_send demo_ecc (\<lambda>_. Some ''m'') 10000 9 (LeaveDHT 7) demo_sm 2 2 = Inr p"
    by (simp add: MessagePayload_new_send_def MessagePayload_new_def Let_def pack_msg_def)
  define X where "X = demo_env\<lparr>en_bin := (\<lambda>_. Some [1]), en_unbin := (\<lambda>_. Some p)\<rparr>"
  define c where "c = set_transport 7 5 (demo_node\<lparr>sw_dht := snd (chord_join 7 (pr_new_with_storage 2 3 mem_new))\<rparr>)"
  define w where "w = delivered 2 [1] demo_world"
  have X: "en_transport X = dummy_ops demo_dummy" "en_ecc X = demo_ecc" "en_json X = (\<lambda>_. Some ''m'')"
      "en_unbin X [1] = Some p"
    by (simp_all add: X_def demo_env_def)
  have c: "sw_did c = 2" "get_transport (c\<lparr>sw_world := w'\<rparr>) 7 = Some 5" "pr_wf (sw_dht c)" "sw_measure c = None" for w'
    by (simp_all add: c_def sw_did_def set_transport_def get_transport_def pr_wf_join pr_wf_new demo_node_def)
  let ?b = "c\<lparr>sw_world := w\<rparr>" and ?b1 = "c\<lparr>sw_world := dequeued 2 w\<rparr>"
  have poll: "poll_message X ?b = (Inr (Some p), ?b1)"
    by (rule poll_loads_next [OF X(1) c(1) _ X(4)]) (simp add: w_def delivered_def demo_world_def ch_new_def)
  have w: "dt_known (dequeued 2 w) 5" "dw_now (dequeued 2 w) = 10000" "dt_is_connected w 5"
    by (simp_all add: w_def delivered_def dequeued_def demo_world_def dt_known_def dt_is_connected_def
        dt_ice_connection_state_def)
  have laws: "transport_laws (en_transport X) dt_known" by (simp add: X(1) dummy.transport_laws_axioms)
  have H: "idle_handler (no_callback :: ((did, virtual_node) mem_storage, dummy_world) message_handler)"
    "measure_harmless X dt_known ?b1"
    by (simp_all add: idle_handler_def measure_harmless_def c(4))
  have "get_transport (snd (listen_once X no_callback ?b)) 7 = None \<and> is_disconnected X (snd (listen_once X no_callback ?b)) 5"
    using peer_severs_connection [OF laws _ _ poll _ _ H, of 10000 9 7 demo_sm 2] w(1,2) c
    by (auto simp: X(1-3) p demo_ecc_ok demo_sm_valid sw_did_def Let_def)
  moreover have "is_connected X ?b 5" using w(3) by (simp add: is_connected_def X(1))
  ultimately show ?thesis using c(2) by blast
qed

end
