(* ===== verification/ServerProps.thy ===== *)
theory ServerProps
  imports ServerRel Delivery
begin

text \<open>
  What holds of a whole node: its ring is safe under every request and every message, requests
  without a valid signature change nothing, and the handshakes and disconnections of the
  processor do to the swarm what they say, or not.
\<close>

lemma sbind_sret_right [simp]: "sbind m sret = m"
  by (auto simp: sbind_def fun_eq_iff split: prod.split sum.split)

lemma map_err_slift [simp]:
  "map_err f (slift (Inr x)) = sret x" "map_err f (slift (Inl e)) = serr (f e)"
  by (simp_all add: map_err_def fun_eq_iff)

lemmas rpc_params = first_string_def parse_strings_def parse_values_def params_value_def param_def
  list_get_def json_as_str_def json_as_u64_def

section \<open>Runs of a served node\<close>

definition backend_handler ::
  "('s, 'w) env \<Rightarrow> 'w backend_ops \<Rightarrow> hidden_server_config list \<Rightarrow> ('s, 'w) message_handler" where
  "backend_handler X B services =
     \<lparr>mh_callback = Some (backend_callback X B services), mh_validator = None\<rparr>"

text \<open>
  A node that runs with the backend as its callback and answers requests: its own steps, and a
  request over HTTP with any signature, method and parameters.
\<close>

inductive server_step ::
  "('s, 'w) env \<Rightarrow> 'w node_ops \<Rightarrow> 'w backend_ops \<Rightarrow> hidden_server_config list
     \<Rightarrow> ('s, 'w) node \<Rightarrow> ('s, 'w) node \<Rightarrow> bool"
  for X N B services where
  sv_node: "node_step X (backend_handler X B services) n n' \<Longrightarrow> server_step X N B services n n'"
| sv_request: "server_step X N B services n (snd (jsonrpc_io_handler X N B pubkey sig name p n))"

inductive_cases server_stepE: "server_step X N B services n n'"

inductive server_reachable ::
  "('s, 'w) env \<Rightarrow> 'w node_ops \<Rightarrow> 'w backend_ops \<Rightarrow> hidden_server_config list \<Rightarrow> ('s, 'w) node \<Rightarrow> bool"
  for X N B services where
  sr_build: "builder_build E now key counter w b = Inr n \<Longrightarrow> server_reachable X N B services n"
| sr_step: "server_reachable X N B services n \<Longrightarrow> server_step X N B services n n'
    \<Longrightarrow> server_reachable X N B services n'"

lemma server_step_moves:
  assumes "server_step X N B services n n'"
  shows "ring_moves n n'"
  using assms
proof (cases rule: server_step.cases)
  case sv_node
  then show ?thesis
    by (rule node_step_moves) (simp add: backend_handler_def serving_ring.backend_good)
next
  case (sv_request pubkey sig name p)
  show ?thesis unfolding sv_request by (rule serving_ring.io_handler [unfolded keeps_def, THEN spec])
qed

lemma server_reachable_ring:
  "server_reachable X N B services n \<Longrightarrow> ring_reachable (sw_dht n) \<and> mem_wf (sw_transports n)"
proof (induction rule: server_reachable.induct)
  case (sr_build E now key counter w b n)
  then show ?case by (rule build_reachable)
next
  case (sr_step n n')
  then show ?case using ring_moves_reachable [OF server_step_moves] by blast
qed

text \<open>
  C4: a node with its RPC server and its backend, started in any way, keeps its ring safe
  whatever requests and messages it serves: the transport table has one entry per peer, the
  ring is well-formed and one that the ring's own steps reach, routing on it does not fail,
  and a join that is offered the node's own identifier does nothing.
\<close>

theorem server_reachable_safe:
  assumes "server_reachable X N B services n"
  shows "pr_wf (sw_dht n) \<and> ring_reachable (sw_dht n) \<and> distinct (get_dids n)
    \<and> is_ok (chord_find_successor (sw_dht n) d)
    \<and> chord_join (sw_did n) (sw_dht n) = (Inr PNone, sw_dht n)"
proof -
  have n: "ring_reachable (sw_dht n)" "mem_wf (sw_transports n)"
    using server_reachable_ring [OF assms] by simp_all
  have wf: "pr_wf (sw_dht n)" by (rule ring_reachable_wf [OF n(1)])
  moreover have "is_ok (chord_find_successor (sw_dht n) d)"
    by (rule chord_find_successor_cases [OF wf, of d]) simp_all
  moreover have "distinct (get_dids n)"
    using n(2) by (simp add: get_dids_def mem_keys_def mem_wf_def map_fst_conv)
  ultimately show ?thesis using n(1) chord_join_self [of "sw_dht n"] by (simp add: sw_did_def)
qed

section \<open>Authorisation\<close>

text \<open>The methods that ask for no authorisation.\<close>

definition open_methods :: "rpc_method set" where
  "open_methods = {ConnectPeerViaHttp, ConnectWithSeed, AnswerOffer, PollMessage}"

lemma require_authed_refuses [simp]:
  "require_authed False = Inl (RpcServerError (- 32020))" "require_authed True = Inr ()"
  by (simp_all add: require_authed_def rpc_error_of_def node_error_code_def)

lemma handler_refuses:
  "m \<notin> open_methods \<Longrightarrow> rpc_handler X N B m p False = serr (RpcServerError (- 32020))"
  by (cases m)
     (simp_all add: open_methods_def fun_eq_iff rpc_connect_with_did_def rpc_create_offer_def
        rpc_accept_answer_def rpc_list_peers_def rpc_close_connection_def rpc_list_pendings_def
        rpc_close_pending_transport_def rpc_send_raw_message_def rpc_send_custom_message_def
        rpc_send_simple_text_message_def rpc_send_http_request_message_def
        rpc_publish_message_to_topic_def rpc_fetch_messages_of_topic_def rpc_register_service_def
        rpc_lookup_service_def)

text \<open>
  C13: a request without a signature that verifies under the node's key changes nothing and
  learns nothing, unless its method is one of the four open ones: a malformed signature is a
  bad request, any other method answers "no permission" (code -32020), an unknown name
  "method not found".
\<close>

theorem unauthorised_requests_refused:
  assumes "\<And>s. sig = Some s \<Longrightarrow> verify_signature (en_ecc X) N s pubkey \<noteq> Inr True"
    and "name \<notin> method_as_str ` open_methods"
  shows "jsonrpc_io_handler X N B pubkey sig name p n =
    ((if \<exists>s. sig = Some s \<and> \<not> is_ok (verify_signature (en_ecc X) N s pubkey) then Inl BadRequest
      else Inr (Inl (if \<exists>m. name = method_as_str m then RpcServerError (- 32020) else RpcMethodNotFound))), n)"
proof -
  have d: "rpc_dispatch X N B name p False n =
      (Inl (if \<exists>m. name = method_as_str m then RpcServerError (- 32020) else RpcMethodNotFound), n)"
  proof (cases "\<exists>m. name = method_as_str m")
    case True
    then obtain m where m: "name = method_as_str m" by blast
    then have "m \<notin> open_methods" using assms(2) by auto
    then show ?thesis by (simp add: m handler_refuses)
  next
    case False
    then show ?thesis by (simp add: rpc_dispatch_unknown)
  qed
  show ?thesis
  proof (cases sig)
    case None
    then show ?thesis by (simp add: jsonrpc_io_handler_def d)
  next
    case (Some s)
    then show ?thesis
      using assms(1) [OF Some] d
      by (cases "verify_signature (en_ecc X) N s pubkey") (auto simp: jsonrpc_io_handler_def)
  qed
qed

text \<open>
  The signature that the node's own key generates authorises: \<open>verify_signature\<close> accepts
  what \<open>generate_signature\<close> makes, when base64 and the curve library are sound.
\<close>

lemma generated_signature_verifies:
  assumes "\<And>bs. no_unb64 N (as_bytes (no_b64 N bs)) = Some bs"
    and "\<And>h r s v. secp_sign E h sk = (r, s, v) \<Longrightarrow> secp_parse_sig E (r @ s)
        \<and> no_secp_verify N h (r @ s) (secp_public E sk)"
    and "secp_parse_compressed E (secret_key_pubkey E sk) = Some (secp_public E sk)"
  shows "verify_signature E N (as_bytes (generate_signature E N sk)) (secret_key_pubkey E sk) = Inr True"
proof -
  let ?h = "keccak256 E (as_bytes (auth_message N (secret_key_address E sk)))"
  obtain r s v where s: "secp_sign E ?h sk = (r, s, v)" by (cases "secp_sign E ?h sk")
  have "public_key_address E (secret_key_pubkey E sk) = secret_key_address E sk"
    by (simp add: secret_key_address_def secret_key_pubkey_def Let_def)
  then show ?thesis
    using assms(2) [OF s] assms(1,3)
    by (simp add: verify_signature_def generate_signature_def s Let_def)
qed

section \<open>Application messages\<close>

lemma first_hop_relay:
  "\<exists>relay. rl_relay d None (MessageRelay_new SEND [s] None (Some d) d) = Inr relay"
  by (simp add: rl_relay_def rl_validate_def MessageRelay_new_def has_infinite_loop_def
      INFINITE_LOOP_TOLERANCE_def Let_def)

lemma backend_broadcasts:
  assumes "\<exists>relay. rl_relay (rl_destination (pl_relay ctx)) None (pl_relay ctx) = Inr relay"
    and "length (bm_extra m) = 30" "message_type_of_u16 (bm_message_type m) \<noteq> MtHttpRequest"
  shows "backend_custom_message X B services ctx (Plain ([0] @ replicate 3 0 @ bm_into_bytes m)) n =
    (Inr (), n\<lparr>sw_world := be_broadcast B (m\<lparr>bm_extra := replicate 30 0\<rparr>) (sw_world n)\<rparr>)"
proof -
  obtain relay where r: "rl_relay (rl_destination (pl_relay ctx)) None (pl_relay ctx) = Inr relay"
    using assms(1) by blast
  have d: "decrypt_msg C n (Plain bs) = Inr bs" for C bs
    by (simp add: decrypt_msg_def maybe_decrypt_def)
  have "\<exists>res. panic_of (attempt_node (case message_type_of_u16 (bm_message_type m) of
        MtSimpleText \<Rightarrow> text_handle_message relay (m\<lparr>bm_extra := replicate 30 0\<rparr>)
      | MtHttpRequest \<Rightarrow> http_handle_message X B services ctx relay (m\<lparr>bm_extra := replicate 30 0\<rparr>)
      | _ \<Rightarrow> sret ())) n = (Inr res, n)"
    using assms(3)
    by (cases "message_type_of_u16 (bm_message_type m)"; cases "from_utf8 (bm_data m)")
       (simp_all add: text_handle_message_def panic_of_def attempt_node_def)
  then show ?thesis
    by (auto simp: backend_custom_message_def r d bm_roundtrip [OF assms(2)] numeral_3_eq_3)
qed

text \<open>The callback of a node that a verified custom message has reached.\<close>

lemma custom_message_handled:
  assumes "pl_data p = CustomMessage m" "rl_destination (pl_relay p) = sw_did n"
    and "pl_verify (en_ecc X) (en_json X) (tr_now (en_transport X) (sw_world n)) p"
  shows "handle_payload X (backend_handler X B services) p n =
    (case backend_custom_message X B services p m n of
       (Inl e, n') \<Rightarrow> if is_panic e then (Inl e, n')
         else (Inr (Some ()), incr_measure (pl_addr p) Received n')
     | (Inr _, n') \<Rightarrow> (Inr (Some ()), incr_measure (pl_addr p) Received n'))"
  using assms
  by (cases "backend_custom_message X B services p m n"; cases "fst (backend_custom_message X B services p m n)")
     (auto simp: handle_payload_def handle_message_def handle_data.simps [of X _ "CustomMessage m"]
       backend_handler_def backend_callback_def validate_def invoke_callback_def
       handle_CustomMessage_def Let_def attempt_def sbind_def)

text \<open>
  C12: an application message reaches the application of a connected peer. Over the dummy
  transport, between nodes that count no messages, when the ring routes to that peer, nothing else
  waits for it, its decoder reads what the sender encoded and the sender's session is valid,
  \<open>send_custom_message\<close> of any type but an HTTP request succeeds; the peer, listening
  with its backend, loads the payload, accepts it and broadcasts the message to its RPC clients,
  with its type and data as they were sent. The thirty extra bytes do not arrive: they are zero
  whatever was sent.
\<close>

theorem application_message_delivered:
  fixes a b :: "('s, dummy_world) node"
  assumes "en_transport X = dummy_ops Y" "ecdsa_ok (en_ecc X)"
    and "did_from_str (en_codec X) destination = Inr d" "length extra = 30"
    and "message_type_of_u16 mt \<noteq> MtHttpRequest"
    and "MessagePayload_new_send (en_ecc X) (en_json X) (dw_now (sw_world a)) (dw_next_uuid (sw_world a))
      (CustomMessage (Plain ([0] @ replicate 3 0 @ bm_into_bytes (BackendMessage_new mt extra data))))
      (sw_session a) d d = Inr p"
    and "en_bin X p = Some enc" "en_unbin X enc = Some p" "sw_measure a = None" "sw_measure b = None"
    and "get_transport a d = Some t" "linked (sw_world a) t d" "ch_queue (dw_channels (sw_world a) d) = []"
    and "chord_find_successor (sw_dht a) d \<in> {Inr (PSome d), Inr (PRemoteAction d act)}"
    and "sw_did b = d" "sm_valid (en_ecc X) (dw_now (sw_world a)) (sw_session a)"
    and "dw_now (sw_world a) \<le> dw_now (sw_world a) + 300000"
  shows "\<exists>w w'. proc_send_custom_message X B destination mt data extra a = (Inr (pl_tx_id p), a\<lparr>sw_world := w\<rparr>)
    \<and> listen_once X (backend_handler X B services) (b\<lparr>sw_world := w\<rparr>)
      = (Inr (Some p), b\<lparr>sw_world := be_broadcast B (BackendMessage_new mt (replicate 30 0) data) w'\<rparr>)"
proof -
  let ?m = "BackendMessage_new mt extra data"
  let ?msg = "CustomMessage (Plain ([0] @ replicate 3 0 @ bm_into_bytes ?m))"
  obtain w1 w2 w' where seal: "seal_send X ?msg d d a = (Inr p, a\<lparr>sw_world := w1\<rparr>)"
    and send: "send_payload X p (a\<lparr>sw_world := w1\<rparr>) = (Inr (), a\<lparr>sw_world := w2\<rparr>)"
    and poll: "poll_message X (b\<lparr>sw_world := w2\<rparr>) = (Inr (Some p), b\<lparr>sw_world := w'\<rparr>)"
    and v: "pl_verify (en_ecc X) (en_json X) (dw_now w') p" and data: "pl_data p = ?msg"
    and relay: "pl_relay p = MessageRelay_new SEND [sm_authorizer (sw_session a)] None (Some d) d"
    by (rule sealed_message_arrives [OF assms(1,2,6,7,8,9,11,12,13,15,16,17)])
  have "send_message X ?msg d a = (Inr (pl_tx_id p), a\<lparr>sw_world := w2\<rparr>)"
    using assms(14) seal send by (auto simp: send_message_def)
  then have sent: "proc_send_custom_message X B destination mt data extra a = (Inr (pl_tx_id p), a\<lparr>sw_world := w2\<rparr>)"
    by (simp add: proc_send_custom_message_def proc_send_message_def assms(3) core_result_def
        Message_custom_def MaybeEncrypted_new_def map_err_def)
  let ?b = "b\<lparr>sw_world := w'\<rparr>"
  have m: "length (bm_extra ?m) = 30" "message_type_of_u16 (bm_message_type ?m) \<noteq> MtHttpRequest"
    using assms(4,5) by (simp_all add: BackendMessage_new_def)
  have dest: "rl_destination (pl_relay p) = d" "sw_did ?b = d"
    using relay assms(15) by (simp_all add: MessageRelay_new_def sw_did_def)
  have "backend_custom_message X B services p (Plain ([0] @ replicate 3 0 @ bm_into_bytes ?m)) ?b
      = (Inr (), ?b\<lparr>sw_world := be_broadcast B (?m\<lparr>bm_extra := replicate 30 0\<rparr>) w'\<rparr>)"
    using backend_broadcasts [OF _ m, of p X B services ?b] first_hop_relay dest(1) relay by simp
  then have "handle_payload X (backend_handler X B services) p ?b = (Inr (Some ()),
      b\<lparr>sw_world := be_broadcast B (BackendMessage_new mt (replicate 30 0) data) w'\<rparr>)"
    using custom_message_handled [OF data, of ?b X B services] dest v assms(1,10)
    by (simp add: incr_measure_def BackendMessage_new_def)
  then have "listen_once X (backend_handler X B services) (b\<lparr>sw_world := w2\<rparr>)
      = (Inr (Some p), b\<lparr>sw_world := be_broadcast B (BackendMessage_new mt (replicate 30 0) data) w'\<rparr>)"
    using poll by (simp add: listen_once_def)
  then show ?thesis using sent by blast
qed

text \<open>
  A custom message too short for its framing ends the task that listens. When a payload
  verifies, is addressed to the node and carries fewer than four bytes in clear, or a relay
  that the node cannot continue, handling it panics: nobody but the sender had to agree to
  its contents.
\<close>

lemma malformed_message_panics:
  assumes "pl_data p = CustomMessage (Plain m)" "rl_destination (pl_relay p) = sw_did n"
    and "pl_verify (en_ecc X) (en_json X) (tr_now (en_transport X) (sw_world n)) p"
    and "length m < 4 \<or> \<not> is_ok (rl_relay (sw_did n) None (pl_relay p))"
  shows "\<exists>why. handle_payload X (backend_handler X B services) p n = (Inl (Panicked why), n)"
proof -
  have d: "decrypt_msg C n (Plain m) = Inr m" for C
    by (simp add: decrypt_msg_def maybe_decrypt_def)
  have "\<exists>why. backend_custom_message X B services p (Plain m) n = (Inl (Panicked why), n)"
    using assms(4) by (cases "rl_relay (sw_did n) None (pl_relay p)")
      (simp_all add: backend_custom_message_def assms(2) d)
  then show ?thesis
    using custom_message_handled [OF assms(1-3), of B services] by (auto simp: is_panic_def)
qed

text \<open>
  A node does not see the answer to its own HTTP request. The responder reports it in
  chunks whose first framing byte is 1; the backend of the requesting node drops every message
  whose first byte is not 0, without telling anyone.
\<close>

lemma http_answer_dropped:
  assumes "\<exists>relay. rl_relay (rl_destination (pl_relay ctx')) None (pl_relay ctx') = Inr relay"
  shows "send_chunk_report_message X B ctx relay data n =
      core SendMessage (send_report_message X (CustomMessage (Plain (1 # 0 # 0 # 0 # data))) (pl_tx_id ctx) relay) n
    \<and> backend_custom_message X' B' services ctx' (Plain (1 # 0 # 0 # 0 # data)) n' = (Inr (), n')"
  using assms
  by (auto simp: send_chunk_report_message_def Message_custom_def MaybeEncrypted_new_def
        numeral_3_eq_3 backend_custom_message_def decrypt_msg_def maybe_decrypt_def)

section \<open>A concrete server\<close>

text \<open>
  The instance the witnesses run on: an address printer, base64 and an HTTP client that are
  trivial, and a broadcast channel that is a channel of the dummy world.
\<close>

definition demo_ops :: "'w node_ops" where
  "demo_ops = \<lparr>no_addr = (\<lambda>_. ''ab''), no_b64 = map (\<lambda>b. char_of (unat b)), no_unb64 = Some,
     no_secp_verify = (\<lambda>_ _ _. True), no_call = (\<lambda>_ _ _ w. (Inl ''down'', w)), no_ice_state = (\<lambda>_ _. None),
     no_de_http_request = (\<lambda>_. None), no_de_seeds = (\<lambda>_. None), no_from_base58 = (\<lambda>_. None)\<rparr>"

definition demo_backend :: "dummy_world backend_ops" where
  "demo_backend = \<lparr>be_parse_uri = Some, be_parse_method = Some, be_parse_headers = (\<lambda>_. Some []),
     be_send_http = (\<lambda>_ _ _ _ _ w. (Inl ''down'', w)), be_de_request = (\<lambda>_. None),
     be_ser_request = (\<lambda>_. None), be_ser_response = (\<lambda>_. None), be_ser_chunk = (\<lambda>_. None),
     be_gzip = (\<lambda>bs _. Some bs),
     be_cipher = \<lparr>ci_ser = Some, ci_de = Some, ci_encrypt = (\<lambda>_ bs. Some bs), ci_decrypt = (\<lambda>_ bs. Some bs)\<rparr>,
     be_broadcast = (\<lambda>m w. delivered 99 (bm_into_bytes m) w), be_recv = (\<lambda>_ w. (None, w))\<rparr>"

lemma demo_sealed:
  "\<exists>p. MessagePayload_new_send demo_ecc (\<lambda>_. Some ''m'') 10000 9 msg demo_sm d d = Inr p
     \<and> pl_data p = msg \<and> pl_verify demo_ecc (\<lambda>_. Some ''m'') 10000 p
     \<and> pl_relay p = MessageRelay_new SEND [sm_authorizer demo_sm] None (Some d) d"
proof -
  obtain p where p: "MessagePayload_new_send demo_ecc (\<lambda>_. Some ''m'') 10000 9 msg demo_sm d d = Inr p"
    by (simp add: MessagePayload_new_send_def MessagePayload_new_def Let_def pack_msg_def)
  note f = MessagePayload_new_Inr [OF p [unfolded MessagePayload_new_send_def Let_def]]
  have "(10000 :: u128) \<le> 10000 + 300000" by simp
  then have "\<not> pl_is_expired 10000 p" using f(5,6) by (intro fresh_not_expired)
  then have "pl_verify demo_ecc (\<lambda>_. Some ''m'') 10000 p"
    using mv_verify_fresh [OF demo_ecc_ok demo_sm_valid] f(1,7,8) by (auto simp: pl_verify_def)
  then show ?thesis using p f(1,4) by blast
qed

theorem server_reachable_safe_witness:
  "pr_wf (sw_dht demo_node) \<and> is_ok (chord_find_successor (sw_dht demo_node) 77)"
proof -
  have "server_reachable demo_env demo_ops demo_backend [] demo_node"
  proof (rule sr_build)
    show "builder_build demo_ecc 0 [9] None demo_world
      \<lparr>sb_key = None, sb_ice_servers = [], sb_external_address = None, sb_dht_did = Some 1,
       sb_dht_succ_max = 3, sb_dht_storage = mem_new, sb_session_manager = Some demo_sm,
       sb_session_ttl = None\<rparr> = Inr demo_node"
      by (simp add: builder_build_def demo_node_def)
  qed
  from server_reachable_safe [OF this, of 77] show ?thesis by simp
qed

theorem unauthorised_requests_refused_witness:
  "jsonrpc_io_handler demo_env demo_ops demo_backend [4] None ''disconnect'' (ParamsArray [JString ''ab'']) demo_node
     = (Inr (Inl (RpcServerError (- 32020))), demo_node)"
proof -
  have "''disconnect'' \<notin> method_as_str ` open_methods" by (simp add: open_methods_def)
  moreover have "\<exists>m. ''disconnect'' = method_as_str m" by (rule exI [of _ Disconnect]) simp
  ultimately show ?thesis
    using unauthorised_requests_refused [of None demo_env demo_ops "[4]" "''disconnect''" demo_backend
        "ParamsArray [JString ''ab'']" demo_node] by simp
qed

theorem application_message_delivered_witness:
  "\<exists>X (a :: ((did, virtual_node) mem_storage, dummy_world) node) b p w w'.
     proc_send_custom_message X demo_backend ''ab'' 2 [104, 105] (replicate 30 7) a = (Inr (pl_tx_id p), a\<lparr>sw_world := w\<rparr>)
     \<and> listen_once X (backend_handler X demo_backend []) (b\<lparr>sw_world := w\<rparr>)
       = (Inr (Some p), b\<lparr>sw_world := delivered 99 (bm_into_bytes (BackendMessage_new 2 (replicate 30 0) [104, 105])) w'\<rparr>)"
proof -
  let ?msg = "CustomMessage (Plain ([0] @ replicate 3 0 @ bm_into_bytes (BackendMessage_new 2 (replicate 30 7) [104, 105])))"
  obtain p where "MessagePayload_new_send demo_ecc (\<lambda>_. Some ''m'') 10000 9 ?msg demo_sm 2 2 = Inr p
      \<and> pl_data p = ?msg \<and> pl_verify demo_ecc (\<lambda>_. Some ''m'') 10000 p
      \<and> pl_relay p = MessageRelay_new SEND [sm_authorizer demo_sm] None (Some 2) 2"
    using demo_sealed [of ?msg 2] ..
  then have p: "MessagePayload_new_send demo_ecc (\<lambda>_. Some ''m'') 10000 9 ?msg demo_sm 2 2 = Inr p"
    by (rule conjunct1)
  define X where "X = demo_env\<lparr>en_bin := (\<lambda>_. Some [1]), en_unbin := (\<lambda>_. Some p)\<rparr>"
  define a where "a = set_transport 2 5 (demo_node\<lparr>sw_dht := (pr_new_with_storage 1 3 mem_new)
      \<lparr>pr_successor := ss_update (SuccessorSeq_new 1 3) 2\<rparr>, sw_world := demo_world\<lparr>hub_senders := [8 \<mapsto> 2]\<rparr>\<rparr>)"
  define b where "b = demo_node\<lparr>sw_dht := pr_new_with_storage 2 3 mem_new\<rparr>"
  have a: "dw_now (sw_world a) = 10000" "dw_next_uuid (sw_world a) = 9" "sw_session a = demo_sm"
      "sw_measure a = None" "get_transport a 2 = Some 5" "linked (sw_world a) 5 2"
      "ch_queue (dw_channels (sw_world a) 2) = []"
    by (simp_all add: a_def demo_node_def demo_world_def set_transport_def linked_def ch_new_def
        dt_is_disconnected_def dt_ice_connection_state_def get_transport_def)
  have route: "chord_find_successor (sw_dht a) 2 \<in> {Inr (PSome 2), Inr (PRemoteAction 2 (FindSuccessor 2))}"
    by (simp add: a_def set_transport_def chord_find_successor_def Let_def ss_is_empty_def ss_min_def
        ss_update_def sort_ring_def SuccessorSeq_new_def)
  have X: "en_transport X = dummy_ops demo_dummy" "en_ecc X = demo_ecc" "en_json X = (\<lambda>_. Some ''m'')"
      "en_bin X p = Some [1]" "en_unbin X [1] = Some p" "en_codec X = demo_codec"
    by (simp_all add: X_def demo_env_def)
  have b: "sw_did b = 2" "sw_measure b = None" by (simp_all add: b_def sw_did_def demo_node_def)
  have d: "did_from_str (en_codec X) ''ab'' = Inr 2"
    by (simp add: X did_from_str_def demo_codec_def)
  have br: "be_broadcast demo_backend m w = delivered 99 (bm_into_bytes m) w" for m w
    by (simp add: demo_backend_def)
  have env: "ecdsa_ok (en_ecc X)" "sm_valid (en_ecc X) (dw_now (sw_world a)) (sw_session a)"
      "dw_now (sw_world a) \<le> dw_now (sw_world a) + 300000"
    by (simp_all add: X(2) a(1,3) demo_ecc_ok demo_sm_valid)
  have mt: "length (replicate 30 7 :: bytes) = 30" "message_type_of_u16 2 \<noteq> MtHttpRequest"
    by (simp_all add: message_type_of_u16_def)
  have p': "MessagePayload_new_send (en_ecc X) (en_json X) (dw_now (sw_world a)) (dw_next_uuid (sw_world a))
      ?msg (sw_session a) 2 2 = Inr p"
    unfolding X(2,3) a(1-3) by (rule p)
  note dlv = application_message_delivered [OF X(1) env(1) d mt p' X(4,5) a(4) b(2) a(5,6,7) route b(1) env(2,3),
        where B = demo_backend and services = "[]", unfolded br]
  have "\<exists>w w'. proc_send_custom_message X demo_backend ''ab'' 2 [104, 105] (replicate 30 7) a = (Inr (pl_tx_id p), a\<lparr>sw_world := w\<rparr>)
     \<and> listen_once X (backend_handler X demo_backend []) (b\<lparr>sw_world := w\<rparr>)
       = (Inr (Some p), b\<lparr>sw_world := delivered 99 (bm_into_bytes (BackendMessage_new 2 (replicate 30 0) [104, 105])) w'\<rparr>)"
    by (rule dlv)
  then show ?thesis by (intro exI [of _ X] exI [of _ a] exI [of _ b] exI [of _ p])
qed

end
