(* ===== verification/ProcessorProps.thy ===== *)
theory ProcessorProps
  imports ServerProps
begin

text \<open>
  The processor's handshakes, disconnection and services: what a successful call leaves behind
  in the swarm, and what a failing one does not clean up.
\<close>

section \<open>Accepting an answer\<close>

lemma position_split:
  "position (\<lambda>x. x = t) xs = Some i \<Longrightarrow> take i xs @ drop (Suc i) xs = remove1 t xs"
  by (induction xs arbitrary: i) (auto split: if_splits)

lemma position_None: "position (\<lambda>x. x = t) xs = None \<longleftrightarrow> t \<notin> set xs"
  by (induction xs) auto

lemma find_eq: "find (\<lambda>x. x = t) xs = Some u \<longleftrightarrow> t \<in> set xs \<and> u = t"
  by (induction xs) auto

lemma find_pending_Some:
  assumes "find_pending_transport i n = (Inr (Some t), n')"
  shows "n' = n \<and> t = i \<and> i \<in> set (sw_pending n) \<and> \<not> sw_pending_locked n"
  using assms by (auto simp: find_pending_transport_def find_eq split: if_splits)

lemma pop_pending_present:
  assumes "i \<in> set (sw_pending n)" "\<not> sw_pending_locked n"
  shows "pop_pending_transport i n = (Inr (), n\<lparr>sw_pending := remove1 i (sw_pending n)\<rparr>)"
  using assms position_None [of i "sw_pending n"]
  by (auto simp: pop_pending_transport_def position_split split: option.split)

lemma on_world_Inr: "on_world m n = (r, n') \<Longrightarrow> n' = n\<lparr>sw_world := sw_world n'\<rparr>"
  by (auto simp: on_world_def split: prod.splits)

lemma register_Inr:
  assumes "register X d t n = (Inr (), n')"
  shows "get_transport n' = (get_transport n)(d \<mapsto> t) \<and> sw_pending n' = sw_pending n
    \<and> sw_pending_locked n' = sw_pending_locked n \<and> sw_dht n' = sw_dht n"
proof -
  have close: "sbind (attempt (close_transport X old)) (\<lambda>r.
        if is_ok r then sret () else serr SwarmToClosePrevTransport) m = (Inr (), m') \<Longrightarrow>
      m' = m\<lparr>sw_world := sw_world m'\<rparr>" for old m m'
    using close_result [of "close_transport X old" m "Inr ()" m']
    by (metis close_transport_def on_world_Inr prod.collapse)
  show ?thesis
  proof (cases "mem_get (sw_transports n) d")
    case None
    then show ?thesis using assms by (auto simp: register_def set_transport_def get_transport_def fun_eq_iff split: if_splits)
  next
    case (Some old)
    consider "old = t" "n' = n" | "n' = (set_transport d t n)\<lparr>sw_world := sw_world n'\<rparr>"
      using assms close [of old "set_transport d t n" n']
      unfolding register_def Some option.case by (auto split: if_splits)
    then show ?thesis
    proof cases
      case 1
      then show ?thesis using Some by (auto simp: get_transport_def fun_eq_iff)
    next
      case 2
      have sel: "get_transport (k\<lparr>sw_world := w\<rparr>) = get_transport k" for k :: "('a, 'b) node" and w
        by (simp add: get_transport_def fun_eq_iff)
      show ?thesis by (subst (1 2 3 4) 2) (simp add: sel, simp add: set_transport_def)
    qed
  qed
qed

lemma core_Inr [simp]:
  "core f m n = (Inr x, n') \<longleftrightarrow> m n = (Inr x, n')"
  by (auto simp: map_err_def split: prod.split sum.split)

text \<open>
  C28: accepting an answer completes a handshake. When it succeeds for a transport, that
  transport was pending and now is the peer's: exactly one pending entry of it is gone, the
  other peers keep their transports, and the ring is not touched; joining it is left to the
  event of the opened connection.
\<close>

theorem accept_answer_completes:
  assumes "proc_accept_answer X transport_id ice n = (Inr (d, t), n')"
  shows "en_uuid_from_str X transport_id = Some t \<and> t \<in> set (sw_pending n)
    \<and> get_transport n' = (get_transport n)(d \<mapsto> t)
    \<and> sw_pending n' = remove1 t (sw_pending n) \<and> sw_dht n' = sw_dht n"
proof -
  obtain u n1 n2 n3 r where u: "en_uuid_from_str X transport_id = Some u"
    and find: "find_pending_transport u n = (Inr (Some t), n1)"
    and remote: "on_world (tr_register_remote_info (en_transport X) (Encoded ice) t) n1 = (Inr d, n2)"
    and reg: "register X d t n2 = (Inr (), n3)"
    and pop: "attempt_node (core PendingTransport (pop_pending_transport t)) n3 = (Inr r, n')"
    using assms
    by (cases "en_uuid_from_str X transport_id")
       (auto simp: proc_accept_answer_def parse_uuid_def sbind_Inr Let_def ok_or_def split: option.splits)
  note f = find_pending_Some [OF find]
  note n2 = on_world_Inr [OF remote]
  have n2': "sw_pending n2 = sw_pending n" "sw_pending_locked n2 = sw_pending_locked n" "sw_dht n2 = sw_dht n"
    "get_transport n2 = get_transport n"
    using f by (subst n2, simp add: get_transport_def fun_eq_iff)+
  note n3 = register_Inr [OF reg]
  have "pop_pending_transport t n3 = (Inr (), n3\<lparr>sw_pending := remove1 t (sw_pending n3)\<rparr>)"
    using pop_pending_present [of t n3] n3 n2' f by simp
  then have "n' = n3\<lparr>sw_pending := remove1 t (sw_pending n3)\<rparr>"
    using pop by (simp add: attempt_node_def map_err_def)
  then show ?thesis using n3 n2' f u by (simp add: get_transport_def fun_eq_iff)
qed

section \<open>Disconnecting\<close>

text \<open>
  Disconnecting a peer over RPC leaves it in the ring. The transport is closed and taken
  out of the table, but the ring is not told; and since the table no longer has the transport,
  the event of its closing, when it is loaded, produces no \<open>LeaveDHT\<close> message either. The
  swarm's own \<open>disconnect\<close> removes the peer from the ring first.
\<close>

lemma disconnect_keeps_ring_entry:
  assumes "get_transport n d = Some t" "proc_disconnect X d n = (Inr (), n')"
  shows "get_transport n' d = None \<and> sw_dht n' = sw_dht n
    \<and> (\<exists>n''. load_message X (Inr (Some (ConnectClosed d t))) n' = (Inr None, n'') \<and> sw_dht n'' = sw_dht n)
    \<and> sw_dht (snd (swarm_disconnect X d n)) = pr_remove d (sw_dht n)"
proof -
  obtain n1 where close: "close_transport X t n = (Inr (), n1)" "n' = snd (remove_transport d n1)"
    using assms(2) by (auto simp: proc_disconnect_def assms(1) sbind_Inr)
  have n1: "n1 = n\<lparr>sw_world := sw_world n1\<rparr>"
    using close(1) by (simp add: close_transport_def on_world_Inr)
  have gone: "get_transport n' d = None"
    by (simp add: close(2) remove_transport_def get_transport_def split: prod.split) (metis mem_get_ops(3) fun_upd_same snd_conv)
  have ring: "sw_dht n' = sw_dht n"
    unfolding close(2) by (subst n1) (simp add: remove_transport_def split: prod.split)
  have popped: "attempt (pop_pending_transport t) n' = (Inr r, m) \<Longrightarrow>
      get_transport m = get_transport n' \<and> sw_dht m = sw_dht n'" for r m
    by (auto simp: attempt_def pop_pending_transport_def get_transport_def fun_eq_iff
        split: if_splits option.splits)
  have "\<exists>r m. attempt (pop_pending_transport t) n' = (Inr r, m)"
    by (auto simp: attempt_def pop_pending_transport_def is_panic_def split: option.splits)
  then obtain r m where m: "attempt (pop_pending_transport t) n' = (Inr r, m)" by blast
  have "load_message X (Inr (Some (ConnectClosed d t))) n' = (Inr None, m)"
    using popped [OF m] gone m by (simp add: load_message_def)
  moreover have "sw_dht (snd (close_transport X u k)) = sw_dht k" for u and k :: "('a, 'b) node"
    by (simp add: close_transport_def on_world_def split: prod.split)
  then have "sw_dht (snd (swarm_disconnect X d n)) = pr_remove d (sw_dht n)"
    by (auto simp: swarm_disconnect_def snd_sbind remove_transport_def split: prod.split option.split)
  ultimately show ?thesis using gone ring popped [OF m] by auto
qed

section \<open>Connecting over HTTP\<close>

text \<open>
  A failed connection over HTTP leaks its transport. When the remote call fails, the error
  is returned at once: the transport made for the offer stays in the list of pending ones and
  is not closed, since the node is left exactly as the call left it.
\<close>

lemma http_connect_leaks:
  assumes "proc_create_offer X n = (Inr (t, hs), n1)"
    and "no_call N url ''answerOffer'' [JString (encoded_value hs)] (sw_world n1) = (Inl e, w)"
  shows "proc_connect_peer_via_http X N url n = (Inl (RemoteRpcError e), n1\<lparr>sw_world := w\<rparr>)
    \<and> t \<in> set (sw_pending (n1\<lparr>sw_world := w\<rparr>))"
proof -
  have push: "push_pending_transport t k = (Inr (), k') \<Longrightarrow> t \<in> set (sw_pending k')"
    for t and k k' :: "('a, 'b) node"
    by (auto simp: push_pending_transport_def split: if_splits)
  have att: "attempt_node m k = (Inr r, k') \<longleftrightarrow> m k = (r, k') \<and> (\<forall>p. r \<noteq> Inl (NodePanicked p))"
    for m :: "('a, 'b, 'c) proc" and k k' r
    by (auto simp: attempt_node_def split: prod.split sum.split node_error.split)
  have "t \<in> set (sw_pending n1)"
    using assms(1) by (auto simp: proc_create_offer_def sbind_Inr att split: sum.split_asm)
       (metis push sum.exhaust)
  then show ?thesis
    using assms by (simp add: proc_connect_peer_via_http_def do_connect_peer_via_http_def)
qed

section \<open>Services\<close>

text \<open>Touching a virtual node puts the touched element last, after the newest of the others.\<close>

lemma touch_eq:
  assumes "vn_data v = [e]" "vn_kind this = Data" "vn_kind v = Data" "vn_did this = vn_did v"
  shows "vn_touch this v = Inr (v\<lparr>vn_data :=
    (let kept = filter (\<lambda>x. x \<noteq> e) (vn_data this) in drop (length kept - 1023) kept @ [e])\<rparr>)"
  using assms by (cases v) (simp add: vn_touch_def trim_num_eq Let_def)

lemma operate_or_send_local:
  assumes "vnode_operate (en_codec X) (en_persist X) op (sw_dht n) = (Inr PNone, s)"
  shows "operate_or_send X op n = (Inr (), n\<lparr>sw_dht := s\<rparr>)"
  using assms by (simp add: operate_or_send_def on_ring_def sbind_def)

lemma storage_fetch_local:
  assumes "vnode_lookup (en_persist X) (sw_dht n) vid = Inr (PSomeVNode v)" "vn_did v = vid"
  shows "\<exists>n'. storage_fetch X vid n = (Inr (), n') \<and> storage_check_cache n' vid = Some v"
  using assms by (auto simp: storage_fetch_def storage_check_cache_def local_cache_get_def local_cache_set_def)

text \<open>
  C27: a service that a node registers is found. When the service's name falls in the node's own
  arc of the ring, its slot in the storage is free or holds data, and the node's address survives
  its encoding, an authorised \<open>registerService\<close> succeeds, and a following \<open>lookupService\<close> of the
  same name answers with the addresses that the slot held before in their order, the newest 1023
  of them at most and without those that do not decode or encode the node's own, followed by the
  node's own.
\<close>

theorem service_registered_found:
  assumes "vnode_store (en_persist X) view ok" "ok (pr_storage (sw_dht n))" "in_arc (sw_dht n) rid"
    and "gen_did (en_codec X) name = Inr rid"
    and "encode_string (en_codec X) (no_addr N (sw_did n)) = Inr e"
    and "decode_string (en_codec X) e = Inr (no_addr N (sw_did n))"
    and "\<And>v. view (pr_storage (sw_dht n)) rid = Some v \<Longrightarrow> vn_kind v = Data \<and> vn_did v = rid"
    and "kept = filter (\<lambda>x. x \<noteq> e) (case view (pr_storage (sw_dht n)) rid of Some v \<Rightarrow> vn_data v | None \<Rightarrow> [])"
    and "others = List.map_filter (\<lambda>x. case decode_string (en_codec X) x of Inl _ \<Rightarrow> None | Inr s \<Rightarrow> Some s)
        (drop (length kept - 1023) kept)"
  shows "\<exists>n1 n2.
     rpc_register_service X N (ParamsArray [JString name]) True n = (Inr (JObject []), n1)
     \<and> rpc_lookup_service X (ParamsArray [JString name]) True n1
        = (Inr (JArray (map JString (others @ [no_addr N (sw_did n)]))), n2)"
proof -
  let ?v = "\<lparr>vn_did = rid, vn_data = [e], vn_kind = Data\<rparr>"
  let ?op = "Touch ?v"
  let ?s = "snd (vnode_operate (en_codec X) (en_persist X) ?op (sw_dht n))"
  obtain cur where cur: "(case view (pr_storage (sw_dht n)) rid of Some v \<Rightarrow> Inr v
      | None \<Rightarrow> gen_default_vnode (en_codec X) ?op) = Inr cur" "vn_kind cur = Data" "vn_did cur = rid"
      "filter (\<lambda>x. x \<noteq> e) (vn_data cur) = kept"
    using assms(7,8) by (cases "view (pr_storage (sw_dht n)) rid") (auto simp: gen_default_vnode_def)
  define w where "w = ?v\<lparr>vn_data := drop (length kept - 1023) kept @ [e]\<rparr>"
  have w: "vn_operate (en_codec X) cur ?op = Inr w" "vn_did w = rid"
    using touch_eq [of ?v e cur] cur by (simp_all add: w_def Let_def)
  have op: "op_did (en_codec X) ?op = Inr rid" by simp
  note stored = vnode_store.operate_then_lookup [OF assms(1,2,3) op cur(1) w(1)]
  have "vnode_operate (en_codec X) (en_persist X) ?op (sw_dht n) = (Inr PNone, ?s)"
    using stored by (metis prod.collapse)
  then have "operate_or_send X ?op n = (Inr (), n\<lparr>sw_dht := ?s\<rparr>)"
    by (rule operate_or_send_local)
  then have reg: "rpc_register_service X N (ParamsArray [JString name]) True n = (Inr (JObject []), n\<lparr>sw_dht := ?s\<rparr>)"
    by (simp add: rpc_register_service_def proc_register_service_def storage_touch_data_def
        vnode_of_topic_def core_result_def map_err_def parse_values_def params_value_def param_def
        list_get_def json_as_str_def assms(4,5))
  obtain n2 where fetch: "storage_fetch X rid (n\<lparr>sw_dht := ?s\<rparr>) = (Inr (), n2)" "storage_check_cache n2 rid = Some w"
    using storage_fetch_local [of X "n\<lparr>sw_dht := ?s\<rparr>" rid w] stored w(2) by auto
  have others: "decoded_strings (en_codec X) 0 (Some w) = JArray (map JString (others @ [no_addr N (sw_did n)]))"
    using assms(6) by (simp add: decoded_strings_def assms(9) w_def List.map_filter_def)
  have "rpc_lookup_service X (ParamsArray [JString name]) True (n\<lparr>sw_dht := ?s\<rparr>)
      = (Inr (JArray (map JString (others @ [no_addr N (sw_did n)]))), n2)"
    using fetch others
    by (simp add: rpc_lookup_service_def proc_storage_fetch_def proc_storage_check_cache_def
        map_err_def parse_values_def params_value_def param_def list_get_def json_as_str_def assms(4))
  then show ?thesis using reg by blast
qed

section \<open>A concrete handshake\<close>

text \<open>Transports that always succeed and never disconnect, and a node that uses them.\<close>

definition steady_ops :: "unit transport_ops" where
  "steady_ops = \<lparr>tr_new = (\<lambda>_ w. (7, w)), tr_start = (\<lambda>_ _ _. sret ()), tr_apply_callback = (\<lambda>_. sret ()),
     tr_close = (\<lambda>_. sret ()), tr_is_connected = (\<lambda>_ _. True), tr_is_disconnected = (\<lambda>_ _. False),
     tr_send_message = (\<lambda>_ _. sret ()), tr_wait_for_data_channel_open = (\<lambda>_. sret ()),
     tr_get_handshake_info = (\<lambda>_ _ _. sret (Encoded ''offer'')), tr_register_remote_info = (\<lambda>_ _. sret 2),
     tr_recv = (\<lambda>_. sret None), tr_now = (\<lambda>_. 0), tr_uuid = (\<lambda>w. (3, w))\<rparr>"

definition steady_env :: "((did, virtual_node) mem_storage, unit) env" where
  "steady_env = \<lparr>en_ecc = demo_ecc,
     en_codec = demo_codec\<lparr>b58_encode_check := from_utf8, b58_decode_check := (\<lambda>s. Some (as_bytes s))\<rparr>,
     en_json = (\<lambda>_. Some ''m''), en_bin = (\<lambda>_. None), en_unbin = (\<lambda>_. None),
     en_uuid_str = (\<lambda>_. ''id''), en_uuid_from_str = (\<lambda>_. Some 7), en_persist = mem_persist,
     en_transport = steady_ops\<rparr>"

definition steady_node :: "((did, virtual_node) mem_storage, unit) node" where
  "steady_node = \<lparr>sw_pending = [4, 7], sw_pending_locked = False, sw_transports = mem_new,
     sw_ice_servers = [], sw_external_address = None, sw_dht = pr_new_with_storage 1 3 mem_new,
     sw_measure = None, sw_session = demo_sm, sw_world = ()\<rparr>"

theorem accept_answer_completes_witness:
  "\<exists>n'. proc_accept_answer steady_env ''id'' ''ice'' steady_node = (Inr (2, 7), n')
     \<and> get_transport n' 2 = Some 7 \<and> sw_pending n' = [4]"
proof -
  obtain n' where n': "proc_accept_answer steady_env ''id'' ''ice'' steady_node = (Inr (2, 7), n')"
    by (simp add: proc_accept_answer_def parse_uuid_def steady_env_def steady_node_def steady_ops_def
        find_pending_transport_def on_world_def register_def is_connected_def is_disconnected_def
        set_transport_def mem_get_new pop_pending_transport_def attempt_node_def map_err_def sbind_def
        split: prod.split)
  from accept_answer_completes [OF n'] n' show ?thesis by (auto simp: steady_node_def)
qed

theorem service_registered_found_witness:
  "\<exists>n1 n2. rpc_register_service steady_env demo_ops (ParamsArray [JString ''web'']) True steady_node
       = (Inr (JObject []), n1)
     \<and> rpc_lookup_service steady_env (ParamsArray [JString ''web'']) True n1
       = (Inr (JArray [JString ''ab'']), n2)"
proof -
  have addr: "no_addr (demo_ops :: unit node_ops) d = ''ab''" for d by (simp add: demo_ops_def)
  have utf8: "from_utf8 (as_bytes ''ab'') = Some ''ab''"
    by (intro from_utf8_as_bytes utf8_ascii) simp
  have "vnode_store (en_persist steady_env) mem_get mem_wf" "mem_wf (pr_storage (sw_dht steady_node))"
    "in_arc (sw_dht steady_node) 6" "mem_get (pr_storage (sw_dht steady_node)) 6 = None"
    by (simp_all add: steady_env_def steady_node_def mem_vnodes.vnode_store_axioms in_arc_def mem_get_new)
  moreover have "gen_did (en_codec steady_env) ''web'' = Inr 6"
    by (simp add: gen_did_def did_from_str_def HashStr_from_def steady_env_def demo_codec_def
        as_bytes_def hex_byte_def)
  moreover have "encode_string (en_codec steady_env) ''ab'' = Inr (Encoded ''ab'')"
    "decode_string (en_codec steady_env) (Encoded ''ab'') = Inr ''ab''"
    by (simp_all add: encode_string_def decode_string_def decode_bytes_def steady_env_def utf8)
  ultimately show ?thesis
    using service_registered_found [of steady_env mem_get mem_wf steady_node 6 "''web''" demo_ops "Encoded ''ab''",
        OF _ _ _ _ _ _ _ refl refl]
    by (simp add: addr map_filter_simps)
qed

section \<open>A node of a wallet\<close>

lemma processor_new_parts:
  assumes "Processor_new_with_storage E parse open_db start now rand ui sig stuns name = Inr n"
  shows "sw_did n = ui_key_addr ui" "sw_session n = SessionManager_new sig (ui_auth ui) (ui_random_key ui)"
proof -
  have core: "core_result f r = Inr x \<longleftrightarrow> r = Inr x" for f :: "error \<Rightarrow> node_error" and r and x :: 'x
    by (cases r) (simp_all add: core_result_def)
  obtain b incr w where "builder_build E now rand (Some incr) w (builder_session_manager (ui_key_addr ui)
      (SessionManager_new sig (ui_auth ui) (ui_random_key ui)) b) = Inr n"
    using assms by (auto simp: Processor_new_with_storage_def Let_def rbind_eq_Inr core case_prod_unfold)
  then show "sw_did n = ui_key_addr ui" "sw_session n = SessionManager_new sig (ui_auth ui) (ui_random_key ui)"
    by (auto simp: builder_build_def builder_session_manager_def sw_did_def rbind_eq_Inr ok_or_def)
qed

text \<open>
  C15: a wallet's signature makes a node that speaks for the wallet. When the text that
  \<open>UnsignedInfo\<close> asks a wallet to sign has been signed by it in the EIP-191 format, the node that
  is started with the signature has the wallet's address as its identifier, and what it seals
  names that address and is accepted, as long as it is fresh, exactly until thirty days after
  the text was made: the wallet's key itself is not needed again.
\<close>

theorem wallet_node_accepted:
  assumes "ecdsa_ok E" "did_from_str C addr = Inr (secret_key_address E key)"
    and "UnsignedInfo_new E C rand t0 addr = Inr ui" "ui_auth_string E ui = Inr request"
    and "Processor_new_with_storage E parse open_db start t1 fresh ui (eip191_sign_raw E key request) stuns name = Inr n"
    and "MessagePayload_new E J t2 tx data (sw_session n) Origin relay = Inr p" "\<not> pl_is_expired now p"
  shows "sw_did n = secret_key_address E key \<and> pl_addr p = sw_did n
    \<and> (pl_verify E J now p \<longleftrightarrow> now \<le> t0 + ucast DEFAULT_SESSION_TTL_MS)"
proof -
  note n = processor_new_parts [OF assms(5)]
  have g: "(ui_auth ui, rand) = gen_unsign_info E rand t0 (secret_key_address E key) None (Some EIP191)"
      "ui_key_addr ui = secret_key_address E key" "ui_random_key ui = rand"
    using assms(2,3) by (auto simp: UnsignedInfo_new_def UnsignedInfo_new_with_signer_def gen_unsign_info_def Let_def)
  have json: "auth_to_json E (ui_auth ui) = Some request"
    using assms(4) by (auto simp: ui_auth_string_def authorized_info_to_string_def ok_or_def split: sum.splits option.splits)
  let ?sig = "eip191_sign_raw E key request" and ?sm = "sw_session n"
  have auth: "az_did (ai_authorizer (ui_auth ui)) = secret_key_address E key" "ai_signer (ui_auth ui) = EIP191"
      "ai_session_id (ui_auth ui) = secret_key_address E rand"
    using g(1) by (simp_all add: gen_unsign_info_def)
  have sm: "sk_session ?sm = Session_new ?sig (ui_auth ui)" "sk_session_key ?sm = rand"
    by (simp_all add: n(2) SessionManager_new_def g(3))
  have alive: "session_verify E now (sk_session ?sm) \<longleftrightarrow> now \<le> t0 + ucast DEFAULT_SESSION_TTL_MS"
    using gen_unsign_info_expiry [OF g(1), of now ?sig] eip191_sign_verify [OF assms(1), of request key] auth
    by (auto simp: session_verify_def sm authorized_info_to_string_def Session_new_def json not_less)
  then have valid: "sm_valid E now ?sm \<longleftrightarrow> now \<le> t0 + ucast DEFAULT_SESSION_TTL_MS"
    using auth(3) sm by (simp add: sm_valid_def Session_new_def)
  note p = MessagePayload_new_Inr [OF assms(6)]
  obtain msg where msg: "pack_msg J data t2 DEFAULT_TTL_MS = Inr msg" "pl_verification p =
      \<lparr>mv_session = sk_session ?sm, mv_ttl_ms = DEFAULT_TTL_MS, mv_ts_ms = t2, mv_sig = sm_sign E ?sm msg\<rparr>"
    using p(8) by blast
  have "mv_verify E J now (pl_verification p) data \<longleftrightarrow> now \<le> t0 + ucast DEFAULT_SESSION_TTL_MS"
    using mv_verify_fresh [OF assms(1) _ msg(1), of now ?sm] valid alive unfolding msg(2)
    by (auto simp: mv_verify_def)
  then show ?thesis
    using assms(7) p(1,3,7) n(1) g(2) auth(1) sm(1)
    by (simp add: pl_verify_def sm_authorizer_def Session_new_def)
qed

text \<open>Witness: the wallet of key 7.\<close>

theorem wallet_node_accepted_witness:
  "\<exists>(n :: (unit kv_storage, unit) node) (p :: message payload). sw_did n = secret_key_address demo_ecc [7]
     \<and> pl_addr p = sw_did n \<and> pl_verify demo_ecc (\<lambda>_. Some ''m'') 10000 p"
proof -
  let ?C = "demo_codec\<lparr>h160_from_str := (\<lambda>_. Some (secret_key_address demo_ecc [7]))\<rparr>" and ?J = "\<lambda>_ :: message. Some ''m''"
  let ?parse = "\<lambda>_ :: string. Some \<lparr>url_scheme = ''stun'', url_username = [], url_password = None, url_host = Some ''host'',
     url_port = None, url_path = []\<rparr>"
  have addr: "did_from_str ?C ''0x07'' = Inr (secret_key_address demo_ecc [7])" by (simp add: did_from_str_def)
  obtain ui where ui: "UnsignedInfo_new demo_ecc ?C [9] 1 ''0x07'' = Inr ui"
    by (simp add: UnsignedInfo_new_def UnsignedInfo_new_with_signer_def addr gen_unsign_info_def Let_def)
  have signed: "ui_auth_string demo_ecc ui = Inr ''auth''"
    by (simp add: ui_auth_string_def authorized_info_to_string_def) (simp add: demo_ecc_def)
  obtain n :: "(unit kv_storage, unit) node" where n: "Processor_new_with_storage demo_ecc ?parse (\<lambda>_ _. Some ())
      (\<lambda>_. (\<lambda>_ _ w. w, ())) 2 [8] ui (eip191_sign_raw demo_ecc [7] ''auth'') ''stun://host'' ''node'' = Inr n"
    by (simp add: Processor_new_with_storage_def kv_new_with_cap_and_name_def kv_new_with_cap_and_path_def Let_def
        core_result_def SwarmBuilder_new_def IceServer_from_str_def builder_build_def builder_session_manager_def)
  obtain p where p: "MessagePayload_new demo_ecc ?J 10000 9 (SearchVNode 7) (sw_session n) Origin
      (MessageRelay_new SEND [1] None (Some 2) 2) = Inr p"
    by (simp add: MessagePayload_new_def Let_def pack_msg_def)
  have fresh: "\<not> pl_is_expired 10000 p"
    by (rule fresh_not_expired [OF MessagePayload_new_Inr(5,6) [OF p]]) simp
  show ?thesis
    using wallet_node_accepted [OF demo_ecc_ok addr ui signed n p fresh]
    by (intro exI [of _ n] exI [of _ p]) (simp add: DEFAULT_SESSION_TTL_MS_def)
qed

end
