(* ===== verification/Browser.thy ===== *)
theory Browser
  imports ProcessorProps
begin

text \<open>
  The browser client, \<open>src/browser/client.rs\<close>: the methods of \<open>Client\<close> over the processor, and
  \<open>MessageCallbackInstance\<close>, the callback that puts the chunks of an answer together and calls
  JavaScript. A method answers with the Rust value that it serialises for JavaScript; turning
  the structs of strings into objects does not fail. An error of the core crate becomes a
  \<open>JsError\<close>, whose text nothing reads.
\<close>

record 'w client_ops =
  co_pubkey :: "'w \<Rightarrow> uuid \<Rightarrow> public_key option"
  co_to_base58 :: "bytes \<Rightarrow> string"

section \<open>Signers and unsigned information\<close>

datatype signer_mode = SmDEFAULT | SmEIP191 | SmEdDSA

fun signer_of_mode :: "signer_mode \<Rightarrow> signer" where
  "signer_of_mode SmDEFAULT = DEFAULT"
| "signer_of_mode SmEIP191 = EIP191"
| "signer_of_mode SmEdDSA = EdDSA"

datatype client_address_type = CaDEFAULT | CaED25519

fun address_type_of :: "client_address_type \<Rightarrow> address_type" where
  "address_type_of CaDEFAULT = AddrDefault"
| "address_type_of CaED25519 = AddrED25519"

fun address_type_to_string :: "client_address_type \<Rightarrow> string" where
  "address_type_to_string CaDEFAULT = ''default''"
| "address_type_to_string CaED25519 = ''ED25519''"

definition client_unsigned_info_new ::
  "ecc \<Rightarrow> codec \<Rightarrow> secret_key \<Rightarrow> u128 \<Rightarrow> string \<Rightarrow> node_error + unsigned_info" where
  "client_unsigned_info_new E C key now key_addr = UnsignedInfo_new E C key now key_addr"

definition client_unsigned_info_new_with_signer ::
  "ecc \<Rightarrow> codec \<Rightarrow> secret_key \<Rightarrow> u128 \<Rightarrow> string \<Rightarrow> signer_mode \<Rightarrow> node_error + unsigned_info" where
  "client_unsigned_info_new_with_signer E C key now key_addr sg =
     UnsignedInfo_new_with_signer E C key now key_addr (signer_of_mode sg)"

definition client_unsigned_info_new_with_address ::
  "ecc \<Rightarrow> codec \<Rightarrow> (string \<Rightarrow> bytes option) \<Rightarrow> secret_key \<Rightarrow> u128 \<Rightarrow> string \<Rightarrow> client_address_type
     \<Rightarrow> node_error + unsigned_info" where
  "client_unsigned_info_new_with_address E C from_base58 key now address addr_type =
     UnsignedInfo_new_with_address E C from_base58 key now address (address_type_of addr_type)"

definition client_unsigned_info_auth :: "ecc \<Rightarrow> unsigned_info \<Rightarrow> node_error + string" where
  "client_unsigned_info_auth E ui = ui_auth_string E ui"

definition js_err :: "error \<Rightarrow> node_error" where
  "js_err e = JsError []"

definition client_get_did ::
  "('s, 'w) env \<Rightarrow> 'w node_ops \<Rightarrow> string \<Rightarrow> client_address_type \<Rightarrow> node_error + did" where
  "client_get_did X N address addr_type =
     (case addr_type of
        CaDEFAULT \<Rightarrow>
          (case did_from_str (en_codec X) address of
             Inl _ \<Rightarrow> Inl (JsError ''invalid address'') | Inr d \<Rightarrow> Inr d)
      | CaED25519 \<Rightarrow>
          (case try_from_b58t (no_from_base58 N) address of
             Inl _ \<Rightarrow> Inl (JsError ''invalid address'')
           | Inr pubkey \<Rightarrow> Inr (public_key_address (en_ecc X) pubkey)))"

definition did_arg ::
  "('s, 'w) env \<Rightarrow> 'w node_ops \<Rightarrow> string \<Rightarrow> client_address_type option \<Rightarrow> node_error + did" where
  "did_arg X N address addr_type =
     client_get_did X N address (case addr_type of Some t \<Rightarrow> t | None \<Rightarrow> CaDEFAULT)"

section \<open>Peers\<close>

record client_peer =
  cp_address :: string
  cp_transport_pubkey :: string
  cp_transport_id :: string
  cp_state :: "string option"

definition client_peer_from ::
  "('s, 'w) env \<Rightarrow> 'w node_ops \<Rightarrow> 'w client_ops \<Rightarrow> ice_state option \<times> did \<times> uuid \<times> public_key \<Rightarrow> client_peer" where
  "client_peer_from X N J p = (case p of (st, address, transport_id, transport_pubkey) \<Rightarrow>
     \<lparr>cp_address = no_addr N address, cp_transport_pubkey = co_to_base58 J transport_pubkey,
      cp_transport_id = en_uuid_str X transport_id, cp_state = map_option from_rtc_ice_connection_state st\<rparr>)"

text \<open>\<open>pubkey\<close> of a transport whose remote description is not registered panics.\<close>

definition describe_peer ::
  "('s, 'w) env \<Rightarrow> 'w node_ops \<Rightarrow> 'w client_ops \<Rightarrow> 'w \<Rightarrow> peer \<Rightarrow> node_error + client_peer" where
  "describe_peer X N J w p =
     (let st = no_ice_state N w (snd p) in
      rbind (ok_or (co_pubkey J w (snd p)) (NodePanicked ''unwrap'')) (\<lambda>pubkey.
        Inr (client_peer_from X N J (st, fst p, snd p, pubkey))))"

definition describe ::
  "('s, 'w) env \<Rightarrow> 'w node_ops \<Rightarrow> 'w client_ops \<Rightarrow> peer \<Rightarrow> ('s, 'w, client_peer) proc" where
  "describe X N J p n = (describe_peer X N J (sw_world n) p, n)"

section \<open>The client\<close>

definition client_address :: "'w node_ops \<Rightarrow> ('s, 'w) node \<Rightarrow> string" where
  "client_address N n = no_addr N (sw_did n)"

definition client_connect_peer_via_http ::
  "('s, 'w) env \<Rightarrow> 'w node_ops \<Rightarrow> string \<Rightarrow> ('s, 'w, string) proc" where
  "client_connect_peer_via_http X N remote_url =
     sbind (proc_connect_peer_via_http X N remote_url) (\<lambda>transport. sret (en_uuid_str X transport))"

definition client_connect_with_address_without_wait ::
  "('s, 'w) env \<Rightarrow> 'w node_ops \<Rightarrow> 'w client_ops \<Rightarrow> string \<Rightarrow> client_address_type option \<Rightarrow> ('s, 'w, client_peer) proc" where
  "client_connect_with_address_without_wait X N J address addr_type =
     sbind (slift (did_arg X N address addr_type)) (\<lambda>d.
     sbind (proc_connect_with_did X d False) (\<lambda>peer. describe X N J peer))"

definition client_connect_with_address ::
  "('s, 'w) env \<Rightarrow> 'w node_ops \<Rightarrow> 'w client_ops \<Rightarrow> string \<Rightarrow> client_address_type option \<Rightarrow> ('s, 'w, client_peer) proc" where
  "client_connect_with_address X N J address addr_type =
     sbind (slift (did_arg X N address addr_type)) (\<lambda>d.
     sbind (proc_connect_with_did X d True) (\<lambda>peer. describe X N J peer))"

definition client_create_offer :: "('s, 'w) env \<Rightarrow> ('s, 'w, transport_and_ice) proc" where
  "client_create_offer X = sbind (proc_create_offer X) (\<lambda>peer. sret (TransportAndIce_from X peer))"

definition client_answer_offer :: "('s, 'w) env \<Rightarrow> string \<Rightarrow> ('s, 'w, transport_and_ice) proc" where
  "client_answer_offer X ice_info =
     sbind (proc_answer_offer X ice_info) (\<lambda>(transport, handshake_info).
       sret (TransportAndIce_from X (transport, handshake_info)))"

definition client_accept_answer ::
  "('s, 'w) env \<Rightarrow> 'w node_ops \<Rightarrow> 'w client_ops \<Rightarrow> string \<Rightarrow> string \<Rightarrow> ('s, 'w, client_peer) proc" where
  "client_accept_answer X N J transport_id ice =
     sbind (proc_accept_answer X transport_id ice) (\<lambda>peer. describe X N J peer)"

definition client_list_peers ::
  "('s, 'w) env \<Rightarrow> 'w node_ops \<Rightarrow> 'w client_ops \<Rightarrow> ('s, 'w, client_peer list) proc" where
  "client_list_peers X N J =
     sbind proc_list_peers (\<lambda>peers n. (rmap (describe_peer X N J (sw_world n)) peers, n))"

definition client_disconnect ::
  "('s, 'w) env \<Rightarrow> 'w node_ops \<Rightarrow> string \<Rightarrow> client_address_type option \<Rightarrow> ('s, 'w, string) proc" where
  "client_disconnect X N address addr_type =
     sbind (slift (did_arg X N address addr_type)) (\<lambda>d.
     sbind (proc_disconnect X d) (\<lambda>_. sret (no_addr N d)))"

definition client_list_pendings :: "('s, 'w) env \<Rightarrow> ('s, 'w, string list) proc" where
  "client_list_pendings X = sbind proc_list_pendings (\<lambda>pendings. sret (map (en_uuid_str X) pendings))"

definition client_close_pending_transport :: "('s, 'w) env \<Rightarrow> string \<Rightarrow> ('s, 'w, string) proc" where
  "client_close_pending_transport X transport_id =
     sbind (proc_close_pending_transport X transport_id) (\<lambda>_. sret transport_id)"

definition client_get_peer ::
  "('s, 'w) env \<Rightarrow> 'w node_ops \<Rightarrow> 'w client_ops \<Rightarrow> string \<Rightarrow> client_address_type option \<Rightarrow> ('s, 'w, client_peer) proc" where
  "client_get_peer X N J address addr_type =
     sbind (slift (did_arg X N address addr_type)) (\<lambda>d.
     sbind (proc_get_peer d) (\<lambda>peer. describe X N J peer))"

definition client_transport_state ::
  "('s, 'w) env \<Rightarrow> 'w node_ops \<Rightarrow> string \<Rightarrow> client_address_type option \<Rightarrow> ('s, 'w, string option) proc" where
  "client_transport_state X N address addr_type =
     sbind (slift (did_arg X N address addr_type)) (\<lambda>d.
     sbind (sget (\<lambda>n. get_transport n d)) (\<lambda>t.
     sbind (slift (ok_or t (JsError ''transport not found''))) (\<lambda>transport.
       sget (\<lambda>n. ice_state_string N (sw_world n) transport))))"

definition client_wait_for_data_channel_open ::
  "('s, 'w) env \<Rightarrow> 'w node_ops \<Rightarrow> string \<Rightarrow> client_address_type option \<Rightarrow> ('s, 'w, unit) proc" where
  "client_wait_for_data_channel_open X N address addr_type =
     sbind (slift (did_arg X N address addr_type)) (\<lambda>d.
     sbind (proc_get_peer d) (\<lambda>peer.
     sbind (attempt_node (core js_err
              (on_world (tr_wait_for_data_channel_open (en_transport X) (snd peer))))) (\<lambda>_.
       sret ())))"

section \<open>Storage and messages\<close>

definition client_storage_check_cache ::
  "('s, 'w) env \<Rightarrow> 'w node_ops \<Rightarrow> string \<Rightarrow> client_address_type option \<Rightarrow> ('s, 'w, virtual_node option) proc" where
  "client_storage_check_cache X N address addr_type =
     sbind (slift (did_arg X N address addr_type)) proc_storage_check_cache"

definition client_storage_fetch ::
  "('s, 'w) env \<Rightarrow> 'w node_ops \<Rightarrow> string \<Rightarrow> client_address_type option \<Rightarrow> ('s, 'w, unit) proc" where
  "client_storage_fetch X N address addr_type =
     sbind (slift (did_arg X N address addr_type)) (\<lambda>d.
     sbind (proc_storage_fetch X d) (\<lambda>_. sret ()))"

definition client_storage_store :: "('s, 'w) env \<Rightarrow> string \<Rightarrow> ('s, 'w, unit) proc" where
  "client_storage_store X data =
     sbind (slift (core_result js_err (vnode_of_string (en_codec X) data))) (\<lambda>vnode_info.
     sbind (proc_storage_store X vnode_info) (\<lambda>_. sret ()))"

definition client_send_message ::
  "('s, 'w) env \<Rightarrow> 'w backend_ops \<Rightarrow> string \<Rightarrow> bytes \<Rightarrow> ('s, 'w, bool) proc" where
  "client_send_message X B destination msg =
     sbind (proc_send_message X B destination msg) (\<lambda>_. sret True)"

definition client_send_simple_text_message ::
  "('s, 'w) env \<Rightarrow> 'w backend_ops \<Rightarrow> string \<Rightarrow> string \<Rightarrow> ('s, 'w, string) proc" where
  "client_send_simple_text_message X B destination txt =
     sbind (proc_send_simple_text_message X B destination txt) (\<lambda>tx_id. sret (en_uuid_str X tx_id))"

definition client_send_custom_message ::
  "('s, 'w) env \<Rightarrow> 'w backend_ops \<Rightarrow> string \<Rightarrow> u16 \<Rightarrow> bytes \<Rightarrow> ('s, 'w, string) proc" where
  "client_send_custom_message X B destination message_type data =
     sbind (proc_send_custom_message X B destination message_type data (replicate 30 0)) (\<lambda>tx_id.
       sret (en_uuid_str X tx_id))"

text \<open>
  The headers as a JavaScript value: the entries of an object, those of an array under its
  indices. An entry whose value is not a string is passed over.
\<close>

datatype js_value = JsNull | JsString string | JsArray "js_value list" | JsObject "(string \<times> js_value) list"
  | JsOther

definition js_entries :: "js_value \<Rightarrow> js_value list" where
  "js_entries v = (case v of
       JsObject kvs \<Rightarrow> map (\<lambda>(k, x). JsArray [JsString k, x]) kvs
     | JsArray xs \<Rightarrow> map (\<lambda>(i, x). JsArray [JsString (show_nat i), x]) (enumerate 0 xs)
     | _ \<Rightarrow> [])"

definition header_of_entry :: "js_value \<Rightarrow> (string \<times> string) option" where
  "header_of_entry e = (case e of
       JsArray [JsString k, JsString v] \<Rightarrow> Some (k, v)
     | _ \<Rightarrow> None)"

definition js_headers :: "js_value \<Rightarrow> (string \<times> string) list" where
  "js_headers headers = List.map_filter header_of_entry (js_entries headers)"

definition client_send_http_request ::
  "('s, 'w) env \<Rightarrow> 'w backend_ops \<Rightarrow> string \<Rightarrow> string \<Rightarrow> string \<Rightarrow> string \<Rightarrow> timeout \<Rightarrow> js_value
     \<Rightarrow> bytes option \<Rightarrow> ('s, 'w, string) proc" where
  "client_send_http_request X B destination name meth url timeout headers body =
     sbind (slift (ok_or (be_parse_method B meth) (JsError []))) (\<lambda>meth.
     let headers = js_headers headers; b = body in
     sbind (proc_send_http_request_message X B destination name meth url timeout headers b) (\<lambda>tx_id.
       sret (en_uuid_str X tx_id)))"

text \<open>\<open>lookup_service\<close> sleeps half a second before it reads the cache; nothing runs meanwhile here.\<close>

definition client_lookup_service :: "('s, 'w) env \<Rightarrow> string \<Rightarrow> ('s, 'w, string list) proc" where
  "client_lookup_service X name =
     sbind (slift (core_result js_err (gen_did (en_codec X) name))) (\<lambda>rid.
     sbind (proc_storage_fetch X rid) (\<lambda>_.
     sbind (proc_storage_check_cache rid) (\<lambda>result.
       case result of
         Some vnode \<Rightarrow> sret (List.map_filter
           (\<lambda>e. case decode_string (en_codec X) e of Inl _ \<Rightarrow> None | Inr s \<Rightarrow> Some s) (vn_data vnode))
       | None \<Rightarrow> sret [])))"


section \<open>The message callback\<close>

text \<open>
  What a call of a JavaScript function comes to: it throws, returns a plain value, or returns a
  promise that is awaited and resolves or rejects.
\<close>

datatype js_call = JsThrew | JsPlain | JsResolved | JsRejected

text \<open>
  A \<open>MessageCallbackInstance\<close>: its three functions, its chunk list behind the mutex, and the
  (de)serialisers its methods use.
\<close>

record 'w callback_instance =
  mci_custom_message :: "js_value \<Rightarrow> bytes \<Rightarrow> 'w \<Rightarrow> js_call \<times> 'w"
  mci_http_response_message :: "js_value \<Rightarrow> js_value \<Rightarrow> 'w \<Rightarrow> js_call \<times> 'w"
  mci_builtin_message :: "js_value \<Rightarrow> 'w \<Rightarrow> js_call \<times> 'w"
  mci_chunk_list :: "'w \<Rightarrow> chunk list"
  mci_set_chunk_list :: "chunk list \<Rightarrow> 'w \<Rightarrow> 'w"
  mci_ser_relay :: "message payload \<Rightarrow> js_value option"
  mci_ser_response :: "http_response \<Rightarrow> js_value option"
  mci_gunzip :: "bytes \<Rightarrow> bytes option"
  mci_de_response :: "bytes \<Rightarrow> http_response option"
  mci_de_chunk :: "bytes \<Rightarrow> chunk option"

definition anyhow :: node_error where
  "anyhow = JsError []"

definition js_invoke :: "('w \<Rightarrow> js_call \<times> 'w) \<Rightarrow> ('s, 'w, js_call) proc" where
  "js_invoke f n = (case f (sw_world n) of (r, w) \<Rightarrow> (Inr r, n\<lparr>sw_world := w\<rparr>))"

definition mci_handle_simple_text_message ::
  "'w callback_instance \<Rightarrow> message payload \<Rightarrow> bytes \<Rightarrow> ('s, 'w, unit) proc" where
  "mci_handle_simple_text_message I relay data =
     (let msg_content = data in
      sbind (slift (unwrap_or_panic (mci_ser_relay I relay))) (\<lambda>relay.
      sbind (js_invoke (mci_custom_message I relay msg_content)) (\<lambda>r.
      if r = JsRejected then serr anyhow else sret ())))"

definition mci_handle_http_response ::
  "'w callback_instance \<Rightarrow> message payload \<Rightarrow> bytes \<Rightarrow> ('s, 'w, unit) proc" where
  "mci_handle_http_response I relay data =
     sbind (slift (unwrap_or_panic (mci_gunzip I data))) (\<lambda>msg_content.
     sbind (slift (ok_or (mci_de_response I msg_content) anyhow)) (\<lambda>http_response.
     sbind (slift (ok_or (mci_ser_response I http_response) anyhow)) (\<lambda>msg_content.
     sbind (slift (ok_or (mci_ser_relay I relay) anyhow)) (\<lambda>relay.
     sbind (js_invoke (mci_http_response_message I relay msg_content)) (\<lambda>_. sret ())))))"

definition mci_handle_message_data ::
  "'w callback_instance \<Rightarrow> message payload \<Rightarrow> bytes \<Rightarrow> ('s, 'w, unit) proc" where
  "mci_handle_message_data I relay data =
     sbind (slift (case bm_try_from data of Inl _ \<Rightarrow> Inl anyhow | Inr m \<Rightarrow> Inr m)) (\<lambda>m.
     case message_type_of_u16 (bm_message_type m) of
       MtSimpleText \<Rightarrow> mci_handle_simple_text_message I relay (bm_data m)
     | MtHttpResponse \<Rightarrow> mci_handle_http_response I relay (bm_data m)
     | _ \<Rightarrow> sret ())"

definition mci_handle_chunk_data ::
  "('s, 'w) env \<Rightarrow> 'w callback_instance \<Rightarrow> bytes \<Rightarrow> ('s, 'w, bytes option) proc" where
  "mci_handle_chunk_data X I data =
     sbind (slift (case chunk_from_bincode (mci_de_chunk I) data of Inl _ \<Rightarrow> Inl anyhow | Inr c \<Rightarrow> Inr c)) (\<lambda>chunk_item.
     \<lambda>n. case cl_handle (tr_now (en_transport X) (sw_world n)) chunk_item (mci_chunk_list I (sw_world n)) of
           (data, l) \<Rightarrow> (Inr data, n\<lparr>sw_world := mci_set_chunk_list I l (sw_world n)\<rparr>))"

text \<open>
  \<open>custom_message\<close>: messages of less than two bytes are dropped, \<open>array_refs\<close> needs four.
  The errors of the helpers are only logged; their panics go on.
\<close>

definition mci_custom ::
  "('s, 'w) env \<Rightarrow> custom_message cipher \<Rightarrow> 'w callback_instance \<Rightarrow> message payload
     \<Rightarrow> custom_message maybe_encrypted \<Rightarrow> (('s, 'w) node, unit) action" where
  "mci_custom X Z I relay msg =
     sbind (sget (\<lambda>n. decrypt_msg Z n msg)) (\<lambda>r.
     case r of
       Inl _ \<Rightarrow> sret ()
     | Inr msg \<Rightarrow>
         if length msg < 2 then sret ()
         else if length msg < 4 then serr (Panicked ''array_refs'')
         else let left = take 4 msg; right = drop 4 msg; tag = left ! 0 in
           sbind (if tag = 1 then
                    sbind (panic_of (attempt_node (mci_handle_chunk_data X I right))) (\<lambda>data.
                      case data of Inl _ \<Rightarrow> sret None | Inr data \<Rightarrow> sret data)
                  else if tag = 0 then sret (Some right)
                  else sret None) (\<lambda>data.
           case data of
             None \<Rightarrow> sret ()
           | Some data \<Rightarrow>
               sbind (panic_of (attempt_node (mci_handle_message_data I relay data))) (\<lambda>_. sret ())))"

definition mci_builtin :: "'w callback_instance \<Rightarrow> message payload \<Rightarrow> (('s, 'w) node, unit) action" where
  "mci_builtin I relay =
     panic_of (sbind (slift (unwrap_or_panic (mci_ser_relay I relay))) (\<lambda>relay.
       sbind (js_invoke (mci_builtin_message I relay)) (\<lambda>_. sret ())))"

definition browser_callback ::
  "('s, 'w) env \<Rightarrow> custom_message cipher \<Rightarrow> 'w callback_instance \<Rightarrow> ('s, 'w) message_callback" where
  "browser_callback X Z I =
     \<lparr>cb_custom_message = mci_custom X Z I, cb_builtin_message = mci_builtin I\<rparr>"

end
