(* ===== verification/BrowserProps.thy ===== *)
theory BrowserProps
  imports Browser
begin

text \<open>
  What the browser client does: it serves the same node as the JSON-RPC interface, its callback
  moves a node only along the relations the node's own operations do, and it puts together the
  answers to HTTP requests that the backend of a node sends in chunks.
\<close>

section \<open>The same node as the JSON-RPC interface\<close>

lemma u16_of_ucast [simp]: "u16_of_u64 (ucast t) = Some t"
proof -
  have "unat t < 2 ^ 16" using unsigned_less [where ?'a = nat, of t] by simp
  then have "(ucast t :: 64 word) < 2 ^ 16" by (simp add: word_less_nat_alt unsigned_ucast_eq take_bit_nat_eq_self)
  moreover have "ucast (ucast t :: 64 word) = t"
    by (rule bit_word_eqI) (simp add: bit_simps)
  ultimately show ?thesis by (simp add: u16_of_u64_def)
qed

lemma snd_sbind_same: "(\<And>x s. snd (f x s) = s) \<Longrightarrow> snd (sbind m f s) = snd (m s)"
  by (simp add: sbind_def split: prod.split sum.split)

lemma describe_same [simp]: "snd (describe X N J p n) = n"
  by (simp add: describe_def)

lemmas client_pairs =
  rpc_connect_peer_via_http_def client_connect_peer_via_http_def
  rpc_create_offer_def client_create_offer_def rpc_answer_offer_def client_answer_offer_def
  rpc_close_connection_def client_disconnect_def
  rpc_close_pending_transport_def client_close_pending_transport_def
  rpc_send_simple_text_message_def client_send_simple_text_message_def proc_send_simple_text_message_def
  rpc_send_custom_message_def client_send_custom_message_def proc_send_custom_message_def
  rpc_send_http_request_message_def client_send_http_request_def proc_send_http_request_message_def

lemma client_lookup_equals:
  assumes "gen_did (en_codec X) name = Inr rid"
  shows "rpc_lookup_service X (ParamsArray [JString name]) True
      = proc (map_value (\<lambda>ss. JArray (map JString ss)) (client_lookup_service X name))"
proof -
  have c: "proc (map_value (\<lambda>ss. JArray (map JString ss)) (case v of
        Some vnode \<Rightarrow> sret (List.map_filter
          (\<lambda>e. case decode_string (en_codec X) e of Inl _ \<Rightarrow> None | Inr s \<Rightarrow> Some s) (vn_data vnode))
      | None \<Rightarrow> sret [])) = sret (decoded_strings (en_codec X) 0 v)" for v
    by (cases v) (simp_all add: decoded_strings_def)
  show ?thesis
    by (simp add: rpc_lookup_service_def client_lookup_service_def core_result_def rpc_params map_err_sbind assms c)
qed

text \<open>A peer as the interface shows it, and the transports of a list of them.\<close>

definition client_peer_json :: "client_peer \<Rightarrow> json" where
  "client_peer_json c = peer_info_json (peer_info_from (cp_address c) (cp_transport_id c) (cp_state c))"

definition listed_ids :: "json \<Rightarrow> string option list" where
  "listed_ids j = (case j of
       JArray xs \<Rightarrow> map (\<lambda>x. case x of JObject kvs \<Rightarrow> Option.bind (map_of kvs ''transport_id'') json_as_str | _ \<Rightarrow> None) xs
     | _ \<Rightarrow> [])"

lemma described_peer_json:
  "describe_peer X N J w p = Inr c \<Longrightarrow> client_peer_json c = peer_json X N w p"
  by (auto simp: describe_peer_def client_peer_from_def client_peer_json_def peer_json_def ice_state_string_def
      Let_def rbind_eq_Inr split: prod.splits)

lemma described_peers_json:
  "rmap (describe_peer X N J w) ps = Inr cs \<Longrightarrow> map client_peer_json cs = map (peer_json X N w) ps"
proof (induction ps arbitrary: cs)
  case (Cons p ps)
  then show ?case by (auto simp: rbind_eq_Inr described_peer_json)
qed simp

lemma client_lists_equal:
  "fst (client_list_peers X N J n) = Inr ps \<Longrightarrow>
     fst (rpc_list_peers X N p True n) = Inr (JArray (map client_peer_json ps))"
  "snd (rpc_list_peers X N p True n) = snd (client_list_peers X N J n)"
  "map_value listed_ids (rpc_list_pendings X N p True) = proc (map_value (map Some) (client_list_pendings X))"
proof -
  show "fst (client_list_peers X N J n) = Inr ps \<Longrightarrow>
     fst (rpc_list_peers X N p True n) = Inr (JArray (map client_peer_json ps))"
    by (simp add: client_list_peers_def rpc_list_peers_def proc_list_peers_def require_authed_def sbind_def
        map_err_def described_peers_json)
  show "snd (rpc_list_peers X N p True n) = snd (client_list_peers X N J n)"
    by (simp add: client_list_peers_def rpc_list_peers_def proc_list_peers_def require_authed_def sbind_def map_err_def)
  have "listed_ids (JArray (map (\<lambda>t. transport_info_json (TransportInfo_new (f t) (g t))) ts)) = map (Some \<circ> f) ts"
    for f g and ts :: "uuid list"
    by (simp add: listed_ids_def transport_info_json_def TransportInfo_new_def json_as_str_def)
  then show "map_value listed_ids (rpc_list_pendings X N p True) = proc (map_value (map Some) (client_list_pendings X))"
    by (auto simp: client_list_pendings_def rpc_list_pendings_def require_authed_def map_value_def sbind_def map_err_def
        fun_eq_iff split: prod.split sum.split)
qed

lemma client_connects_equal:
  assumes "did_from_str (en_codec X) address = Inr d"
  shows "snd (rpc_connect_with_did X (ParamsArray [JString address]) True n)
      = snd (client_connect_with_address X N J address None n)"
    and "snd (rpc_accept_answer X N (ParamsArray [JString i, JString ice]) True n)
      = snd (client_accept_answer X N J i ice n)"
    and "fst (client_connect_with_address X N J address None n) = Inr c \<Longrightarrow>
      fst (rpc_connect_with_did X (ParamsArray [JString address]) True n) = Inr JNull"
    and "fst (client_accept_answer X N J i ice n) = Inr c \<Longrightarrow>
      fst (rpc_accept_answer X N (ParamsArray [JString i, JString ice]) True n) = Inr (client_peer_json c)"
proof -
  show "snd (rpc_connect_with_did X (ParamsArray [JString address]) True n)
      = snd (client_connect_with_address X N J address None n)"
    "snd (rpc_accept_answer X N (ParamsArray [JString i, JString ice]) True n)
      = snd (client_accept_answer X N J i ice n)"
    by (simp_all add: rpc_connect_with_did_def rpc_accept_answer_def client_connect_with_address_def
        client_accept_answer_def rpc_params did_arg_def client_get_did_def assms snd_sbind_same)
  show "fst (client_connect_with_address X N J address None n) = Inr c \<Longrightarrow>
      fst (rpc_connect_with_did X (ParamsArray [JString address]) True n) = Inr JNull"
    by (auto simp: rpc_connect_with_did_def client_connect_with_address_def rpc_params did_arg_def client_get_did_def
        assms sbind_def map_err_def split: prod.splits sum.splits)
  show "fst (client_accept_answer X N J i ice n) = Inr c \<Longrightarrow>
      fst (rpc_accept_answer X N (ParamsArray [JString i, JString ice]) True n) = Inr (client_peer_json c)"
    by (auto simp: rpc_accept_answer_def client_accept_answer_def rpc_params sbind_def map_err_def describe_def
        described_peer_json split: prod.splits sum.splits)
qed


section \<open>Along a relation\<close>

locale browsing_relation = serving_relation X R N B
  for X :: "('s, 'w) env" and R N B +
  fixes I :: "'w callback_instance"
  assumes custom_step: "R n (n\<lparr>sw_world := snd (mci_custom_message I r m (sw_world n))\<rparr>)"
    and http_response_step: "R n (n\<lparr>sw_world := snd (mci_http_response_message I r h (sw_world n))\<rparr>)"
    and builtin_step: "R n (n\<lparr>sw_world := snd (mci_builtin_message I r (sw_world n))\<rparr>)"
    and chunk_list_step: "R n (n\<lparr>sw_world := mci_set_chunk_list I l (sw_world n)\<rparr>)"
begin

lemma invoke:
  "keeps R (js_invoke (mci_custom_message I r m))" "keeps R (js_invoke (mci_http_response_message I r h))"
  "keeps R (js_invoke (mci_builtin_message I r))"
  unfolding keeps_def js_invoke_def using custom_step http_response_step builtin_step
  by (auto split: prod.split) (metis snd_conv)+

lemma message_data: "keeps R (mci_handle_message_data I relay data)"
  unfolding mci_handle_message_data_def mci_handle_simple_text_message_def mci_handle_http_response_def Let_def
  by (auto intro!: node_bind invoke split: message_type.split)

lemma chunk_data: "keeps R (mci_handle_chunk_data X I data)"
proof -
  have "keeps R (\<lambda>n. case cl_handle (tr_now (en_transport X) (sw_world n)) c (mci_chunk_list I (sw_world n)) of
      (data, l) \<Rightarrow> (Inr data, n\<lparr>sw_world := mci_set_chunk_list I l (sw_world n)\<rparr>))" for c
    unfolding keeps_def using chunk_list_step by (auto split: prod.split)
  then show ?thesis unfolding mci_handle_chunk_data_def by (intro node_bind)
qed

lemma pair: "keeps R (Pair r)"
  using reflpD [OF refl] by (simp add: keeps_def)

lemma custom: "keeps R (mci_custom X Z I relay msg)"
  unfolding mci_custom_def Let_def
  by (intro node_bind)
     (auto intro!: node_bind pair panic_of chunk_data message_data split: sum.split option.split)

lemma builtin: "keeps R (mci_builtin I relay)"
  unfolding mci_builtin_def by (intro panic_of node_bind invoke)

lemma browser_good:
  "good_handler R \<lparr>mh_callback = Some (browser_callback X Z I), mh_validator = None\<rparr>"
  unfolding good_handler_def validate_def invoke_callback_def browser_callback_def
  by (auto intro!: node_bind custom builtin split: message.split)

end

interpretation browsing_ring: browsing_relation X ring_moves N B I for X N B I
  by unfold_locales simp_all


section \<open>Runs of a browser client\<close>

text \<open>
  A client listens with its callback instance and is asked anything by JavaScript, in any order.
\<close>

definition browser_handler ::
  "('s, 'w) env \<Rightarrow> custom_message cipher \<Rightarrow> 'w callback_instance \<Rightarrow> ('s, 'w) message_handler" where
  "browser_handler X Z I = \<lparr>mh_callback = Some (browser_callback X Z I), mh_validator = None\<rparr>"

inductive client_step ::
  "('s, 'w) env \<Rightarrow> 'w node_ops \<Rightarrow> 'w backend_ops \<Rightarrow> 'w client_ops \<Rightarrow> 'w callback_instance
     \<Rightarrow> ('s, 'w) node \<Rightarrow> ('s, 'w) node \<Rightarrow> bool"
  for X N B J I where
  cs_node: "node_step X (browser_handler X (be_cipher B) I) n n' \<Longrightarrow> client_step X N B J I n n'"
| cs_http: "client_step X N B J I n (snd (client_connect_peer_via_http X N url n))"
| cs_connect: "client_step X N B J I n (snd (client_connect_with_address X N J addr ty n))"
| cs_connect_nowait: "client_step X N B J I n (snd (client_connect_with_address_without_wait X N J addr ty n))"
| cs_offer: "client_step X N B J I n (snd (client_create_offer X n))"
| cs_answer: "client_step X N B J I n (snd (client_answer_offer X ice n))"
| cs_accept: "client_step X N B J I n (snd (client_accept_answer X N J i ice n))"
| cs_peers: "client_step X N B J I n (snd (client_list_peers X N J n))"
| cs_disconnect: "client_step X N B J I n (snd (client_disconnect X N addr ty n))"
| cs_pendings: "client_step X N B J I n (snd (client_list_pendings X n))"
| cs_close_pending: "client_step X N B J I n (snd (client_close_pending_transport X i n))"
| cs_peer: "client_step X N B J I n (snd (client_get_peer X N J addr ty n))"
| cs_state: "client_step X N B J I n (snd (client_transport_state X N addr ty n))"
| cs_wait: "client_step X N B J I n (snd (client_wait_for_data_channel_open X N addr ty n))"
| cs_cache: "client_step X N B J I n (snd (client_storage_check_cache X N addr ty n))"
| cs_fetch: "client_step X N B J I n (snd (client_storage_fetch X N addr ty n))"
| cs_store: "client_step X N B J I n (snd (client_storage_store X s n))"
| cs_send: "client_step X N B J I n (snd (client_send_message X B dest bs n))"
| cs_text: "client_step X N B J I n (snd (client_send_simple_text_message X B dest s n))"
| cs_custom: "client_step X N B J I n (snd (client_send_custom_message X B dest mt bs n))"
| cs_request: "client_step X N B J I n (snd (client_send_http_request X B dest name meth url tmo hs body n))"
| cs_lookup: "client_step X N B J I n (snd (client_lookup_service X name n))"

inductive client_reachable ::
  "('s, 'w) env \<Rightarrow> 'w node_ops \<Rightarrow> 'w backend_ops \<Rightarrow> 'w client_ops \<Rightarrow> 'w callback_instance
     \<Rightarrow> ('s, 'w) node \<Rightarrow> bool"
  for X N B J I where
  cr_build: "builder_build E now key counter w b = Inr n \<Longrightarrow> client_reachable X N B J I n"
| cr_step: "client_reachable X N B J I n \<Longrightarrow> client_step X N B J I n n'
    \<Longrightarrow> client_reachable X N B J I n'"

context browsing_relation
begin

lemma describing: "keeps R (describe X N J p)"
  using reflpD [OF refl] by (simp add: keeps_def describe_def)

lemma peer_of: "keeps R (proc_get_peer d)"
  unfolding proc_get_peer_def by (intro node_bind)

lemma lookup_case: "keeps R (case v of Some x \<Rightarrow> sret (f x) | None \<Rightarrow> sret y)"
  by (cases v) (simp_all add: pure)

lemma client_connecting:
  "keeps R (client_connect_peer_via_http X N url)" "keeps R (client_connect_with_address X N J addr ty)"
  "keeps R (client_connect_with_address_without_wait X N J addr ty)"
  "keeps R (client_create_offer X)" "keeps R (client_answer_offer X ice)"
  "keeps R (client_accept_answer X N J i ice)" "keeps R (client_disconnect X N addr ty)"
  "keeps R (client_close_pending_transport X i)"
  unfolding client_connect_peer_via_http_def client_connect_with_address_def
    client_connect_with_address_without_wait_def client_create_offer_def client_answer_offer_def
    client_accept_answer_def client_disconnect_def client_close_pending_transport_def
  by (auto intro!: node_bind http_connect proc_connecting create_offer answer_offer accept_answer describing)

lemma client_reading:
  "keeps R (client_list_peers X N J)" "keeps R (client_list_pendings X)"
  "keeps R (client_get_peer X N J addr ty)" "keeps R (client_transport_state X N addr ty)"
  "keeps R (client_wait_for_data_channel_open X N addr ty)" "keeps R (client_storage_check_cache X N addr ty)"
proof -
  have described: "keeps R (\<lambda>n. (rmap (describe_peer X N J (sw_world n)) peers, n))" for peers
    using reflpD [OF refl] by (simp add: keeps_def)
  show "keeps R (client_list_peers X N J)" "keeps R (client_list_pendings X)"
    "keeps R (client_get_peer X N J addr ty)" "keeps R (client_transport_state X N addr ty)"
    "keeps R (client_wait_for_data_channel_open X N addr ty)" "keeps R (client_storage_check_cache X N addr ty)"
    unfolding client_list_peers_def client_list_pendings_def client_get_peer_def client_transport_state_def
      client_wait_for_data_channel_open_def client_storage_check_cache_def
    by (intro node_bind proc_reading peer_of describing described on_world_keeps)+
qed

lemma client_sending:
  "keeps R (client_send_message X B dest bs)" "keeps R (client_send_simple_text_message X B dest s)"
  "keeps R (client_send_custom_message X B dest mt bs)"
  "keeps R (client_send_http_request X B dest name meth url tmo hs body)"
  unfolding client_send_message_def client_send_simple_text_message_def client_send_custom_message_def
    client_send_http_request_def proc_send_simple_text_message_def proc_send_custom_message_def
    proc_send_http_request_message_def Let_def
  by (intro node_bind proc_sending)+

lemma client_storing:
  "keeps R (client_storage_fetch X N addr ty)" "keeps R (client_storage_store X s)"
  "keeps R (client_lookup_service X name)"
  unfolding client_storage_fetch_def client_storage_store_def client_lookup_service_def
    proc_storage_store_def
  by (intro node_bind proc_storing proc_reading storing lookup_case)+

end

lemma client_step_moves:
  assumes "client_step X N B J I n n'"
  shows "ring_moves n n'"
  using assms
proof (cases rule: client_step.cases)
  case cs_node
  then show ?thesis
    by (rule node_step_moves) (simp add: browser_handler_def browsing_ring.browser_good)
qed (simp_all add: browsing_ring.client_connecting [unfolded keeps_def, THEN spec]
    browsing_ring.client_reading [unfolded keeps_def, THEN spec]
    browsing_ring.client_sending [unfolded keeps_def, THEN spec]
    browsing_ring.client_storing [unfolded keeps_def, THEN spec])

text \<open>
  A browser client, started in any way, keeps its ring safe whatever JavaScript asks of it,
  whatever messages arrive and whatever its callbacks answer: the ring is well-formed and one
  that the ring's own steps reach, routing on it does not fail, and the transport table has
  one entry per peer.
\<close>

lemma client_reachable_safe:
  assumes "client_reachable X N B J I n"
  shows "pr_wf (sw_dht n) \<and> ring_reachable (sw_dht n) \<and> distinct (get_dids n)
    \<and> is_ok (chord_find_successor (sw_dht n) d)"
proof -
  have n: "ring_reachable (sw_dht n) \<and> mem_wf (sw_transports n)"
    using assms
  proof (induction rule: client_reachable.induct)
    case (cr_build E now key counter w b n)
    then show ?case by (rule build_reachable)
  next
    case (cr_step n n')
    then show ?case using ring_moves_reachable [OF client_step_moves] by blast
  qed
  then have wf: "pr_wf (sw_dht n)" by (simp add: ring_reachable_wf)
  then have "is_ok (chord_find_successor (sw_dht n) d)"
    by (rule chord_find_successor_cases [of _ d]) simp_all
  moreover have "distinct (get_dids n)"
    using n by (simp add: get_dids_def mem_keys_def mem_wf_def map_fst_conv)
  ultimately show ?thesis using n wf by simp
qed

section \<open>Answers in chunks\<close>

text \<open>The mutex of an instance holds what was last put into it, and putting it there stops no clock.\<close>

definition chunk_cell :: "('s, 'w) env \<Rightarrow> 'w callback_instance \<Rightarrow> bool" where
  "chunk_cell X I \<longleftrightarrow> (\<forall>l l' w. mci_chunk_list I (mci_set_chunk_list I l w) = l
     \<and> mci_set_chunk_list I l (mci_set_chunk_list I l' w) = mci_set_chunk_list I l w
     \<and> tr_now (en_transport X) (mci_set_chunk_list I l w) = tr_now (en_transport X) w)"

text \<open>The end of \<open>custom_message\<close>, once the data is complete.\<close>

definition mci_finish :: "'w callback_instance \<Rightarrow> message payload \<Rightarrow> bytes \<Rightarrow> (('s, 'w) node, unit) action" where
  "mci_finish I relay data = sbind (panic_of (attempt_node (mci_handle_message_data I relay data))) (\<lambda>_. sret ())"

text \<open>A frame of \<open>send_chunk_report_message\<close>, at the callback.\<close>

lemma chunk_frame_handled:
  assumes "Message_custom E Z' ([1] @ replicate 3 0 @ f) None = Inr (CustomMessage m)" "mci_de_chunk I f = Some c"
    and "cl_handle (tr_now (en_transport X) (sw_world n)) c (mci_chunk_list I (sw_world n)) = (r, l)"
  shows "mci_custom X Z I relay m n =
    (case r of
       None \<Rightarrow> (Inr (), n\<lparr>sw_world := mci_set_chunk_list I l (sw_world n)\<rparr>)
     | Some data \<Rightarrow> mci_finish I relay data (n\<lparr>sw_world := mci_set_chunk_list I l (sw_world n)\<rparr>))"
proof -
  have m: "m = Plain (1 # 0 # 0 # 0 # f)"
    using assms(1) by (simp add: Message_custom_def MaybeEncrypted_new_def numeral_3_eq_3)
  have "panic_of (attempt_node (mci_handle_chunk_data X I f)) n
      = (Inr (Inr r), n\<lparr>sw_world := mci_set_chunk_list I l (sw_world n)\<rparr>)"
    using assms(2,3) by (simp add: mci_handle_chunk_data_def chunk_from_bincode_def panic_of_def attempt_node_def)
  then show ?thesis
    by (simp add: mci_custom_def m decrypt_msg_def maybe_decrypt_def mci_finish_def split: option.split)
qed

lemma frames_handled:
  assumes "chunk_cell X I"
    and "list_all2 (\<lambda>q c. \<exists>f. Message_custom E Z' ([1] @ replicate 3 0 @ f) None = Inr (CustomMessage (snd q))
           \<and> mci_de_chunk I f = Some c) qs cs"
    and "deliver (tr_now (en_transport X) (sw_world n)) cs (mci_chunk_list I (sw_world n))
      = (replicate (length cs - 1) None @ [Some bs], l)" "qs \<noteq> []"
  shows "for_each (\<lambda>(relay, m). mci_custom X Z I relay m) qs n =
    mci_finish I (fst (last qs)) bs (n\<lparr>sw_world := mci_set_chunk_list I l (sw_world n)\<rparr>)"
  using assms(2,3,4)
proof (induction qs arbitrary: cs n)
  case (Cons q qs)
  then obtain c cs' f where cs: "cs = c # cs'" and f: "mci_de_chunk I f = Some c"
      "Message_custom E Z' ([1] @ replicate 3 0 @ f) None = Inr (CustomMessage (snd q))"
    and rest: "list_all2 (\<lambda>q c. \<exists>f. Message_custom E Z' ([1] @ replicate 3 0 @ f) None
        = Inr (CustomMessage (snd q)) \<and> mci_de_chunk I f = Some c) qs cs'"
    by (auto simp: list_all2_Cons1)
  let ?now = "tr_now (en_transport X) (sw_world n)"
  obtain r l1 where h: "cl_handle ?now c (mci_chunk_list I (sw_world n)) = (r, l1)" by fastforce
  obtain rs l2 where d: "deliver ?now cs' l1 = (rs, l2)" by fastforce
  have e: "r # rs = replicate (length cs') None @ [Some bs]" "l2 = l"
    using Cons.prems(2) by (simp_all add: cs h d)
  note step = chunk_frame_handled [OF f(2,1) h, of Z "fst q"]
  show ?case
  proof (cases "qs = []")
    case True
    then have "cs' = []" using rest by simp
    then show ?thesis using step e d True
      by (cases "mci_finish I (fst q) bs (n\<lparr>sw_world := mci_set_chunk_list I l (sw_world n)\<rparr>)";
          cases "fst (mci_finish I (fst q) bs (n\<lparr>sw_world := mci_set_chunk_list I l (sw_world n)\<rparr>))")
         (simp_all add: split_beta)
  next
    case False
    then have ne: "cs' \<noteq> []" using rest by auto
    then have r: "r = None" and rs: "rs = replicate (length cs' - 1) None @ [Some bs]"
      using e(1) by (cases cs'; simp)+
    let ?n = "n\<lparr>sw_world := mci_set_chunk_list I l1 (sw_world n)\<rparr>"
    have "mci_custom X Z I (fst q) (snd q) n = (Inr (), ?n)" using step r by simp
    moreover have "for_each (\<lambda>(relay, m). mci_custom X Z I relay m) qs ?n =
      mci_finish I (fst (last qs)) bs (?n\<lparr>sw_world := mci_set_chunk_list I l (sw_world ?n)\<rparr>)"
      using Cons.IH [OF rest, of ?n] d rs e(2) False assms(1) by (simp add: chunk_cell_def)
    ultimately show ?thesis using assms(1) False by (cases q) (simp add: chunk_cell_def)
  qed
qed simp

lemma http_response_handled:
  assumes "mci_gunzip I gz = Some json" "mci_de_response I json = Some resp"
    and "mci_ser_response I resp = Some rj" "mci_ser_relay I relay = Some xj"
  shows "mci_finish I relay (bm_into_bytes (bm_from_pair (u16_of_message_type MtHttpResponse, gz))) n
    = (Inr (), n\<lparr>sw_world := snd (mci_http_response_message I xj rj (sw_world n))\<rparr>)"
proof -
  have "bm_try_from (bm_into_bytes (bm_from_pair (u16_of_message_type MtHttpResponse, gz)))
      = Inr (BackendMessage_new 4 (replicate 30 0) gz)"
    by (simp add: bm_roundtrip bm_from_pair_def BackendMessage_new_def)
  moreover have "message_type_of_u16 4 = MtHttpResponse" by (simp add: message_type_of_u16_def)
  ultimately have "mci_handle_message_data I relay
      (bm_into_bytes (bm_from_pair (u16_of_message_type MtHttpResponse, gz))) n
    = (Inr (), n\<lparr>sw_world := snd (mci_http_response_message I xj rj (sw_world n))\<rparr>)"
    using assms by (simp add: mci_handle_message_data_def BackendMessage_new_def
        mci_handle_http_response_def unwrap_or_panic_def js_invoke_def sbind_def split_beta)
  then show ?thesis by (simp add: mci_finish_def panic_of_def attempt_node_def)
qed

text \<open>The last step of the delivery, for chunks in any order.\<close>

lemma answer_chunks_assembled:
  assumes "chunk_cell X I" "\<And>c f. be_ser_chunk B c = Some f \<Longrightarrow> mci_de_chunk I f = Some c"
    and "be_ser_response B resp = Some json" "be_gzip B json 9 = Some gz"
    and "mci_de_response I json = Some resp" "mci_gunzip I gz = Some json"
    and "make_chunks Y (bm_into_bytes (bm_from_pair (u16_of_message_type MtHttpResponse, gz))) a = (Inr cs, a')"
    and "list_all2 (\<lambda>q c. \<exists>f. be_ser_chunk B c = Some f
      \<and> Message_custom (en_ecc Y) (be_cipher B) ([1] @ replicate 3 0 @ f) None = Inr (CustomMessage (snd q))) qs ds"
    and "set ds = set cs" "set (butlast ds) \<noteq> set cs"
    and "\<And>c. c \<in> set cs \<Longrightarrow> meta_accepted (tr_now (en_transport X) (sw_world b)) (ch_meta c)"
    and "\<And>c e. c \<in> set cs \<Longrightarrow> e \<in> set (mci_chunk_list I (sw_world b)) \<Longrightarrow> cm_id (ch_meta e) \<noteq> cm_id (ch_meta c)"
    and "mci_ser_response I resp = Some rj" "mci_ser_relay I (fst (last qs)) = Some xj"
  shows "for_each (\<lambda>(relay, m). mci_custom X Z I relay m) qs b = (Inr (), b\<lparr>sw_world :=
    snd (mci_http_response_message I xj rj (mci_set_chunk_list I
      (filter (chunk_alive (tr_now (en_transport X) (sw_world b))) (mci_chunk_list I (sw_world b))) (sw_world b)))\<rparr>)"
proof -
  let ?bs = "bm_into_bytes (bm_from_pair (u16_of_message_type MtHttpResponse, gz))"
  obtain meta where cs: "cs = cl_from_bytes BACKEND_MTU meta ?bs"
    using assms(7) by (cases "tr_uuid (en_transport Y) (sw_world a)") (auto simp: make_chunks_def)
  have pos: "0 < BACKEND_MTU" by (simp add: BACKEND_MTU_def TRANSPORT_MAX_SIZE_def TRANSPORT_MTU_def)
  have "cs \<noteq> []"
  proof
    assume "cs = []"
    moreover from this have "ds = []" using assms(9) by simp
    ultimately show False using assms(10) by simp
  qed
  moreover have "c \<in> set cs \<Longrightarrow> ch_meta c = meta" for c
    using cl_from_bytes_props(3) [of c BACKEND_MTU meta ?bs] cs by simp
  ultimately obtain c where c: "c \<in> set cs" "ch_meta c = meta" by (cases cs) auto
  let ?now = "tr_now (en_transport X) (sw_world b)" and ?l = "mci_chunk_list I (sw_world b)"
  have acc: "meta_accepted ?now meta" using assms(11) [OF c(1)] c(2) by simp
  have fresh: "\<And>e. e \<in> set ?l \<Longrightarrow> cm_id (ch_meta e) \<noteq> cm_id meta"
    using assms(12) [OF c(1)] c(2) by simp
  have "deliver ?now ds (?l @ [])
      = (replicate (length ds - 1) None @ [Some ?bs], filter (chunk_alive ?now) ?l)"
    using assms(9,10) cs by (intro deliver_rest [OF acc pos fresh]) simp_all
  then have d: "deliver ?now ds ?l
      = (replicate (length ds - 1) None @ [Some ?bs], filter (chunk_alive ?now) ?l)" by simp
  have f: "list_all2 (\<lambda>q c. \<exists>f. Message_custom (en_ecc Y) (be_cipher B) ([1] @ replicate 3 0 @ f) None
      = Inr (CustomMessage (snd q)) \<and> mci_de_chunk I f = Some c) qs ds"
    using assms(8) by (rule list_all2_mono) (use assms(2) in blast)
  have "qs \<noteq> []" using assms(8,9) \<open>cs \<noteq> []\<close> by auto
  from frames_handled [OF assms(1) f d this, of Z] show ?thesis
    by (simp add: http_response_handled [OF assms(6,5,13,14)] del: u16_of_message_type.simps)
qed

text \<open>The message in which \<open>send_chunk_report_message\<close> sends a chunk, and the chunk that it carries.\<close>

definition chunk_framed ::
  "ecc \<Rightarrow> 'w backend_ops \<Rightarrow> custom_message maybe_encrypted \<Rightarrow> chunk \<Rightarrow> bool" where
  "chunk_framed E B m c \<longleftrightarrow> (\<exists>f. be_ser_chunk B c = Some f
     \<and> Message_custom E (be_cipher B) ([1] @ replicate 3 0 @ f) None = Inr (CustomMessage m))"

definition framed_chunk :: "'w callback_instance \<Rightarrow> custom_message maybe_encrypted \<Rightarrow> chunk" where
  "framed_chunk I m = (case m of Plain bs \<Rightarrow> the (mci_de_chunk I (drop 4 bs)))"

lemma framed_chunk_eq:
  assumes "chunk_framed E B m c" "\<And>c f. be_ser_chunk B c = Some f \<Longrightarrow> mci_de_chunk I f = Some c"
  shows "framed_chunk I m = c"
  using assms by (auto simp: chunk_framed_def framed_chunk_def Message_custom_def MaybeEncrypted_new_def)

lemma framed_chunks_eq:
  assumes "list_all2 (chunk_framed E B) ms cs" "\<And>c f. be_ser_chunk B c = Some f \<Longrightarrow> mci_de_chunk I f = Some c"
  shows "cs = map (framed_chunk I) ms"
  using assms(1) by (induction rule: list_all2_induct) (auto simp: framed_chunk_eq [OF _ assms(2)])

lemma chunk_framed_unique: "chunk_framed E B m c \<Longrightarrow> chunk_framed E B m' c \<Longrightarrow> m = m'"
  by (auto simp: chunk_framed_def)

lemma map_err_Inr: "map_err f m n = (Inr x, n') \<longleftrightarrow> m n = (Inr x, n')"
  by (auto simp: map_err_def split: prod.splits sum.splits)

lemma chunk_report_sends:
  assumes "sbind (slift (ok_or (be_ser_chunk B c) SerializeError)) (\<lambda>bytes.
        send_chunk_report_message Y B ctx relay bytes) a = (Inr (), n1)"
  obtains m where "chunk_framed (en_ecc Y) B m c" "send_report_message Y (CustomMessage m) (pl_tx_id ctx) relay a = (Inr (), n1)"
proof -
  obtain f where f: "be_ser_chunk B c = Some f" "send_chunk_report_message Y B ctx relay f a = (Inr (), n1)"
    using assms by (cases "be_ser_chunk B c") auto
  obtain m where m: "Message_custom (en_ecc Y) (be_cipher B) ([1] @ replicate 3 0 @ f) None = Inr (CustomMessage m)"
    by (simp add: Message_custom_def MaybeEncrypted_new_def)
  have "sbind (core SendMessage (send_report_message Y (CustomMessage m) (pl_tx_id ctx) relay)) (\<lambda>_. sret ()) a = (Inr (), n1)"
    using f(2) m by (simp add: send_chunk_report_message_def Let_def slift_Inr)
  then have "send_report_message Y (CustomMessage m) (pl_tx_id ctx) relay a = (Inr (), n1)"
    unfolding sbind_Inr map_err_Inr by auto
  then show ?thesis using f(1) m by (intro that) (auto simp: chunk_framed_def)
qed

lemma reports_sent:
  assumes "for_each_node (\<lambda>c. sbind (slift (ok_or (be_ser_chunk B c) SerializeError)) (\<lambda>bytes.
      send_chunk_report_message Y B ctx relay bytes)) cs a = (Inr (), a')"
  shows "\<exists>ms. for_each (\<lambda>m. send_report_message Y (CustomMessage m) (pl_tx_id ctx) relay) ms a = (Inr (), a')
    \<and> list_all2 (chunk_framed (en_ecc Y) B) ms cs"
  using assms
proof (induction cs arbitrary: a)
  case (Cons c cs)
  obtain n1 where first: "sbind (slift (ok_or (be_ser_chunk B c) SerializeError)) (\<lambda>bytes.
        send_chunk_report_message Y B ctx relay bytes) a = (Inr (), n1)"
    and rest: "for_each_node (\<lambda>c. sbind (slift (ok_or (be_ser_chunk B c) SerializeError)) (\<lambda>bytes.
      send_chunk_report_message Y B ctx relay bytes)) cs n1 = (Inr (), a')"
    using Cons.prems unfolding for_each_node.simps sbind_Inr [of "sbind a b" for a b] by auto
  from Cons.IH [OF rest] obtain ms where ms: "for_each (\<lambda>m. send_report_message Y (CustomMessage m) (pl_tx_id ctx) relay) ms n1 = (Inr (), a')"
      "list_all2 (chunk_framed (en_ecc Y) B) ms cs" by blast
  obtain m where "chunk_framed (en_ecc Y) B m c" "send_report_message Y (CustomMessage m) (pl_tx_id ctx) relay a = (Inr (), n1)"
    using chunk_report_sends [OF first] .
  then show ?case using ms by (intro exI [of _ "m # ms"]) (simp add: sbind_def)
qed simp

lemma endpoint_sends_chunks:
  assumes "http_handle_message Y B services ctx relay msg a = (Inr (), a')" "be_de_request B (bm_data msg) = Some rq"
    and "http_execute B services rq a = (Inr resp, a1)" "tr_uuid (en_transport Y) (sw_world a1) = (u, w)"
  obtains json gz ms where "be_ser_response B resp = Some json" "be_gzip B json 9 = Some gz"
    "for_each (\<lambda>m. send_report_message Y (CustomMessage m) (pl_tx_id ctx) relay) ms (a1\<lparr>sw_world := w\<rparr>) = (Inr (), a')"
    "list_all2 (chunk_framed (en_ecc Y) B) ms (cl_from_bytes BACKEND_MTU
       (ChunkMeta_default u (tr_now (en_transport Y) (sw_world a1)))
       (bm_into_bytes (bm_from_pair (u16_of_message_type MtHttpResponse, gz))))"
proof -
  obtain json gz where jg: "be_ser_response B resp = Some json" "be_gzip B json 9 = Some gz"
    using assms(1-3) by (cases "be_ser_response B resp"; cases "be_gzip B (the (be_ser_response B resp)) 9")
      (simp_all add: http_handle_message_def sbind_def Let_def)
  let ?cs = "cl_from_bytes BACKEND_MTU (ChunkMeta_default u (tr_now (en_transport Y) (sw_world a1)))
       (bm_into_bytes (bm_from_pair (u16_of_message_type MtHttpResponse, gz)))"
  have "for_each_node (\<lambda>c. sbind (slift (ok_or (be_ser_chunk B c) SerializeError)) (\<lambda>bytes.
      send_chunk_report_message Y B ctx relay bytes)) ?cs (a1\<lparr>sw_world := w\<rparr>) = (Inr (), a')"
    using assms jg by (simp add: http_handle_message_def Let_def sbind_def make_chunks_def del: u16_of_message_type.simps)
  from reports_sent [OF this] jg show ?thesis using that by blast
qed

text \<open>
  C23: a browser gets the answer to its HTTP request. When the HTTP endpoint of a node has handled
  a request whose execution gave a response, it has sent custom messages, and nothing else, as
  reports to the request's transaction: the gzipped response in chunks with a fresh id and the time
  of the sending, each framed by \<open>send_chunk_report_message\<close>. These messages may reach
  the callback of the client in any order and repeatedly: with the one that completes them,
  JavaScript's \<open>http_response_message\<close> is called once, with that response, and never
  before, and the pool of chunks holds none of them any more. The chunks must be in time at the
  client, their id fresh in its pool, and the client's decoders the inverses of the node's
  encoders.
\<close>

theorem http_answer_assembled:
  fixes X :: "('s, 'w) env"
  assumes "chunk_cell X I" "\<And>c f. be_ser_chunk B c = Some f \<Longrightarrow> mci_de_chunk I f = Some c"
    and "\<And>json. be_ser_response B resp = Some json \<Longrightarrow> mci_de_response I json = Some resp"
    and "\<And>json gz. be_gzip B json 9 = Some gz \<Longrightarrow> mci_gunzip I gz = Some json"
    and "http_handle_message Y B services ctx relay msg a = (Inr (), a')" "be_de_request B (bm_data msg) = Some rq"
    and "http_execute B services rq a = (Inr resp, a1)" "tr_uuid (en_transport Y) (sw_world a1) = (u, w)"
  shows "\<exists>ms. distinct ms \<and> ms \<noteq> []
    \<and> for_each (\<lambda>m. send_report_message Y (CustomMessage m) (pl_tx_id ctx) relay) ms (a1\<lparr>sw_world := w\<rparr>) = (Inr (), a')
    \<and> (\<forall>qs b rj xj. snd ` set qs = set ms \<longrightarrow> snd ` set (butlast qs) \<noteq> set ms
      \<longrightarrow> meta_accepted (tr_now (en_transport X) (sw_world b))
            (ChunkMeta_default u (tr_now (en_transport Y) (sw_world a1)))
      \<longrightarrow> (\<forall>e \<in> set (mci_chunk_list I (sw_world b)). cm_id (ch_meta e) \<noteq> u)
      \<longrightarrow> mci_ser_response I resp = Some rj \<longrightarrow> mci_ser_relay I (fst (last qs)) = Some xj
      \<longrightarrow> for_each (\<lambda>(relay, m). mci_custom X Z I relay m) qs b = (Inr (), b\<lparr>sw_world :=
        snd (mci_http_response_message I xj rj (mci_set_chunk_list I
          (filter (chunk_alive (tr_now (en_transport X) (sw_world b))) (mci_chunk_list I (sw_world b)))
          (sw_world b)))\<rparr>))"
proof -
  let ?meta = "ChunkMeta_default u (tr_now (en_transport Y) (sw_world a1))"
  obtain json gz ms where enc: "be_ser_response B resp = Some json" "be_gzip B json 9 = Some gz"
    and sent: "for_each (\<lambda>m. send_report_message Y (CustomMessage m) (pl_tx_id ctx) relay) ms (a1\<lparr>sw_world := w\<rparr>) = (Inr (), a')"
    and framed: "list_all2 (chunk_framed (en_ecc Y) B) ms (cl_from_bytes BACKEND_MTU ?meta
       (bm_into_bytes (bm_from_pair (u16_of_message_type MtHttpResponse, gz))))"
    using endpoint_sends_chunks [OF assms(5-8)] .
  let ?bs = "bm_into_bytes (bm_from_pair (u16_of_message_type MtHttpResponse, gz))"
  let ?cs = "cl_from_bytes BACKEND_MTU ?meta ?bs"
  have of_ms: "\<exists>c. c \<in> set ?cs \<and> chunk_framed (en_ecc Y) B m c" if "m \<in> set ms" for m
    using framed that by (auto simp: list_all2_conv_all_nth in_set_conv_nth)
  have cs: "?cs = map (framed_chunk I) ms"
    using framed by (rule framed_chunks_eq [OF _ assms(2)])
  have fc: "framed_chunk I m = c" if "chunk_framed (en_ecc Y) B m c" for m c
    using that assms(2) by (rule framed_chunk_eq)
  have inj: "inj_on (framed_chunk I) (set ms)"
  proof (rule inj_onI)
    fix m m' assume "m \<in> set ms" "m' \<in> set ms" and same: "framed_chunk I m = framed_chunk I m'"
    then obtain c c' where "chunk_framed (en_ecc Y) B m c" "chunk_framed (en_ecc Y) B m' c'" using of_ms by blast
    moreover from this have "c = c'" using same fc by simp
    ultimately show "m = m'" using chunk_framed_unique by simp
  qed
  have metas: "ch_meta c = ?meta" if "c \<in> set ?cs" for c
    using cl_from_bytes_props(3) [OF that] ..
  have id: "cm_id ?meta = u" by (simp add: ChunkMeta_default_def)
  have mk: "make_chunks Y ?bs a1 = (Inr ?cs, a1\<lparr>sw_world := w\<rparr>)"
    using assms(8) by (simp add: make_chunks_def)
  have "distinct ?cs"
    using cl_from_bytes_props(2) [of BACKEND_MTU ?meta ?bs] by (metis distinct_map distinct_upt)
  then have d: "distinct ms" unfolding cs distinct_map by (rule conjunct1)
  have "?bs \<noteq> []" by (simp add: bm_into_bytes_def u16_to_le_bytes_def del: u16_of_message_type.simps)
  then have "?cs \<noteq> []"
    using cl_from_bytes_props(4) [of BACKEND_MTU ?meta ?bs]
    by (auto simp: BACKEND_MTU_def TRANSPORT_MAX_SIZE_def TRANSPORT_MTU_def simp del: u16_of_message_type.simps)
  then have ne: "ms \<noteq> []" unfolding cs by simp
  show ?thesis
  proof (intro exI [of _ ms] conjI allI impI sent d ne)
    fix qs rj xj and b :: "('s, 'w) node"
    assume all: "snd ` set qs = set ms" and new: "snd ` set (butlast qs) \<noteq> set ms"
      and acc: "meta_accepted (tr_now (en_transport X) (sw_world b)) ?meta"
      and fresh: "\<forall>e \<in> set (mci_chunk_list I (sw_world b)). cm_id (ch_meta e) \<noteq> u"
      and js: "mci_ser_response I resp = Some rj" "mci_ser_relay I (fst (last qs)) = Some xj"
    let ?ds = "map (\<lambda>q. framed_chunk I (snd q)) qs"
    have ds: "set ?ds = set ?cs" using all by (simp add: cs image_image [symmetric, of "framed_chunk I" snd] del: u16_of_message_type.simps)
    have sub: "snd ` set (butlast qs) \<subseteq> set ms" using all in_set_butlastD by fastforce
    have "framed_chunk I ` snd ` set (butlast qs) \<noteq> framed_chunk I ` set ms"
      using inj_on_image_eq_iff [OF inj sub subset_refl] new by simp
    then have last: "set (butlast ?ds) \<noteq> set ?cs" by (simp add: cs image_image map_butlast [symmetric] del: u16_of_message_type.simps)
    have q: "\<exists>f. be_ser_chunk B (framed_chunk I (snd q)) = Some f
        \<and> Message_custom (en_ecc Y) (be_cipher B) ([1] @ replicate 3 0 @ f) None = Inr (CustomMessage (snd q))" if "q \<in> set qs" for q
    proof -
      have "snd q \<in> set ms" using all that by blast
      then obtain c where "chunk_framed (en_ecc Y) B (snd q) c" using of_ms by blast
      then show ?thesis using fc by (auto simp: chunk_framed_def)
    qed
    have ok: "list_all2 (\<lambda>q c. \<exists>f. be_ser_chunk B c = Some f
        \<and> Message_custom (en_ecc Y) (be_cipher B) ([1] @ replicate 3 0 @ f) None = Inr (CustomMessage (snd q))) qs ?ds"
      using q by (auto simp: list_all2_conv_all_nth)
    show "for_each (\<lambda>(relay, m). mci_custom X Z I relay m) qs b = (Inr (), b\<lparr>sw_world :=
        snd (mci_http_response_message I xj rj (mci_set_chunk_list I
          (filter (chunk_alive (tr_now (en_transport X) (sw_world b))) (mci_chunk_list I (sw_world b)))
          (sw_world b)))\<rparr>)"
    proof (rule answer_chunks_assembled [OF assms(1,2) enc assms(3) [OF enc(1)] assms(4) [OF enc(2)] mk ok ds last _ _ js])
      show "meta_accepted (tr_now (en_transport X) (sw_world b)) (ch_meta c)" if "c \<in> set ?cs" for c
        using acc metas [OF that] by simp
      show "cm_id (ch_meta e) \<noteq> cm_id (ch_meta c)" if "c \<in> set ?cs" "e \<in> set (mci_chunk_list I (sw_world b))" for c e
        using fresh that(2) id metas [OF that(1)] by simp
    qed
  qed
qed

section \<open>Malformed messages\<close>

text \<open>
  The guard of \<open>custom_message\<close> is too small: a message of two or three bytes passes it and
  \<open>array_refs\<close> panics. A response whose data is not gzip panics as well, whoever sent it.
\<close>

lemma browser_custom_panics:
  assumes "length m = 2 \<or> length m = 3"
  shows "mci_custom X Z I relay (Plain m) n = (Inl (Panicked ''array_refs''), n)"
  using assms by (auto simp: mci_custom_def decrypt_msg_def maybe_decrypt_def)

lemma browser_gunzip_panics:
  assumes "mci_gunzip I gz = None"
  shows "mci_custom X Z I relay (Plain ([0] @ replicate 3 0 @
      bm_into_bytes (bm_from_pair (u16_of_message_type MtHttpResponse, gz)))) n = (Inl (Panicked ''unwrap''), n)"
proof -
  have "message_type_of_u16 4 = MtHttpResponse" by (simp add: message_type_of_u16_def)
  then show ?thesis
    using assms by (simp add: mci_custom_def decrypt_msg_def maybe_decrypt_def numeral_3_eq_3
        mci_handle_message_data_def bm_roundtrip bm_from_pair_def BackendMessage_new_def
        mci_handle_http_response_def unwrap_or_panic_def attempt_node_def panic_of_def sbind_def)
qed

section \<open>A concrete client\<close>

text \<open>
  The instance the witnesses run on: the world is the chunk list of the callback with the
  responses that JavaScript was given.
\<close>

type_synonym tab = "chunk list \<times> js_value list"

definition tab_ops :: "tab transport_ops" where
  "tab_ops = \<lparr>tr_new = (\<lambda>_ w. (7, w)), tr_start = (\<lambda>_ _ _. sret ()), tr_apply_callback = (\<lambda>_. sret ()),
     tr_close = (\<lambda>_. sret ()), tr_is_connected = (\<lambda>_ _. True), tr_is_disconnected = (\<lambda>_ _. False),
     tr_send_message = (\<lambda>_ _. sret ()), tr_wait_for_data_channel_open = (\<lambda>_. sret ()),
     tr_get_handshake_info = (\<lambda>_ _ _. sret (Encoded ''offer'')), tr_register_remote_info = (\<lambda>_ _. sret 2),
     tr_recv = (\<lambda>_. sret None), tr_now = (\<lambda>_. 10000), tr_uuid = (\<lambda>w. (3, w))\<rparr>"

definition tab_env :: "((did, virtual_node) mem_storage, tab) env" where
  "tab_env = \<lparr>en_ecc = demo_ecc, en_codec = demo_codec, en_json = (\<lambda>_. Some ''m''), en_bin = (\<lambda>_. Some []),
     en_unbin = (\<lambda>_. None), en_uuid_str = (\<lambda>_. ''id''), en_uuid_from_str = (\<lambda>_. Some 7),
     en_persist = mem_persist, en_transport = tab_ops\<rparr>"

definition tab_node :: "((did, virtual_node) mem_storage, tab) node" where
  "tab_node = \<lparr>sw_pending = [], sw_pending_locked = False, sw_transports = \<lparr>mem_table = [(2, 5)]\<rparr>,
     sw_ice_servers = [], sw_external_address = None, sw_dht = pr_new_with_storage 1 3 mem_new,
     sw_measure = None, sw_session = demo_sm, sw_world = ([], [])\<rparr>"

definition tab_response :: http_response where
  "tab_response = \<lparr>hs_status = 200, hs_headers = Map.empty, hs_body = Some []\<rparr>"

definition tab_chunk :: chunk where
  "tab_chunk = \<lparr>ch_chunk = (0, 1),
     ch_data = bm_into_bytes (bm_from_pair (u16_of_message_type MtHttpResponse, [])),
     ch_meta = ChunkMeta_default 3 10000\<rparr>"

definition tab_backend :: "tab backend_ops" where
  "tab_backend = \<lparr>be_parse_uri = Some, be_parse_method = Some, be_parse_headers = (\<lambda>_. Some []),
     be_send_http = (\<lambda>_ _ _ _ _ w. (Inr \<lparr>ha_status = 200, ha_headers = [], ha_bytes = Inr []\<rparr>, w)),
     be_de_request = (\<lambda>_. Some (HttpRequest_get ''web'' ''/'' 5 [] None)),
     be_ser_request = (\<lambda>_. None), be_ser_response = (\<lambda>_. Some []),
     be_ser_chunk = (\<lambda>c. if c = tab_chunk then Some [] else None), be_gzip = (\<lambda>bs _. Some bs),
     be_cipher = \<lparr>ci_ser = Some, ci_de = Some, ci_encrypt = (\<lambda>_ bs. Some bs), ci_decrypt = (\<lambda>_ bs. Some bs)\<rparr>,
     be_broadcast = (\<lambda>_ w. w), be_recv = (\<lambda>_ w. (None, w))\<rparr>"

definition tab_instance :: "tab callback_instance" where
  "tab_instance = \<lparr>mci_custom_message = (\<lambda>_ _ w. (JsPlain, w)),
     mci_http_response_message = (\<lambda>_ h w. (JsResolved, (fst w, snd w @ [h]))),
     mci_builtin_message = (\<lambda>_ w. (JsPlain, w)), mci_chunk_list = fst,
     mci_set_chunk_list = (\<lambda>l w. (l, snd w)), mci_ser_relay = (\<lambda>_. Some JsNull),
     mci_ser_response = (\<lambda>h. Some (JsString (show_nat (unat (hs_status h))))), mci_gunzip = Some,
     mci_de_response = (\<lambda>_. Some tab_response), mci_de_chunk = (\<lambda>_. Some tab_chunk)\<rparr>"

definition tab_relay :: message_relay where
  "tab_relay = MessageRelay_new SEND [2, 1] None None 1"

lemma tab_sends: "send_report_message tab_env m t tab_relay tab_node = (Inr (), tab_node)"
proof -
  have relay: "rl_report tab_relay = Inr \<lparr>rl_method = REPORT, rl_path = [2, 1], rl_path_end_cursor = 0,
      rl_next_hop = Some 2, rl_destination = 2\<rparr>"
    by (simp add: rl_report_def tab_relay_def MessageRelay_new_def rl_path_prev_def path_len_def rl_sender_def
        rl_origin_def)
  have X: "en_json tab_env m = Some ''m''" "en_transport tab_env = tab_ops" "en_bin tab_env q = Some []" for q
    by (simp_all add: tab_env_def)
  obtain q where q: "MessagePayload_new_report (en_ecc tab_env) (en_json tab_env) 10000 3 m t demo_sm tab_relay = Inr q"
    "rl_next_hop (pl_relay q) = Some 2"
    using X(1) by (simp add: MessagePayload_new_report_def relay MessagePayload_new_def pack_msg_def Let_def)
  then have "seal tab_env (\<lambda>sm now u. MessagePayload_new_report (en_ecc tab_env) (en_json tab_env) now u m t sm tab_relay)
      tab_node = (Inr q, tab_node)"
    by (simp add: seal_def X tab_ops_def tab_node_def)
  moreover have "do_send_payload tab_env 2 q tab_node = (Inr (), tab_node)"
    using q(2) by (simp add: do_send_payload_def sbind_def on_world_def attempt_def tab_node_def get_and_check_transport_def get_transport_def mem_get_def
        is_disconnected_def X tab_ops_def pl_to_bincode_def incr_measure_def)
  ultimately show ?thesis using q(2) by (simp add: send_report_message_def send_payload_def sbind_def)
qed

theorem http_answer_assembled_witness:
  "\<forall>p. \<exists>ms. for_each (\<lambda>m. send_report_message tab_env (CustomMessage m) (pl_tx_id p) tab_relay) ms tab_node = (Inr (), tab_node)
    \<and> for_each (\<lambda>(relay, m). mci_custom tab_env (be_cipher tab_backend) tab_instance relay m) (map (Pair p) ms) tab_node
      = (Inr (), tab_node\<lparr>sw_world := ([], [JsString (show_nat 200)])\<rparr>)"
proof
  fix p :: "message payload"
  let ?bs = "bm_into_bytes (bm_from_pair (u16_of_message_type MtHttpResponse, []))"
  let ?S = "[\<lparr>hc_name = ''web'', hc_prefix = ''http''\<rparr>]" and ?m = "BackendMessage_new 3 (replicate 30 0) []"
  have len: "length ?bs = 32"
    by (simp add: bm_into_bytes_def bm_from_pair_def BackendMessage_new_def u16_to_le_bytes_def)
  then have "slice_chunks BACKEND_MTU ?bs = [?bs]"
    using len by (auto simp: slice_chunks.simps BACKEND_MTU_def TRANSPORT_MAX_SIZE_def TRANSPORT_MTU_def)
  then have mk: "make_chunks tab_env ?bs tab_node = (Inr [tab_chunk], tab_node)"
    by (simp add: make_chunks_def tab_env_def tab_ops_def tab_chunk_def cl_from_bytes_def tab_node_def)
  have cell: "chunk_cell tab_env tab_instance"
    by (simp add: chunk_cell_def tab_instance_def tab_env_def tab_ops_def)
  have inv: "be_ser_chunk tab_backend c = Some f \<Longrightarrow> mci_de_chunk tab_instance f = Some c" for c f
    by (simp add: tab_backend_def tab_instance_def split: if_splits)
  have meta: "meta_accepted 10000 (ChunkMeta_default 3 10000)"
    by (simp add: meta_accepted_def ChunkMeta_default_def MAX_TTL_MS_def DEFAULT_TTL_MS_def TS_OFFSET_TOLERANCE_MS_def)
  have rq: "be_de_request tab_backend (bm_data ?m) = Some (HttpRequest_get ''web'' ''/'' 5 [] None)"
    by (simp add: tab_backend_def)
  have resp: "http_execute tab_backend ?S (HttpRequest_get ''web'' ''/'' 5 [] None) tab_node = (Inr tab_response, tab_node)"
    by (simp add: http_execute_def tab_backend_def HttpRequest_get_def HttpRequest_new_def eq_ignore_ascii_case_def
        unwrap_or_panic_def tab_node_def tab_response_def collect_map_def slift_Inr Let_def sbind_def)
  have handled: "http_handle_message tab_env tab_backend ?S p tab_relay ?m tab_node = (Inr (), tab_node)"
    using rq resp mk tab_sends [of _ "pl_tx_id p"]
    by (simp add: http_handle_message_def sbind_def Let_def slift_Inr send_chunk_report_message_def
        Message_custom_def MaybeEncrypted_new_def map_err_def tab_backend_def del: u16_of_message_type.simps)
  have de: "be_ser_response tab_backend tab_response = Some json \<Longrightarrow> mci_de_response tab_instance json = Some tab_response"
      and gz: "be_gzip tab_backend json 9 = Some gz \<Longrightarrow> mci_gunzip tab_instance gz = Some json" for json gz
    by (simp_all add: tab_backend_def tab_instance_def)
  have here: "tr_uuid (en_transport tab_env) (sw_world tab_node) = (3, ([], []))"
      "tr_now (en_transport tab_env) (sw_world tab_node) = 10000" "mci_chunk_list tab_instance (sw_world tab_node) = []"
      "mci_ser_relay tab_instance q = Some JsNull" for q
    by (simp_all add: tab_env_def tab_ops_def tab_node_def tab_instance_def)
  have same: "tab_node\<lparr>sw_world := ([], [])\<rparr> = tab_node" by (simp add: tab_node_def)
  have js: "mci_ser_response tab_instance tab_response = Some (JsString (show_nat 200))"
      "snd (mci_http_response_message tab_instance x (JsString s) (mci_set_chunk_list tab_instance [] (sw_world tab_node)))
        = ([], [JsString s])" for x s
    by (simp_all add: tab_instance_def tab_response_def tab_node_def)
  have qs: "snd ` set (map (Pair p) ms) = set ms"
      "snd ` set (butlast (map (Pair p) ms)) \<noteq> set ms" if "distinct ms" "ms \<noteq> []" for ms :: "custom_message maybe_encrypted list"
    using that by (cases ms rule: rev_cases; force simp: butlast_append)+
  show "\<exists>ms. for_each (\<lambda>m. send_report_message tab_env (CustomMessage m) (pl_tx_id p) tab_relay) ms tab_node = (Inr (), tab_node)
    \<and> for_each (\<lambda>(relay, m). mci_custom tab_env (be_cipher tab_backend) tab_instance relay m) (map (Pair p) ms) tab_node
      = (Inr (), tab_node\<lparr>sw_world := ([], [JsString (show_nat 200)])\<rparr>)"
    apply (rule ex_forward [OF http_answer_assembled [where Z = "be_cipher tab_backend", OF cell inv de gz handled rq resp here(1)]], assumption+)
    apply (elim conjE)
    subgoal premises prems for ms
      using prems(1-3) prems(4) [rule_format, of "map (Pair p) ms" tab_node "JsString (show_nat 200)" JsNull]
      by (simp add: same here js qs meta del: set_map)
    done
qed


end
