(* ===== verification/RpcClient.thy ===== *)
theory RpcClient
  imports ServerProps
begin

text \<open>
  The JSON-RPC client by which a node calls another, \<open>jsonrpc_client/client.rs\<close> and
  \<open>jsonrpc_client/request.rs\<close>: requests with their ids, the answers the library parses, and the
  exchange over HTTP. What \<open>jsonrpc_core\<close> prints and parses and the HTTP client are the record \<open>rpc_client_ops\<close>.
\<close>

section \<open>Requests\<close>

datatype rpc_id = IdNull | IdNum u64 | IdStr string

datatype rpc_call = MethodCall string params rpc_id | NotificationCall string params

record call_message =
  cmsg_method :: string
  cmsg_params :: params

record subscription =
  sub_subscribe :: string
  sub_subscribe_params :: params
  sub_notification :: string
  sub_unsubscribe :: string

datatype rpc_message = RmCall call_message | RmNotify call_message | RmSubscribe subscription

record request_builder =
  rb_id :: u64

definition RequestBuilder_new :: request_builder where
  "RequestBuilder_new = \<lparr>rb_id = 0\<rparr>"

definition next_id :: "request_builder \<Rightarrow> rpc_id \<times> request_builder" where
  "next_id b = (let i = rb_id b in (IdNum i, b\<lparr>rb_id := i + 1\<rparr>))"

definition single_request ::
  "(rpc_call \<Rightarrow> string) \<Rightarrow> string \<Rightarrow> params \<Rightarrow> request_builder \<Rightarrow> (rpc_id \<times> string) \<times> request_builder" where
  "single_request print meth params b =
     (case next_id b of (i, b) \<Rightarrow> let request = MethodCall meth params i in ((i, print request), b))"

definition call_request ::
  "(rpc_call \<Rightarrow> string) \<Rightarrow> call_message \<Rightarrow> request_builder \<Rightarrow> (rpc_id \<times> string) \<times> request_builder" where
  "call_request print msg = single_request print (cmsg_method msg) (cmsg_params msg)"

definition subscribe_request ::
  "(rpc_call \<Rightarrow> string) \<Rightarrow> string \<Rightarrow> params \<Rightarrow> request_builder \<Rightarrow> (rpc_id \<times> string) \<times> request_builder" where
  "subscribe_request print subscribe subscribe_params = single_request print subscribe subscribe_params"

datatype subscription_id = SubNumber u64 | SubString string

definition unsubscribe_request ::
  "(rpc_call \<Rightarrow> string) \<Rightarrow> (subscription_id \<Rightarrow> json) \<Rightarrow> string \<Rightarrow> subscription_id \<Rightarrow> request_builder
     \<Rightarrow> (rpc_id \<times> string) \<times> request_builder" where
  "unsubscribe_request print sid_json unsubscribe sid =
     single_request print unsubscribe (ParamsArray [sid_json sid])"

definition rpc_notification :: "(rpc_call \<Rightarrow> string) \<Rightarrow> call_message \<Rightarrow> string" where
  "rpc_notification print msg =
     (let request = NotificationCall (cmsg_method msg) (cmsg_params msg) in print request)"

section \<open>Answers\<close>

text \<open>\<open>jsonrpc_core::Error\<close>, \<open>Output\<close> and \<open>Notification\<close>.\<close>

record json_error =
  je_code :: int
  je_message :: string

datatype rpc_output = Success json rpc_id | Failure json_error rpc_id

datatype client_response = Output rpc_output | Notification string params

fun output_id :: "rpc_output \<Rightarrow> rpc_id" where
  "output_id (Success _ i) = i"
| "output_id (Failure _ i) = i"

fun output_into :: "rpc_output \<Rightarrow> json_error + json" where
  "output_into (Success v _) = Inr v"
| "output_into (Failure e _) = Inl e"

fun response_id :: "client_response \<Rightarrow> rpc_id option" where
  "response_id (Output out) = Some (output_id out)"
| "response_id (Notification _ _) = None"

fun response_method :: "client_response \<Rightarrow> string option" where
  "response_method (Notification m _) = Some m"
| "response_method (Output _) = None"

definition response_subscription_id ::
  "(json \<Rightarrow> subscription_id option) \<Rightarrow> client_response \<Rightarrow> subscription_id option" where
  "response_subscription_id parse_sid r = (case r of
       Notification _ (ParamsMap m) \<Rightarrow> Option.bind (map_of m ''subscription'') parse_sid
     | _ \<Rightarrow> None)"

definition response_into ::
  "(json \<Rightarrow> json_error option) \<Rightarrow> json_error \<Rightarrow> client_response \<Rightarrow> json_error + json" where
  "response_into de_error parse_error res = (case res of
       Output out \<Rightarrow> output_into out
     | Notification _ (ParamsMap m) \<Rightarrow>
         (case (map_of m ''subscription'', map_of m ''result'', map_of m ''error'') of
            (Some _, Some result, _) \<Rightarrow> Inr result
          | (Some _, _, Some e) \<Rightarrow> Inl (case de_error e of Some e \<Rightarrow> e | None \<Rightarrow> parse_error)
          | _ \<Rightarrow> Inr (params_value (ParamsMap m)))
     | Notification _ p \<Rightarrow> Inr (params_value p))"

text \<open>The errors of the client; the texts of foreign errors are dropped.\<close>

datatype rpc_client_error = JsonRpcError json_error | RpcParseError | RpcTimeout | RpcClientError string | RpcOther

record 'w rpc_client_ops =
  rc_print :: "rpc_call \<Rightarrow> string"
  rc_parse :: "string \<Rightarrow> client_response option"
  rc_de_error :: "json \<Rightarrow> json_error option"
  rc_parse_error :: json_error
  rc_parse_sid :: "json \<Rightarrow> subscription_id option"
  rc_lossy :: "bytes \<Rightarrow> string"
  rc_post :: "string \<Rightarrow> string \<Rightarrow> 'w \<Rightarrow> (string + (bool \<times> bytes option)) \<times> 'w"

definition parse_response ::
  "'w rpc_client_ops \<Rightarrow> string
     \<Rightarrow> rpc_client_error + (rpc_id \<times> (rpc_client_error + json) \<times> string option \<times> subscription_id option)" where
  "parse_response H response =
     rbind (ok_or (rc_parse H response) RpcParseError) (\<lambda>response.
       let i = (case response_id response of Some i \<Rightarrow> i | None \<Rightarrow> IdNull);
           sid = response_subscription_id (rc_parse_sid H) response;
           meth = response_method response;
           result = (case response_into (rc_de_error H) (rc_parse_error H) response of
             Inl e \<Rightarrow> Inl (JsonRpcError e) | Inr v \<Rightarrow> Inr v)
       in Inr (i, result, meth, sid))"

section \<open>The client\<close>

text \<open>
  \<open>rc_post\<close> sends a body to a URL: it fails, or answers whether the status is a success and
  with the body, if it could be read. The id of an answer is not compared with that of the
  request.
\<close>

record simple_client =
  sc_url :: string

definition SimpleClient_new :: "string \<Rightarrow> simple_client" where
  "SimpleClient_new url = \<lparr>sc_url = url\<rparr>"

definition do_request ::
  "'w rpc_client_ops \<Rightarrow> simple_client \<Rightarrow> rpc_message \<Rightarrow> ('w, rpc_client_error, json) eaction" where
  "do_request H cl msg =
     sbind (slift (case msg of
              RmCall call \<Rightarrow> Inr (snd (fst (call_request (rc_print H) call RequestBuilder_new)))
            | RmNotify notify \<Rightarrow> Inr (rpc_notification (rc_print H) notify)
            | RmSubscribe _ \<Rightarrow> Inl (RpcClientError ''Unsupported `RpcMessage` type `Subscribe`.''))) (\<lambda>request.
     sbind (\<lambda>w. case rc_post H (sc_url cl) request w of
                  (Inl e, w) \<Rightarrow> (Inl (RpcClientError e), w) | (Inr r, w) \<Rightarrow> (Inr r, w)) (\<lambda>(ok, body).
     sbind (slift (if ok then Inr () else Inl (RpcClientError []))) (\<lambda>_.
     sbind (slift (ok_or body RpcParseError)) (\<lambda>resp.
     let resp_str = rc_lossy H resp in
     slift (case parse_response H resp_str of
              Inl _ \<Rightarrow> Inl RpcParseError | Inr (_, result, _, _) \<Rightarrow> result)))))"

definition call_method ::
  "'w rpc_client_ops \<Rightarrow> simple_client \<Rightarrow> string \<Rightarrow> params \<Rightarrow> ('w, rpc_client_error, json) eaction" where
  "call_method H cl meth params =
     (let msg = \<lparr>cmsg_method = meth, cmsg_params = params\<rparr> in do_request H cl (RmCall msg))"

definition rpc_notify ::
  "'w rpc_client_ops \<Rightarrow> simple_client \<Rightarrow> string \<Rightarrow> params \<Rightarrow> ('w, rpc_client_error, unit) eaction" where
  "rpc_notify H cl meth params =
     (let msg = \<lparr>cmsg_method = meth, cmsg_params = params\<rparr> in
      sbind (do_request H cl (RmNotify msg)) (\<lambda>_. sret ()))"

section \<open>A call that is served\<close>

text \<open>
  An HTTP server that runs \<open>jsonrpc_io_handler\<close> of a node, as far as one call goes: a result comes
  back under the id of the call, an error of the handler as an error object or, when the handler
  panics, as a broken connection, a refused request as a status.
\<close>

definition served ::
  "('s, 'w) node rpc_client_ops \<Rightarrow> string \<Rightarrow> ('s, 'w) env \<Rightarrow> 'w node_ops \<Rightarrow> 'w backend_ops \<Rightarrow> public_key
     \<Rightarrow> bytes option \<Rightarrow> rpc_method \<Rightarrow> params \<Rightarrow> bool" where
  "served H url X N B pk sig m p \<longleftrightarrow> (\<forall>n.
     let post = rc_post H url (rc_print H (MethodCall (method_as_str m) p (IdNum 0))) n in
     case jsonrpc_io_handler X N B pk sig (method_as_str m) p n of
       (Inr (Inr v), n') \<Rightarrow> \<exists>body. post = (Inr (True, Some body), n')
         \<and> rc_parse H (rc_lossy H body) = Some (Output (Success v (IdNum 0)))
     | (Inr (Inl e), n') \<Rightarrow> (\<exists>err. post = (Inl err, n')) \<or> (\<exists>body err. post = (Inr (True, Some body), n')
         \<and> rc_parse H (rc_lossy H body) = Some (Output (Failure err (IdNum 0))))
     | (Inl e, n') \<Rightarrow> \<exists>body. post = (Inr (False, body), n'))"

lemma call_method_post:
  "call_method H cl m p w = (case rc_post H (sc_url cl) (rc_print H (MethodCall m p (IdNum 0))) w of
     (Inl e, w') \<Rightarrow> (Inl (RpcClientError e), w')
   | (Inr (ok, body), w') \<Rightarrow> (if \<not> ok then Inl (RpcClientError []) else
       case body of None \<Rightarrow> Inl RpcParseError | Some b \<Rightarrow>
         (case parse_response H (rc_lossy H b) of Inl _ \<Rightarrow> Inl RpcParseError | Inr (_, r, _, _) \<Rightarrow> r), w'))"
  by (simp add: call_method_def do_request_def call_request_def single_request_def next_id_def
      RequestBuilder_new_def Let_def sbind_def ok_or_def split: prod.split sum.split option.split)

text \<open>A call answers as the handler does, and leaves the node where the handler leaves it.\<close>

lemma call_method_served:
  assumes "served H (sc_url cl) X N B pk sig m p"
  shows "\<exists>e. call_method H cl (method_as_str m) p n
    = (case jsonrpc_io_handler X N B pk sig (method_as_str m) p n of
         (Inr (Inr v), n') \<Rightarrow> (Inr v, n') | (_, n') \<Rightarrow> (Inl e, n'))"
proof -
  note s = assms [unfolded served_def Let_def, THEN spec, of n]
  obtain r n' where io: "jsonrpc_io_handler X N B pk sig (method_as_str m) p n = (r, n')" by fastforce
  show ?thesis
  proof (cases r)
    case (Inl e)
    then show ?thesis using s io by (auto simp: call_method_post)
  next
    case (Inr q)
    then show ?thesis using s io
      by (cases q) (auto simp: call_method_post parse_response_def response_into_def Let_def)
  qed
qed

lemma jsonrpc_io_authorised:
  assumes "sig = Some s" "verify_signature (en_ecc X) N s pk = Inr True"
  shows "jsonrpc_io_handler X N B pk sig (method_as_str m) p n = (case rpc_handler X N B m p True n of (r, n') \<Rightarrow> (Inr r, n'))"
  using assms by (simp add: jsonrpc_io_handler_def)

end
