(* ===== verification/BrowserRpc.thy ===== *)
theory BrowserRpc
  imports Browser RpcClient
begin

text \<open>
  The JSON-RPC client offered to JavaScript, \<open>browser/jsonrpc_client.rs\<close>, and the conversion of
  JavaScript values into parameters, \<open>browser/utils.rs\<close>. \<open>dec\<close> is the conversion of one value
  into JSON.
\<close>

text \<open>Values of an array that do not convert are left out; one of an object panics.\<close>

definition parse_params :: "(js_value \<Rightarrow> json option) \<Rightarrow> js_value \<Rightarrow> node_error + params" where
  "parse_params dec params = (case params of
       JsNull \<Rightarrow> Inr ParamsNone
     | JsArray xs \<Rightarrow> Inr (ParamsArray (List.map_filter dec xs))
     | JsObject kvs \<Rightarrow>
         rbind (rmap (\<lambda>(k, x). rbind (unwrap_or_panic (dec x)) (\<lambda>v. Inr (k, v))) kvs) (\<lambda>m. Inr (ParamsMap m))
     | _ \<Rightarrow> Inl (JsError ''unsupported params''))"

definition JsonRpcClient_new :: "string \<Rightarrow> simple_client" where
  "JsonRpcClient_new node = SimpleClient_new node"

definition JsonRpcClient_request ::
  "(js_value \<Rightarrow> json option) \<Rightarrow> (json \<Rightarrow> js_value option) \<Rightarrow> 'w rpc_client_ops \<Rightarrow> simple_client
     \<Rightarrow> string \<Rightarrow> js_value \<Rightarrow> ('w, node_error, js_value) eaction" where
  "JsonRpcClient_request dec enc H client meth params =
     sbind (slift (case parse_params dec params of
              Inl (NodePanicked e) \<Rightarrow> Inl (NodePanicked e) | Inl _ \<Rightarrow> Inl (JsError []) | Inr p \<Rightarrow> Inr p)) (\<lambda>params.
     sbind (map_err (\<lambda>_. JsError []) (call_method H client meth params)) (\<lambda>resp.
     slift (ok_or (enc resp) (JsError []))))"

text \<open>
  What JavaScript asks for reaches the server as it was given: an array or an object whose
  values convert is sent as these values, and the answer comes back converted.
\<close>

lemma parse_params_converts:
  "list_all2 (\<lambda>x v. dec x = Some v) xs vs \<Longrightarrow> parse_params dec (JsArray xs) = Inr (ParamsArray vs)"
  "list_all2 (\<lambda>(k, x) (k', v). k' = k \<and> dec x = Some v) kvs kvs'
     \<Longrightarrow> parse_params dec (JsObject kvs) = Inr (ParamsMap kvs')"
proof -
  show "list_all2 (\<lambda>x v. dec x = Some v) xs vs \<Longrightarrow> parse_params dec (JsArray xs) = Inr (ParamsArray vs)"
    by (simp add: parse_params_def, induction rule: list_all2_induct) (simp_all add: map_filter_simps)
  assume "list_all2 (\<lambda>(k, x) (k', v). k' = k \<and> dec x = Some v) kvs kvs'"
  then have "rmap (\<lambda>(k, x). rbind (unwrap_or_panic (dec x)) (\<lambda>v. Inr (k, v))) kvs = Inr kvs'"
    by (induction rule: list_all2_induct) (auto simp: unwrap_or_panic_def)
  then show "parse_params dec (JsObject kvs) = Inr (ParamsMap kvs')" by (simp add: parse_params_def)
qed

end
