(* ===== verification/Config.thy ===== *)
theory Config
  imports Processor
begin

text \<open>
  The configuration file of a node, \<open>config/mod.rs\<close>. The file system is a record of operations
  on the world \<open>'w\<close>, YAML a pair of functions. A path is the text that names it, without
  repeated separators.
\<close>

section \<open>Paths\<close>

abbreviation (input) sep :: char where
  "sep \<equiv> CHR ''/''"

text \<open>\<open>PathBuf::push\<close>, \<open>Path::strip_prefix("~")\<close> and \<open>Path::parent\<close>.\<close>

definition path_join :: "string \<Rightarrow> string \<Rightarrow> string" where
  "path_join p q =
     (if q \<noteq> [] \<and> hd q = sep \<or> p = [] then q
      else if last p = sep then p @ q else p @ [sep] @ q)"

definition strip_home :: "string \<Rightarrow> string option" where
  "strip_home p = (case p of
       [] \<Rightarrow> None
     | c # rest \<Rightarrow>
         if c = CHR ''~'' then (case rest of
             [] \<Rightarrow> Some []
           | d # rest \<Rightarrow> if d = sep then Some (dropWhile (\<lambda>x. x = sep) rest) else None)
         else None)"

definition path_parent :: "string \<Rightarrow> string option" where
  "path_parent p =
     (let r = dropWhile (\<lambda>x. x = sep) (rev p) in
      if r = [] then None
      else
        let d = dropWhile (\<lambda>x. x \<noteq> sep) r; e = dropWhile (\<lambda>x. x = sep) d in
        Some (rev (if d \<noteq> [] \<and> e = [] then [sep] else e)))"

record 'w fs_ops =
  fo_home :: "string option"
  fo_is_dir :: "'w \<Rightarrow> string \<Rightarrow> bool"
  fo_create_dir_all :: "string \<Rightarrow> 'w \<Rightarrow> (string + unit) \<times> 'w"
  fo_create :: "string \<Rightarrow> 'w \<Rightarrow> (string + unit) \<times> 'w"
  fo_write :: "string \<Rightarrow> string \<Rightarrow> 'w \<Rightarrow> unit option \<times> 'w"
  fo_open :: "'w \<Rightarrow> string \<Rightarrow> string + string"

section \<open>The configuration\<close>

record storage_config =
  st_path :: string
  st_capacity :: usize

definition StorageConfig_new :: "string \<Rightarrow> usize \<Rightarrow> storage_config" where
  "StorageConfig_new path capacity = \<lparr>st_path = path, st_capacity = capacity\<rparr>"

record config =
  cf_http_addr :: string
  cf_endpoint_url :: string
  cf_ecdsa_key :: secret_key
  cf_ice_servers :: string
  cf_stabilize_timeout :: usize
  cf_external_ip :: "string option"
  cf_backend :: "hidden_server_config list"
  cf_data_storage :: storage_config
  cf_measure_storage :: storage_config

definition DEFAULT_BIND_ADDRESS :: string where
  "DEFAULT_BIND_ADDRESS = ''127.0.0.1:50000''"

definition DEFAULT_ENDPOINT_URL :: string where
  "DEFAULT_ENDPOINT_URL = ''http://127.0.0.1:50000''"

definition DEFAULT_ICE_SERVERS :: string where
  "DEFAULT_ICE_SERVERS = ''stun://stun.l.google.com:19302''"

definition DEFAULT_STABILIZE_TIMEOUT :: usize where
  "DEFAULT_STABILIZE_TIMEOUT = 20"

definition DEFAULT_STORAGE_CAPACITY :: usize where
  "DEFAULT_STORAGE_CAPACITY = 200000000"

definition get_storage_location :: "string option \<Rightarrow> string \<Rightarrow> string \<Rightarrow> string" where
  "get_storage_location home prefix path =
     (let home_dir = home;
          expect = (case home_dir of
              Some dir \<Rightarrow> path_join (path_join dir prefix) path
            | None \<Rightarrow> path_join (path_join ''data'' prefix) path)
      in expect)"

definition DEFAULT_DATA_STORAGE_CONFIG :: "string option \<Rightarrow> storage_config" where
  "DEFAULT_DATA_STORAGE_CONFIG home =
     \<lparr>st_path = get_storage_location home ''.rings'' ''data'', st_capacity = DEFAULT_STORAGE_CAPACITY\<rparr>"

definition DEFAULT_MEASURE_STORAGE_CONFIG :: "string option \<Rightarrow> storage_config" where
  "DEFAULT_MEASURE_STORAGE_CONFIG home =
     \<lparr>st_path = get_storage_location home ''.rings'' ''measure'', st_capacity = DEFAULT_STORAGE_CAPACITY\<rparr>"

definition Config_new_with_key :: "string option \<Rightarrow> secret_key \<Rightarrow> config" where
  "Config_new_with_key home key =
     \<lparr>cf_http_addr = DEFAULT_BIND_ADDRESS, cf_endpoint_url = DEFAULT_ENDPOINT_URL, cf_ecdsa_key = key,
      cf_ice_servers = DEFAULT_ICE_SERVERS, cf_stabilize_timeout = DEFAULT_STABILIZE_TIMEOUT,
      cf_external_ip = None,
      cf_backend = [\<lparr>hc_name = ''ipfs'', hc_prefix = ''ipfs://''\<rparr>],
      cf_data_storage = DEFAULT_DATA_STORAGE_CONFIG home,
      cf_measure_storage = DEFAULT_MEASURE_STORAGE_CONFIG home\<rparr>"

text \<open>\<open>SecretKey::random\<close> reads the key from the world.\<close>

definition Config_default :: "string option \<Rightarrow> ('w \<Rightarrow> secret_key \<times> 'w) \<Rightarrow> 'w \<Rightarrow> config \<times> 'w" where
  "Config_default home random w =
     (case random w of (ecdsa_key, w) \<Rightarrow> (Config_new_with_key home ecdsa_key, w))"

section \<open>Reading and writing\<close>

text \<open>The home directory stands for a leading tilde; without one the code panics.\<close>

definition expand_home :: "'w fs_ops \<Rightarrow> string \<Rightarrow> node_error + string" where
  "expand_home F path =
     unwrap_or_panic (case strip_home path of
         Some stripped \<Rightarrow> map_option (\<lambda>p. path_join p stripped) (fo_home F)
       | None \<Rightarrow> Some path)"

definition fs_call :: "(string \<Rightarrow> node_error) \<Rightarrow> ('w \<Rightarrow> (string + 'a) \<times> 'w) \<Rightarrow> ('w, node_error, 'a) eaction" where
  "fs_call err f w = (case f w of (Inl e, w) \<Rightarrow> (Inl (err e), w) | (Inr x, w) \<Rightarrow> (Inr x, w))"

definition Config_write_fs ::
  "'w fs_ops \<Rightarrow> (config \<Rightarrow> string option) \<Rightarrow> config \<Rightarrow> string \<Rightarrow> ('w, node_error, string) eaction" where
  "Config_write_fs F to_yaml c path =
     sbind (slift (expand_home F path)) (\<lambda>path.
     sbind (slift (ok_or (path_parent path) (NodePanicked ''expect''))) (\<lambda>parent.
     sbind (sget (\<lambda>w. fo_is_dir F w parent)) (\<lambda>is_dir.
     sbind (if is_dir then sret () else fs_call CreateFileError (fo_create_dir_all F parent)) (\<lambda>_.
     sbind (fs_call CreateFileError (fo_create F path)) (\<lambda>_.
     sbind (slift (ok_or (to_yaml c) SerializeError)) (\<lambda>yaml.
     sbind (\<lambda>w. case fo_write F path yaml w of (r, w) \<Rightarrow> (ok_or r SerializeError, w)) (\<lambda>_.
     sret path)))))))"

definition Config_read_fs ::
  "'w fs_ops \<Rightarrow> (string \<Rightarrow> config option) \<Rightarrow> string \<Rightarrow> ('w, node_error, config) eaction" where
  "Config_read_fs F from_yaml path =
     sbind (slift (expand_home F path)) (\<lambda>path.
     sbind (sget (\<lambda>w. fo_open F w path)) (\<lambda>f.
     sbind (slift (case f of Inl e \<Rightarrow> Inl (OpenFileError e) | Inr yaml \<Rightarrow> Inr yaml)) (\<lambda>yaml.
     slift (ok_or (from_yaml yaml) DeserializeErr))))"

text \<open>
  What is written is read back. \<open>fs_keeps F\<close>: a file that was created and written opens with
  what was written.
\<close>

definition fs_keeps :: "'w fs_ops \<Rightarrow> bool" where
  "fs_keeps F \<longleftrightarrow> (\<forall>p yaml w w1 w2. fo_create F p w = (Inr (), w1) \<longrightarrow> fo_write F p yaml w1 = (Some (), w2) \<longrightarrow>
     fo_open F w2 p = Inr yaml)"

lemma fs_call_Inr [simp]: "fs_call err f w = (Inr x, w') \<longleftrightarrow> f w = (Inr x, w')"
  by (auto simp: fs_call_def split: prod.splits sum.splits)

lemma fs_ok_or_Inr [simp]: "(case f w of (r, w) \<Rightarrow> (ok_or r e, w)) = (Inr x, w') \<longleftrightarrow> f w = (Some x, w')"
  by (auto simp: ok_or_def split: prod.splits option.splits)

lemma config_written_read:
  assumes "fs_keeps F" "\<And>c yaml. to_yaml c = Some yaml \<Longrightarrow> from_yaml yaml = Some c"
    and "Config_write_fs F to_yaml c path w = (Inr p, w')"
  shows "Config_read_fs F from_yaml path w' = (Inr c, w')"
proof -
  obtain q where q: "expand_home F path = Inr q"
    using assms(3) by (cases "expand_home F path") (simp_all add: Config_write_fs_def)
  let ?put = "\<lambda>yaml w. case fo_write F q yaml w of (r, w) \<Rightarrow> (ok_or r SerializeError, w)"
  obtain w1 where "sbind (fs_call CreateFileError (fo_create F q)) (\<lambda>_.
     sbind (slift (ok_or (to_yaml c) SerializeError)) (\<lambda>yaml. sbind (?put yaml) (\<lambda>_. sret q))) w1 = (Inr p, w')"
    using assms(3) by (auto simp: Config_write_fs_def q sbind_Inr simp del: fs_call_Inr fs_ok_or_Inr)
  then obtain w2 yaml where "fo_create F q w1 = (Inr (), w2)" "to_yaml c = Some yaml"
      "fo_write F q yaml w2 = (Some (), w')"
    unfolding sbind_Inr [of "fs_call CreateFileError (fo_create F q)"]
    by (cases "to_yaml c") (auto simp: sbind_Inr)
  then have "fo_open F w' q = Inr yaml" "from_yaml yaml = Some c"
    using assms(1,2) by (auto simp: fs_keeps_def)
  then show ?thesis by (simp add: Config_read_fs_def q)
qed

end
