(* ===== verification/Cli.thy ===== *)
theory Cli
  imports RpcClient
begin

text \<open>
  The command-line client of a node, \<open>cli.rs\<close>: every command is one call of the JSON-RPC client
  with its parameters, and the reading of the answer. Loading a seed file and the JSON of a seed
  and of an HTTP request are the record \<open>cli_ops\<close>. An \<open>anyhow\<close> error is \<open>CliError\<close>; its text is
  only printed.
\<close>

datatype cli_error = CliError

type_synonym seed = "(did \<times> string) list"

record 'w cli_ops =
  cl_load_seed :: "string \<Rightarrow> 'w \<Rightarrow> seed option \<times> 'w"
  cl_seed_json :: "seed \<Rightarrow> json option"
  cl_http_json :: "http_request \<Rightarrow> json option"

record 'a client_output =
  co_result :: 'a
  co_display :: string

definition output_ok :: "string \<Rightarrow> 'a \<Rightarrow> cli_error + 'a client_output" where
  "output_ok display result = Inr \<lparr>co_result = result, co_display = display\<rparr>"

record 'w cli =
  ct_http :: "'w rpc_client_ops"
  ct_client :: simple_client

text \<open>\<open>Client::new\<close>: a client that sends the signature with every request.\<close>

definition cli_new :: "(string \<Rightarrow> 'w rpc_client_ops option) \<Rightarrow> string \<Rightarrow> string \<Rightarrow> cli_error + 'w cli" where
  "cli_new http_with_signature endpoint_url signature =
     rbind (ok_or (http_with_signature signature) CliError) (\<lambda>H.
       Inr \<lparr>ct_http = H, ct_client = SimpleClient_new endpoint_url\<rparr>)"

type_synonym ('w, 'a) command = "('w, cli_error, 'a client_output) eaction"

definition cli_call :: "'w cli \<Rightarrow> rpc_method \<Rightarrow> params \<Rightarrow> ('w, cli_error, json) eaction" where
  "cli_call C m p = map_err (\<lambda>_. CliError) (call_method (ct_http C) (ct_client C) (method_as_str m) p)"

section \<open>Reading answers\<close>

definition field :: "(string \<times> json) list \<Rightarrow> string \<Rightarrow> string option" where
  "field kvs k = Option.bind (map_of kvs k) json_as_str"

definition peer_info_of_json :: "json \<Rightarrow> peer_info option" where
  "peer_info_of_json v = (case v of
       JObject kvs \<Rightarrow>
         Option.bind (field kvs ''did'') (\<lambda>d.
         Option.bind (field kvs ''transport_id'') (\<lambda>t.
         Option.bind (field kvs ''state'') (\<lambda>s.
           Some \<lparr>pi_did = d, pi_transport_id = t, pi_state = s\<rparr>)))
     | JArray [JString d, JString t, JString s] \<Rightarrow> Some \<lparr>pi_did = d, pi_transport_id = t, pi_state = s\<rparr>
     | _ \<Rightarrow> None)"

definition transport_info_of_json :: "json \<Rightarrow> transport_info option" where
  "transport_info_of_json v = (case v of
       JObject kvs \<Rightarrow>
         Option.bind (field kvs ''transport_id'') (\<lambda>t.
         Option.bind (field kvs ''state'') (\<lambda>s. Some \<lparr>ti_transport_id = t, ti_state = s\<rparr>))
     | JArray [JString t, JString s] \<Rightarrow> Some \<lparr>ti_transport_id = t, ti_state = s\<rparr>
     | _ \<Rightarrow> None)"

definition json_list :: "(json \<Rightarrow> 'a option) \<Rightarrow> json \<Rightarrow> 'a list option" where
  "json_list f v = (case v of JArray xs \<Rightarrow> all_some (map f xs) | _ \<Rightarrow> None)"

fun join_with :: "string \<Rightarrow> string list \<Rightarrow> string" where
  "join_with sep [] = []"
| "join_with sep [x] = x"
| "join_with sep (x # y # xs) = x @ sep @ join_with sep (y # xs)"

definition newline :: string where
  "newline = [char_of (10 :: nat)]"

section \<open>Commands\<close>

definition done_with :: "string \<Rightarrow> json \<Rightarrow> ('w, unit) command" where
  "done_with display _ = slift (output_ok display ())"

definition cli_connect_peer_via_http :: "'w cli \<Rightarrow> string \<Rightarrow> ('w, string) command" where
  "cli_connect_peer_via_http C http_url =
     sbind (cli_call C ConnectPeerViaHttp (ParamsArray [JString http_url])) (\<lambda>resp.
     sbind (slift (ok_or (json_as_str resp) CliError)) (\<lambda>transport_id.
     slift (output_ok (''Your transport_id: '' @ transport_id) transport_id)))"

definition cli_connect_with_seed :: "'w cli_ops \<Rightarrow> 'w cli \<Rightarrow> string \<Rightarrow> ('w, unit) command" where
  "cli_connect_with_seed L C source =
     sbind (\<lambda>w. case cl_load_seed L source w of (seed, w) \<Rightarrow> (ok_or seed CliError, w)) (\<lambda>seed.
     sbind (slift (ok_or (cl_seed_json L seed) CliError)) (\<lambda>seed_v.
     sbind (cli_call C ConnectWithSeed (ParamsArray [seed_v])) (done_with ''Successful!'')))"

definition cli_answer_offer :: "'w cli \<Rightarrow> string \<Rightarrow> ('w, transport_and_ice) command" where
  "cli_answer_offer C ice_info =
     sbind (cli_call C AnswerOffer (ParamsArray [JString ice_info])) (\<lambda>resp.
     sbind (slift (ok_or (transport_and_ice_of_json resp) CliError)) (\<lambda>info.
     slift (output_ok (''transport_id: '' @ tai_transport_id info @ newline @ ''ice: '' @ tai_ice info) info)))"

definition cli_connect_with_did :: "'w cli \<Rightarrow> string \<Rightarrow> ('w, unit) command" where
  "cli_connect_with_did C d = sbind (cli_call C ConnectWithDid (ParamsArray [JString d])) (done_with ''Successful!'')"

definition cli_create_offer :: "'w cli \<Rightarrow> ('w, transport_and_ice) command" where
  "cli_create_offer C =
     sbind (cli_call C CreateOfferMethod (ParamsArray [])) (\<lambda>resp.
     sbind (slift (ok_or (transport_and_ice_of_json resp) CliError)) (\<lambda>info.
     slift (output_ok (newline @ ''transport_id: '' @ tai_transport_id info @ newline @ ''ice: '' @ tai_ice info)
       info)))"

definition cli_accept_answer :: "'w cli \<Rightarrow> string \<Rightarrow> string \<Rightarrow> ('w, peer_info) command" where
  "cli_accept_answer C transport_id ice =
     sbind (cli_call C AcceptAnswer (ParamsArray [JString transport_id, JString ice])) (\<lambda>resp.
     sbind (slift (ok_or (peer_info_of_json resp) CliError)) (\<lambda>peer.
     slift (output_ok (''transport_id: '' @ pi_transport_id peer) peer)))"

definition cli_list_peers :: "'w cli \<Rightarrow> ('w, unit) command" where
  "cli_list_peers C =
     sbind (cli_call C ListPeers (ParamsArray [])) (\<lambda>resp.
     sbind (slift (ok_or (json_list peer_info_of_json resp) CliError)) (\<lambda>peers.
     let display = [];
         display = display @ ''Did, TransportId, Status'' @ newline;
         display = display @ join_with newline
           (map (\<lambda>peer. pi_did peer @ '', '' @ pi_transport_id peer @ '', '' @ pi_state peer) peers)
     in slift (output_ok display ())))"

definition cli_disconnect :: "'w cli \<Rightarrow> string \<Rightarrow> ('w, unit) command" where
  "cli_disconnect C d = sbind (cli_call C Disconnect (ParamsArray [JString d])) (done_with ''Done.'')"

definition cli_list_pendings :: "'w cli \<Rightarrow> ('w, unit) command" where
  "cli_list_pendings C =
     sbind (cli_call C ListPendings (ParamsArray [])) (\<lambda>resp.
     sbind (slift (ok_or (json_list transport_info_of_json resp) CliError)) (\<lambda>resp.
     let display = [];
         display = display @ ''TransportId, Status'' @ newline;
         display = display @ concat (map (\<lambda>item. ti_transport_id item @ '', '' @ ti_state item) resp)
     in slift (output_ok display ())))"

definition cli_close_pending_transport :: "'w cli \<Rightarrow> string \<Rightarrow> ('w, unit) command" where
  "cli_close_pending_transport C transport_id =
     sbind (cli_call C ClosePendingTransport (ParamsArray [JString transport_id])) (done_with ''Done.'')"

definition cli_send_message :: "'w cli \<Rightarrow> string \<Rightarrow> string \<Rightarrow> ('w, unit) command" where
  "cli_send_message C d txt =
     (let params = [(''destination'', JString d), (''text'', JString txt)] in
      sbind (cli_call C SendTo (ParamsMap params)) (done_with ''Done.''))"

definition cli_send_custom_message :: "'w cli \<Rightarrow> string \<Rightarrow> u16 \<Rightarrow> string \<Rightarrow> ('w, unit) command" where
  "cli_send_custom_message C d message_type data =
     sbind (cli_call C SendCustomMessage
              (ParamsArray [JString d, JNumber (PosInt (ucast message_type)), JString data]))
       (done_with ''Done.'')"

definition cli_send_http_request_message ::
  "'w cli_ops \<Rightarrow> 'w cli \<Rightarrow> string \<Rightarrow> string \<Rightarrow> string \<Rightarrow> string \<Rightarrow> timeout \<Rightarrow> (string \<times> string) list
     \<Rightarrow> string option \<Rightarrow> ('w, unit) command" where
  "cli_send_http_request_message L C d name meth url timeout headers body =
     (let http_request = HttpRequest_new name meth url timeout headers (map_option as_bytes body) in
      sbind (slift (ok_or (cl_http_json L http_request) CliError)) (\<lambda>params2.
      sbind (cli_call C SendHttpRequestMessage (ParamsArray [JString d, params2])) (done_with ''Done.'')))"

definition cli_send_simple_text_message :: "'w cli \<Rightarrow> string \<Rightarrow> string \<Rightarrow> ('w, unit) command" where
  "cli_send_simple_text_message C d txt =
     sbind (cli_call C SendSimpleText (ParamsArray [JString d, JString txt])) (done_with ''Done.'')"

definition cli_register_service :: "'w cli \<Rightarrow> string \<Rightarrow> ('w, unit) command" where
  "cli_register_service C name =
     sbind (cli_call C RegisterService (ParamsArray [JString name])) (done_with ''Done.'')"

definition cli_lookup_service :: "'w cli \<Rightarrow> string \<Rightarrow> ('w, unit) command" where
  "cli_lookup_service C name =
     sbind (cli_call C LookupService (ParamsArray [JString name])) (\<lambda>resp.
     sbind (slift (ok_or (json_list json_as_str resp) CliError)) (\<lambda>dids.
     slift (output_ok (join_with newline dids) ())))"

definition cli_publish_message_to_topic :: "'w cli \<Rightarrow> string \<Rightarrow> string \<Rightarrow> ('w, unit) command" where
  "cli_publish_message_to_topic C topic data =
     sbind (cli_call C PublishMessageToTopic (ParamsArray [JString topic, JString data])) (done_with ''Done.'')"

text \<open>
  One turn of the loop of \<open>subscribe_topic\<close>, after its timer: the messages it yields and the
  index of the next turn. Errors are logged and the turn yields nothing.
\<close>

definition subscribe_turn ::
  "'w cli \<Rightarrow> string \<Rightarrow> u64 \<Rightarrow> 'w \<Rightarrow> (string list \<times> u64) \<times> 'w" where
  "subscribe_turn C topic index w =
     (case cli_call C FetchMessagesOfTopic (ParamsArray [JString topic, JNumber (PosInt index)]) w of
        (Inl _, w) \<Rightarrow> (([], index), w)
      | (Inr resp, w) \<Rightarrow>
          (case json_list json_as_str resp of
             None \<Rightarrow> (([], index), w)
           | Some messages \<Rightarrow> ((messages, index + word_of_nat (length messages)), w)))"

end
