(* ===== verification/Program.thy ===== *)
theory Program
  imports Config Cli Measure
begin

text \<open>
  The program \<open>rings\<close>, \<open>bin/rings.rs\<close>: its commands with their arguments, the client that a
  command makes of the configuration file, the start of a node and the dispatch of \<open>main\<close>. The
  parsing of the command line by \<open>clap\<close>, with its defaults and environment variables, ends in a
  value of \<open>main_command\<close>. A command ends with the text it displays, an error or a panic.
\<close>

datatype main_error = MainError | MainPanicked string

definition main_err :: "node_error \<Rightarrow> main_error" where
  "main_err e = (case e of NodePanicked s \<Rightarrow> MainPanicked s | _ \<Rightarrow> MainError)"

definition main_core_err :: "error \<Rightarrow> main_error" where
  "main_core_err e = (case e of Panicked s \<Rightarrow> MainPanicked s | _ \<Rightarrow> MainError)"

section \<open>Commands\<close>

record client_args =
  ca_endpoint_url :: "string option"
  ca_ecdsa_key :: "secret_key option"
  ca_config :: string

record init_command =
  in_location :: string
  in_ecdsa_key :: "secret_key option"

record run_command =
  rn_http_addr :: "string option"
  rn_ice_servers :: "string option"
  rn_ecdsa_key :: "secret_key option"
  rn_stabilize_timeout :: "usize option"
  rn_external_ip :: "string option"
  rn_storage_path :: "string option"
  rn_storage_capacity :: "usize option"
  rn_config :: string

record http_command =
  hm_to_did :: string
  hm_name :: string
  hm_method :: string
  hm_path :: string
  hm_headers :: "string list"
  hm_body :: "string option"
  hm_timeout :: timeout

datatype connect_command =
    ConnectNodeCmd client_args string
  | ConnectDidCmd client_args string
  | ConnectSeedCmd client_args string

datatype sdp_command =
    SdpOfferCmd client_args string
  | SdpAnswerCmd client_args string
  | SdpAcceptAnswerCmd client_args string string

datatype peer_command = PeerListCmd client_args | PeerDisconnectCmd client_args string

datatype pending_command = PendingListCmd client_args | PendingCloseCmd client_args string

datatype send_command =
    SendRawCmd client_args string string
  | SendHttpCmd client_args http_command
  | SendSimpleTextCmd client_args string string
  | SendCustomCmd client_args string u16 string

datatype service_command = ServiceRegisterCmd client_args string | ServiceLookupCmd client_args string

datatype main_command =
    InitCmd init_command
  | RunCmd run_command
  | PubsubCmd client_args string
  | ConnectCmd connect_command
  | SdpCmd sdp_command
  | PeerCmd peer_command
  | PendingCmd pending_command
  | SendCmd send_command
  | ServiceCmd service_command

section \<open>Clients\<close>

text \<open>
  What the program uses around the modelled parts: the file system, YAML, random keys, the HTTP
  client that sends a signature, and the method names of HTTP.
\<close>

record 'w program_ops =
  po_fs :: "'w fs_ops"
  po_to_yaml :: "config \<Rightarrow> string option"
  po_from_yaml :: "string \<Rightarrow> config option"
  po_random :: "'w \<Rightarrow> secret_key \<times> 'w"
  po_http :: "string \<Rightarrow> 'w rpc_client_ops option"
  po_cli :: "'w cli_ops"
  po_http_method :: "string \<Rightarrow> string option"

definition new_client ::
  "'w program_ops \<Rightarrow> ecc \<Rightarrow> 'x node_ops \<Rightarrow> client_args \<Rightarrow> ('w, main_error, 'w cli) eaction" where
  "new_client P E N args =
     sbind (map_err main_err (Config_read_fs (po_fs P) (po_from_yaml P) (ca_config args))) (\<lambda>c.
     let endpoint_url = (case ca_endpoint_url args of Some u \<Rightarrow> u | None \<Rightarrow> cf_endpoint_url c);
         ecdsa_key = (case ca_ecdsa_key args of Some k \<Rightarrow> k | None \<Rightarrow> cf_ecdsa_key c)
     in map_err (\<lambda>_. MainError) (slift (cli_new (po_http P) endpoint_url (generate_signature E N ecdsa_key))))"

text \<open>A command against a client: run, and displayed.\<close>

definition client_command ::
  "'w program_ops \<Rightarrow> ecc \<Rightarrow> 'x node_ops \<Rightarrow> client_args \<Rightarrow> ('w cli \<Rightarrow> ('w, 'a) command)
     \<Rightarrow> ('w, main_error, string) eaction" where
  "client_command P E N args run =
     sbind (new_client P E N args) (\<lambda>C.
     sbind (map_err (\<lambda>_. MainError) (run C)) (\<lambda>out. sret (co_display out)))"

text \<open>A header argument is split at its colons; a second part is taken without asking for it.\<close>

definition trim_spaces :: "string \<Rightarrow> string" where
  "trim_spaces s = rev (dropWhile (\<lambda>c. c = CHR '' '') (rev (dropWhile (\<lambda>c. c = CHR '' '') s)))"

definition header_of_arg :: "string \<Rightarrow> main_error + (string \<times> string)" where
  "header_of_arg x =
     (let b = split_on (CHR '':'') x in
      rbind (ok_or (list_get b 0) (MainPanicked ''index'')) (\<lambda>b0.
      rbind (ok_or (list_get b 1) (MainPanicked ''index'')) (\<lambda>b1.
        Inr (trim_spaces b0, trim_spaces b1))))"

definition send_http ::
  "'w program_ops \<Rightarrow> ecc \<Rightarrow> 'x node_ops \<Rightarrow> client_args \<Rightarrow> http_command \<Rightarrow> ('w, main_error, string) eaction" where
  "send_http P E N ca args =
     sbind (new_client P E N ca) (\<lambda>C.
     sbind (slift (ok_or (po_http_method P (hm_method args)) MainError)) (\<lambda>meth.
     sbind (slift (rmap header_of_arg (hm_headers args))) (\<lambda>headers.
     sbind (map_err (\<lambda>_. MainError) (cli_send_http_request_message (po_cli P) C (hm_to_did args) (hm_name args) meth
              (hm_path args) (hm_timeout args) headers (hm_body args))) (\<lambda>out.
     sret (co_display out)))))"

text \<open>
  \<open>pubsub_run\<close>: a line of the input is published, and the end of the input panics; the messages
  of the topic are those of \<open>subscribe_turn\<close>.
\<close>

definition pubsub_line :: "'w cli \<Rightarrow> string \<Rightarrow> unit + string option \<Rightarrow> ('w, main_error, unit) eaction" where
  "pubsub_line C topic l =
     (case l of
        Inl _ \<Rightarrow> serr MainError
      | Inr None \<Rightarrow> serr (MainPanicked ''expect'')
      | Inr (Some line) \<Rightarrow>
          sbind (map_err (\<lambda>_. MainError) (cli_publish_message_to_topic C topic line)) (\<lambda>_. sret ()))"

section \<open>Starting a node\<close>

definition get_value :: "'v option \<Rightarrow> 'v \<Rightarrow> 'v" where
  "get_value val default_value = (case val of Some v \<Rightarrow> v | None \<Rightarrow> default_value)"

definition storage_settings :: "run_command \<Rightarrow> config \<Rightarrow> storage_config \<times> storage_config" where
  "storage_settings args c =
     (case rn_storage_path args of
        Some storage_path \<Rightarrow>
          (let data_path = path_join storage_path ''data''; measure_path = path_join storage_path ''measure'';
               capacity = get_value (rn_storage_capacity args) DEFAULT_STORAGE_CAPACITY
           in (StorageConfig_new data_path capacity, StorageConfig_new measure_path capacity))
      | None \<Rightarrow> (cf_data_storage c, cf_measure_storage c))"

text \<open>
  What \<open>daemon_run\<close> has set up when it joins the listening node and its HTTP service. \<open>start\<close>
  turns the counters into the argument of the swarm and the world in which it begins; \<open>fresh\<close> is
  the random session key.
\<close>

record ('d, 'x) daemon =
  da_did :: did
  da_node :: "('d kv_storage, 'x) node"
  da_backend :: "hidden_server_config list"
  da_stabilize_timeout :: usize
  da_pubkey :: public_key
  da_bind_addr :: string

definition daemon_run ::
  "'w program_ops \<Rightarrow> ecc \<Rightarrow> (string \<Rightarrow> url option) \<Rightarrow> (string \<Rightarrow> usize \<Rightarrow> 'd option)
     \<Rightarrow> ('d kv_storage periodic_measure \<Rightarrow> (did \<Rightarrow> measure_counter \<Rightarrow> 'x \<Rightarrow> 'x) \<times> 'x)
     \<Rightarrow> u128 \<Rightarrow> secret_key \<Rightarrow> run_command \<Rightarrow> ('w, main_error, ('d, 'x) daemon) eaction" where
  "daemon_run P E parse open_db start now fresh args =
     sbind (map_err main_err (Config_read_fs (po_fs P) (po_from_yaml P) (rn_config args))) (\<lambda>c.
     let key = get_value (rn_ecdsa_key args) (cf_ecdsa_key c);
         did = secret_key_address E key;
         (data_storage, measure_storage) = storage_settings args c
     in slift (
       rbind (case kv_new_with_cap_and_path open_db (st_capacity data_storage) (st_path data_storage) of
                Inl e \<Rightarrow> Inl (main_core_err e) | Inr s \<Rightarrow> Inr s) (\<lambda>per_data_storage.
       rbind (case kv_new_with_cap_and_path open_db (st_capacity measure_storage) (st_path measure_storage) of
                Inl e \<Rightarrow> Inl (main_core_err e) | Inr s \<Rightarrow> Inr s) (\<lambda>per_measure_storage.
       let measure = PeriodicMeasure_new per_measure_storage;
           stuns = get_value (rn_ice_servers args) (cf_ice_servers c);
           external_ip = get_value (map_option Some (rn_external_ip args)) (cf_external_ip c)
       in case start measure of (counter, world) \<Rightarrow>
       rbind (case rbind (SwarmBuilder_new parse stuns per_data_storage) (\<lambda>b.
                let b = builder_key E key b; b = builder_external_address external_ip b in
                builder_build E now fresh (Some counter) world b) of
                Inl e \<Rightarrow> Inl (main_core_err e) | Inr n \<Rightarrow> Inr n) (\<lambda>swarm.
       let backend_config = cf_backend c;
           stabilize_timeout = get_value (rn_stabilize_timeout args) (cf_stabilize_timeout c);
           pubkey = secret_key_pubkey E key;
           bind_addr = get_value (rn_http_addr args) (cf_http_addr c)
       in Inr \<lparr>da_did = did, da_node = swarm, da_backend = backend_config,
               da_stabilize_timeout = stabilize_timeout, da_pubkey = pubkey, da_bind_addr = bind_addr\<rparr>)))))"

section \<open>Dispatch\<close>

definition init_run :: "'w program_ops \<Rightarrow> init_command \<Rightarrow> ('w, main_error, string) eaction" where
  "init_run P args =
     sbind (case in_ecdsa_key args of
              Some key \<Rightarrow> sret (Config_new_with_key (fo_home (po_fs P)) key)
            | None \<Rightarrow> (\<lambda>w. case Config_default (fo_home (po_fs P)) (po_random P) w of (c, w) \<Rightarrow> (Inr c, w))) (\<lambda>config.
     sbind (map_err main_err (Config_write_fs (po_fs P) (po_to_yaml P) config (in_location args))) (\<lambda>p.
     sret (''Your config file has saved to: '' @ p)))"

text \<open>
  The arms of \<open>main\<close> that end; \<open>Run\<close> and \<open>Pubsub\<close> go on for ever and are \<open>daemon_run\<close> and
  \<open>pubsub_line\<close>.
\<close>

fun main_run ::
  "'w program_ops \<Rightarrow> ecc \<Rightarrow> 'x node_ops \<Rightarrow> main_command \<Rightarrow> ('w, main_error, string) eaction option" where
  "main_run P E N (ConnectCmd (ConnectNodeCmd ca node_url)) =
     Some (client_command P E N ca (\<lambda>C. cli_connect_peer_via_http C node_url))"
| "main_run P E N (ConnectCmd (ConnectDidCmd ca d)) = Some (client_command P E N ca (\<lambda>C. cli_connect_with_did C d))"
| "main_run P E N (ConnectCmd (ConnectSeedCmd ca source)) =
     Some (client_command P E N ca (\<lambda>C. cli_connect_with_seed (po_cli P) C source))"
| "main_run P E N (SdpCmd (SdpOfferCmd ca ice_server)) = Some (client_command P E N ca cli_create_offer)"
| "main_run P E N (SdpCmd (SdpAnswerCmd ca ice)) = Some (client_command P E N ca (\<lambda>C. cli_answer_offer C ice))"
| "main_run P E N (SdpCmd (SdpAcceptAnswerCmd ca transport_id ice)) =
     Some (client_command P E N ca (\<lambda>C. cli_accept_answer C transport_id ice))"
| "main_run P E N (PeerCmd (PeerListCmd ca)) = Some (client_command P E N ca cli_list_peers)"
| "main_run P E N (PeerCmd (PeerDisconnectCmd ca address)) =
     Some (client_command P E N ca (\<lambda>C. cli_disconnect C address))"
| "main_run P E N (PendingCmd (PendingListCmd ca)) = Some (client_command P E N ca cli_list_pendings)"
| "main_run P E N (PendingCmd (PendingCloseCmd ca transport_id)) =
     Some (client_command P E N ca (\<lambda>C. cli_close_pending_transport C transport_id))"
| "main_run P E N (SendCmd (SendRawCmd ca to_did txt)) =
     Some (client_command P E N ca (\<lambda>C. cli_send_message C to_did txt))"
| "main_run P E N (SendCmd (SendHttpCmd ca args)) = Some (send_http P E N ca args)"
| "main_run P E N (SendCmd (SendSimpleTextCmd ca to_did txt)) =
     Some (client_command P E N ca (\<lambda>C. cli_send_simple_text_message C to_did txt))"
| "main_run P E N (SendCmd (SendCustomCmd ca to_did message_type data)) =
     Some (client_command P E N ca (\<lambda>C. cli_send_custom_message C to_did message_type data))"
| "main_run P E N (ServiceCmd (ServiceRegisterCmd ca name)) =
     Some (client_command P E N ca (\<lambda>C. cli_register_service C name))"
| "main_run P E N (ServiceCmd (ServiceLookupCmd ca name)) =
     Some (client_command P E N ca (\<lambda>C. cli_lookup_service C name))"
| "main_run P E N (InitCmd args) = Some (init_run P args)"
| "main_run P E N (RunCmd args) = None"
| "main_run P E N (PubsubCmd ca topic) = None"

end
