(* ===== verification/CliProps.thy ===== *)
theory CliProps
  imports Cli ProcessorProps "HOL-Library.Sublist" "HOL-Library.Countable"
begin

text \<open>
  What the commands do to the node that serves them: each runs the handler of its name with
  parameters that it accepts, and a subscription to a topic yields what the topic's virtual
  node gains.
\<close>

section \<open>Commands at the node\<close>

definition serves_cli ::
  "('s, 'w) node cli \<Rightarrow> ('s, 'w) env \<Rightarrow> 'w node_ops \<Rightarrow> 'w backend_ops \<Rightarrow> rpc_method \<Rightarrow> params \<Rightarrow> bool" where
  "serves_cli C X N B m p \<longleftrightarrow> (\<exists>pk sig. served (ct_http C) (sc_url (ct_client C)) X N B pk (Some sig) m p
     \<and> verify_signature (en_ecc X) N sig pk = Inr True)"

text \<open>A command's call is the handler, run with authorisation.\<close>

lemma cli_call_handled:
  assumes "serves_cli C X N B m p"
  shows "cli_call C m p = map_err (\<lambda>_. CliError) (rpc_handler X N B m p True)"
proof
  fix n
  obtain pk sig where s: "served (ct_http C) (sc_url (ct_client C)) X N B pk (Some sig) m p"
    and v: "verify_signature (en_ecc X) N sig pk = Inr True"
    using assms by (auto simp: serves_cli_def)
  obtain r n' where h: "rpc_handler X N B m p True n = (r, n')" by fastforce
  show "cli_call C m p n = map_err (\<lambda>_. CliError) (rpc_handler X N B m p True) n"
    using call_method_served [OF s, of n] jsonrpc_io_authorised [OF refl v, of B m p n]
    by (cases r) (auto simp: cli_call_def map_err_def h)
qed

text \<open>Commands that only report success do to the node what the processor does.\<close>

lemma cli_map_err [simp]: "map_err (\<lambda>_. e) (map_err f m) = map_err (\<lambda>_. e) m"
  by (auto simp: map_err_def fun_eq_iff split: prod.split sum.split)

lemma peer_info_roundtrip [simp]: "peer_info_of_json (peer_info_json p) = Some p"
  by (simp add: peer_info_of_json_def peer_info_json_def field_def json_as_str_def)

lemma sget_peer_info:
  "sbind (sget (\<lambda>n. peer_info_json (f n))) (\<lambda>resp. sbind (slift (ok_or (peer_info_of_json resp) CliError))
     (\<lambda>peer. sret (k peer))) = sget (\<lambda>n. k (f n))"
  by (simp add: fun_eq_iff)

lemma peer_info_from_id [simp]: "pi_transport_id (peer_info_from d t st) = t"
  by (simp add: peer_info_from_def)

lemma transport_info_roundtrip [simp]: "transport_info_of_json (transport_info_json p) = Some p"
  by (simp add: transport_info_of_json_def transport_info_json_def field_def json_as_str_def)

text \<open>The calls of the commands below, with their parameters.\<close>

definition cli_calls :: "string \<Rightarrow> string \<Rightarrow> string \<Rightarrow> string \<Rightarrow> string \<Rightarrow> string \<Rightarrow> (rpc_method \<times> params) list" where
  "cli_calls url offer t ice d name =
     [(ConnectPeerViaHttp, ParamsArray [JString url]), (CreateOfferMethod, ParamsArray []),
      (AnswerOffer, ParamsArray [JString offer]), (AcceptAnswer, ParamsArray [JString t, JString ice]),
      (Disconnect, ParamsArray [JString d]), (ClosePendingTransport, ParamsArray [JString t]),
      (RegisterService, ParamsArray [JString name])]"

text \<open>
  C25: a command does to its node what the processor does. Typed against a node that serves
  JSON-RPC and knows the signature, connecting, offering, answering, accepting, disconnecting
  (from an address that reads as an identifier), closing and registering (under any name) run the
  operation of that name with the arguments of the command: the node ends in the same state, and
  the command reports the operation's answer, or an error exactly when the operation fails.
\<close>

theorem cli_commands_reach_processor:
  assumes "\<And>m p. (m, p) \<in> set (cli_calls url offer t ice d name) \<Longrightarrow> serves_cli C X N B m p"
    and "did_from_str (en_codec X) d = Inr did"
  shows "cli_connect_peer_via_http C url = map_err (\<lambda>_. CliError)
      (sbind (proc_connect_peer_via_http X N url) (\<lambda>u. sret \<lparr>co_result = en_uuid_str X u,
         co_display = ''Your transport_id: '' @ en_uuid_str X u\<rparr>))
    \<and> map_err (\<lambda>_. ()) (map_value co_result (cli_create_offer C)) = map_err (\<lambda>_. ())
      (map_value (TransportAndIce_from X) (proc_create_offer X))
    \<and> map_err (\<lambda>_. ()) (map_value co_result (cli_answer_offer C offer)) = map_err (\<lambda>_. ())
      (map_value (TransportAndIce_from X) (proc_answer_offer X offer))
    \<and> cli_accept_answer C t ice = map_err (\<lambda>_. CliError) (sbind (proc_accept_answer X t ice) (\<lambda>p.
        sget (\<lambda>n. \<lparr>co_result = peer_info_from (no_addr N (fst p)) (en_uuid_str X (snd p))
            (ice_state_string N (sw_world n) (snd p)), co_display = ''transport_id: '' @ en_uuid_str X (snd p)\<rparr>)))
    \<and> cli_disconnect C d = map_err (\<lambda>_. CliError)
      (sbind (proc_disconnect X did) (\<lambda>_. sret \<lparr>co_result = (), co_display = ''Done.''\<rparr>))
    \<and> cli_close_pending_transport C t = map_err (\<lambda>_. CliError)
      (sbind (proc_close_pending_transport X t) (\<lambda>_. sret \<lparr>co_result = (), co_display = ''Done.''\<rparr>))
    \<and> cli_register_service C name = map_err (\<lambda>_. CliError)
      (sbind (proc_register_service X N name) (\<lambda>_. sret \<lparr>co_result = (), co_display = ''Done.''\<rparr>))"
proof -
  have calls: "(m, p) \<in> set (cli_calls url offer t ice d name) \<Longrightarrow>
      cli_call C m p = map_err (\<lambda>_. CliError) (rpc_handler X N B m p True)" for m p
    by (rule cli_call_handled [OF assms(1)])
  show ?thesis
    by (intro conjI)
       (simp_all add: cli_connect_peer_via_http_def cli_create_offer_def cli_answer_offer_def
         cli_accept_answer_def cli_disconnect_def cli_close_pending_transport_def cli_register_service_def
         calls cli_calls_def rpc_connect_peer_via_http_def rpc_create_offer_def rpc_answer_offer_def
         rpc_accept_answer_def rpc_close_connection_def rpc_close_pending_transport_def
         rpc_register_service_def rpc_params map_err_sbind sbind_assoc done_with_def assms(2)
         peer_json_def output_ok_def slift_Inr map_value_def sget_peer_info del: action_simps)
qed


section \<open>Subscriptions\<close>

text \<open>The turns of a subscription, each at the node as it is by then.\<close>

fun subscribe_turns :: "'w cli \<Rightarrow> string \<Rightarrow> u64 \<Rightarrow> 'w list \<Rightarrow> string list \<times> u64" where
  "subscribe_turns C topic index [] = ([], index)"
| "subscribe_turns C topic index (w # ws) =
     (case subscribe_turn C topic index w of ((messages, index), _) \<Rightarrow>
        (case subscribe_turns C topic index ws of (rest, index) \<Rightarrow> (messages @ rest, index)))"

text \<open>\<open>topic_at X vid n v\<close>: fetching the virtual node at \<open>n\<close> leaves \<open>v\<close> in the cache.\<close>

definition topic_at :: "('s, 'w) env \<Rightarrow> did \<Rightarrow> ('s, 'w) node \<Rightarrow> virtual_node \<Rightarrow> bool" where
  "topic_at X vid n v \<longleftrightarrow> (\<exists>m. storage_fetch X vid n = (Inr (), m) \<and> storage_check_cache m vid = Some v)"

definition texts_of :: "codec \<Rightarrow> encoded list \<Rightarrow> string list" where
  "texts_of C es = List.map_filter (\<lambda>e. case decode_string C e of Inl _ \<Rightarrow> None | Inr s \<Rightarrow> Some s) es"

lemma all_some_strings [simp]: "json_list json_as_str (JArray (map JString ss)) = Some ss"
  by (induction ss) (simp_all add: json_list_def json_as_str_def)

text \<open>A turn yields the texts that decode among the entries from its index on.\<close>

lemma subscribe_turn_yields:
  assumes "serves_cli C X N B FetchMessagesOfTopic (ParamsArray [JString topic, JNumber (PosInt i)])"
    and "gen_did (en_codec X) topic = Inr vid" "topic_at X vid n v" "i < 2 ^ 63"
  shows "fst (subscribe_turn C topic i n) =
    (let ss = texts_of (en_codec X) (drop (unat i) (vn_data v)) in (ss, i + word_of_nat (length ss)))"
proof -
  obtain m where m: "storage_fetch X vid n = (Inr (), m)" "storage_check_cache m vid = Some v"
    using assms(3) by (auto simp: topic_at_def)
  have "rpc_handler X N B FetchMessagesOfTopic (ParamsArray [JString topic, JNumber (PosInt i)]) True n
      = (Inr (JArray (map JString (texts_of (en_codec X) (drop (unat i) (vn_data v))))), m)"
    using m assms(2,4) by (simp add: rpc_fetch_messages_of_topic_def rpc_params json_as_i64_def sbind_def
        proc_storage_fetch_def proc_storage_check_cache_def decoded_strings_def texts_of_def map_err_def)
  then show ?thesis
    by (simp add: subscribe_turn_def cli_call_handled [OF assms(1)] map_err_def Let_def)
qed

lemma texts_of_decodable:
  "list_all2 (\<lambda>e s. decode_string C e = Inr s) es ss \<Longrightarrow> texts_of C (drop k es) = drop k ss"
proof (induction k arbitrary: es ss)
  case 0
  then show ?case by (induction rule: list_all2_induct) (simp_all add: texts_of_def map_filter_simps)
next
  case (Suc k)
  then show ?case by (cases es) (auto simp: list_all2_Cons1 texts_of_def map_filter_simps)
qed

text \<open>
  C34: a subscription yields every message of its topic once, in order. When each turn finds the
  topic's virtual node with entries that decode, and its entries only grow at the end, the
  turns together yield the texts of the last one, and the index is their number.
\<close>

theorem subscription_yields_each_once:
  assumes "\<And>i. serves_cli C X N B FetchMessagesOfTopic (ParamsArray [JString topic, JNumber (PosInt i)])"
    and "gen_did (en_codec X) topic = Inr vid"
    and "list_all2 (\<lambda>n (v, ss). topic_at X vid n v
      \<and> list_all2 (\<lambda>e s. decode_string (en_codec X) e = Inr s) (vn_data v) ss \<and> length ss < 2 ^ 63) ns vs"
    and "sorted_wrt prefix (map snd vs)" "ns \<noteq> []"
  shows "subscribe_turns C topic 0 ns = (snd (last vs), word_of_nat (length (snd (last vs))))"
proof -
  have "subscribe_turns C topic (word_of_nat k) ns
      = (drop k (snd (last vs)), word_of_nat (length (snd (last vs))))"
    if "list_all2 (\<lambda>n (v, ss). topic_at X vid n v
        \<and> list_all2 (\<lambda>e s. decode_string (en_codec X) e = Inr s) (vn_data v) ss \<and> length ss < 2 ^ 63) ns vs"
      "sorted_wrt prefix (map snd vs)" "ns \<noteq> []" "k \<le> length (snd (hd vs))" for k ns vs
    using that
  proof (induction ns arbitrary: vs k)
    case (Cons n ns)
    then obtain v ss vs' where vs: "vs = (v, ss) # vs'" and t: "topic_at X vid n v"
        "list_all2 (\<lambda>e s. decode_string (en_codec X) e = Inr s) (vn_data v) ss" "length ss < 2 ^ 63"
      and rest: "list_all2 (\<lambda>n (v, ss). topic_at X vid n v
        \<and> list_all2 (\<lambda>e s. decode_string (en_codec X) e = Inr s) (vn_data v) ss \<and> length ss < 2 ^ 63) ns vs'"
      by (auto simp: list_all2_Cons1)
    have k: "k \<le> length ss" using Cons.prems(4) vs by simp
    then have i: "unat (word_of_nat k :: u64) = k" "(word_of_nat k :: u64) < 2 ^ 63"
      using t(3) by (simp_all add: unat_of_nat word_less_nat_alt)
    have turn: "fst (subscribe_turn C topic (word_of_nat k) n) = (drop k ss, word_of_nat (length ss))"
      using subscribe_turn_yields [OF assms(1,2) t(1) i(2)] texts_of_decodable [OF t(2), of k] i(1) k
      by (simp add: Let_def flip: of_nat_add)
    show ?case
    proof (cases "ns = []")
      case True
      then show ?thesis using turn rest vs by (simp add: split_beta)
    next
      case False
      then have ne: "vs' \<noteq> []" using rest by auto
      have pre: "prefix ss (snd (last vs'))" "length ss \<le> length (snd (hd vs'))"
        using Cons.prems(2) vs ne by (auto simp: prefix_length_le)
      have "subscribe_turns C topic (word_of_nat (length ss)) ns
          = (drop (length ss) (snd (last vs')), word_of_nat (length (snd (last vs'))))"
        using Cons.prems(2) vs pre(2) by (intro Cons.IH [OF rest _ False]) simp_all
      moreover have "drop k ss @ drop (length ss) (snd (last vs')) = drop k (snd (last vs'))"
        using pre(1) k by (auto simp: prefix_def)
      ultimately show ?thesis using turn vs ne by (simp add: split_beta)
    qed
  qed simp
  from this [OF assms(3-5), of 0] show ?thesis by simp
qed

text \<open>
  A virtual node holds at most \<open>VNODE_DATA_MAX_LEN\<close> entries and forgets the oldest. Once a
  subscription has seen that many it yields nothing any more, whatever is published.
\<close>

lemma subscription_stalls:
  assumes "serves_cli C X N B FetchMessagesOfTopic
        (ParamsArray [JString topic, JNumber (PosInt (word_of_nat VNODE_DATA_MAX_LEN))])"
    and "gen_did (en_codec X) topic = Inr vid" "topic_at X vid n v" "length (vn_data v) \<le> VNODE_DATA_MAX_LEN"
  shows "fst (subscribe_turn C topic (word_of_nat VNODE_DATA_MAX_LEN) n) = ([], word_of_nat VNODE_DATA_MAX_LEN)"
  using subscribe_turn_yields [OF assms(1-3)] assms(4)
  by (simp add: VNODE_DATA_MAX_LEN_def texts_of_def map_filter_simps)

text \<open>An entry that does not decode is not counted, so the next turn repeats a message.\<close>

lemma subscription_repeats:
  assumes "\<And>i. serves_cli C X N B FetchMessagesOfTopic (ParamsArray [JString topic, JNumber (PosInt i)])"
    and "gen_did (en_codec X) topic = Inr vid" "topic_at X vid n v"
    and "vn_data v = [a, b]" "decode_string (en_codec X) a = Inl e" "decode_string (en_codec X) b = Inr s"
  shows "subscribe_turns C topic 0 [n, n] = ([s, s], 2)"
proof -
  have "fst (subscribe_turn C topic 0 n) = ([s], 1)" "fst (subscribe_turn C topic 1 n) = ([s], 2)"
    using subscribe_turn_yields [OF assms(1-3), of 0] subscribe_turn_yields [OF assms(1-3), of 1] assms(4-6)
    by (simp_all add: texts_of_def map_filter_simps)
  then show ?thesis by (simp add: split_beta)
qed

section \<open>A server in memory\<close>

text \<open>
  For the witnesses: requests and results travel as texts whose length numbers them, and the
  HTTP client runs the handler.
\<close>

instance json_number :: countable by countable_datatype
instance json :: countable by countable_datatype
instance params :: countable by countable_datatype
instance rpc_id :: countable by countable_datatype
instance rpc_call :: countable by countable_datatype

definition demo_http ::
  "('s, 'w) env \<Rightarrow> 'w node_ops \<Rightarrow> 'w backend_ops \<Rightarrow> public_key \<Rightarrow> bytes option \<Rightarrow> ('s, 'w) node rpc_client_ops" where
  "demo_http X N B pk sig =
     \<lparr>rc_print = (\<lambda>c. replicate (to_nat c) CHR ''x''),
      rc_parse = (\<lambda>s. Some (Output (Success (from_nat (length s)) (IdNum 0)))),
      rc_de_error = (\<lambda>_. None), rc_parse_error = \<lparr>je_code = - 32700, je_message = ''Parse error''\<rparr>,
      rc_parse_sid = (\<lambda>_. None), rc_lossy = map (\<lambda>_. CHR ''x''),
      rc_post = (\<lambda>url body n. case from_nat (length body) of
          MethodCall m p i \<Rightarrow>
            (case jsonrpc_io_handler X N B pk sig m p n of
               (Inr (Inr v), n') \<Rightarrow> (Inr (True, Some (replicate (to_nat v) 0)), n')
             | (Inr (Inl e), n') \<Rightarrow> (Inl ''error'', n')
             | (Inl _, n') \<Rightarrow> (Inr (False, None), n'))
        | NotificationCall m p \<Rightarrow> (Inl ''notification'', n))\<rparr>"

lemma demo_http_serves: "served (demo_http X N B pk sig) url X N B pk sig m p"
  by (auto simp: served_def demo_http_def Let_def split: prod.split sum.split)

definition demo_cli :: "('s, 'w) env \<Rightarrow> 'w node_ops \<Rightarrow> 'w backend_ops \<Rightarrow> ('s, 'w) node cli" where
  "demo_cli X N B = \<lparr>ct_http = demo_http X N B [2] (Some [7]), ct_client = SimpleClient_new ''http://node''\<rparr>"

lemma demo_cli_serves: "serves_cli (demo_cli steady_env demo_ops B) steady_env demo_ops B m p"
proof -
  have "verify_signature (en_ecc steady_env) demo_ops [7] [2] = Inr True"
    by (simp add: verify_signature_def steady_env_def demo_ops_def demo_ecc_def)
  then show ?thesis
    by (intro serves_cli_def [THEN iffD2] exI [of _ "[2]"] exI [of _ "[7]"])
       (simp add: demo_cli_def demo_http_serves)
qed

theorem cli_commands_reach_processor_witness:
  "\<exists>B d. did_from_str (en_codec steady_env) ''ab'' = Inr d
     \<and> cli_disconnect (demo_cli steady_env demo_ops B) ''ab'' = map_err (\<lambda>_. CliError)
         (sbind (proc_disconnect steady_env d) (\<lambda>_. sret \<lparr>co_result = (), co_display = ''Done.''\<rparr>))"
proof -
  have "\<exists>d. did_from_str (en_codec steady_env) ''ab'' = Inr d"
    by (simp add: did_from_str_def HashStr_from_def steady_env_def demo_codec_def)
  then obtain d where d: "did_from_str (en_codec steady_env) ''ab'' = Inr d" by blast
  show ?thesis
    using cli_commands_reach_processor [OF demo_cli_serves d, of B] d by blast
qed

theorem subscription_yields_each_once_witness:
  "\<exists>B n. subscribe_turns (demo_cli steady_env demo_ops B) ''web'' 0 [n, n] = ([''ab''], 1)"
proof -
  let ?v = "\<lparr>vn_did = 6, vn_data = [Encoded ''ab''], vn_kind = Data\<rparr>"
  let ?n = "steady_node\<lparr>sw_dht := local_cache_set ?v (sw_dht steady_node)\<rparr>"
  let ?C = "demo_cli steady_env demo_ops B"
  have "chord_find_successor (sw_dht ?n) 6 = Inr (PSome 1)"
    by (simp add: chord_find_successor_def local_cache_set_def steady_node_def pr_new_with_storage_def
        SuccessorSeq_new_def ss_is_empty_def ss_min_def)
  then have "vnode_lookup (en_persist steady_env) (sw_dht ?n) 6 = Inr PNone"
    by (simp add: vnode_lookup_def steady_env_def mem_persist_def local_cache_set_def steady_node_def
        pr_new_with_storage_def)
  then have t: "topic_at steady_env 6 ?n ?v"
    by (simp add: topic_at_def storage_fetch_def storage_check_cache_def local_cache_get_def local_cache_set_def)
  have utf8: "from_utf8 (as_bytes ''ab'') = Some ''ab''"
    by (intro from_utf8_as_bytes utf8_ascii) simp
  then have d: "list_all2 (\<lambda>e s. decode_string (en_codec steady_env) e = Inr s) (vn_data ?v) [''ab'']"
    by (simp add: decode_string_def decode_bytes_def steady_env_def)
  have "gen_did (en_codec steady_env) ''web'' = Inr 6"
    by (simp add: gen_did_def did_from_str_def HashStr_from_def steady_env_def demo_codec_def
        as_bytes_def hex_byte_def)
  from subscription_yields_each_once [OF demo_cli_serves this, of "[?n, ?n]" "[(?v, [''ab'']), (?v, [''ab''])]" B]
  have "subscribe_turns ?C ''web'' 0 [?n, ?n] = ([''ab''], 1)"
    using t d by simp
  then show ?thesis by blast
qed

end
