(* ===== verification/ProgramProps.thy ===== *)
theory ProgramProps
  imports Program CliProps
begin

text \<open>
  What the program's commands amount to: a node and a client that start from the same
  configuration file belong together, and options of the command line that do not do what
  their help says.
\<close>

section \<open>From the file to an authorised client\<close>

lemma new_client_from_config:
  assumes "Config_read_fs (po_fs P) (po_from_yaml P) loc w = (Inr c, w')"
  shows "new_client P E N \<lparr>ca_endpoint_url = None, ca_ecdsa_key = None, ca_config = loc\<rparr> w =
    (case po_http P (generate_signature E N (cf_ecdsa_key c)) of
       None \<Rightarrow> (Inl MainError, w')
     | Some H \<Rightarrow> (Inr \<lparr>ct_http = H, ct_client = SimpleClient_new (cf_endpoint_url c)\<rparr>, w'))"
  using assms by (simp add: new_client_def map_err_def sbind_def cli_new_def ok_or_def split: option.split)

lemma built_node:
  assumes "builder_build E now fresh counter world (builder_external_address m (builder_key E key b)) = Inr n"
  shows "sw_did n = secret_key_address E key"
  using assms
  by (auto simp: builder_build_def builder_key_def builder_external_address_def
      rbind_eq_Inr sw_did_def pr_new_with_storage_def)

lemma case_main_Inr: "(case r of Inl e \<Rightarrow> Inl (f e) | Inr x \<Rightarrow> Inr x) = Inr y \<longleftrightarrow> r = Inr y"
  by (cases r) auto

lemma daemon_from_config:
  assumes "Config_read_fs (po_fs P) (po_from_yaml P) loc w = (Inr c, w')"
    and "daemon_run P E parse open_db start now fresh
      \<lparr>rn_http_addr = None, rn_ice_servers = None, rn_ecdsa_key = None, rn_stabilize_timeout = None,
       rn_external_ip = ip, rn_storage_path = path, rn_storage_capacity = cap, rn_config = loc\<rparr> w = (Inr D, w'')"
  shows "da_did D = secret_key_address E (cf_ecdsa_key c) \<and> da_pubkey D = secret_key_pubkey E (cf_ecdsa_key c)
    \<and> da_bind_addr D = cf_http_addr c \<and> da_backend D = cf_backend c \<and> sw_did (da_node D) = da_did D"
proof -
  let ?key = "cf_ecdsa_key c"
  obtain m counter world b n
    where n: "builder_build E now fresh counter world (builder_external_address m (builder_key E ?key b)) = Inr n"
    and D: "D = \<lparr>da_did = secret_key_address E ?key, da_node = n, da_backend = cf_backend c,
      da_stabilize_timeout = cf_stabilize_timeout c, da_pubkey = secret_key_pubkey E ?key,
      da_bind_addr = cf_http_addr c\<rparr>"
    using assms(2)
    by (auto simp: daemon_run_def map_err_def sbind_def assms(1) Let_def rbind_eq_Inr case_main_Inr get_value_def
        case_prod_unfold)
  then show ?thesis using built_node [OF n] by simp
qed

text \<open>
  C26: the node and the client that are started from the file that \<open>init\<close> wrote belong together.
  With the file system, YAML, base64 and the curve library sound: after \<open>init\<close> with a key, a
  node that runs from the file listens at the address to which a client made from the file
  talks, is the node of that key's address, and accepts the signature that the client sends
  with every request.
\<close>

theorem initialised_node_accepts_client:
  assumes "fs_keeps (po_fs P)" "\<And>c yaml. po_to_yaml P c = Some yaml \<Longrightarrow> po_from_yaml P yaml = Some c"
    and "\<And>bs. no_unb64 N (as_bytes (no_b64 N bs)) = Some bs"
    and "\<And>h r s v. secp_sign E h sk = (r, s, v) \<Longrightarrow> secp_parse_sig E (r @ s)
        \<and> no_secp_verify N h (r @ s) (secp_public E sk)"
    and "secp_parse_compressed E (secret_key_pubkey E sk) = Some (secp_public E sk)"
    and "init_run P \<lparr>in_location = loc, in_ecdsa_key = Some sk\<rparr> w = (Inr msg, w1)"
    and "daemon_run P E parse open_db start now fresh
      \<lparr>rn_http_addr = None, rn_ice_servers = None, rn_ecdsa_key = None, rn_stabilize_timeout = None,
       rn_external_ip = ip, rn_storage_path = path, rn_storage_capacity = cap, rn_config = loc\<rparr> w1 = (Inr D, w2)"
    and "new_client P E N \<lparr>ca_endpoint_url = None, ca_ecdsa_key = None, ca_config = loc\<rparr> w1 = (Inr C, w3)"
  shows "da_did D = secret_key_address E sk \<and> sw_did (da_node D) = da_did D
    \<and> sc_url (ct_client C) = ''http://'' @ da_bind_addr D
    \<and> (\<exists>sig. po_http P sig = Some (ct_http C) \<and> verify_signature E N (as_bytes sig) (da_pubkey D) = Inr True)"
proof -
  let ?c = "Config_new_with_key (fo_home (po_fs P)) sk"
  obtain p where "Config_write_fs (po_fs P) (po_to_yaml P) ?c loc w = (Inr p, w1)"
    using assms(6) by (auto simp: init_run_def map_err_def sbind_def split: prod.splits sum.splits)
  from config_written_read [OF assms(1) _ this]
  have read: "Config_read_fs (po_fs P) (po_from_yaml P) loc w1 = (Inr ?c, w1)"
    using assms(2) by blast
  have "ct_client C = SimpleClient_new DEFAULT_ENDPOINT_URL"
      "po_http P (generate_signature E N sk) = Some (ct_http C)"
    using assms(8) new_client_from_config [OF read, of E N]
    by (auto simp: Config_new_with_key_def split: option.splits)
  moreover have "verify_signature E N (as_bytes (generate_signature E N sk)) (secret_key_pubkey E sk) = Inr True"
    by (rule generated_signature_verifies [OF assms(3,4,5)])
  ultimately show ?thesis
    using daemon_from_config [OF read assms(7)]
    by (auto simp: Config_new_with_key_def SimpleClient_new_def DEFAULT_ENDPOINT_URL_def DEFAULT_BIND_ADDRESS_def)
qed

section \<open>Options that do something else\<close>

text \<open>
  Without a storage path on the command line the capacity given there is ignored; with one, the
  capacity of the configuration file is.
\<close>

lemma storage_capacity_precedence:
  "rn_storage_path a = None \<Longrightarrow> storage_settings (a\<lparr>rn_storage_capacity := x\<rparr>) c = storage_settings a c"
  "rn_storage_path a = Some p \<Longrightarrow> storage_settings a (c\<lparr>cf_data_storage := d, cf_measure_storage := m\<rparr>)
     = storage_settings a c"
  by (simp_all add: storage_settings_def)

text \<open>A header's value is cut at its first colon, and a header without a colon panics.\<close>

lemma split_on_first:
  "split_on c xs = takeWhile (\<lambda>x. x \<noteq> c) xs # (case dropWhile (\<lambda>x. x \<noteq> c) xs of [] \<Rightarrow> [] | _ # r \<Rightarrow> split_on c r)"
proof (induction xs)
  case (Cons x xs)
  then show ?case by (cases "x = c") (simp_all split: list.splits)
qed simp

lemma header_argument_cut:
  assumes "CHR '':'' \<notin> set n"
  shows "header_of_arg (n @ CHR '':'' # v) = Inr (trim_spaces n, trim_spaces (takeWhile (\<lambda>x. x \<noteq> CHR '':'') v))"
    and "header_of_arg n = Inl (MainPanicked ''index'')"
proof -
  have n: "takeWhile (\<lambda>x. x \<noteq> CHR '':'') (n @ zs) = n @ takeWhile (\<lambda>x. x \<noteq> CHR '':'') zs"
    "dropWhile (\<lambda>x. x \<noteq> CHR '':'') (n @ zs) = dropWhile (\<lambda>x. x \<noteq> CHR '':'') zs" for zs
    using assms by (induction n) auto
  have none: "dropWhile (\<lambda>x. x \<noteq> CHR '':'') n = []"
    using assms by (auto simp: dropWhile_eq_Nil_conv)
  show "header_of_arg (n @ CHR '':'' # v) = Inr (trim_spaces n, trim_spaces (takeWhile (\<lambda>x. x \<noteq> CHR '':'') v))"
    by (simp add: header_of_arg_def split_on_first [of _ "n @ CHR '':'' # v"] split_on_first [of _ v] n list_get_def)
  show "header_of_arg n = Inl (MainPanicked ''index'')"
    by (simp add: header_of_arg_def split_on_first [of _ n] none list_get_def)
qed

text \<open>The ICE server given to \<open>sdp offer\<close> is not used.\<close>

lemma offer_ignores_ice_server:
  "main_run P E N (SdpCmd (SdpOfferCmd ca a)) = main_run P E N (SdpCmd (SdpOfferCmd ca b))"
  by simp

section \<open>A program\<close>

text \<open>For the witness: files are texts under their paths, and one configuration has a text.\<close>

definition demo_files :: "(string \<Rightarrow> string option) fs_ops" where
  "demo_files = \<lparr>fo_home = Some ''/home'', fo_is_dir = (\<lambda>_ _. True), fo_create_dir_all = (\<lambda>_ w. (Inr (), w)),
     fo_create = (\<lambda>p w. (Inr (), w(p := Some []))), fo_write = (\<lambda>p yaml w. (Some (), w(p := Some yaml))),
     fo_open = (\<lambda>w p. case w p of None \<Rightarrow> Inl ''not found'' | Some yaml \<Rightarrow> Inr yaml)\<rparr>"

definition demo_program :: "(string \<Rightarrow> string option) program_ops" where
  "demo_program =
     (let c = Config_new_with_key (Some ''/home'') [7];
          H = \<lparr>rc_print = (\<lambda>_. []), rc_parse = (\<lambda>_. None), rc_de_error = (\<lambda>_. None),
               rc_parse_error = \<lparr>je_code = 0, je_message = []\<rparr>, rc_parse_sid = (\<lambda>_. None), rc_lossy = (\<lambda>_. []),
               rc_post = (\<lambda>_ _ w. (Inl ''down'', w))\<rparr>
      in \<lparr>po_fs = demo_files, po_to_yaml = (\<lambda>x. if x = c then Some ''yaml'' else None),
          po_from_yaml = (\<lambda>_. Some c), po_random = (\<lambda>w. ([7], w)), po_http = (\<lambda>_. Some H),
          po_cli = \<lparr>cl_load_seed = (\<lambda>_ w. (None, w)), cl_seed_json = (\<lambda>_. None), cl_http_json = (\<lambda>_. None)\<rparr>,
          po_http_method = Some\<rparr>)"

lemma demo_signs:
  "no_unb64 (demo_ops :: unit node_ops) (as_bytes (no_b64 (demo_ops :: unit node_ops) bs)) = Some bs"
  "secp_sign demo_ecc h [7] = (r, s, v) \<Longrightarrow> secp_parse_sig demo_ecc (r @ s)
     \<and> no_secp_verify (demo_ops :: unit node_ops) h (r @ s) (secp_public demo_ecc [7])"
  "secp_parse_compressed demo_ecc (secret_key_pubkey demo_ecc [7]) = Some (secp_public demo_ecc [7])"
proof -
  have byte: "unat b mod 256 = unat b" for b :: byte
    using unsigned_less [where ?'a = nat, of b] by simp
  have "map ((\<lambda>c. word_of_nat (of_char c)) \<circ> (\<lambda>b. char_of (unat b))) bs = bs" for bs :: bytes
    by (rule map_idI) (simp add: of_char_of word_unat_eq_iff unat_of_nat byte)
  then show "no_unb64 (demo_ops :: unit node_ops) (as_bytes (no_b64 (demo_ops :: unit node_ops) bs)) = Some bs"
    by (simp add: demo_ops_def as_bytes_def)
qed (auto simp: demo_ops_def demo_ecc_def secret_key_pubkey_def)

abbreviation (input) demo_url :: "string \<Rightarrow> url option" where
  "demo_url \<equiv> \<lambda>_. Some \<lparr>url_scheme = ''stun'', url_username = [], url_password = None, url_host = Some ''host'',
     url_port = None, url_path = []\<rparr>"

theorem initialised_node_accepts_client_witness:
  "\<exists>w1 D C sig. snd (init_run demo_program \<lparr>in_location = ''~/c'', in_ecdsa_key = Some [7]\<rparr> (\<lambda>_. None)) = w1
     \<and> fst (daemon_run demo_program demo_ecc demo_url (\<lambda>_ _. Some ()) (\<lambda>_. (\<lambda>_ _ w. w, ())) 10000 [9]
         \<lparr>rn_http_addr = None, rn_ice_servers = None, rn_ecdsa_key = None, rn_stabilize_timeout = None,
          rn_external_ip = None, rn_storage_path = None, rn_storage_capacity = None, rn_config = ''~/c''\<rparr> w1) = Inr D
     \<and> fst (new_client demo_program demo_ecc (demo_ops :: unit node_ops)
         \<lparr>ca_endpoint_url = None, ca_ecdsa_key = None, ca_config = ''~/c''\<rparr> w1) = Inr C
     \<and> po_http demo_program sig = Some (ct_http C)
     \<and> verify_signature demo_ecc (demo_ops :: unit node_ops) (as_bytes sig) (da_pubkey D) = Inr True"
proof -
  let ?c = "Config_new_with_key (Some ''/home'') [7]" and ?w = "[''/home/c'' \<mapsto> ''yaml'']"
  let ?run = "daemon_run demo_program demo_ecc demo_url (\<lambda>_ _. Some ()) (\<lambda>_. (\<lambda>_ _ w. w, ())) 10000 [9]
         \<lparr>rn_http_addr = None, rn_ice_servers = None, rn_ecdsa_key = None, rn_stabilize_timeout = None,
          rn_external_ip = None, rn_storage_path = None, rn_storage_capacity = None, rn_config = ''~/c''\<rparr> ?w"
  let ?client = "new_client demo_program demo_ecc (demo_ops :: unit node_ops)
         \<lparr>ca_endpoint_url = None, ca_ecdsa_key = None, ca_config = ''~/c''\<rparr> ?w"
  have path: "expand_home demo_files ''~/c'' = Inr ''/home/c''" "path_parent ''/home/c'' = Some ''/home''"
    by (simp_all add: expand_home_def strip_home_def demo_files_def unwrap_or_panic_def path_join_def path_parent_def)
  have ops: "po_fs demo_program = demo_files" "po_to_yaml demo_program x = (if x = ?c then Some ''yaml'' else None)"
    "po_from_yaml demo_program y = Some ?c" "fo_home demo_files = Some ''/home''" for x y
    by (simp_all add: demo_program_def Let_def demo_files_def)
  have fs: "fo_home demo_files = Some ''/home''" "fo_is_dir demo_files w p" "fo_create demo_files p w = (Inr (), w(p := Some []))"
    "fo_write demo_files p y w = (Some (), w(p := Some y))"
    "fo_open demo_files w p = (case w p of None \<Rightarrow> Inl ''not found'' | Some yaml \<Rightarrow> Inr yaml)" for w p y
    by (simp_all add: demo_files_def)
  have written: "Config_write_fs demo_files (po_to_yaml demo_program) ?c ''~/c'' (\<lambda>_. None) = (Inr ''/home/c'', ?w)"
    by (simp add: Config_write_fs_def path fs ops sbind_def fs_call_def)
  have init: "init_run demo_program \<lparr>in_location = ''~/c'', in_ecdsa_key = Some [7]\<rparr> (\<lambda>_. None)
      = (Inr (''Your config file has saved to: '' @ ''/home/c''), ?w)"
    by (simp add: init_run_def ops(1,4) map_err_def sbind_def written)
  have read: "Config_read_fs demo_files (po_from_yaml demo_program) ''~/c'' ?w = (Inr ?c, ?w)"
    by (simp add: Config_read_fs_def path fs sbind_def ops)
  have kept: "fs_keeps (po_fs demo_program)" by (simp add: ops(1) fs_keeps_def fs)
  have ice: "SwarmBuilder_new demo_url DEFAULT_ICE_SERVERS st = Inr (the_builder st)"
    if "the_builder = (\<lambda>st. \<lparr>sb_key = None, sb_ice_servers = [\<lparr>is_urls = [''stun:host''], is_username = [],
        is_credential = [], is_credential_type = Password\<rparr>], sb_external_address = None, sb_dht_did = None,
        sb_dht_succ_max = 3, sb_dht_storage = st, sb_session_manager = None, sb_session_ttl = None\<rparr>)"
    for st :: "unit kv_storage" and the_builder
    by (simp add: that SwarmBuilder_new_def DEFAULT_ICE_SERVERS_def IceServer_from_str_def)
  have sealed: "\<exists>sm. SessionManager_new_with_seckey demo_ecc [9] 10000 [7] None = Inr sm"
    by (simp add: SessionManager_new_with_seckey_def gen_unsign_info_def authorized_info_to_string_def demo_ecc_def)
  have built: "\<exists>n. builder_build demo_ecc 10000 [9] counter world (builder_external_address m (builder_key demo_ecc [7] b))
      = Inr n" if "sb_session_manager b = None" "sb_session_ttl b = None"
    for b :: "unit kv_storage swarm_builder" and counter and world :: unit and m
    using sealed that by (auto simp: builder_build_def builder_key_def builder_external_address_def)
  have start: "\<exists>D. rbind (case builder_build demo_ecc 10000 [9] counter world (builder_external_address m
        (builder_key demo_ecc [7] b)) of Inl e \<Rightarrow> Inl (main_core_err e) | Inr x \<Rightarrow> Inr x) (\<lambda>n. Inr (f n)) = Inr D"
    if "sb_session_manager b = None" "sb_session_ttl b = None"
    for b :: "unit kv_storage swarm_builder" and counter and world :: unit and m
      and f :: "(unit kv_storage, unit) node \<Rightarrow> (unit, unit) daemon"
    using built [OF that, of counter world m] by auto
  have "\<exists>D. ?run = (Inr D, ?w)"
    by (simp add: daemon_run_def ops(1) read map_err_def sbind_def Let_def storage_settings_def
        kv_new_with_cap_and_path_def Config_new_with_key_def get_value_def ice [OF refl])
      (auto simp: start split: prod.splits)
  then obtain D where D: "?run = (Inr D, ?w)" by blast
  obtain C where C: "?client = (Inr C, ?w)"
    using new_client_from_config [of demo_program "''~/c''" ?w ?c ?w demo_ecc "demo_ops :: unit node_ops"] read
    by (simp add: ops) (simp add: demo_program_def Let_def)
  have yaml: "po_to_yaml demo_program c = Some yaml \<Longrightarrow> po_from_yaml demo_program yaml = Some c" for c yaml
    by (simp add: ops split: if_splits)
  show ?thesis
    using initialised_node_accepts_client [OF kept yaml demo_signs init D C] init D C by auto
qed

end
