(* ===== verification/Stabilize.thy ===== *)
theory Stabilize
  imports Delivery
begin

text \<open>
  What stabilisation achieves in a network (\<open>dht/stabilization.rs\<close>,
  \<open>message/handlers/stabilization.rs\<close>): nodes notify their successors, which take them as
  predecessors and tell them of a nearer one. A network is a function from identifiers to
  rings, as for lookups; a round of a node is run with the notifications it sends and the
  reports that answer them, before the next round begins.
\<close>

section \<open>Rounds\<close>

text \<open>
  \<open>learn\<close>: what a report of \<open>d\<close> does to a ring. A connected node updates its successors,
  \<open>handle_NotifyPredecessorReport\<close>; another one connects, and joins \<open>d\<close> when the connection is
  up, \<open>handle_JoinDHT\<close>. The parameter \<open>conn\<close> says which.
\<close>

definition learn :: "bool \<Rightarrow> did \<Rightarrow> 's peer_ring \<Rightarrow> 's peer_ring" where
  "learn connected d s =
     (if connected then s\<lparr>pr_successor := ss_update (pr_successor s) d\<rparr> else snd (chord_join d s))"

definition notified ::
  "(did \<Rightarrow> did \<Rightarrow> bool) \<Rightarrow> did \<Rightarrow> did \<Rightarrow> (did \<Rightarrow> 's peer_ring) \<Rightarrow> did \<Rightarrow> 's peer_ring" where
  "notified conn n s net =
     (let predecessor = pr_predecessor (net s);
          net = net(s := snd (chord_notify n (net s)))
      in case predecessor of
           Some d \<Rightarrow> if d \<noteq> n then net(n := learn (conn n d) d (net n)) else net
         | None \<Rightarrow> net)"

definition ring_round ::
  "(did \<Rightarrow> did \<Rightarrow> bool) \<Rightarrow> did \<Rightarrow> (did \<Rightarrow> 's peer_ring) \<Rightarrow> did \<Rightarrow> 's peer_ring" where
  "ring_round conn n net =
     (let successor = pr_successor (net n) in
      if pr_did (net n) \<noteq> ss_min successor then fold (notified conn n) (ss_list successor) net else net)"

definition rounds ::
  "(did \<Rightarrow> did \<Rightarrow> bool) \<Rightarrow> did list \<Rightarrow> (did \<Rightarrow> 's peer_ring) \<Rightarrow> did \<Rightarrow> 's peer_ring" where
  "rounds conn = fold (ring_round conn)"

text \<open>The handlers do what a round says.\<close>

lemma notify_handled:
  assumes "rl_relay (sw_did n) None (pl_relay ctx) = Inr relay" "rl_origin relay = Inr d"
  shows "handle_NotifyPredecessorSend X ctx d n =
    (let n' = n\<lparr>sw_dht := snd (chord_notify d (sw_dht n))\<rparr> in
     case pr_predecessor (sw_dht n) of
       Some p \<Rightarrow> if p \<noteq> d then send_report_message X (NotifyPredecessorReport p) (pl_tx_id ctx) relay n'
                 else (Inr (), n')
     | None \<Rightarrow> (Inr (), n'))"
  using assms by (simp add: handle_NotifyPredecessorSend_def sbind_def Let_def split: option.split)

lemma report_handled:
  assumes "get_and_check_transport X d n = (Inr (Some t), n)"
  shows "handle_NotifyPredecessorReport X ctx d n = sync_and_send X d (n\<lparr>sw_dht := learn True d (sw_dht n)\<rparr>)"
  using assms by (simp add: handle_NotifyPredecessorReport_def update_successor_def learn_def)

section \<open>Neighbours\<close>

definition next_of :: "did set \<Rightarrow> did \<Rightarrow> did \<Rightarrow> bool" where
  "next_of M n s \<longleftrightarrow> s \<in> M - {n} \<and> (\<forall>y \<in> M - {n}. dist n s \<le> dist n y)"

definition prev_of :: "did set \<Rightarrow> did \<Rightarrow> did \<Rightarrow> bool" where
  "prev_of M n p \<longleftrightarrow> p \<in> M - {n} \<and> (\<forall>y \<in> M - {n}. dist n y \<le> dist n p)"

lemma next_unique: "next_of M n s \<Longrightarrow> y \<in> M - {n} \<Longrightarrow> dist n y \<le> dist n s \<Longrightarrow> y = s"
  unfolding next_of_def by (metis add_diff_cancel_left' diff_add_cancel order_antisym)

lemma prev_unique: "prev_of M n p \<Longrightarrow> y \<in> M - {n} \<Longrightarrow> dist n p \<le> dist n y \<Longrightarrow> y = p"
  unfolding prev_of_def by (metis add_diff_cancel_left' diff_add_cancel order_antisym)

text \<open>Going round the ring: distances back and forth add up to its size.\<close>

lemma dist_back: "n \<noteq> m \<Longrightarrow> unat (dist m n) = 2 ^ 160 - unat (dist n (m :: did))"
  by (rule unat_minus_dist)

lemma dist_add: "dist n a \<le> dist n b \<Longrightarrow> unat (dist n b) = unat (dist n a) + unat (dist a (b :: did))"
  using dist_split [of a n b] by (simp add: word_le_nat_alt)

lemma did_lt: "unat (d :: did) < 2 ^ 160"
  using unsigned_less [where ?'a = nat, of d] by simp

lemma next_prev:
  assumes "next_of M n s" "n \<in> M"
  shows "prev_of M s n"
proof -
  have "dist s y \<le> dist s n" if "y \<in> M - {s}" for y
  proof (cases "y = n")
    case False
    have "unat (dist n y) = unat (dist n s) + unat (dist s y)"
      using assms(1) that False by (intro dist_add) (auto simp: next_of_def)
    moreover have "unat (dist s n) = 2 ^ 160 - unat (dist n s)"
      using assms by (intro dist_back) (auto simp: next_of_def)
    ultimately have "unat (dist s y) \<le> unat (dist s n)" using did_lt [of "dist n y"] by linarith
    then show ?thesis by (simp add: word_le_nat_alt)
  qed simp
  then show ?thesis using assms by (auto simp: prev_of_def next_of_def)
qed

lemma prev_next:
  assumes "prev_of M m n" "m \<in> M"
  shows "next_of M n m"
proof -
  have "dist n m \<le> dist n y" if "y \<in> M - {n}" for y
  proof (cases "y = m")
    case False
    have "unat (dist m n) = unat (dist m y) + unat (dist y n)"
      using assms(1) that False by (intro dist_add) (auto simp: prev_of_def)
    moreover have "unat (dist n m) = 2 ^ 160 - unat (dist m n)" "unat (dist n y) = 2 ^ 160 - unat (dist y n)"
      using assms that by (intro dist_back; auto simp: prev_of_def)+
    ultimately have "unat (dist n m) \<le> unat (dist n y)" by linarith
    then show ?thesis by (simp add: word_le_nat_alt)
  qed simp
  then show ?thesis using assms by (auto simp: prev_of_def next_of_def)
qed

lemma prev_exists:
  assumes "finite M" "M - {m} \<noteq> {}"
  shows "\<exists>n. prev_of M m n"
proof -
  have fin: "finite (dist m ` (M - {m}))" "dist m ` (M - {m}) \<noteq> {}" using assms by auto
  from Max_in [OF fin] obtain n where n: "n \<in> M - {m}" "Max (dist m ` (M - {m})) = dist m n" by (elim imageE)
  have "dist m y \<le> dist m n" if "y \<in> M - {m}" for y
    unfolding n(2) [symmetric] using fin(1) that by (intro Max_ge) auto
  then show ?thesis using n(1) by (auto simp: prev_of_def)
qed

text \<open>A newcomer between a node and the successor the node has: both have the same successor.\<close>

lemma newcomer_between:
  assumes "next_of N n s0" "next_of (insert x N) x s" "n \<in> N" "x \<notin> N" "dist n x < dist n s0"
  shows "s = s0"
proof -
  have s0: "unat (dist n s0) = unat (dist n x) + unat (dist x s0)" using assms(5) by (intro dist_add) simp
  have s: "s \<in> N" "dist x s \<le> dist x s0" using assms(1,2,4) by (auto simp: next_of_def)
  have "s \<noteq> n"
  proof
    assume "s = n"
    then have "unat (dist x n) \<le> unat (dist x s0)" using s(2) by (simp add: word_le_nat_alt)
    moreover have "unat (dist x n) = 2 ^ 160 - unat (dist n x)" using assms(3,4) by (intro dist_back) auto
    ultimately show False using s0 did_lt [of "dist n s0"] did_lt [of "dist n x"] by linarith
  qed
  have le: "unat (dist n x) + unat (dist x s) \<le> unat (dist n s0)" using s(2) s0 by (simp add: word_le_nat_alt)
  have "unat (dist n s) = unat (dist n x) + unat (dist x s)"
  proof -
    have "dist n s = dist n x + dist x s" by simp
    then show ?thesis using le did_lt [of "dist n s0"] unat_word_ariths(1) [of "dist n x" "dist x s"] by simp
  qed
  then have "dist n s \<le> dist n s0" using le by (simp add: word_le_nat_alt)
  then show ?thesis using next_unique [OF assms(1)] s(1) \<open>s \<noteq> n\<close> by blast
qed

section \<open>What a round keeps and improves\<close>

text \<open>A member that knows some successor, and only members.\<close>

definition node_ok :: "did set \<Rightarrow> did \<Rightarrow> 's peer_ring \<Rightarrow> bool" where
  "node_ok M n r \<longleftrightarrow> pr_wf r \<and> pr_did r = n \<and> ss_max (pr_successor r) \<noteq> 0
     \<and> \<not> ss_is_empty (pr_successor r) \<and> set (successors (pr_successor r)) \<subseteq> M
     \<and> (\<forall>p. pr_predecessor r = Some p \<longrightarrow> p \<in> M - {n})"

abbreviation succ_of :: "'s peer_ring \<Rightarrow> did" where
  "succ_of r \<equiv> ss_min (pr_successor r)"

text \<open>\<open>pred_from r p\<close>: the predecessor is \<open>p\<close> or a nearer one.\<close>

definition pred_from :: "'s peer_ring \<Rightarrow> did \<Rightarrow> bool" where
  "pred_from r p \<longleftrightarrow> (\<exists>q. pr_predecessor r = Some q \<and> dist (pr_did r) p \<le> dist (pr_did r) q)"

definition better :: "did set \<Rightarrow> did \<Rightarrow> 's peer_ring \<Rightarrow> 's peer_ring \<Rightarrow> bool" where
  "better M n r r' \<longleftrightarrow> node_ok M n r' \<and> dist n (succ_of r') \<le> dist n (succ_of r)
     \<and> (\<forall>p. pred_from r p \<longrightarrow> pred_from r' p)"

definition ring_ok :: "did set \<Rightarrow> (did \<Rightarrow> 's peer_ring) \<Rightarrow> bool" where
  "ring_ok M net \<longleftrightarrow> (\<forall>n \<in> M. node_ok M n (net n))"

definition improves :: "did set \<Rightarrow> (did \<Rightarrow> 's peer_ring) \<Rightarrow> (did \<Rightarrow> 's peer_ring) \<Rightarrow> bool" where
  "improves M net net' \<longleftrightarrow> (\<forall>n \<in> M. better M n (net n) (net' n))"

lemma better_refl: "node_ok M n r \<Longrightarrow> better M n r r"
  by (simp add: better_def)

lemma improves_refl: "ring_ok M net \<Longrightarrow> improves M net net"
  by (simp add: improves_def ring_ok_def better_refl)

lemma improves_trans: "improves M a b \<Longrightarrow> improves M b c \<Longrightarrow> improves M a c"
  unfolding improves_def better_def by (meson order_trans)

lemma improves_ok: "improves M a b \<Longrightarrow> ring_ok M b"
  by (simp add: improves_def ring_ok_def better_def)

lemma node_okD:
  assumes "node_ok M n r"
  shows "pr_wf r" "pr_did r = n" "ss_wf (pr_successor r)" "ss_did (pr_successor r) = n"
    "set (successors (pr_successor r)) \<subseteq> M - {n}" "succ_of r \<in> M - {n}"
    "pr_predecessor r = Some p \<Longrightarrow> p \<in> M - {n}"
proof -
  show r: "pr_wf r" "pr_did r = n" "pr_predecessor r = Some p \<Longrightarrow> p \<in> M - {n}"
    using assms unfolding node_ok_def by blast+
  then show wf: "ss_wf (pr_successor r)" "ss_did (pr_successor r) = n" by (simp_all add: pr_wf_def)
  then have "n \<notin> set (successors (pr_successor r))" by (simp add: ss_wf_def)
  then show sub: "set (successors (pr_successor r)) \<subseteq> M - {n}" using assms unfolding node_ok_def by blast
  have "\<not> ss_is_empty (pr_successor r)" using assms by (simp add: node_ok_def)
  then show "succ_of r \<in> M - {n}" using ss_min_in sub by blast
qed

lemma ss_min_update:
  assumes "ss_wf s" "ss_max s \<noteq> 0" "\<not> ss_is_empty s" "d \<noteq> ss_did s"
  shows "ss_min (ss_update s d) = (if dist (ss_did s) d < dist (ss_did s) (ss_min s) then d else ss_min s)
    \<and> \<not> ss_is_empty (ss_update s d)"
proof -
  obtain a xs where s: "successors s = a # xs" using assms(3) by (cases "successors s") (auto simp: ss_is_empty_def)
  obtain k where k: "unat (ss_max s) = Suc k" using assms(2) by (cases "unat (ss_max s)") (auto simp: unat_eq_zero)
  have min: "ss_min s = a" by (simp add: ss_min_def ss_is_empty_def s)
  show ?thesis
  proof (cases "d \<in> set (successors s)")
    case True
    then have "ss_update s d = s" by (simp add: ss_update_def)
    then show ?thesis using ss_min_nearest [OF assms(1) True] assms(3) by (auto simp: not_less)
  next
    case False
    then have "successors (ss_update s d) = take (Suc k) (insort_key (dist (ss_did s)) d (a # xs))"
      using successors_update [OF assms(1), of d] assms(4) s k by simp
    moreover have "dist (ss_did s) d \<noteq> dist (ss_did s) a" using False s by auto
    ultimately show ?thesis unfolding min by (auto simp: ss_min_def ss_is_empty_def)
  qed
qed

lemma learn_parts:
  assumes "pr_wf r" "d \<noteq> pr_did r"
  shows "pr_wf (learn b d r)" "pr_did (learn b d r) = pr_did r" "pr_predecessor (learn b d r) = pr_predecessor r"
    "pr_successor (learn b d r) = ss_update (pr_successor r) d"
proof -
  have "pr_wf (r\<lparr>pr_successor := ss_update (pr_successor r) d\<rparr>)"
    using assms(1) by (auto simp: pr_wf_def intro: ss_wf_intros)
  then show "pr_wf (learn b d r)" using pr_wf_join [OF assms(1)] by (simp add: learn_def)
  obtain f where "snd (chord_join d r) = r\<lparr>pr_finger := f, pr_successor := ss_update (pr_successor r) d\<rparr>"
    using chord_join_eq [OF assms] by auto
  then show "pr_did (learn b d r) = pr_did r" "pr_predecessor (learn b d r) = pr_predecessor r"
      "pr_successor (learn b d r) = ss_update (pr_successor r) d"
    by (simp_all add: learn_def)
qed

lemma notify_parts:
  assumes "pr_wf r"
  shows "pr_wf (snd (chord_notify n r))" "pr_did (snd (chord_notify n r)) = pr_did r"
    "pr_successor (snd (chord_notify n r)) = pr_successor r"
    "\<exists>q. pr_predecessor (snd (chord_notify n r)) = Some q \<and> dist (pr_did r) n \<le> dist (pr_did r) q
       \<and> (q = n \<or> pr_predecessor r = Some q)
       \<and> (\<forall>p. pr_predecessor r = Some p \<longrightarrow> dist (pr_did r) p \<le> dist (pr_did r) q)"
  using pr_wf_notify [OF assms] by (auto simp: chord_notify_def split: option.split)

text \<open>What a report and a notification do to a member.\<close>

lemma learn_better:
  assumes "node_ok M n r" "d \<in> M - {n}"
  shows "better M n r (learn b d r)" "dist n (succ_of (learn b d r)) \<le> dist n d"
proof -
  note r = node_okD [OF assms(1)]
  have "d \<noteq> pr_did r" using assms(2) r(2) by simp
  note l = learn_parts [OF r(1) this, of b]
  have m: "succ_of (learn b d r) = (if dist n d < dist n (succ_of r) then d else succ_of r)"
      "\<not> ss_is_empty (pr_successor (learn b d r))"
    using ss_min_update [OF r(3), of d] assms by (simp_all add: l(4) r(4) node_ok_def)
  have "set (successors (pr_successor (learn b d r))) \<subseteq> M"
    using set_ss_update [of "pr_successor r" d] r(5) assms(2) unfolding l(4) by blast
  then have "node_ok M n (learn b d r)"
    using l m(2) r(2,7) assms(1) by (simp add: node_ok_def)
  then show "better M n r (learn b d r)" "dist n (succ_of (learn b d r)) \<le> dist n d"
    using l(2,3) by (auto simp: better_def pred_from_def m(1) not_less intro: less_imp_le)
qed

lemma notify_better:
  assumes "node_ok M s r" "n \<in> M - {s}"
  shows "better M s r (snd (chord_notify n r))" "pred_from (snd (chord_notify n r)) n"
proof -
  note r = node_okD [OF assms(1)]
  note l = notify_parts [OF r(1), of n, unfolded r(2)]
  obtain q where q: "pr_predecessor (snd (chord_notify n r)) = Some q" "dist s n \<le> dist s q"
      "q = n \<or> pr_predecessor r = Some q" "\<And>p. pr_predecessor r = Some p \<Longrightarrow> dist s p \<le> dist s q"
    using l(4) by blast
  have "q \<in> M - {s}" using q(3) r(7) assms(2) by blast
  then have "node_ok M s (snd (chord_notify n r))"
    using l(1-3) q(1) assms(1) by (simp add: node_ok_def)
  moreover have "pred_from r p \<longrightarrow> pred_from (snd (chord_notify n r)) p" for p
    using q(1,4) l(2) r(2) by (auto simp: pred_from_def intro: order_trans)
  ultimately show "better M s r (snd (chord_notify n r))" by (simp add: better_def l(3))
  show "pred_from (snd (chord_notify n r)) n" using q(1,2) l(2) by (simp add: pred_from_def)
qed

text \<open>A notification makes the notifier a predecessor at least, and is answered.\<close>

lemma notified_improves:
  assumes "ring_ok M net" "n \<in> M" "s \<in> M - {n}"
  shows "improves M net (notified conn n s net)" "pred_from (notified conn n s net s) n"
    "pr_predecessor (net s) = Some d \<Longrightarrow> d \<noteq> n \<Longrightarrow> dist n (succ_of (notified conn n s net n)) \<le> dist n d"
proof -
  let ?s = "snd (chord_notify n (net s))"
  have ok: "node_ok M m (net m)" if "m \<in> M" for m using assms(1) that by (simp add: ring_ok_def)
  have s: "s \<in> M" "s \<noteq> n" "n \<in> M - {s}" using assms(2,3) by auto
  note b = notify_better [OF ok [OF s(1)] s(3)]
  have same: "better M m (net m) (net m)" if "m \<in> M" for m by (rule better_refl [OF ok [OF that]])
  show "pred_from (notified conn n s net s) n"
    using b(2) s(2) by (simp add: notified_def Let_def split: option.split)
  have l: "better M n (net n) (learn c d (net n))" "dist n (succ_of (learn c d (net n))) \<le> dist n d"
    if "pr_predecessor (net s) = Some d" "d \<noteq> n" for c d
    using learn_better [OF ok [OF assms(2)], of d c] node_okD(7) [OF ok [OF s(1)] that(1)] that(2) by auto
  show "improves M net (notified conn n s net)"
    using b(1) same l(1) s by (auto simp: notified_def improves_def Let_def split: option.split)
  show "dist n (succ_of (notified conn n s net n)) \<le> dist n d" if "pr_predecessor (net s) = Some d" "d \<noteq> n"
    using that l(2) s(2) by (auto simp: notified_def Let_def)
qed

lemma improvesD:
  assumes "improves M a b" "n \<in> M"
  shows "node_ok M n (b n)" "dist n (succ_of (b n)) \<le> dist n (succ_of (a n))" "pred_from (a n) p \<Longrightarrow> pred_from (b n) p"
  using assms by (auto simp: improves_def better_def)

text \<open>
  A round of \<open>n\<close>: every successor has it as a predecessor at least, and \<open>n\<close> has heard of the
  predecessors they had.
\<close>

lemma notified_fold:
  assumes "ring_ok M net" "n \<in> M" "set xs \<subseteq> M - {n}"
  shows "improves M net (fold (notified conn n) xs net)
    \<and> (\<forall>s \<in> set xs. pred_from (fold (notified conn n) xs net s) n
        \<and> (\<forall>p. pred_from (net s) p \<longrightarrow> (\<exists>q. dist s p \<le> dist s q \<and> q \<in> M - {s}
             \<and> (q = n \<or> dist n (succ_of (fold (notified conn n) xs net n)) \<le> dist n q))))"
  using assms(1,3)
proof (induction xs arbitrary: net)
  case Nil
  then show ?case by (simp add: improves_refl)
next
  case (Cons x xs)
  let ?net1 = "notified conn n x net" and ?net2 = "fold (notified conn n) (x # xs) net"
  have x: "x \<in> M - {n}" "x \<in> M" using Cons.prems(2) by auto
  note n1 = notified_improves [OF Cons.prems(1) assms(2) x(1), where conn = conn]
  have IH: "improves M ?net1 ?net2 \<and> (\<forall>s \<in> set xs. pred_from (?net2 s) n
        \<and> (\<forall>p. pred_from (?net1 s) p \<longrightarrow> (\<exists>q. dist s p \<le> dist s q \<and> q \<in> M - {s}
             \<and> (q = n \<or> dist n (succ_of (?net2 n)) \<le> dist n q))))"
    using Cons.IH [of ?net1] improves_ok [OF n1(1)] Cons.prems(2) by simp
  have "\<exists>q. dist x p \<le> dist x q \<and> q \<in> M - {x} \<and> (q = n \<or> dist n (succ_of (?net2 n)) \<le> dist n q)"
    if p: "pred_from (net x) p" for p
  proof -
    have okx: "node_ok M x (net x)" using Cons.prems(1) x(2) by (simp add: ring_ok_def)
    obtain q where q: "pr_predecessor (net x) = Some q" "dist x p \<le> dist x q"
      using p node_okD(2) [OF okx] by (auto simp: pred_from_def)
    have "q = n \<or> dist n (succ_of (?net2 n)) \<le> dist n q"
      using n1(3) [OF q(1)] improvesD(2) [OF conjunct1 [OF IH] assms(2)] by (auto intro: order_trans)
    then show ?thesis using q(2) node_okD(7) [OF okx q(1)] by blast
  qed
  moreover have "pred_from (?net2 x) n" using improvesD(3) [OF conjunct1 [OF IH] x(2) n1(2)] .
  moreover have "improves M net ?net2" using improves_trans [OF n1(1)] IH by blast
  moreover have "pred_from (?net1 s) p" if "s \<in> set xs" "pred_from (net s) p" for s p
    using improvesD(3) [OF n1(1)] that Cons.prems(2) by auto
  ultimately show ?case using IH unfolding list.set by blast
qed

lemma round_improves:
  assumes "ring_ok M net" "n \<in> M"
  shows "improves M net (ring_round conn n net)"
    and "pred_from (ring_round conn n net (succ_of (net n))) n"
    and "pred_from (net (succ_of (net n))) p \<Longrightarrow> \<exists>q. dist (succ_of (net n)) p \<le> dist (succ_of (net n)) q
      \<and> q \<in> M - {succ_of (net n)} \<and> (q = n \<or> dist n (succ_of (ring_round conn n net n)) \<le> dist n q)"
proof -
  have ok: "node_ok M n (net n)" using assms by (simp add: ring_ok_def)
  note d = node_okD [OF ok]
  have r: "ring_round conn n net = fold (notified conn n) (successors (pr_successor (net n))) net"
    using d(2,6) by (auto simp: ring_round_def Let_def ss_list_def)
  have s: "succ_of (net n) \<in> set (successors (pr_successor (net n)))"
    using ok by (intro ss_min_in) (simp add: node_ok_def)
  note f = notified_fold [OF assms d(5), where conn = conn, folded r]
  show "improves M net (ring_round conn n net)" "pred_from (ring_round conn n net (succ_of (net n))) n"
    using f s by blast+
  show "pred_from (net (succ_of (net n))) p \<Longrightarrow> \<exists>q. dist (succ_of (net n)) p \<le> dist (succ_of (net n)) q
      \<and> q \<in> M - {succ_of (net n)} \<and> (q = n \<or> dist n (succ_of (ring_round conn n net n)) \<le> dist n q)"
    using f s by blast
qed

lemma rounds_improve: "ring_ok M net \<Longrightarrow> set ds \<subseteq> M \<Longrightarrow> improves M net (rounds conn ds net)"
proof (induction ds arbitrary: net)
  case Nil
  then show ?case by (simp add: rounds_def improves_refl)
next
  case (Cons d ds)
  have i: "improves M net (ring_round conn d net)" using round_improves(1) Cons.prems by auto
  moreover have "improves M (ring_round conn d net) (rounds conn ds (ring_round conn d net))"
    using Cons.IH [OF improves_ok [OF i]] Cons.prems(2) by simp
  ultimately show ?case using improves_trans by (simp add: rounds_def) blast
qed

text \<open>What holds after a round of \<open>d\<close>, and is kept, holds after rounds with \<open>d\<close> among them.\<close>

lemma rounds_reach:
  assumes "ring_ok M net" "set ds \<subseteq> M" "d \<in> set ds"
    and "\<And>a. improves M net a \<Longrightarrow> P (ring_round conn d a)" "\<And>a b. improves M a b \<Longrightarrow> P a \<Longrightarrow> P b"
  shows "P (rounds conn ds net)"
proof -
  obtain xs ys where ds: "ds = xs @ d # ys" using split_list [OF assms(3)] by blast
  let ?a = "rounds conn xs net"
  have a: "improves M net ?a" using assms(1,2) ds by (intro rounds_improve) auto
  have d: "improves M ?a (ring_round conn d ?a)" using round_improves(1) [OF improves_ok [OF a]] assms(2,3) by blast
  have "improves M (ring_round conn d ?a) (rounds conn ys (ring_round conn d ?a))"
    using assms(2) ds by (intro rounds_improve [OF improves_ok [OF d]]) auto
  then show ?thesis using assms(4) [OF a] assms(5) by (simp add: ds rounds_def)
qed

section \<open>A ring that finds its order\<close>

lemma right_stays:
  assumes "improves M a b" "n \<in> M" "next_of M n (succ_of (a n))"
  shows "succ_of (b n) = succ_of (a n)"
  using next_unique [OF assms(3)] improvesD(1,2) [OF assms(1,2)] node_okD(6) by blast

lemma pred_right:
  assumes "node_ok M m r" "prev_of M m n" "pred_from r n"
  shows "pr_predecessor r = Some n"
  using assms(3) node_okD(2,7) [OF assms(1)] prev_unique [OF assms(2)] by (auto simp: pred_from_def)

text \<open>When every member knows its successor, a round of each lets it know its predecessor.\<close>

lemma stabilisation_finds_predecessors:
  assumes "finite M" "ring_ok M net" "\<And>n. n \<in> M \<Longrightarrow> next_of M n (succ_of (net n))" "set ds = M" "m \<in> M"
  shows "\<exists>p. prev_of M m p \<and> pr_predecessor (rounds conn ds net m) = Some p"
proof -
  have "M - {m} \<noteq> {}" using assms(3,5) by (auto simp: next_of_def)
  then obtain n where n: "prev_of M m n" using prev_exists assms(1) by blast
  then have nm: "next_of M n m" "n \<in> M" using prev_next assms(5) by (auto simp: prev_of_def)
  have succ: "succ_of (net n) = m"
    using next_unique [OF nm(1)] assms(3) [OF nm(2)] nm(1) by (auto simp: next_of_def)
  have "pred_from (rounds conn ds net m) n"
  proof (rule rounds_reach [OF assms(2), where d = n])
    show "pred_from (ring_round conn n a m) n" if a: "improves M net a" for a
      using round_improves(2) [OF improves_ok [OF a] nm(2)] right_stays [OF a nm(2)] assms(3) [OF nm(2)] succ by simp
    show "pred_from (b m) n" if "improves M a b" "pred_from (a m) n" for a b
      using improvesD(3) that assms(5) by blast
  qed (use assms(4) nm(2) in simp_all)
  moreover have "node_ok M m (rounds conn ds net m)"
    using assms(2,4,5) by (intro improvesD(1) [OF rounds_improve]) simp_all
  ultimately show ?thesis using n pred_right by blast
qed

text \<open>A newcomer that has notified its successor is found by the node before it.\<close>

lemma newcomer_found:
  assumes "improves (insert x N) net a" "pred_from (a (succ_of (net x))) x" "x \<notin> N" "n \<in> N"
    and "next_of N n (succ_of (net n))" "next_of (insert x N) x (succ_of (net x))"
    and "dist n x < dist n (succ_of (net n))"
  shows "succ_of (ring_round conn n a n) = x"
proof -
  let ?M = "insert x N"
  have n: "n \<in> ?M" "n \<noteq> x" using assms(3,4) by auto
  have next_x: "next_of ?M n x"
    using assms(5,7) n(2) unfolding next_of_def by (auto intro: order_trans less_imp_le)
  have s: "succ_of (net x) = succ_of (net n)"
    using newcomer_between [OF assms(5,6,4,3,7)] .
  note i = round_improves [OF improves_ok [OF assms(1)] n(1), where conn = conn]
  have near: "succ_of (ring_round conn n a n) = x" if "dist n (succ_of (ring_round conn n a n)) \<le> dist n x"
    using next_unique [OF next_x] improvesD(1) [OF i(1) n(1)] that node_okD(6) by blast
  show ?thesis
  proof (cases "succ_of (a n) = x")
    case True
    then show ?thesis using near improvesD(2) [OF i(1) n(1)] by simp
  next
    case False
    then have "succ_of (a n) \<in> N - {n}" using node_okD(6) [OF improvesD(1) [OF assms(1) n(1)]] by blast
    then have "succ_of (a n) = succ_of (net x)"
      using next_unique [OF assms(5)] improvesD(2) [OF assms(1) n(1)] s by simp
    then obtain q where q: "dist (succ_of (net x)) x \<le> dist (succ_of (net x)) q" "q \<in> ?M - {succ_of (net x)}"
        "q = n \<or> dist n (succ_of (ring_round conn n a n)) \<le> dist n q"
      using i(3) [of x] assms(2) by auto
    have "q = x" using prev_unique [OF next_prev [OF assms(6)] q(2,1)] by simp
    then show ?thesis using q(3) n(2) near by simp
  qed
qed

text \<open>
  C2: a newcomer finds its place in the ring. In a network of at least two nodes in which every
  node knows its successor, let another node have joined that knows its own. When it has run a
  stabilisation round, then every node has, in any order and as often as it likes, and then
  every node again, each node has the next member of the ring as its first successor and the
  member before it as its predecessor, whatever predecessors they had before.
\<close>

theorem newcomer_integrated:
  assumes "finite N" "x \<notin> N" "ring_ok (insert x N) net"
    and "\<And>n. n \<in> N \<Longrightarrow> next_of N n (succ_of (net n))" "next_of (insert x N) x (succ_of (net x))"
    and "set ds = insert x N" "set ds' = insert x N" "n \<in> insert x N"
  shows "next_of (insert x N) n (succ_of (rounds conn (x # ds @ ds') net n))
    \<and> (\<exists>p. prev_of (insert x N) n p \<and> pr_predecessor (rounds conn (x # ds @ ds') net n) = Some p)"
proof -
  let ?M = "insert x N" and ?net1 = "ring_round conn x net"
  let ?net2 = "rounds conn ds ?net1"
  note i1 = round_improves [OF assms(3), of x, where conn = conn, simplified]
  have i2: "improves ?M ?net1 ?net2" using rounds_improve [OF improves_ok [OF i1(1)]] assms(6) by blast
  have i: "improves ?M net ?net2" using improves_trans [OF i1(1) i2] .
  have right: "next_of ?M m (succ_of (?net2 m))" if m: "m \<in> ?M" for m
  proof (cases "next_of ?M m (succ_of (net m))")
    case True
    then show ?thesis using right_stays [OF i m] by simp
  next
    case False
    then have mN: "m \<in> N" using m assms(5) by blast
    obtain y where y: "y \<in> ?M - {m}" "dist m y < dist m (succ_of (net m))"
      using False assms(4) [OF mN] unfolding next_of_def by (meson insertI2 DiffD1 DiffD2 DiffI not_le)
    then have "y \<notin> N" using assms(4) [OF mN] unfolding next_of_def by (meson DiffI DiffD2 leD)
    then have less: "dist m x < dist m (succ_of (net m))" using y by auto
    have next_x: "next_of ?M m x"
      using assms(2) assms(4) [OF mN] less mN unfolding next_of_def by (auto intro: order_trans less_imp_le)
    have "succ_of (?net2 m) = x"
    proof (rule rounds_reach [OF improves_ok [OF i1(1)], where d = m])
      show "succ_of (ring_round conn m a m) = x" if a: "improves ?M ?net1 a" for a
      proof (rule newcomer_found [OF _ _ assms(2) mN assms(4) [OF mN] assms(5) less])
        show "improves ?M net a" using improves_trans [OF i1(1) a] .
        show "pred_from (a (succ_of (net x))) x"
          using improvesD(3) [OF a _ i1(2)] assms(5) by (auto simp: next_of_def)
      qed
      show "succ_of (b m) = x" if "improves ?M a b" "succ_of (a m) = x" for a b
        using right_stays [OF that(1) m] that(2) next_x by simp
    qed (use assms(6) m in simp_all)
    then show ?thesis using next_x by simp
  qed
  have net: "rounds conn (x # ds @ ds') net = rounds conn ds' ?net2" by (simp add: rounds_def)
  have "improves ?M ?net2 (rounds conn ds' ?net2)" using rounds_improve [OF improves_ok [OF i]] assms(7) by blast
  then have "next_of ?M n (succ_of (rounds conn ds' ?net2 n))"
    using right_stays right assms(8) by metis
  then show ?thesis
    using stabilisation_finds_predecessors [OF _ improves_ok [OF i] right assms(7,8)] assms(1)
    by (simp add: net)
qed

text \<open>Witness: nodes 1 and 4 know each other, and node 9 joins.\<close>

definition demo_joined :: "did \<Rightarrow> unit peer_ring" where
  "demo_joined n = (if n = 9 then join_all [1] (pr_new_with_storage 9 3 ()) else demo_net n)"

lemma joined_one:
  assumes "a \<noteq> n" "a \<in> M" "r = join_all [a] (pr_new_with_storage n 3 ())"
  shows "node_ok M n r" "succ_of r = a"
proof -
  note j = join_all_new [where ds = "[a]" and n = n and m = 3 and st = "()", folded assms(3)]
  have s: "successors (pr_successor r) = [a]" using j(4) assms(1) by (simp add: nearest_def)
  then show "succ_of r = a" by (simp add: ss_min_def ss_is_empty_def)
  have "ss_max (pr_successor r) = 3" "pr_predecessor r = None"
    using chord_join_eq [OF pr_wf_new [of n 3 "()"], of a] assms(1) by (auto simp: assms(3) join_all_def)
  then show "node_ok M n r" using j(1,2) s assms(2) by (simp add: node_ok_def ss_is_empty_def)
qed

theorem newcomer_integrated_witness:
  "next_of {9, 1, 4} 4 (succ_of (rounds (\<lambda>_ _. True) (9 # [9, 1, 4] @ [4, 1, 9]) demo_joined 4))
    \<and> (\<exists>p. prev_of {9, 1, 4} 4 p
         \<and> pr_predecessor (rounds (\<lambda>_ _. True) (9 # [9, 1, 4] @ [4, 1, 9]) demo_joined 4) = Some p)"
proof -
  have d: "demo_joined 1 = join_all [4] (pr_new_with_storage 1 3 ())" "demo_joined 4 = join_all [1] (pr_new_with_storage 4 3 ())"
    "demo_joined 9 = join_all [1] (pr_new_with_storage 9 3 ())"
    by (simp_all add: demo_joined_def demo_net_def)
  let ?M = "insert 9 {1, 4} :: did set"
  have ok: "node_ok ?M 1 (demo_joined 1)" "succ_of (demo_joined 1) = 4" "node_ok ?M 4 (demo_joined 4)"
      "succ_of (demo_joined 4) = 1" "node_ok ?M 9 (demo_joined 9)" "succ_of (demo_joined 9) = 1"
    using joined_one [of 4 1 ?M] joined_one [of 1 4 ?M] joined_one [of 1 9 ?M] d by simp_all
  have "ring_ok ?M demo_joined" using ok by (simp add: ring_ok_def)
  moreover have "next_of {1, 4} n (succ_of (demo_joined n))" if "n \<in> {1, 4}" for n
    using that ok(2,4) by (auto simp: next_of_def)
  moreover have "next_of ?M 9 (succ_of (demo_joined 9))" by (simp add: next_of_def ok(6))
  ultimately show ?thesis
    using newcomer_integrated [of "{1, 4}" 9 demo_joined "[9, 1, 4]" "[4, 1, 9]" 4] by auto
qed

end
