(* ===== verification/Bootstrap.thy ===== *)
theory Bootstrap
  imports ProcessorProps
begin

text \<open>
  What a node does when the transport reports that a connection has come up or gone down.
  \<open>load_message\<close> turns the event into a message of the node to itself, and the message's
  handler changes the ring.
\<close>

section \<open>Messages of a node to itself\<close>

lemma new_send_Inr:
  assumes "J msg \<noteq> None"
  obtains p where "MessagePayload_new_send E J now u msg sm d e = Inr p"
  using assms by (auto simp: MessagePayload_new_send_def MessagePayload_new_def Let_def pack_msg_def rbind_def
      ok_or_def split: option.splits)

lemma seal_send_own:
  assumes "tr_uuid (en_transport X) (sw_world n) = (u, w)" "en_json X msg \<noteq> None"
  obtains p where "seal_send X msg d d n = (Inr p, n\<lparr>sw_world := w\<rparr>)"
    "MessagePayload_new_send (en_ecc X) (en_json X) (tr_now (en_transport X) (sw_world n)) u msg (sw_session n) d d = Inr p"
proof -
  obtain p where p: "MessagePayload_new_send (en_ecc X) (en_json X) (tr_now (en_transport X) (sw_world n)) u msg
      (sw_session n) d d = Inr p"
    using new_send_Inr [where J = "en_json X" and msg = msg] assms(2) by blast
  show thesis
    by (rule that [OF _ p]) (unfold seal_send_def, rule seal_send_payload [OF assms(1)], simp add: p)
qed

section \<open>A connection comes up\<close>

lemma register_keeps:
  assumes "register X d i n = (Inr (), m)"
  shows "sw_session m = sw_session n" "sw_measure m = sw_measure n"
proof -
  have close: "sbind (attempt (close_transport X t)) (\<lambda>r. if is_ok r then sret () else serr SwarmToClosePrevTransport)
      (set_transport d i n) = (Inr (), m) \<Longrightarrow> sw_session m = sw_session n \<and> sw_measure m = sw_measure n" for t
    using close_result [of "close_transport X t" "set_transport d i n" "Inr ()" m]
    by (auto simp: close_transport_def on_world_def set_transport_def split: prod.splits)
  have "sw_session m = sw_session n \<and> sw_measure m = sw_measure n"
  proof (cases "mem_get (sw_transports n) d")
    case None
    then show ?thesis using assms by (auto simp: register_def set_transport_def split: if_splits)
  next
    case (Some old)
    then show ?thesis using assms close [of old] unfolding register_def Some option.case by (auto split: if_splits)
  qed
  then show "sw_session m = sw_session n" "sw_measure m = sw_measure n" by simp_all
qed

text \<open>The report of a new connection becomes a message of the node to itself.\<close>

lemma load_register:
  assumes "i \<in> set (sw_pending n)" "\<not> sw_pending_locked n" "register X d i n = (Inr (), m)"
    and "tr_uuid (en_transport X) (sw_world m) = (u, w)" "en_json X (JoinDHT d) \<noteq> None"
  defines "n1 \<equiv> m\<lparr>sw_pending := remove1 i (sw_pending n), sw_world := w\<rparr>"
  obtains p where "load_message X (Inr (Some (RegisterTransport d i))) n = (Inr (Some p), n1)"
    "MessagePayload_new_send (en_ecc X) (en_json X) (tr_now (en_transport X) (sw_world m)) u (JoinDHT d)
      (sw_session n) (sw_did n) (sw_did n) = Inr p"
proof -
  note reg = register_Inr [OF assms(3)]
  let ?m = "m\<lparr>sw_pending := remove1 i (sw_pending n)\<rparr>"
  have "find (\<lambda>x. x = i) xs = Some i" if "i \<in> set xs" for xs
    using that by (induction xs) auto
  then have find: "attempt (find_pending_transport i) n = (Inr (Inr (Some i)), n)"
    by (simp add: attempt_def find_pending_transport_def assms(1,2))
  have pop: "pop_pending_transport i m = (Inr (), ?m)"
    using pop_pending_present [of i m] assms(1,2) reg by simp
  have "get_transport ?m = get_transport m" by (simp add: get_transport_def fun_eq_iff)
  then have same: "sw_did ?m = sw_did n" "get_transport ?m d = Some i" "sw_session ?m = sw_session n"
    using reg register_keeps [OF assms(3)] by (simp_all add: sw_did_def)
  obtain p where p: "seal_send X (JoinDHT d) (sw_did n) (sw_did n) ?m = (Inr p, ?m\<lparr>sw_world := w\<rparr>)"
    "MessagePayload_new_send (en_ecc X) (en_json X) (tr_now (en_transport X) (sw_world ?m)) u (JoinDHT d)
      (sw_session ?m) (sw_did n) (sw_did n) = Inr p"
    using seal_send_own [where n = ?m, OF _ assms(5)] assms(4) by simp metis
  have "load_message X (Inr (Some (RegisterTransport d i))) n = (Inr (Some p), n1)"
    using p(1) reg by (simp add: load_message_def sbind_def find assms(3) pop same n1_def)
  then show thesis using that p(2) same by simp
qed

text \<open>Sending to a peer over the transport that the node has to it.\<close>

lemma do_send_over:
  assumes "get_transport n d = Some i" "\<not> tr_is_disconnected (en_transport X) (sw_world n) i"
    and "en_bin X p = Some data" "tr_wait_for_data_channel_open (en_transport X) i (sw_world n) = (Inr (), w4)"
    and "tr_send_message (en_transport X) data i w4 = (Inr (), w5)" "rl_next_hop (pl_relay p) = Some d"
  shows "do_send_payload X d p n = (Inr (), incr_measure d Sent (n\<lparr>sw_world := w5\<rparr>))"
  using assms
  by (simp add: do_send_payload_def sbind_def get_and_check_transport_def is_disconnected_def pl_to_bincode_def
      on_world_def attempt_def)

lemma join_asks_for_successor:
  assumes "pr_wf (sw_dht n)" "d \<noteq> sw_did n" "pl_addr ctx \<noteq> d" "get_transport n d = Some i"
    and "tr_uuid (en_transport X) (sw_world n) = (u, w3)" "\<not> tr_is_disconnected (en_transport X) w3 i"
    and "\<And>m. en_json X m \<noteq> None" "\<And>p. en_bin X p \<noteq> None"
    and "tr_wait_for_data_channel_open (en_transport X) i w3 = (Inr (), w4)"
    and "\<And>data. fst (tr_send_message (en_transport X) data i w4) = Inr ()"
  obtains p data where "snd (handle_JoinDHT X ctx d n) = incr_measure d Sent (n\<lparr>sw_dht := snd (chord_join d (sw_dht n)),
      sw_world := snd (tr_send_message (en_transport X) data i w4)\<rparr>)"
    "en_bin X p = Some data" "pl_data p = FindSuccessorSend (sw_did n) False (ThenReport HandlerConnect)"
    "pl_relay p = MessageRelay_new SEND [sm_authorizer (sw_session n)] None (Some d) d"
proof -
  obtain s where join: "chord_join d (sw_dht n) = (Inr (PRemoteAction d (FindSuccessorForConnect (sw_did n))), s)"
    using chord_join_eq [OF assms(1), of d] assms(2) by (auto simp: sw_did_def)
  let ?n = "n\<lparr>sw_dht := s\<rparr>"
  let ?msg = "FindSuccessorSend (sw_did n) False (ThenReport HandlerConnect)"
  obtain p where p: "seal_send X ?msg d d ?n = (Inr p, ?n\<lparr>sw_world := w3\<rparr>)"
    "MessagePayload_new_send (en_ecc X) (en_json X) (tr_now (en_transport X) (sw_world ?n)) u ?msg (sw_session ?n) d d = Inr p"
    using seal_send_own [where n = ?n, OF _ assms(7)] assms(5) by simp metis
  obtain data where data: "en_bin X p = Some data" using assms(8) [of p] by auto
  note f = MessagePayload_new_Inr [OF p(2) [unfolded MessagePayload_new_send_def Let_def]]
  have hop: "rl_next_hop (pl_relay p) = Some d" by (simp add: f MessageRelay_new_def)
  obtain w5 where w5: "tr_send_message (en_transport X) data i w4 = (Inr (), w5)"
    using assms(10) [of data] by (cases "tr_send_message (en_transport X) data i w4") auto
  have "do_send_payload X d p (?n\<lparr>sw_world := w3\<rparr>) = (Inr (), incr_measure d Sent (?n\<lparr>sw_world := w5\<rparr>))"
    using do_send_over [of "?n\<lparr>sw_world := w3\<rparr>" d i X p data w4 w5] assms(4,6,9) data w5 hop by (simp add: get_transport_def)
  then have "snd (handle_JoinDHT X ctx d n) = incr_measure d Sent (n\<lparr>sw_dht := snd (chord_join d (sw_dht n)), sw_world := w5\<rparr>)"
    using assms(3) join p(1) hop
    by (simp add: handle_JoinDHT_def sbind_def on_ring_def send_direct_message_def send_payload_def)
  then show thesis using that [of data p] data f w5 by simp
qed

text \<open>
  C10: a connection that comes up joins the ring. When the transport reports that a pending
  connection to \<open>d\<close> is open and the node can register it, in place of another one or
  not, one turn of \<open>listen\<close> makes it the connection to \<open>d\<close>, no longer
  pending; the ring has joined \<open>d\<close>, and over that connection \<open>d\<close> is sent
  the request for the successor of the node's own identifier. But for the message counter that is
  all that changes. It holds over any transport that stays up and takes the request, with encoders
  that succeed, on a node other than \<open>d\<close> with a well-formed ring, without a validator,
  whose callback, if it has one, does not change it on built-in messages, and whose session is its
  own and valid: the node must accept its own \<open>JoinDHT\<close>, within the five minutes of a
  seal.
\<close>

theorem connection_up_joins_ring:
  fixes n :: "('s, 'w) node"
  assumes "tr_recv (en_transport X) (sw_did n) (sw_world n) = (Inr (Some (RegisterTransport d i)), w1)"
    and "i \<in> set (sw_pending n)" "\<not> sw_pending_locked n" "register X d i (n\<lparr>sw_world := w1\<rparr>) = (Inr (), m)"
    and "tr_uuid (en_transport X) (sw_world m) = (u, w2)" "tr_uuid (en_transport X) w2 = (v, w3)"
    and "tr_now (en_transport X) w2 \<le> tr_now (en_transport X) (sw_world m) + 300000"
    and "sm_valid (en_ecc X) (tr_now (en_transport X) w2) (sw_session n)" "sm_authorizer (sw_session n) = sw_did n"
    and "ecdsa_ok (en_ecc X)" "\<And>msg. en_json X msg \<noteq> None" "\<And>p. en_bin X p \<noteq> None"
    and "\<not> tr_is_disconnected (en_transport X) w3 i"
    and "tr_wait_for_data_channel_open (en_transport X) i w3 = (Inr (), w4)"
    and "\<And>data. fst (tr_send_message (en_transport X) data i w4) = Inr ()"
    and "idle_handler H" "pr_wf (sw_dht n)" "d \<noteq> sw_did n"
  shows "let n' = snd (listen_once X H n) in
    get_transport n' = (get_transport n)(d \<mapsto> i) \<and> sw_pending n' = remove1 i (sw_pending n)
    \<and> sw_dht n' = snd (chord_join d (sw_dht n))
    \<and> (\<exists>p data s c. pl_data p = FindSuccessorSend (sw_did n) False (ThenReport HandlerConnect)
        \<and> pl_relay p = MessageRelay_new SEND [sw_did n] None (Some d) d \<and> en_bin X p = Some data
        \<and> s = incr_measure d Sent (m\<lparr>sw_pending := remove1 i (sw_pending n), sw_dht := snd (chord_join d (sw_dht n)),
            sw_world := snd (tr_send_message (en_transport X) data i w4)\<rparr>)
        \<and> n' \<in> {s, incr_measure (sw_did n) c s})"
proof -
  let ?n = "n\<lparr>sw_world := w1\<rparr>"
  let ?n1 = "m\<lparr>sw_pending := remove1 i (sw_pending n), sw_world := w2\<rparr>"
  have sel: "get_transport (k\<lparr>sw_world := w\<rparr>) = get_transport k" "get_transport (k\<lparr>sw_pending := ps\<rparr>) = get_transport k"
      "get_transport (k\<lparr>sw_dht := s\<rparr>) = get_transport k" for k :: "('s, 'w) node" and w ps s
    by (simp_all add: get_transport_def fun_eq_iff)
  have reg: "get_transport m = (get_transport n)(d \<mapsto> i)" "sw_dht m = sw_dht n" "sw_session m = sw_session n"
    using register_Inr [OF assms(4)] register_keeps [OF assms(4)] by (simp_all add: sel)
  obtain p where load: "load_message X (Inr (Some (RegisterTransport d i))) ?n = (Inr (Some p), ?n1)"
    and sealed: "MessagePayload_new_send (en_ecc X) (en_json X) (tr_now (en_transport X) (sw_world m)) u (JoinDHT d)
      (sw_session n) (sw_did n) (sw_did n) = Inr p"
    using load_register [of i ?n X d m u w2] assms(2-5,11) by (auto simp: sw_did_def)
  have poll: "poll_message X n = (Inr (Some p), ?n1)"
    using load by (simp add: poll_message_def attempt_def on_world_def assms(1))
  have acc: "pl_verify (en_ecc X) (en_json X) (tr_now (en_transport X) w2) p" "pl_data p = JoinDHT d"
    using sealed_message_later [OF assms(10) sealed assms(8,7)] by simp_all
  have addr: "pl_addr p = sw_did n"
    using MessagePayload_new_Inr [OF sealed [unfolded MessagePayload_new_send_def Let_def]] assms(9) by simp
  obtain q data where run: "snd (handle_JoinDHT X p d ?n1) = incr_measure d Sent (?n1\<lparr>sw_dht := snd (chord_join d (sw_dht ?n1)),
      sw_world := snd (tr_send_message (en_transport X) data i w4)\<rparr>)"
    and q: "en_bin X q = Some data" "pl_data q = FindSuccessorSend (sw_did ?n1) False (ThenReport HandlerConnect)"
      "pl_relay q = MessageRelay_new SEND [sm_authorizer (sw_session ?n1)] None (Some d) d"
  proof (rule join_asks_for_successor)
    show "pr_wf (sw_dht ?n1)" "d \<noteq> sw_did ?n1" "pl_addr p \<noteq> d" "get_transport ?n1 d = Some i"
      using assms(17,18) addr reg by (simp_all add: sel sw_did_def)
    show "tr_uuid (en_transport X) (sw_world ?n1) = (v, w3)" using assms(6) by simp
  qed (use assms(11-15) in auto)
  let ?s = "incr_measure d Sent (m\<lparr>sw_pending := remove1 i (sw_pending n), sw_dht := snd (chord_join d (sw_dht n)),
      sw_world := snd (tr_send_message (en_transport X) data i w4)\<rparr>)"
  have s: "snd (handle_JoinDHT X p d ?n1) = ?s" unfolding run using reg(2) by simp
  have "\<exists>c. snd (handle_payload X H p ?n1) = incr_measure (pl_addr p) c (snd (handle_JoinDHT X p d ?n1))
      \<or> snd (handle_payload X H p ?n1) = snd (handle_JoinDHT X p d ?n1)"
    using acc by (intro handle_payload_runs [OF assms(16)]) (simp_all add: handle_data.simps)
  then obtain c where c: "snd (listen_once X H n) \<in> {?s, incr_measure (sw_did n) c ?s}"
    using listen_once_handles [OF poll] unfolding s addr by auto
  have fields: "get_transport (incr_measure e k l) = get_transport l" "sw_pending (incr_measure e k l) = sw_pending l"
      "sw_dht (incr_measure e k l) = sw_dht l" for e k and l :: "('s, 'w) node"
    by (simp_all add: incr_measure_def sel split: option.split)
  have sent: "pl_data q = FindSuccessorSend (sw_did n) False (ThenReport HandlerConnect)"
      "pl_relay q = MessageRelay_new SEND [sw_did n] None (Some d) d"
    using q(2,3) reg(2,3) assms(9) by (simp_all add: sw_did_def)
  have "get_transport (snd (listen_once X H n)) = (get_transport n)(d \<mapsto> i)"
      "sw_pending (snd (listen_once X H n)) = remove1 i (sw_pending n)"
      "sw_dht (snd (listen_once X H n)) = snd (chord_join d (sw_dht n))"
    using c by (auto simp only: insert_iff empty_iff fields sel reg) (simp_all add: fields sel reg)
  then show ?thesis unfolding Let_def using sent q(1) c by (intro conjI exI) (assumption | rule refl)+
qed

text \<open>Witness: node 0 learns that its pending connection 5, to node 2, is open.\<close>

theorem connection_up_joins_ring_witness:
  "\<exists>X H (n :: ((did, virtual_node) mem_storage, dummy_world) node) n'.
     n' = snd (listen_once X H n) \<and> get_transport n 2 = None \<and> get_transport n' 2 = Some 5
     \<and> sw_dht n' = snd (chord_join 2 (sw_dht n)) \<and> ch_queue (dw_channels (sw_world n') 2) \<noteq> []"
proof -
  define w where "w = demo_world\<lparr>hub_senders := [8 \<mapsto> 2],
      dw_channels := (\<lambda>_. ch_new)(0 := ch_new\<lparr>ch_queue := [RegisterTransport 2 5]\<rparr>)\<rparr>"
  define w1 where "w1 = dequeued 0 w"
  define w2 where "w2 = w1\<lparr>dw_next_uuid := 10\<rparr>"
  define w3 where "w3 = w1\<lparr>dw_next_uuid := 11\<rparr>"
  note ws = w_def w1_def w2_def w3_def dequeued_def
  define n where "n = demo_node\<lparr>sw_world := w, sw_pending := [5], sw_dht := pr_new_with_storage 0 3 mem_new\<rparr>"
  define m where "m = set_transport 2 5 (n\<lparr>sw_world := w1\<rparr>)"
  have n: "5 \<in> set (sw_pending n)" "\<not> sw_pending_locked n" "sw_session n = demo_sm" "sw_did n = 0"
      "pr_wf (sw_dht n)" "get_transport n 2 = None" "sw_measure m = None" "sw_world m = w1" "sw_world n = w"
    by (simp_all add: n_def m_def demo_node_def sw_did_def get_transport_def pr_wf_new set_transport_def)
  have link: "linked w3 5 2" "dt_is_disconnected w1 5 = False" "dw_now w2 = 10000" "dw_now w1 = 10000"
    by (simp_all add: ws demo_world_def linked_def ch_new_def dt_is_disconnected_def dt_ice_connection_state_def)
  have X: "en_transport demo_env = dummy_ops demo_dummy" "en_ecc demo_env = demo_ecc"
      "en_json demo_env msg \<noteq> None" "en_bin demo_env p \<noteq> None" for msg p
    by (simp_all add: demo_env_def)
  have recv: "tr_recv (en_transport demo_env) (sw_did n) (sw_world n) = (Inr (Some (RegisterTransport 2 5)), w1)"
    by (simp add: X n dt_recv_def ch_recv_def ws demo_world_def ch_new_def)
  have "get_transport (n\<lparr>sw_world := w1\<rparr>) 2 = None" using n(6) by (simp add: get_transport_def)
  then have reg: "register demo_env 2 5 (n\<lparr>sw_world := w1\<rparr>) = (Inr (), m)"
    by (simp add: register_def get_transport_def is_disconnected_def X link m_def)
  have uuid: "tr_uuid (en_transport demo_env) (sw_world m) = (9, w2)" "tr_uuid (en_transport demo_env) w2 = (10, w3)"
    by (simp_all add: X dt_uuid_def n(8) ws demo_world_def)
  have sm: "sm_valid demo_ecc 10000 demo_sm" "sm_authorizer demo_sm = 0"
    by (rule demo_sm_valid) code_simp
  have send: "tr_send_message (en_transport demo_env) data 5 w3 = (Inr (), delivered 2 data w3)" for data
    by (simp add: X dt_send_linked [OF link(1)])
  have up: "\<not> tr_is_disconnected (en_transport demo_env) w3 5" using link(1) by (simp add: X linked_def)
  have wait: "tr_wait_for_data_channel_open (en_transport demo_env) 5 w3 = (Inr (), w3)"
    by (simp add: X dt_wait_for_data_channel_open_def)
  define n' where "n' = snd (listen_once demo_env no_callback n)"
  have "get_transport n' = (get_transport n)(2 \<mapsto> 5) \<and> sw_pending n' = remove1 5 (sw_pending n)
    \<and> sw_dht n' = snd (chord_join 2 (sw_dht n))
    \<and> (\<exists>p data s c. pl_data p = FindSuccessorSend (sw_did n) False (ThenReport HandlerConnect)
        \<and> pl_relay p = MessageRelay_new SEND [sw_did n] None (Some 2) 2 \<and> en_bin demo_env p = Some data
        \<and> s = incr_measure 2 Sent (m\<lparr>sw_pending := remove1 5 (sw_pending n), sw_dht := snd (chord_join 2 (sw_dht n)),
            sw_world := snd (tr_send_message (en_transport demo_env) data 5 w3)\<rparr>)
        \<and> n' \<in> {s, incr_measure (sw_did n) c s})"
    unfolding n'_def
    by (rule connection_up_joins_ring [OF recv n(1,2) reg uuid, unfolded Let_def])
       (use sm demo_ecc_ok X up wait n link send in \<open>auto simp: idle_handler_def\<close>)
  moreover from this have "ch_queue (dw_channels (sw_world n') 2) \<noteq> []"
    unfolding send by (auto simp: incr_measure_def n(7) delivered_def)
  ultimately have "get_transport n' 2 = Some 5" "sw_dht n' = snd (chord_join 2 (sw_dht n))"
      "ch_queue (dw_channels (sw_world n') 2) \<noteq> []"
    by auto
  with n(6) n'_def show ?thesis by blast
qed

section \<open>A connection goes down\<close>

lemma load_closed:
  assumes "en_transport X = dummy_ops Y" "en_json X (LeaveDHT d) \<noteq> None" "get_transport n d = Some i"
  obtains p n1 where "load_message X (Inr (Some (ConnectClosed d i))) n = (Inr (Some p), n1)"
    "get_transport n1 = (get_transport n)(d := None)" "sw_dht n1 = sw_dht n" "dw_now (sw_world n1) = dw_now (sw_world n)"
    "sw_measure n1 = sw_measure n"
    "\<exists>u. MessagePayload_new_send (en_ecc X) (en_json X) (dw_now (sw_world n)) u (LeaveDHT d)
      (sw_session n) (sw_did n) (sw_did n) = Inr p"
proof -
  have same: "\<exists>xs. n = n\<lparr>sw_pending := xs\<rparr>" by (rule exI [of _ "sw_pending n"]) simp
  have "\<exists>r xs. attempt (pop_pending_transport i) n = (Inr r, n\<lparr>sw_pending := xs\<rparr>)"
    by (cases "position (\<lambda>x. x = i) (sw_pending n)")
      (auto simp: attempt_def pop_pending_transport_def is_panic_def same)
  then obtain r xs where pop: "attempt (pop_pending_transport i) n = (Inr r, n\<lparr>sw_pending := xs\<rparr>)"
    by blast
  let ?n = "n\<lparr>sw_pending := xs, sw_transports := snd (mem_remove d (sw_transports n))\<rparr>"
  have rem: "remove_transport d (n\<lparr>sw_pending := xs\<rparr>) = (Inr (fst (mem_remove d (sw_transports n))), ?n)"
      "fst (mem_remove d (sw_transports n)) \<noteq> None"
    using assms(3) by (auto simp: remove_transport_def get_transport_def mem_defs split: prod.split option.split)
  let ?w = "(sw_world n)\<lparr>dw_next_uuid := dw_next_uuid (sw_world n) + 1\<rparr>"
  have uuid: "tr_uuid (en_transport X) (sw_world ?n) = (dw_next_uuid (sw_world n), ?w)"
    by (simp add: assms(1) dt_uuid_def)
  obtain p where p: "seal_send X (LeaveDHT d) (sw_did n) (sw_did n) ?n = (Inr p, ?n\<lparr>sw_world := ?w\<rparr>)"
    "MessagePayload_new_send (en_ecc X) (en_json X) (tr_now (en_transport X) (sw_world ?n)) (dw_next_uuid (sw_world n))
      (LeaveDHT d) (sw_session ?n) (sw_did n) (sw_did n) = Inr p"
    using seal_send_own [OF uuid assms(2)] .
  have "load_message X (Inr (Some (ConnectClosed d i))) n =
      (Inr (Some p), ?n\<lparr>sw_world := ?w\<rparr>)"
    using p(1) assms(3) rem by (simp add: load_message_def sbind_def pop get_transport_def sw_did_def)
  then show thesis
    by (rule that) (use p(2) assms(1) in \<open>auto simp: get_transport_def fun_eq_iff\<close>)
qed

text \<open>
  When the transport reports that the connection to \<open>d\<close> has closed, one turn of \<open>listen\<close>
  forgets the connection and takes \<open>d\<close> out of the ring.
\<close>

lemma connection_down_leaves_ring:
  fixes n :: "('s, dummy_world) node"
  assumes "en_transport X = dummy_ops Y" "ecdsa_ok (en_ecc X)" "en_json X (LeaveDHT d) \<noteq> None"
    and "sw_measure n = None" "idle_handler H"
    and "sm_valid (en_ecc X) (dw_now (sw_world n)) (sw_session n)"
    and "dw_now (sw_world n) \<le> dw_now (sw_world n) + 300000"
    and "ch_queue (dw_channels (sw_world n) (sw_did n)) = ConnectClosed d i # q" "get_transport n d = Some i"
  shows "let n' = snd (listen_once X H n) in
    get_transport n' d = None \<and> sw_dht n' = pr_remove d (sw_dht n)"
proof -
  let ?n = "n\<lparr>sw_world := dequeued (sw_did n) (sw_world n)\<rparr>"
  have recv: "dt_recv (sw_did n) (sw_world n) = (Inr (Some (ConnectClosed d i)), sw_world ?n)"
    by (simp add: dt_recv_def ch_recv_def assms(8) dequeued_def)
  have t: "get_transport ?n d = Some i" using assms(9) by (simp add: get_transport_def)
  obtain p n1 u where load: "load_message X (Inr (Some (ConnectClosed d i))) ?n = (Inr (Some p), n1)"
    and n1: "sw_dht n1 = sw_dht ?n" "dw_now (sw_world n1) = dw_now (sw_world ?n)"
    and sealed: "MessagePayload_new_send (en_ecc X) (en_json X) (dw_now (sw_world ?n)) u (LeaveDHT d)
      (sw_session ?n) (sw_did ?n) (sw_did ?n) = Inr p"
    using load_closed [OF assms(1,3) t] by metis
  have poll: "poll_message X n = (Inr (Some p), n1)"
    using load by (simp add: poll_message_def attempt_def on_world_def assms(1) recv)
  have acc: "pl_verify (en_ecc X) (en_json X) (dw_now (sw_world n1)) p" "pl_data p = LeaveDHT d"
    using sealed_message_accepted [OF assms(2) sealed] assms(6,7) n1(2) by (simp_all add: dequeued_def)
  have "sw_transports (snd (handle_payload X H p n1)) = sw_transports (snd (swarm_disconnect X d n1))"
      "sw_dht (snd (handle_payload X H p n1)) = sw_dht (snd (swarm_disconnect X d n1))"
    using snd_handle_payload [OF assms(5), of X n1 p "swarm_disconnect X d"] acc assms(1)
    by (simp_all add: handle_data.simps handle_LeaveDHT_def)
  moreover have "snd (listen_once X H n) = snd (handle_payload X H p n1)"
    by (rule listen_once_handles [OF poll])
  ultimately show ?thesis
    using swarm_disconnect_forgets [OF refl, of X d n1] n1(1) by (simp add: get_transport_def Let_def)
qed

end
