(* ===== verification/Idb.thy ===== *)
theory Idb
  imports Storage
begin

text \<open>
  The storage of browser nodes over IndexedDB, \<open>storage/persistence/idb.rs\<close>: the rows with
  their bookkeeping, the operations of the persistence traits and the eviction that keeps their
  number under the capacity. The database (the crate \<open>rexie\<close>) is a record of operations on its
  own state, its rows are JavaScript values of type \<open>'j\<close> keyed by strings; \<open>count\<close> and
  \<open>usize\<close> are natural numbers.
\<close>

record 'v data_struct =
  ds_key :: string
  ds_last_visit_time :: int
  ds_visit_count :: "64 word"
  ds_created_time :: int
  ds_data :: 'v

definition DataStruct_new :: "int \<Rightarrow> string \<Rightarrow> 'v \<Rightarrow> 'v data_struct" where
  "DataStruct_new time_now key data =
     \<lparr>ds_key = key, ds_last_visit_time = time_now, ds_visit_count = 0, ds_created_time = time_now,
      ds_data = data\<rparr>"

text \<open>
  \<open>rx_transaction\<close> says whether opening a transaction and its store succeeds; \<open>rx_oldest\<close> reads
  the index \<open>last_visit_time\<close> up to a limit. Errors of the database are \<open>None\<close>.
\<close>

record ('d, 'j) rexie =
  rx_transaction :: "'d \<Rightarrow> bool"
  rx_get :: "'d \<Rightarrow> string \<Rightarrow> 'j option option"
  rx_put :: "'j \<Rightarrow> 'd \<Rightarrow> unit option \<times> 'd"
  rx_delete :: "string \<Rightarrow> 'd \<Rightarrow> unit option \<times> 'd"
  rx_clear :: "'d \<Rightarrow> unit option \<times> 'd"
  rx_count :: "'d \<Rightarrow> nat option"
  rx_get_all :: "'d \<Rightarrow> (string \<times> 'j) list option"
  rx_oldest :: "'d \<Rightarrow> nat \<Rightarrow> (string \<times> 'j) list option"
  rx_done :: "'d \<Rightarrow> unit option \<times> 'd"

record ('k, 'v, 'j) idb_codec =
  ic_key_to_string :: "'k \<Rightarrow> string"
  ic_key_from_str :: "string \<Rightarrow> 'k option"
  ic_ser :: "'v data_struct \<Rightarrow> 'j option"
  ic_de :: "'j \<Rightarrow> 'v data_struct option"
  ic_de_key :: "'j \<Rightarrow> string option"

record 'd idb_storage =
  id_db :: 'd
  id_cap :: nat
  id_storage_name :: string

definition DEFAULT_REXIE_STORE_NAME :: string where
  "DEFAULT_REXIE_STORE_NAME = ''rings-storage''"

section \<open>Opening\<close>

definition idb_new_with_cap_and_name :: "(string \<Rightarrow> 'd option) \<Rightarrow> nat \<Rightarrow> string \<Rightarrow> 'd idb_storage result" where
  "idb_new_with_cap_and_name open_db cap name =
     (if cap = 0 then Inl InvalidCapacity
      else rbind (ok_or (open_db name) IDBError) (\<lambda>db.
        Inr \<lparr>id_db = db, id_cap = cap, id_storage_name = name\<rparr>))"

definition idb_new_with_cap :: "(string \<Rightarrow> 'd option) \<Rightarrow> nat \<Rightarrow> 'd idb_storage result" where
  "idb_new_with_cap open_db cap = idb_new_with_cap_and_name open_db cap DEFAULT_REXIE_STORE_NAME"

definition idb_new :: "(string \<Rightarrow> 'd option) \<Rightarrow> 'd idb_storage result" where
  "idb_new open_db = idb_new_with_cap open_db 50000"

definition idb_new_with_cap_and_path :: "(string \<Rightarrow> 'd option) \<Rightarrow> nat \<Rightarrow> string \<Rightarrow> 'd idb_storage result" where
  "idb_new_with_cap_and_path open_db cap path = idb_new_with_cap open_db cap"

section \<open>Operations\<close>

definition idb_call :: "('d \<Rightarrow> 'a option \<times> 'd) \<Rightarrow> ('d idb_storage, 'a) action" where
  "idb_call f s = (case f (id_db s) of (r, d) \<Rightarrow> (ok_or r IDBError, s\<lparr>id_db := d\<rparr>))"

definition idb_read :: "('d \<Rightarrow> 'a option) \<Rightarrow> ('d idb_storage, 'a) action" where
  "idb_read f s = (ok_or (f (id_db s)) IDBError, s)"

definition get_tx_store :: "('d, 'j) rexie \<Rightarrow> ('d idb_storage, unit) action" where
  "get_tx_store RX = idb_read (\<lambda>d. if rx_transaction RX d then Some () else None)"

definition idb_get ::
  "('d, 'j) rexie \<Rightarrow> ('k, 'v, 'j) idb_codec \<Rightarrow> int \<Rightarrow> 'k \<Rightarrow> ('d idb_storage, 'v option) action" where
  "idb_get RX IC now key =
     sbind (get_tx_store RX) (\<lambda>_.
     let k = ic_key_to_string IC key in
     sbind (idb_read (\<lambda>d. rx_get RX d k)) (\<lambda>v.
     case v of
       None \<Rightarrow> sret None
     | Some v \<Rightarrow>
         sbind (slift (ok_or (ic_de IC v) SerdeWasmBindgenError)) (\<lambda>v.
         let v = v\<lparr>ds_last_visit_time := now, ds_visit_count := ds_visit_count v + 1\<rparr> in
         sbind (slift (ok_or (ic_ser IC v) SerdeWasmBindgenError)) (\<lambda>j.
         sbind (idb_call (rx_put RX j)) (\<lambda>_.
         sbind (idb_call (rx_done RX)) (\<lambda>_.
         sret (Some (ds_data v))))))))"

text \<open>An entry whose key does not parse is passed over, one whose value does not panics.\<close>

definition idb_entry :: "('k, 'v, 'j) idb_codec \<Rightarrow> string \<times> 'j \<Rightarrow> ('k \<times> 'v) option result" where
  "idb_entry IC e =
     (case ic_key_from_str IC (fst e) of
        None \<Rightarrow> Inr None
      | Some k \<Rightarrow>
          rbind (ok_or (ic_de IC (snd e)) (Panicked ''unwrap'')) (\<lambda>v. Inr (Some (k, ds_data v))))"

definition idb_get_all ::
  "('d, 'j) rexie \<Rightarrow> ('k, 'v, 'j) idb_codec \<Rightarrow> ('d idb_storage, ('k \<times> 'v) list) action" where
  "idb_get_all RX IC =
     sbind (get_tx_store RX) (\<lambda>_.
     sbind (idb_read (rx_get_all RX)) (\<lambda>entries.
     sbind (slift (rmap (idb_entry IC) entries)) (\<lambda>es.
     sret (List.map_filter (\<lambda>e. e) es))))"

text \<open>
  \<open>prune\<close>: with the capacity reached, as many rows are read as there are too many, oldest
  visit first; the first of them is deleted.
\<close>

definition idb_prune :: "('d, 'j) rexie \<Rightarrow> ('k, 'v, 'j) idb_codec \<Rightarrow> ('d idb_storage, unit) action" where
  "idb_prune RX IC =
     sbind (get_tx_store RX) (\<lambda>_.
     sbind (idb_read (rx_count RX)) (\<lambda>count.
     sbind (sget id_cap) (\<lambda>cap.
     if count < cap then sret ()
     else
       let delete_count = count - cap + 1;
           delete_count = (if delete_count < 2 ^ 32 then delete_count else 0) in
       if delete_count = 0 then sret ()
       else
         sbind (idb_read (\<lambda>d. rx_oldest RX d delete_count)) (\<lambda>entries.
         sbind (case entries of
                  (_, v) # _ \<Rightarrow>
                    sbind (slift (ok_or (ic_de_key IC v) SerdeWasmBindgenError)) (\<lambda>key.
                    idb_call (rx_delete RX key))
                | [] \<Rightarrow> sret ()) (\<lambda>_.
         idb_call (rx_done RX))))))"

definition idb_put ::
  "('d, 'j) rexie \<Rightarrow> ('k, 'v, 'j) idb_codec \<Rightarrow> int \<Rightarrow> 'k \<Rightarrow> 'v \<Rightarrow> ('d idb_storage, unit) action" where
  "idb_put RX IC now key entry =
     sbind (idb_prune RX IC) (\<lambda>_.
     sbind (get_tx_store RX) (\<lambda>_.
     sbind (slift (ok_or (ic_ser IC (DataStruct_new now (ic_key_to_string IC key) entry))
              SerdeWasmBindgenError)) (\<lambda>j.
     sbind (idb_call (rx_put RX j)) (\<lambda>_.
     idb_call (rx_done RX)))))"

definition idb_remove ::
  "('d, 'j) rexie \<Rightarrow> ('k, 'v, 'j) idb_codec \<Rightarrow> 'k \<Rightarrow> ('d idb_storage, unit) action" where
  "idb_remove RX IC key =
     sbind (get_tx_store RX) (\<lambda>_.
     sbind (idb_call (rx_delete RX (ic_key_to_string IC key))) (\<lambda>_.
     idb_call (rx_done RX)))"

definition idb_clear :: "('d, 'j) rexie \<Rightarrow> ('d idb_storage, unit) action" where
  "idb_clear RX =
     sbind (get_tx_store RX) (\<lambda>_.
     sbind (idb_call (rx_clear RX)) (\<lambda>_.
     idb_call (rx_done RX)))"

definition idb_count :: "('d, 'j) rexie \<Rightarrow> ('d idb_storage, nat) action" where
  "idb_count RX = sbind (get_tx_store RX) (\<lambda>_. idb_read (rx_count RX))"

definition idb_max_size :: "('d idb_storage, nat) action" where
  "idb_max_size = sget id_cap"

text \<open>\<open>size_of_val\<close> of a key and of a value is the size of a \<open>JsValue\<close>, four bytes in wasm.\<close>

definition idb_total_size :: "('d, 'j) rexie \<Rightarrow> ('d idb_storage, nat) action" where
  "idb_total_size RX =
     sbind (get_tx_store RX) (\<lambda>_.
     sbind (idb_read (rx_get_all RX)) (\<lambda>entries.
     sret (sum_list (map (\<lambda>_. 4 + 4) entries))))"

text \<open>\<open>close\<close> and \<open>delete\<close> consume the storage; \<open>delete_db\<close> is \<open>Rexie::delete\<close>.\<close>

definition idb_close :: "'d idb_storage \<Rightarrow> unit result" where
  "idb_close s = Inr ()"

definition idb_delete :: "(string \<Rightarrow> unit option) \<Rightarrow> 'd idb_storage \<Rightarrow> unit result" where
  "idb_delete delete_db s = rbind (ok_or (delete_db (id_storage_name s)) IDBError) (\<lambda>_. Inr ())"

end
