(* ===== verification/IdbProps.thy ===== *)
theory IdbProps
  imports Idb
begin

text \<open>
  What the IndexedDB storage does over a lawful database: it is a map from keys to rows whose
  number never exceeds the capacity, because \<open>put\<close> makes room by deleting the row that was
  visited least recently. The contract \<open>persistence\<close> of the ring's storage is therefore kept
  only while there is room.
\<close>

section \<open>The database\<close>

text \<open>
  What the code relies on of IndexedDB: a table of objects under their key path, with an index
  that lists them by their visit time. \<open>count\<close> is at most what a \<open>u32\<close> holds.
\<close>

locale object_store =
  fixes RX :: "('d, 'j) rexie"
    and rows :: "'d \<Rightarrow> string \<Rightarrow> 'j option"
    and key_of :: "'j \<Rightarrow> string" and visited :: "'j \<Rightarrow> int"
    and dok :: "'d \<Rightarrow> bool"
  assumes rx_transaction: "dok d \<Longrightarrow> rx_transaction RX d"
    and rx_finite: "dok d \<Longrightarrow> finite (dom (rows d))"
    and rx_get: "dok d \<Longrightarrow> rx_get RX d k = Some (rows d k)"
    and rx_put: "dok d \<Longrightarrow>
      \<exists>d'. rx_put RX j d = (Some (), d') \<and> dok d' \<and> rows d' = (rows d)(key_of j \<mapsto> j)"
    and rx_delete: "dok d \<Longrightarrow>
      \<exists>d'. rx_delete RX k d = (Some (), d') \<and> dok d' \<and> rows d' = (rows d)(k := None)"
    and rx_clear: "dok d \<Longrightarrow> \<exists>d'. rx_clear RX d = (Some (), d') \<and> dok d' \<and> rows d' = Map.empty"
    and rx_done: "dok d \<Longrightarrow> \<exists>d'. rx_done RX d = (Some (), d') \<and> dok d' \<and> rows d' = rows d"
    and rx_count: "dok d \<Longrightarrow> rx_count RX d = Some (card (dom (rows d)))"
    and rx_get_all: "dok d \<Longrightarrow>
      \<exists>xs. rx_get_all RX d = Some xs \<and> distinct (map fst xs) \<and> map_of xs = rows d"
    and rx_oldest: "dok d \<Longrightarrow> \<exists>xs. rx_oldest RX d n = Some (take n xs) \<and> distinct (map fst xs)
      \<and> map_of xs = rows d \<and> sorted (map (\<lambda>x. visited (snd x)) xs)"

text \<open>Rows are written and read without loss; their key and their visit time are where the database looks.\<close>

locale idb_store = object_store RX rows key_of visited dok
  for RX :: "('d, 'j) rexie" and rows and key_of and visited and dok +
  fixes IC :: "('k, 'v, 'j) idb_codec"
  assumes ser_roundtrip: "\<exists>j. ic_ser IC v = Some j \<and> ic_de IC j = Some v \<and> ic_de_key IC j = Some (ds_key v)
      \<and> key_of j = ds_key v \<and> visited j = ds_last_visit_time v"
    and key_roundtrip: "ic_key_from_str IC (ic_key_to_string IC k) = Some k"

text \<open>The rows a storage holds, and the rows that have not been visited longest.\<close>

definition idb_view ::
  "('k, 'v, 'j) idb_codec \<Rightarrow> ('d \<Rightarrow> string \<Rightarrow> 'j option) \<Rightarrow> 'd idb_storage \<Rightarrow> string \<Rightarrow> 'v data_struct option" where
  "idb_view IC rows s k = Option.bind (rows (id_db s) k) (ic_de IC)"

definition idb_ok ::
  "('k, 'v, 'j) idb_codec \<Rightarrow> ('d \<Rightarrow> string \<Rightarrow> 'j option) \<Rightarrow> ('d \<Rightarrow> bool) \<Rightarrow> 'd idb_storage \<Rightarrow> bool" where
  "idb_ok IC rows dok s \<longleftrightarrow> dok (id_db s) \<and> 0 < id_cap s
     \<and> (\<forall>k j. rows (id_db s) k = Some j \<longrightarrow>
          (\<exists>v. ic_ser IC v = Some j \<and> ds_key v = k \<and> k \<in> range (ic_key_to_string IC)))"

definition least_visited :: "(string \<Rightarrow> 'v data_struct option) \<Rightarrow> string \<Rightarrow> bool" where
  "least_visited m k \<longleftrightarrow> (\<exists>r. m k = Some r
     \<and> (\<forall>k' r'. m k' = Some r' \<longrightarrow> ds_last_visit_time r \<le> ds_last_visit_time r'))"

text \<open>The rows after making room for one more under a capacity.\<close>

definition evicted ::
  "nat \<Rightarrow> (string \<Rightarrow> 'v data_struct option) \<Rightarrow> (string \<Rightarrow> 'v data_struct option) \<Rightarrow> bool" where
  "evicted cap m m' \<longleftrightarrow>
     (if card (dom m) < cap then m' = m else \<exists>k. least_visited m k \<and> m' = m(k := None))"

lemma evicted_card:
  assumes "evicted cap m m'" "finite (dom m)" "card (dom m) \<le> cap" "0 < cap"
  shows "finite (dom m') \<and> card (dom m') < cap"
proof (cases "card (dom m) < cap")
  case True
  then show ?thesis using assms by (simp add: evicted_def)
next
  case False
  then obtain k where k: "least_visited m k" "m' = m(k := None)" using assms(1) by (auto simp: evicted_def)
  then have "k \<in> dom m" "dom m' = dom m - {k}" by (auto simp: least_visited_def)
  then show ?thesis using assms(2,3) card_Diff1_less [of "dom m" k] by simp
qed

context idb_store
begin

abbreviation "ok \<equiv> idb_ok IC rows dok"
abbreviation "view \<equiv> idb_view IC rows"

lemma ser_de: "ic_ser IC v = Some j \<Longrightarrow> ic_de IC j = Some v \<and> ic_de_key IC j = Some (ds_key v)
    \<and> key_of j = ds_key v \<and> visited j = ds_last_visit_time v"
  using ser_roundtrip [of v] by auto

lemma view_row: "ok s \<Longrightarrow> view s k = Some r \<longleftrightarrow> (\<exists>j. rows (id_db s) k = Some j \<and> ic_ser IC r = Some j)"
  using ser_de unfolding idb_ok_def idb_view_def by (fastforce simp: bind_eq_Some_conv)

lemma row_view: "ok s \<Longrightarrow> rows (id_db s) k = Some j \<Longrightarrow> \<exists>r. view s k = Some r \<and> ic_ser IC r = Some j \<and> ds_key r = k"
  using ser_de unfolding idb_ok_def idb_view_def by fastforce

lemma view_dom: "ok s \<Longrightarrow> dom (view s) = dom (rows (id_db s))"
  using view_row row_view by (force simp: dom_def)

lemma begins [simp]: "ok s \<Longrightarrow> get_tx_store RX s = (Inr (), s)"
  by (simp add: get_tx_store_def idb_read_def idb_ok_def rx_transaction)

lemma put_row:
  assumes "ok s" "ic_ser IC r = Some j" "ds_key r \<in> range (ic_key_to_string IC)"
  shows "\<exists>s'. sbind (idb_call (rx_put RX j)) (\<lambda>_. idb_call (rx_done RX)) s = (Inr (), s') \<and> ok s'
    \<and> view s' = (view s)(ds_key r \<mapsto> r) \<and> id_cap s' = id_cap s"
proof -
  have d: "dok (id_db s)" using assms(1) by (simp add: idb_ok_def)
  obtain d1 where 1: "rx_put RX j (id_db s) = (Some (), d1)" "dok d1" "rows d1 = (rows (id_db s))(ds_key r \<mapsto> j)"
    using rx_put [OF d, of j] ser_de [OF assms(2)] by auto
  obtain d2 where 2: "rx_done RX d1 = (Some (), d2)" "dok d2" "rows d2 = rows d1" using rx_done [OF 1(2)] by auto
  show ?thesis
    using assms 1 2 ser_de [OF assms(2)]
    by (intro exI [of _ "s\<lparr>id_db := d2\<rparr>"]) (auto simp: sbind_def idb_call_def idb_ok_def idb_view_def fun_eq_iff)
qed

lemma delete_row:
  assumes "ok s"
  shows "\<exists>s'. sbind (idb_call (rx_delete RX k)) (\<lambda>_. idb_call (rx_done RX)) s = (Inr (), s') \<and> ok s'
    \<and> view s' = (view s)(k := None) \<and> id_cap s' = id_cap s"
proof -
  have d: "dok (id_db s)" using assms by (simp add: idb_ok_def)
  obtain d1 where 1: "rx_delete RX k (id_db s) = (Some (), d1)" "dok d1" "rows d1 = (rows (id_db s))(k := None)"
    using rx_delete [OF d, of k] by auto
  obtain d2 where 2: "rx_done RX d1 = (Some (), d2)" "dok d2" "rows d2 = rows d1" using rx_done [OF 1(2)] by auto
  show ?thesis
    using assms 1 2
    by (intro exI [of _ "s\<lparr>id_db := d2\<rparr>"]) (auto simp: sbind_def idb_call_def idb_ok_def idb_view_def fun_eq_iff)
qed

lemma remove_row: "ok s \<Longrightarrow> \<exists>s'. idb_remove RX IC key s = (Inr (), s') \<and> ok s'
    \<and> view s' = (view s)(ic_key_to_string IC key := None) \<and> id_cap s' = id_cap s"
  using delete_row [of s "ic_key_to_string IC key"] by (simp add: idb_remove_def)

lemma clear_rows:
  assumes "ok s"
  shows "\<exists>s'. idb_clear RX s = (Inr (), s') \<and> ok s' \<and> view s' = Map.empty \<and> id_cap s' = id_cap s"
proof -
  have d: "dok (id_db s)" using assms by (simp add: idb_ok_def)
  obtain d1 where 1: "rx_clear RX (id_db s) = (Some (), d1)" "dok d1" "rows d1 = Map.empty"
    using rx_clear [OF d] by auto
  obtain d2 where 2: "rx_done RX d1 = (Some (), d2)" "dok d2" "rows d2 = rows d1" using rx_done [OF 1(2)] by auto
  show ?thesis
    using assms 1 2
    by (intro exI [of _ "s\<lparr>id_db := d2\<rparr>"])
       (auto simp: idb_clear_def sbind_def idb_call_def idb_ok_def idb_view_def fun_eq_iff)
qed

text \<open>\<open>get\<close> answers with the data and marks the visit.\<close>

lemma get_row:
  assumes "ok s"
  shows "\<exists>s'. idb_get RX IC now key s = (Inr (map_option ds_data (view s (ic_key_to_string IC key))), s')
    \<and> ok s' \<and> id_cap s' = id_cap s
    \<and> view s' = (case view s (ic_key_to_string IC key) of None \<Rightarrow> view s
        | Some r \<Rightarrow> (view s)(ic_key_to_string IC key \<mapsto>
            r\<lparr>ds_last_visit_time := now, ds_visit_count := ds_visit_count r + 1\<rparr>))"
proof -
  let ?k = "ic_key_to_string IC key"
  have read: "idb_read (\<lambda>d. rx_get RX d ?k) s = (Inr (rows (id_db s) ?k), s)"
    using assms by (simp add: idb_read_def idb_ok_def rx_get)
  show ?thesis
  proof (cases "rows (id_db s) ?k")
    case None
    then show ?thesis using assms read by (simp add: idb_get_def idb_view_def)
  next
    case (Some j)
    then obtain r where r: "view s ?k = Some r" "ic_ser IC r = Some j" "ds_key r = ?k"
      using row_view [OF assms] by blast
    let ?r = "r\<lparr>ds_last_visit_time := now, ds_visit_count := ds_visit_count r + 1\<rparr>"
    obtain j' where j': "ic_ser IC ?r = Some j'" using ser_roundtrip by blast
    then obtain s' where s': "sbind (idb_call (rx_put RX j')) (\<lambda>_. idb_call (rx_done RX)) s = (Inr (), s')"
      "ok s'" "view s' = (view s)(?k \<mapsto> ?r)" "id_cap s' = id_cap s"
      using put_row [OF assms j'] r(3) by auto
    from s'(1) have "sbind (idb_call (rx_put RX j')) (\<lambda>_. sbind (idb_call (rx_done RX)) (\<lambda>_. sret x)) s = (Inr x, s')" for x
      by (auto simp: sbind_Inr)
    then have "idb_get RX IC now key s = (Inr (Some (ds_data r)), s')"
      using Some r ser_de [OF r(2)] j' read assms by (simp add: idb_get_def Let_def)
    then show ?thesis using s' r by simp
  qed
qed

lemma oldest_row:
  assumes "ok s" "view s \<noteq> Map.empty" "0 < n"
  shows "\<exists>k j rest r. rx_oldest RX (id_db s) n = Some ((k, j) # rest) \<and> view s k = Some r
    \<and> ic_ser IC r = Some j \<and> ds_key r = k \<and> least_visited (view s) k"
proof -
  have d: "dok (id_db s)" using assms(1) by (simp add: idb_ok_def)
  obtain xs where xs: "rx_oldest RX (id_db s) n = Some (take n xs)" "distinct (map fst xs)"
      "map_of xs = rows (id_db s)" "sorted (map (\<lambda>x. visited (snd x)) xs)"
    using rx_oldest [OF d] by blast
  have "rows (id_db s) \<noteq> Map.empty" using assms(1,2) view_dom by (metis dom_eq_empty_conv)
  then obtain k j ys where ys: "xs = (k, j) # ys" using xs(3) by (cases xs) auto
  then have row: "rows (id_db s) k = Some j" using xs(3) by (metis map_of_Cons_code(2))
  then obtain r where r: "view s k = Some r" "ic_ser IC r = Some j" "ds_key r = k"
    using row_view [OF assms(1)] by blast
  have "ds_last_visit_time r \<le> ds_last_visit_time r'" if r': "view s k' = Some r'" for k' r'
  proof -
    obtain j' where j': "rows (id_db s) k' = Some j'" "ic_ser IC r' = Some j'"
      using r' view_row [OF assms(1)] by blast
    then have "(k', j') \<in> set xs" using xs(3) by (metis map_of_SomeD)
    then have "visited j \<le> visited j'" using xs(4) ys by auto
    then show ?thesis using ser_de j'(2) r(2) by metis
  qed
  then show ?thesis
    using xs(1) ys r assms(3) by (auto simp: least_visited_def take_Cons')
qed

lemma prune_spec:
  assumes "ok s" "card (dom (view s)) < 2 ^ 32"
  shows "\<exists>s'. idb_prune RX IC s = (Inr (), s') \<and> ok s' \<and> id_cap s' = id_cap s
    \<and> evicted (id_cap s) (view s) (view s')"
proof -
  have d: "dok (id_db s)" and cap: "0 < id_cap s" using assms(1) by (simp_all add: idb_ok_def)
  have c: "idb_read (rx_count RX) s = (Inr (card (dom (view s))), s)"
    by (simp add: idb_read_def rx_count [OF d] view_dom [OF assms(1)])
  show ?thesis
  proof (cases "card (dom (view s)) < id_cap s")
    case True
    then show ?thesis using assms(1) c by (simp add: idb_prune_def evicted_def)
  next
    case False
    let ?n = "card (dom (view s)) - id_cap s + 1"
    have n: "0 < ?n" "?n < 2 ^ 32" using False assms(2) cap by auto
    have "view s \<noteq> Map.empty" using False cap by (auto simp: dom_def)
    then obtain k j rest r where o: "rx_oldest RX (id_db s) ?n = Some ((k, j) # rest)"
        "ic_ser IC r = Some j" "ds_key r = k" "least_visited (view s) k"
      using oldest_row [OF assms(1) _ n(1)] by blast
    obtain s' where s': "sbind (idb_call (rx_delete RX k)) (\<lambda>_. idb_call (rx_done RX)) s = (Inr (), s')"
        "ok s'" "view s' = (view s)(k := None)" "id_cap s' = id_cap s"
      using delete_row [OF assms(1)] by blast
    have "idb_prune RX IC s = sbind (idb_call (rx_delete RX k)) (\<lambda>_. idb_call (rx_done RX)) s"
      using False n o ser_de [OF o(2)] c assms(1)
      by (simp add: idb_prune_def Let_def idb_read_def [of "\<lambda>d. rx_oldest RX d _"])
    then show ?thesis using s' o(4) False by (auto simp: evicted_def)
  qed
qed

lemma put_spec:
  assumes "ok s" "card (dom (view s)) < 2 ^ 32"
  shows "\<exists>s'. idb_put RX IC now key x s = (Inr (), s') \<and> ok s' \<and> id_cap s' = id_cap s
    \<and> (\<exists>m. evicted (id_cap s) (view s) m
         \<and> view s' = m(ic_key_to_string IC key \<mapsto> DataStruct_new now (ic_key_to_string IC key) x))"
proof -
  let ?r = "DataStruct_new now (ic_key_to_string IC key) x"
  obtain s1 where s1: "idb_prune RX IC s = (Inr (), s1)" "ok s1" "id_cap s1 = id_cap s"
      "evicted (id_cap s) (view s) (view s1)"
    using prune_spec [OF assms] by blast
  obtain j where j: "ic_ser IC ?r = Some j" using ser_roundtrip by blast
  obtain s2 where s2: "sbind (idb_call (rx_put RX j)) (\<lambda>_. idb_call (rx_done RX)) s1 = (Inr (), s2)"
      "ok s2" "view s2 = (view s1)(ic_key_to_string IC key \<mapsto> ?r)" "id_cap s2 = id_cap s1"
    using put_row [OF s1(2) j] by (auto simp: DataStruct_new_def)
  have "idb_put RX IC now key x s = (Inr (), s2)"
    using s1(1,2) j s2(1) by (simp add: idb_put_def)
  then show ?thesis using s1(3,4) s2 by auto
qed

lemma put_bound:
  assumes "ok s" "card (dom (view s)) \<le> id_cap s" "id_cap s < 2 ^ 32"
    and "idb_put RX IC now key x s = (r, s')"
  shows "r = Inr () \<and> ok s' \<and> id_cap s' = id_cap s \<and> card (dom (view s')) \<le> id_cap s"
proof -
  have fin: "finite (dom (view s))"
    using assms(1) view_dom [OF assms(1)] rx_finite by (simp add: idb_ok_def)
  obtain m where m: "evicted (id_cap s) (view s) m"
    and s': "r = Inr ()" "ok s'" "id_cap s' = id_cap s" "dom (view s') = insert (ic_key_to_string IC key) (dom m)"
    using put_spec [OF assms(1), of now key x] assms(2-4) by auto
  have "finite (dom m) \<and> card (dom m) < id_cap s"
    using evicted_card [OF m fin assms(2)] assms(1) by (simp add: idb_ok_def)
  then show ?thesis using s' by (simp add: card_insert_if)
qed

lemma count_rows: "ok s \<Longrightarrow> idb_count RX s = (Inr (card (dom (view s))), s)"
  by (simp add: idb_count_def idb_read_def view_dom) (simp add: idb_ok_def rx_count)

end

section \<open>Runs\<close>

datatype ('k, 'v) idb_request = IdbPut int 'k 'v | IdbGet int 'k | IdbRemove 'k | IdbClear

fun idb_serve ::
  "('d, 'j) rexie \<Rightarrow> ('k, 'v, 'j) idb_codec \<Rightarrow> ('k, 'v) idb_request \<Rightarrow> ('d idb_storage, unit) action" where
  "idb_serve RX IC (IdbPut now k v) = idb_put RX IC now k v"
| "idb_serve RX IC (IdbGet now k) = sbind (idb_get RX IC now k) (\<lambda>_. sret ())"
| "idb_serve RX IC (IdbRemove k) = idb_remove RX IC k"
| "idb_serve RX IC IdbClear = idb_clear RX"

fun idb_run ::
  "('d, 'j) rexie \<Rightarrow> ('k, 'v, 'j) idb_codec \<Rightarrow> ('k, 'v) idb_request list \<Rightarrow> ('d idb_storage, unit) action" where
  "idb_run RX IC [] = sret ()"
| "idb_run RX IC (q # qs) = sbind (idb_serve RX IC q) (\<lambda>_. idb_run RX IC qs)"

context idb_store
begin

definition within_cap :: "'d idb_storage \<Rightarrow> bool" where
  "within_cap s \<longleftrightarrow> ok s \<and> card (dom (view s)) \<le> id_cap s \<and> id_cap s < 2 ^ 32"

lemma serve_within:
  assumes "within_cap s"
  shows "\<exists>s'. idb_serve RX IC q s = (Inr (), s') \<and> within_cap s' \<and> id_cap s' = id_cap s"
proof -
  have s: "ok s" "card (dom (view s)) \<le> id_cap s" "id_cap s < 2 ^ 32"
    using assms by (simp_all add: within_cap_def)
  have fin: "finite (dom (view s))" using s(1) view_dom [OF s(1)] rx_finite by (simp add: idb_ok_def)
  show ?thesis
  proof (cases q)
    case (IdbPut now k v)
    then show ?thesis using put_bound [OF s, of now k v] s(3)
      by (cases "idb_put RX IC now k v s") (auto simp: within_cap_def)
  next
    case (IdbGet now k)
    obtain s' where g: "idb_get RX IC now k s = (Inr (map_option ds_data (view s (ic_key_to_string IC k))), s')"
        "ok s'" "id_cap s' = id_cap s" "dom (view s') = dom (view s)"
      using get_row [OF s(1), of now k] by (auto simp: insert_absorb domI split: option.splits)
    then have "within_cap s'" using s by (simp add: within_cap_def)
    then show ?thesis using g IdbGet by simp
  next
    case (IdbRemove k)
    obtain s' where "idb_remove RX IC k s = (Inr (), s')" "ok s'" "id_cap s' = id_cap s"
        "dom (view s') \<subseteq> dom (view s)"
      using remove_row [OF s(1), of k] by auto
    moreover from this have "card (dom (view s')) \<le> card (dom (view s))" by (simp add: card_mono [OF fin])
    ultimately show ?thesis using s IdbRemove by (simp add: within_cap_def)
  next
    case IdbClear
    then show ?thesis using clear_rows [OF s(1)] s(3) by (auto simp: within_cap_def)
  qed
qed

lemma run_within:
  "within_cap s \<Longrightarrow> \<exists>s'. idb_run RX IC qs s = (Inr (), s') \<and> within_cap s' \<and> id_cap s' = id_cap s"
proof (induction qs arbitrary: s)
  case (Cons q qs)
  obtain s1 where s1: "idb_serve RX IC q s = (Inr (), s1)" "within_cap s1" "id_cap s1 = id_cap s"
    using serve_within [OF Cons.prems] by blast
  then show ?case using Cons.IH [OF s1(2)] by simp
qed simp

lemma run_counts:
  assumes "ok s" "card (dom (view s)) \<le> id_cap s" "id_cap s < 2 ^ 32"
  shows "\<exists>s' n. idb_run RX IC qs s = (Inr (), s') \<and> idb_count RX s' = (Inr n, s') \<and> n \<le> id_cap s"
proof -
  obtain s' where "idb_run RX IC qs s = (Inr (), s')" "within_cap s'" "id_cap s' = id_cap s"
    using run_within [of s qs] assms by (auto simp: within_cap_def)
  then show ?thesis using count_rows [of s'] by (auto simp: within_cap_def)
qed

lemma put_then_get:
  assumes "ok s" "card (dom (view s)) < 2 ^ 32"
  shows "\<exists>s1 s2. idb_put RX IC now key x s = (Inr (), s1) \<and> ok s1
    \<and> idb_get RX IC now' key s1 = (Inr (Some x), s2)
    \<and> (\<exists>m. evicted (id_cap s) (view s) m
         \<and> view s1 = m(ic_key_to_string IC key \<mapsto> DataStruct_new now (ic_key_to_string IC key) x))"
proof -
  let ?k = "ic_key_to_string IC key"
  obtain s1 where s1: "idb_put RX IC now key x s = (Inr (), s1)" "ok s1"
      "\<exists>m. evicted (id_cap s) (view s) m
         \<and> view s1 = m(?k \<mapsto> DataStruct_new now ?k x)"
    using put_spec [OF assms] by blast
  then have "view s1 ?k = Some (DataStruct_new now ?k x)" by auto
  then obtain s2 where "idb_get RX IC now' key s1 = (Inr (Some x), s2)"
    using get_row [OF s1(2), of now' key] by (auto simp: DataStruct_new_def)
  then show ?thesis using s1 by blast
qed

end

section \<open>A database in memory\<close>

definition mem_rexie :: "((string \<times> 'v data_struct) list, 'v data_struct) rexie" where
  "mem_rexie = \<lparr>rx_transaction = (\<lambda>_. True), rx_get = (\<lambda>d k. Some (map_of d k)),
     rx_put = (\<lambda>j d. (Some (), AList.update (ds_key j) j d)),
     rx_delete = (\<lambda>k d. (Some (), AList.delete k d)), rx_clear = (\<lambda>d. (Some (), [])),
     rx_count = (\<lambda>d. Some (length d)), rx_get_all = Some,
     rx_oldest = (\<lambda>d n. Some (take n (sort_key (\<lambda>x. ds_last_visit_time (snd x)) d))),
     rx_done = (\<lambda>d. (Some (), d))\<rparr>"

definition text_codec :: "(string, 'v, 'v data_struct) idb_codec" where
  "text_codec = \<lparr>ic_key_to_string = (\<lambda>k. k), ic_key_from_str = Some, ic_ser = Some, ic_de = Some,
     ic_de_key = (\<lambda>j. Some (ds_key j))\<rparr>"

interpretation mem_idb: idb_store mem_rexie map_of ds_key ds_last_visit_time "\<lambda>d. distinct (map fst d)" text_codec
proof
  fix d :: "(string \<times> 'v data_struct) list" and n :: nat
  assume d: "distinct (map fst d)"
  show "rx_count mem_rexie d = Some (card (dom (map_of d)))"
    using d by (simp add: mem_rexie_def dom_map_of_conv_image_fst distinct_card flip: set_map)
  let ?xs = "sort_key (\<lambda>x. ds_last_visit_time (snd x)) d"
  have "distinct (map fst ?xs)"
    using d by (simp add: distinct_map inj_on_def)
  moreover have "map_of ?xs = map_of d"
    using calculation d by (intro map_of_inject_set [THEN iffD2]) simp_all
  ultimately show "\<exists>xs. rx_oldest mem_rexie d n = Some (take n xs) \<and> distinct (map fst xs)
      \<and> map_of xs = map_of d \<and> sorted (map (\<lambda>x. ds_last_visit_time (snd x)) xs)"
    by (intro exI [of _ ?xs]) (simp add: mem_rexie_def)
qed (auto simp: mem_rexie_def text_codec_def finite_dom_map_of distinct_update distinct_delete
      update_conv' delete_conv')

section \<open>Properties\<close>

text \<open>
  C32: over a lawful database, \<open>put\<close> makes room by the rule of the least recently visited row and
  stores its entry. With fewer rows than the capacity it changes no other row; at the capacity
  it deletes exactly one row, one whose last visit is not after that of any other, and never
  fails; then \<open>get\<close> answers with the entry.
\<close>

theorem idb_put_evicts_least_visited:
  assumes "idb_store RX rows key_of visited dok IC" "idb_ok IC rows dok s"
    and "card (dom (idb_view IC rows s)) < 2 ^ 32"
  shows "\<exists>s1 s2 m. idb_put RX IC now key x s = (Inr (), s1) \<and> idb_ok IC rows dok s1
    \<and> evicted (id_cap s) (idb_view IC rows s) m
    \<and> idb_view IC rows s1 = m(ic_key_to_string IC key \<mapsto> DataStruct_new now (ic_key_to_string IC key) x)
    \<and> idb_get RX IC now' key s1 = (Inr (Some x), s2)"
  using idb_store.put_then_get [OF assms, of now key x now'] by blast

text \<open>
  C33: the number of rows never exceeds the capacity. Whatever is put, got, removed and cleared,
  in any order and at any times, from a storage within its capacity every operation succeeds
  and \<open>count\<close> stays at most \<open>max_size\<close>.
\<close>

theorem idb_stays_within_capacity:
  assumes "idb_store RX rows key_of visited dok IC" "idb_ok IC rows dok s"
    and "card (dom (idb_view IC rows s)) \<le> id_cap s" "id_cap s < 2 ^ 32"
  shows "\<exists>s' n. idb_run RX IC qs s = (Inr (), s') \<and> idb_count RX s' = (Inr n, s') \<and> n \<le> id_cap s"
  by (rule idb_store.run_counts [OF assms])

text \<open>Concrete storages in memory.\<close>

definition demo_row :: "string \<Rightarrow> int \<Rightarrow> string \<times> nat data_struct" where
  "demo_row k t = (k, DataStruct_new t k 0)"

definition demo_idb :: "nat \<Rightarrow> (string \<times> nat data_struct) list \<Rightarrow> (string \<times> nat data_struct) list idb_storage" where
  "demo_idb cap rows = \<lparr>id_db = rows, id_cap = cap, id_storage_name = DEFAULT_REXIE_STORE_NAME\<rparr>"

lemma demo_idb_ok:
  "0 < cap \<Longrightarrow> distinct ks \<Longrightarrow>
     idb_ok text_codec map_of (\<lambda>d. distinct (map fst d)) (demo_idb cap (map (\<lambda>k. demo_row k 1) ks))
     \<and> card (dom (idb_view text_codec map_of (demo_idb cap (map (\<lambda>k. demo_row k 1) ks)))) = length ks"
proof -
  assume a: "0 < cap" "distinct ks"
  have "idb_view text_codec map_of (demo_idb cap (map (\<lambda>k. demo_row k 1) ks)) = map_of (map (\<lambda>k. demo_row k 1) ks)"
    by (simp add: idb_view_def text_codec_def demo_idb_def fun_eq_iff)
  moreover have "map_of (map (\<lambda>k. demo_row k 1) ks) k = Some j \<Longrightarrow> ds_key j = k" for k j
    by (induction ks) (auto simp: demo_row_def DataStruct_new_def split: if_splits)
  moreover have "map fst (map (\<lambda>k. demo_row k 1) ks) = ks" by (simp add: demo_row_def comp_def)
  ultimately show ?thesis
    using a by (simp add: idb_ok_def demo_idb_def text_codec_def dom_map_of_conv_image_fst distinct_card
        flip: set_map)
qed

theorem idb_put_evicts_least_visited_witness:
  "\<exists>s1 s2. idb_put mem_rexie text_codec 5 ''c'' 7 (demo_idb 2 (map (\<lambda>k. demo_row k 1) [''a'', ''b''])) = (Inr (), s1)
     \<and> idb_get mem_rexie text_codec 6 ''c'' s1 = (Inr (Some 7), s2)"
  using idb_put_evicts_least_visited [OF mem_idb.idb_store_axioms, of "demo_idb 2 (map (\<lambda>k. demo_row k 1) [''a'', ''b''])" 5 "''c''" 7 6]
    demo_idb_ok [of 2 "[''a'', ''b'']"] by fastforce

theorem idb_stays_within_capacity_witness:
  "\<exists>s' n. idb_run mem_rexie text_codec [IdbPut 5 ''c'' 7, IdbGet 6 ''a'', IdbPut 7 ''d'' 8]
      (demo_idb 2 (map (\<lambda>k. demo_row k 1) [''a'', ''b''])) = (Inr (), s')
    \<and> idb_count mem_rexie s' = (Inr n, s') \<and> n \<le> 2"
  using idb_stays_within_capacity [OF mem_idb.idb_store_axioms, of "demo_idb 2 (map (\<lambda>k. demo_row k 1) [''a'', ''b''])"
      "[IdbPut 5 ''c'' 7, IdbGet 6 ''a'', IdbPut 7 ''d'' 8]"]
    demo_idb_ok [of 2 "[''a'', ''b'']"] by (simp add: demo_idb_def)

text \<open>
  Writing a key that is stored already makes room for a row it does not need: at the capacity,
  another key is lost. And of a table that is over its capacity only one row is deleted,
  although as many are read as there are too many.
\<close>

lemma idb_overwrite_evicts_another:
  "idb_put mem_rexie text_codec 5 ''b'' 7 (demo_idb 2 [demo_row ''a'' 1, demo_row ''b'' 2])
    = (Inr (), demo_idb 2 [(''b'', DataStruct_new 5 ''b'' 7)])"
  by (simp add: idb_put_def idb_prune_def get_tx_store_def idb_read_def idb_call_def sbind_def mem_rexie_def
      text_codec_def demo_idb_def demo_row_def DataStruct_new_def)

lemma idb_prune_deletes_one:
  "idb_prune mem_rexie (text_codec :: (string, nat, nat data_struct) idb_codec)
      (demo_idb 1 [demo_row ''a'' 1, demo_row ''b'' 2, demo_row ''c'' 3])
    = (Inr (), demo_idb 1 [demo_row ''b'' 2, demo_row ''c'' 3])"
  by (simp add: idb_prune_def get_tx_store_def idb_read_def idb_call_def sbind_def mem_rexie_def
      text_codec_def demo_idb_def demo_row_def DataStruct_new_def)

text \<open>
  So the contract \<open>persistence\<close>, on which the ring's storage rests, does not hold of this
  storage once it is full: another key is forgotten.
\<close>

lemma idb_breaks_persistence:
  "\<exists>s s' k. fst (idb_get mem_rexie text_codec 4 k s) = Inr (Some 0)
    \<and> idb_put mem_rexie text_codec 5 ''c'' (7 :: nat) s = (Inr (), s') \<and> k \<noteq> ''c''
    \<and> fst (idb_get mem_rexie text_codec 6 k s') = Inr None"
  by (intro exI [of _ "demo_idb 1 [demo_row ''a'' 1]"] exI [of _ "demo_idb 1 [(''c'', DataStruct_new 5 ''c'' 7)]"]
        exI [of _ "''a''"])
     (simp add: idb_put_def idb_prune_def idb_get_def get_tx_store_def idb_read_def idb_call_def sbind_def
      mem_rexie_def text_codec_def demo_idb_def demo_row_def DataStruct_new_def)

end
