(* ===== verification/Keys.thy ===== *)
theory Keys
  imports Session
begin

text \<open>
  The text forms of keys: hexadecimal for secret keys, base58 for public keys, and the serde
  implementations of both (\<open>ecc/mod.rs\<close>, \<open>ecc/types.rs\<close>). Hexadecimal, the two base58 crates
  and the parsing of a scalar by libsecp256k1 are the record \<open>key_codec\<close>. An error of serde is
  \<open>None\<close>: its text is built from an error that is dropped.
\<close>

record key_codec =
  kc_hex_decode :: "string \<Rightarrow> bytes option"
  kc_hex_encode :: "bytes \<Rightarrow> string"
  kc_parse_secret :: "bytes \<Rightarrow> bool"
  kc_to_base58 :: "bytes \<Rightarrow> string"
  kc_from_base58 :: "string \<Rightarrow> bytes option"
  kc_decode :: "string \<Rightarrow> bytes option"
  kc_encode_check :: "bytes \<Rightarrow> string option"
  kc_decode_check :: "string \<Rightarrow> bytes option"

section \<open>Secret keys\<close>

definition SecretKey_try_from :: "key_codec \<Rightarrow> string \<Rightarrow> secret_key result" where
  "SecretKey_try_from K s =
     rbind (ok_or (kc_hex_decode K s) BadHexInCache) (\<lambda>key.
     rbind (if length key = 32 then Inr key else Inl BadArrayInCache) (\<lambda>key_arr.
       if kc_parse_secret K key_arr then Inr key_arr else Inl Libsecp256k1SecretKeyParse))"

definition SecretKey_from_str :: "key_codec \<Rightarrow> string \<Rightarrow> secret_key result" where
  "SecretKey_from_str K s = SecretKey_try_from K s"

definition SecretKey_ser :: "secret_key \<Rightarrow> bytes" where
  "SecretKey_ser sk = sk"

definition SecretKey_to_string :: "key_codec \<Rightarrow> secret_key \<Rightarrow> string" where
  "SecretKey_to_string K sk = kc_hex_encode K (SecretKey_ser sk)"

definition SecretKey_serialize :: "key_codec \<Rightarrow> secret_key \<Rightarrow> string" where
  "SecretKey_serialize K sk = SecretKey_to_string K sk"

definition SecretKey_visit_str :: "key_codec \<Rightarrow> string \<Rightarrow> secret_key option" where
  "SecretKey_visit_str K s = (case SecretKey_from_str K s of Inl _ \<Rightarrow> None | Inr sk \<Rightarrow> Some sk)"

section \<open>Public keys\<close>

definition try_from_b58m_uncheck :: "key_codec \<Rightarrow> string \<Rightarrow> public_key result" where
  "try_from_b58m_uncheck K v = rbind (ok_or (kc_decode K v) PublicKeyBadFormat) PublicKey_from_u8"

definition PublicKey_to_base58_string :: "key_codec \<Rightarrow> public_key \<Rightarrow> string result" where
  "PublicKey_to_base58_string K pk = Inr (kc_to_base58 K pk)"

definition PublicKey_serialize :: "key_codec \<Rightarrow> public_key \<Rightarrow> string option" where
  "PublicKey_serialize K pk = kc_encode_check K pk"

definition PublicKey_visit_str :: "key_codec \<Rightarrow> string \<Rightarrow> public_key option" where
  "PublicKey_visit_str K v =
     (case try_from_b58m (kc_decode_check K) v of Inl _ \<Rightarrow> None | Inr pk \<Rightarrow> Some pk)"

text \<open>Into and out of the libraries' keys; an Ed25519 key stands behind a zero byte.\<close>

definition libsecp256k1_of :: "ecc \<Rightarrow> public_key \<Rightarrow> bytes result" where
  "libsecp256k1_of E key = ok_or (secp_parse_compressed E key) ECDSAPublicKeyBadFormat"

definition ed25519_of :: "ecc \<Rightarrow> public_key \<Rightarrow> bytes result" where
  "ed25519_of E key =
     (if ed_parse_public E (drop 1 key) then Inr (drop 1 key) else Inl EdDSAPublicKeyBadFormat)"

definition PublicKey_of_ed25519 :: "bytes \<Rightarrow> public_key" where
  "PublicKey_of_ed25519 key = (let s = key; s = rev s; s = s @ [0]; s = rev s in s)"

definition PublicKey_of_libsecp256k1 :: "ecc \<Rightarrow> bytes \<Rightarrow> public_key" where
  "PublicKey_of_libsecp256k1 E key = secp_compress E key"

definition PublicKey_of_secret :: "ecc \<Rightarrow> secret_key \<Rightarrow> public_key" where
  "PublicKey_of_secret E secret_key = PublicKey_of_libsecp256k1 E (secp_public E secret_key)"

section \<open>Properties\<close>

text \<open>
  C36: keys have their size. Whatever text or bytes they are read from, a public key that is
  accepted has 33 bytes and a secret key 32; a public key of 32 bytes is an Ed25519 key, put
  behind a zero byte.
\<close>

theorem keys_have_their_size:
  "(\<forall>v pk. PublicKey_from_u8 v = Inr pk \<longleftrightarrow>
      length v = 32 \<and> pk = PublicKey_of_ed25519 v \<or> length v = 33 \<and> pk = v)
   \<and> (\<forall>s pk. try_from_b58m (kc_decode_check K) s = Inr pk \<or> try_from_b58t (kc_from_base58 K) s = Inr pk
        \<or> try_from_b58m_uncheck K s = Inr pk \<or> PublicKey_visit_str K s = Some pk \<longrightarrow> length pk = 33)
   \<and> (\<forall>s sk. SecretKey_try_from K s = Inr sk \<or> SecretKey_visit_str K s = Some sk \<longrightarrow>
        length sk = 32 \<and> kc_parse_secret K sk)"
proof -
  have u8: "PublicKey_from_u8 v = Inr pk \<longleftrightarrow>
      length v = 32 \<and> pk = PublicKey_of_ed25519 v \<or> length v = 33 \<and> pk = v" for v pk
    by (auto simp: PublicKey_from_u8_def PublicKey_of_ed25519_def rbind_def)
  then have "PublicKey_from_u8 v = Inr pk \<Longrightarrow> length pk = 33" for v pk
    by (auto simp: PublicKey_of_ed25519_def)
  then have len: "PublicKey_from_u8 v = Inr pk \<longrightarrow> length pk = 33" for v pk by blast
  have "try_from_b58m d s = Inr pk \<or> try_from_b58t d s = Inr pk \<Longrightarrow> length pk = 33"
    "try_from_b58m_uncheck K s = Inr pk \<Longrightarrow> length pk = 33" for d s pk
    using len by (auto simp: try_from_b58m_def try_from_b58t_def try_from_b58m_uncheck_def rbind_eq_Inr)
  moreover have "PublicKey_visit_str K s = Some pk \<Longrightarrow> try_from_b58m (kc_decode_check K) s = Inr pk" for s pk
    by (simp add: PublicKey_visit_str_def split: sum.splits)
  moreover have sk: "SecretKey_try_from K s = Inr sk \<Longrightarrow> length sk = 32 \<and> kc_parse_secret K sk" for s sk
    by (auto simp: SecretKey_try_from_def rbind_eq_Inr split: if_splits)
  moreover have "SecretKey_visit_str K s = Some sk \<Longrightarrow> SecretKey_try_from K s = Inr sk" for s sk
    by (simp add: SecretKey_visit_str_def SecretKey_from_str_def split: sum.splits)
  ultimately show ?thesis using u8 by blast
qed

text \<open>
  C35: the text forms of keys are read back. Over codecs that decode what they encode, a valid
  secret key is parsed from its hexadecimal text, a public key from the base58 text that
  \<open>to_base58_string\<close> and from the one that serde writes, and the key of an Ed25519 library
  comes back out of the \<open>PublicKey\<close> that holds it, which \<open>from_u8\<close> also makes of its bytes.
\<close>

theorem key_texts_roundtrip:
  assumes "\<And>bs. kc_hex_decode K (kc_hex_encode K bs) = Some bs"
    and "\<And>bs. kc_from_base58 K (kc_to_base58 K bs) = Some bs"
    and "\<And>bs t. kc_encode_check K bs = Some t \<Longrightarrow> kc_decode_check K t = Some bs"
    and "length sk = 32" "kc_parse_secret K sk" "length pk = 33" "PublicKey_serialize K pk = Some t"
    and "length ed = 32" "ed_parse_public E ed"
  shows "SecretKey_from_str K (SecretKey_to_string K sk) = Inr sk
    \<and> SecretKey_visit_str K (SecretKey_serialize K sk) = Some sk
    \<and> rbind (PublicKey_to_base58_string K pk) (try_from_b58t (kc_from_base58 K)) = Inr pk
    \<and> PublicKey_visit_str K t = Some pk
    \<and> PublicKey_from_u8 ed = Inr (PublicKey_of_ed25519 ed)
    \<and> ed25519_of E (PublicKey_of_ed25519 ed) = Inr ed"
proof -
  have "PublicKey_from_u8 pk = Inr pk" using assms(6) by (simp add: PublicKey_from_u8_def)
  moreover have "kc_decode_check K t = Some pk" using assms(3,7) by (simp add: PublicKey_serialize_def)
  ultimately show ?thesis
    using assms by (simp add: SecretKey_visit_str_def SecretKey_serialize_def SecretKey_from_str_def
        SecretKey_try_from_def SecretKey_to_string_def SecretKey_ser_def PublicKey_to_base58_string_def
        try_from_b58t_def PublicKey_visit_str_def try_from_b58m_def PublicKey_from_u8_def
        PublicKey_of_ed25519_def ed25519_of_def)
qed

text \<open>The instance of the witness spells bytes as characters.\<close>

definition demo_keys :: key_codec where
  "demo_keys =
     (let enc = map (\<lambda>b. char_of (unat b)); dec = (\<lambda>s. Some (map (\<lambda>c. word_of_nat (of_char c)) s)) in
      \<lparr>kc_hex_decode = dec, kc_hex_encode = enc, kc_parse_secret = (\<lambda>bs. bs \<noteq> replicate 32 0),
       kc_to_base58 = enc, kc_from_base58 = dec, kc_decode = dec, kc_encode_check = (\<lambda>bs. Some (enc bs)),
       kc_decode_check = dec\<rparr>)"

theorem key_texts_roundtrip_witness:
  "SecretKey_from_str demo_keys (SecretKey_to_string demo_keys (replicate 32 7)) = Inr (replicate 32 7)
   \<and> rbind (PublicKey_to_base58_string demo_keys (replicate 33 2)) (try_from_b58t (kc_from_base58 demo_keys))
     = Inr (replicate 33 2)"
proof -
  have b: "map (\<lambda>c. word_of_nat (of_char c)) (map (\<lambda>b. char_of (unat b)) bs) = bs" for bs :: bytes
  proof (induction bs)
    case (Cons b bs)
    have "unat b < 256" using unsigned_less [where ?'a = nat, of b] by simp
    then have "(of_char (char_of (unat b) :: char) :: nat) = unat b" by simp
    then show ?case using Cons by simp
  qed simp
  have "kc_hex_decode demo_keys (kc_hex_encode demo_keys bs) = Some bs"
    "kc_from_base58 demo_keys (kc_to_base58 demo_keys bs) = Some bs" for bs
    using b by (simp_all add: demo_keys_def Let_def del: map_map)
  moreover have "kc_encode_check demo_keys bs = Some t \<Longrightarrow> kc_decode_check demo_keys t = Some bs" for bs t
    using b by (auto simp: demo_keys_def Let_def simp del: map_map)
  moreover have "kc_parse_secret demo_keys (replicate 32 7)"
    by (simp add: demo_keys_def Let_def)
  moreover have "PublicKey_serialize demo_keys (replicate 33 2) = Some (kc_to_base58 demo_keys (replicate 33 2))"
    by (simp add: demo_keys_def Let_def PublicKey_serialize_def)
  moreover have "ed_parse_public demo_ecc (replicate 32 1)" by (simp add: demo_ecc_def)
  ultimately show ?thesis
    using key_texts_roundtrip [of demo_keys "replicate 32 7" "replicate 33 2"
        "kc_to_base58 demo_keys (replicate 33 2)" "replicate 32 1" demo_ecc] by simp
qed

theorem keys_have_their_size_witness:
  "\<exists>sk. SecretKey_visit_str demo_keys (replicate 32 CHR ''a'') = Some sk \<and> length sk = 32
     \<and> kc_parse_secret demo_keys sk"
proof -
  have "SecretKey_visit_str demo_keys (replicate 32 CHR ''a'') = Some (replicate 32 97)"
    by (simp add: SecretKey_visit_str_def SecretKey_from_str_def SecretKey_try_from_def demo_keys_def Let_def)
  then show ?thesis using keys_have_their_size [of demo_keys] by blast
qed

end
