(* ===== verification/WebRTC.thy ===== *)
theory WebRTC
  imports Transport Chunk
begin

text \<open>
  The transport of native nodes: \<open>transports/default/transport.rs\<close> and \<open>transports/helper.rs\<close>.
  The \<open>webrtc\<close> crate is a record of operations on its own state \<open>'c\<close>; connections and data
  channels are its handles, \<open>'k\<close> its gathered candidates. Its calls return \<open>None\<close> for the
  foreign errors, which \<open>map_err\<close> renames. A callback is a step of its own, taken when the
  stack reports the event; the world remembers which transport's closures a connection and a
  data channel carry.
\<close>

unbundle bit_operations_syntax

section \<open>Promises\<close>

text \<open>
  \<open>State\<close> of \<open>helper.rs\<close>: only whether a waker is stored matters. A callback settles the
  promise when it finds one.
\<close>

record promise_state =
  completed :: bool
  succeeded :: "bool option"
  waker :: bool

definition promise_default :: promise_state where
  "promise_default = \<lparr>completed = False, succeeded = None, waker = False\<rparr>"

definition promise_poll :: "promise_state \<Rightarrow> unit result option \<times> promise_state" where
  "promise_poll s =
     (if completed s then
        (case succeeded s of
           Some True \<Rightarrow> (Some (Inr ()), s)
         | _ \<Rightarrow> (Some (Inl PromiseStateFailed), s))
      else (None, s\<lparr>waker := True\<rparr>))"

definition promise_settle :: "bool \<Rightarrow> promise_state \<Rightarrow> promise_state" where
  "promise_settle b s =
     (if waker s then s\<lparr>waker := False, completed := True, succeeded := Some b\<rparr> else s)"

text \<open>
  \<open>promise.await\<close>: the executor polls the promise and the stack fires the callback, in some
  order. \<open>None\<close> is that the promise is still pending after the last of these.
\<close>

datatype 'e await_event = Polled | Fired 'e

fun promise_await ::
  "('e \<Rightarrow> promise_state \<Rightarrow> promise_state) \<Rightarrow> 'e await_event list \<Rightarrow> promise_state \<Rightarrow> unit result option" where
  "promise_await callback [] s = None"
| "promise_await callback (Polled # es) s =
     (case promise_poll s of (Some r, s) \<Rightarrow> Some r | (None, s) \<Rightarrow> promise_await callback es s)"
| "promise_await callback (Fired e # es) s = promise_await callback es (callback e s)"

section \<open>The stack\<close>

type_synonym pc = nat
type_synonym dc = nat

datatype pc_state = PcUnspecified | PcNew | PcConnecting | PcConnected | PcDisconnected
  | PcFailed | PcClosed

datatype dc_state = DcUnspecified | DcConnecting | DcOpen | DcClosing | DcClosed

datatype gathering_state = GatherUnspecified | GatherNew | Gathering | GatherComplete

datatype mdns_mode = MdnsDisabled | QueryOnly | QueryAndGather

record rtc_sdp =
  sd_type :: sdp_type
  sd_sdp :: string

record rtc_config =
  rc_ice_servers :: "ice_server list"
  rc_candidate_pool_size :: byte
  rc_nat_1to1_ips :: "string list"
  rc_mdns :: mdns_mode

record ('c, 'k) rtc_ops =
  rt_new_peer_connection :: "rtc_config \<Rightarrow> 'c \<Rightarrow> pc option \<times> 'c"
  rt_create_data_channel :: "string \<Rightarrow> pc \<Rightarrow> 'c \<Rightarrow> dc option \<times> 'c"
  rt_create_offer :: "pc \<Rightarrow> 'c \<Rightarrow> rtc_sdp option \<times> 'c"
  rt_create_answer :: "pc \<Rightarrow> 'c \<Rightarrow> rtc_sdp option \<times> 'c"
  rt_set_local :: "rtc_sdp \<Rightarrow> pc \<Rightarrow> 'c \<Rightarrow> unit option \<times> 'c"
  rt_set_remote :: "rtc_sdp \<Rightarrow> pc \<Rightarrow> 'c \<Rightarrow> unit option \<times> 'c"
  rt_add_ice_candidate :: "ice_candidate \<Rightarrow> pc \<Rightarrow> 'c \<Rightarrow> unit option \<times> 'c"
  rt_gather :: "pc \<Rightarrow> 'c \<Rightarrow> 'k list \<times> 'c"
  rt_close :: "pc \<Rightarrow> 'c \<Rightarrow> unit option \<times> 'c"
  rt_ice_state :: "'c \<Rightarrow> pc \<Rightarrow> ice_state"
  rt_pc_state :: "'c \<Rightarrow> pc \<Rightarrow> pc_state"
  rt_gathering_state :: "'c \<Rightarrow> pc \<Rightarrow> gathering_state"
  rt_send :: "bytes \<Rightarrow> dc \<Rightarrow> 'c \<Rightarrow> usize option \<times> 'c"
  rt_dc_state :: "'c \<Rightarrow> dc \<Rightarrow> dc_state"
  rt_await_open :: "dc \<Rightarrow> 'c \<Rightarrow> unit await_event list \<times> 'c"
  rt_await_state :: "pc \<Rightarrow> 'c \<Rightarrow> pc_state await_event list \<times> 'c"
  rt_now :: "'c \<Rightarrow> u128"
  rt_uuid :: "'c \<Rightarrow> uuid \<times> 'c"

text \<open>The JSON and bincode the transport uses, at the types it uses them.\<close>

record ('c, 'k) rtc_env =
  fe_rtc :: "('c, 'k) rtc_ops"
  fe_ecc :: ecc
  fe_codec :: codec
  fe_json :: "trickle_payload \<Rightarrow> string option"
  fe_bin :: "trickle_payload payload \<Rightarrow> bytes option"
  fe_unbin :: "bytes \<Rightarrow> trickle_payload payload option"
  fe_sdp_json :: "rtc_sdp \<Rightarrow> string option"
  fe_sdp_of_json :: "string \<Rightarrow> rtc_sdp option"
  fe_candidate_json :: "'k \<Rightarrow> ice_candidate option"
  fe_chunk_bin :: "chunk \<Rightarrow> bytes option"
  fe_chunk_unbin :: "bytes \<Rightarrow> chunk option"

section \<open>Transports\<close>

record 'k default_transport =
  df_connection :: "pc option"
  df_pending_candidates :: "'k list"
  df_data_channel :: "dc option"
  df_event_sender :: did
  df_public_key :: "public_key option"
  df_chunk_list :: "chunk list"

text \<open>
  \<open>fw_callbacks\<close>: the transport whose callbacks a connection carries, with the connection
  that \<open>on_ice_candidate\<close> captured. \<open>fw_receivers\<close>: the transport that a data channel's
  \<open>on_message\<close> feeds.
\<close>

record ('c, 'k) rtc_world =
  fw_transports :: "uuid \<Rightarrow> 'k default_transport option"
  fw_channels :: "did \<Rightarrow> event ac_channel"
  fw_callbacks :: "pc \<Rightarrow> (uuid \<times> pc option) option"
  fw_receivers :: "dc \<Rightarrow> uuid option"
  fw_stack :: 'c

type_synonym ('c, 'k, 'a) rtc_action = "(('c, 'k) rtc_world, 'a) action"

definition rtc :: "('c \<Rightarrow> 'a \<times> 'c) \<Rightarrow> ('c, 'k, 'a) rtc_action" where
  "rtc f w = (case f (fw_stack w) of (x, c) \<Rightarrow> (Inr x, w\<lparr>fw_stack := c\<rparr>))"

definition rtc_or :: "error \<Rightarrow> ('c \<Rightarrow> 'a option \<times> 'c) \<Rightarrow> ('c, 'k, 'a) rtc_action" where
  "rtc_or e f = sbind (rtc f) (\<lambda>x. slift (ok_or x e))"

definition df_read :: "uuid \<Rightarrow> ('c, 'k, 'k default_transport) rtc_action" where
  "df_read u w = (ok_or (fw_transports w u) (Panicked ''dangling''), w)"

definition df_update ::
  "uuid \<Rightarrow> ('k default_transport \<Rightarrow> 'k default_transport) \<Rightarrow> ('c, 'k, unit) rtc_action" where
  "df_update u f =
     smod (\<lambda>w. w\<lparr>fw_transports := (fw_transports w)(u := map_option f (fw_transports w u))\<rparr>)"

definition df_emit :: "did \<Rightarrow> event \<Rightarrow> ('c, 'k, unit) rtc_action" where
  "df_emit d e w =
     (case ch_send e (fw_channels w d) of (r, c) \<Rightarrow> (r, w\<lparr>fw_channels := (fw_channels w)(d := c)\<rparr>))"

definition df_get_peer_connection :: "uuid \<Rightarrow> ('c, 'k, pc option) rtc_action" where
  "df_get_peer_connection u = sbind (df_read u) (\<lambda>t. sret (df_connection t))"

definition df_get_pending_candidates :: "uuid \<Rightarrow> ('c, 'k, 'k list) rtc_action" where
  "df_get_pending_candidates u = sbind (df_read u) (\<lambda>t. sret (df_pending_candidates t))"

definition df_get_data_channel :: "uuid \<Rightarrow> ('c, 'k, dc option) rtc_action" where
  "df_get_data_channel u = sbind (df_read u) (\<lambda>t. sret (df_data_channel t))"

text \<open>The \<open>match self.get_peer_connection().await\<close> of most operations.\<close>

definition df_with_connection ::
  "uuid \<Rightarrow> (pc \<Rightarrow> ('c, 'k, 'a) rtc_action) \<Rightarrow> ('c, 'k, 'a) rtc_action" where
  "df_with_connection u f =
     sbind (df_get_peer_connection u) (\<lambda>pc.
       case pc of
         Some peer_connection \<Rightarrow> f peer_connection
       | None \<Rightarrow> serr RTCPeerConnectionNotEstablish)"

subsection \<open>Callbacks\<close>

definition df_on_ice_connection_state_change ::
  "('c, 'k) rtc_env \<Rightarrow> uuid \<Rightarrow> ice_state \<Rightarrow> ('c, 'k, unit) rtc_action" where
  "df_on_ice_connection_state_change X u cs =
     sbind (df_read u) (\<lambda>t.
       let local_did = rbind (ok_or (df_public_key t) (Panicked ''unwrap''))
                         (\<lambda>pk. Inr (public_key_address (fe_ecc X) pk))
       in case cs of
            IceConnected \<Rightarrow>
              sbind (slift local_did) (\<lambda>d.
              sbind (attempt (df_emit (df_event_sender t) (RegisterTransport d u))) (\<lambda>_. sret ()))
          | IceFailed \<Rightarrow>
              sbind (slift local_did) (\<lambda>d.
              sbind (attempt (df_emit (df_event_sender t) (ConnectClosed d u))) (\<lambda>_. sret ()))
          | IceDisconnected \<Rightarrow>
              sbind (slift local_did) (\<lambda>d.
              sbind (attempt (df_emit (df_event_sender t) (ConnectClosed d u))) (\<lambda>_. sret ()))
          | IceClosed \<Rightarrow>
              sbind (slift local_did) (\<lambda>d.
              sbind (attempt (df_emit (df_event_sender t) (ConnectClosed d u))) (\<lambda>_. sret ()))
          | _ \<Rightarrow> sret ())"

definition df_on_ice_candidate :: "uuid \<Rightarrow> pc option \<Rightarrow> 'k option \<Rightarrow> ('c, 'k, unit) rtc_action" where
  "df_on_ice_candidate u peer_connection c =
     (case c of
        Some cand \<Rightarrow>
          if peer_connection \<noteq> None then
            df_update u (\<lambda>t. t\<lparr>df_pending_candidates := df_pending_candidates t @ [cand]\<rparr>)
          else sret ()
      | None \<Rightarrow> sret ())"

definition df_on_data_channel :: "uuid \<Rightarrow> dc \<Rightarrow> ('c, 'k, unit) rtc_action" where
  "df_on_data_channel u d = smod (\<lambda>w. w\<lparr>fw_receivers := (fw_receivers w)(d \<mapsto> u)\<rparr>)"

definition df_on_message :: "('c, 'k) rtc_env \<Rightarrow> uuid \<Rightarrow> bytes \<Rightarrow> ('c, 'k, unit) rtc_action" where
  "df_on_message X u msg =
     sbind (df_read u) (\<lambda>t.
     sbind (sget (\<lambda>w. rt_now (fe_rtc X) (fw_stack w))) (\<lambda>now.
       case chunk_from_bincode (fe_chunk_unbin X) msg of
         Inl _ \<Rightarrow> sret ()
       | Inr chunk_item \<Rightarrow>
           (case cl_handle now chunk_item (df_chunk_list t) of (data, l) \<Rightarrow>
              sbind (df_update u (\<lambda>t. t\<lparr>df_chunk_list := l\<rparr>)) (\<lambda>_.
                case data of
                  None \<Rightarrow> sret ()
                | Some data \<Rightarrow>
                    sbind (attempt (df_emit (df_event_sender t) (DataChannelMessage data))) (\<lambda>_. sret ())))))"

text \<open>What the stack reports, given to the closure registered for it.\<close>

datatype 'k rtc_event =
    IceConnectionStateChange pc ice_state
  | IceCandidateFound pc "'k option"
  | DataChannelOpened pc dc
  | DataChannelData dc bytes

definition df_callback :: "('c, 'k) rtc_env \<Rightarrow> 'k rtc_event \<Rightarrow> ('c, 'k, unit) rtc_action" where
  "df_callback X e =
     sbind (sget fw_callbacks) (\<lambda>callbacks.
     sbind (sget fw_receivers) (\<lambda>receivers.
       case e of
         IceConnectionStateChange p cs \<Rightarrow>
           (case callbacks p of
              Some (u, _) \<Rightarrow> df_on_ice_connection_state_change X u cs | None \<Rightarrow> sret ())
       | IceCandidateFound p c \<Rightarrow>
           (case callbacks p of Some (u, conn) \<Rightarrow> df_on_ice_candidate u conn c | None \<Rightarrow> sret ())
       | DataChannelOpened p d \<Rightarrow>
           (case callbacks p of Some (u, _) \<Rightarrow> df_on_data_channel u d | None \<Rightarrow> sret ())
       | DataChannelData d msg \<Rightarrow>
           (case receivers d of Some u \<Rightarrow> df_on_message X u msg | None \<Rightarrow> sret ())))"

subsection \<open>Connection set-up\<close>

text \<open>
  \<open>gather_complete.recv().await\<close>: the candidates found before gathering ends are reported to
  the connection's callback; a final report carries none.
\<close>

fun df_candidates :: "('c, 'k) rtc_env \<Rightarrow> pc \<Rightarrow> 'k list \<Rightarrow> ('c, 'k, unit) rtc_action" where
  "df_candidates X p [] = df_callback X (IceCandidateFound p None)"
| "df_candidates X p (c # cs) =
     sbind (df_callback X (IceCandidateFound p (Some c))) (\<lambda>_. df_candidates X p cs)"

definition df_gather_complete :: "('c, 'k) rtc_env \<Rightarrow> pc \<Rightarrow> ('c, 'k, unit) rtc_action" where
  "df_gather_complete X p = sbind (rtc (rt_gather (fe_rtc X) p)) (df_candidates X p)"

definition df_set_local_description ::
  "('c, 'k) rtc_env \<Rightarrow> rtc_sdp \<Rightarrow> uuid \<Rightarrow> ('c, 'k, unit) rtc_action" where
  "df_set_local_description X desc u =
     df_with_connection u (\<lambda>peer_connection.
       rtc_or RTCPeerConnectionSetLocalDescFailed (rt_set_local (fe_rtc X) desc peer_connection))"

definition df_set_remote_description ::
  "('c, 'k) rtc_env \<Rightarrow> rtc_sdp \<Rightarrow> uuid \<Rightarrow> ('c, 'k, unit) rtc_action" where
  "df_set_remote_description X desc u =
     df_with_connection u (\<lambda>peer_connection.
       rtc_or RTCPeerConnectionSetRemoteDescFailed (rt_set_remote (fe_rtc X) desc peer_connection))"

definition df_add_ice_candidate ::
  "('c, 'k) rtc_env \<Rightarrow> ice_candidate \<Rightarrow> uuid \<Rightarrow> ('c, 'k, unit) rtc_action" where
  "df_add_ice_candidate X cand u =
     df_with_connection u (\<lambda>peer_connection.
       rtc_or RTCPeerConnectionAddIceCandidateError
         (rt_add_ice_candidate (fe_rtc X) cand peer_connection))"

definition df_get_offer :: "('c, 'k) rtc_env \<Rightarrow> uuid \<Rightarrow> ('c, 'k, rtc_sdp) rtc_action" where
  "df_get_offer X u =
     df_with_connection u (\<lambda>peer_connection.
       sbind (rtc_or RTCPeerConnectionCreateOfferFailed (rt_create_offer (fe_rtc X) peer_connection)) (\<lambda>offer.
       sbind (df_set_local_description X offer u) (\<lambda>_.
       sbind (df_gather_complete X peer_connection) (\<lambda>_.
         sret offer))))"

definition df_get_answer :: "('c, 'k) rtc_env \<Rightarrow> uuid \<Rightarrow> ('c, 'k, rtc_sdp) rtc_action" where
  "df_get_answer X u =
     df_with_connection u (\<lambda>peer_connection.
       sbind (rtc_or RTCPeerConnectionCreateAnswerFailed (rt_create_answer (fe_rtc X) peer_connection)) (\<lambda>answer.
       sbind (df_set_local_description X answer u) (\<lambda>_.
       sbind (df_gather_complete X peer_connection) (\<lambda>_.
         sret answer))))"

definition df_uuid :: "('c, 'k) rtc_env \<Rightarrow> ('c, 'k) rtc_world \<Rightarrow> uuid \<times> ('c, 'k) rtc_world" where
  "df_uuid X w = (case rt_uuid (fe_rtc X) (fw_stack w) of (u, c) \<Rightarrow> (u, w\<lparr>fw_stack := c\<rparr>))"

definition df_now :: "('c, 'k) rtc_env \<Rightarrow> ('c, 'k) rtc_world \<Rightarrow> u128" where
  "df_now X w = rt_now (fe_rtc X) (fw_stack w)"

definition df_new :: "('c, 'k) rtc_env \<Rightarrow> did \<Rightarrow> ('c, 'k) rtc_world \<Rightarrow> uuid \<times> ('c, 'k) rtc_world" where
  "df_new X event_sender w =
     (case df_uuid X w of (u, w) \<Rightarrow>
        (u, w\<lparr>fw_transports := (fw_transports w)(u \<mapsto>
               \<lparr>df_connection = None, df_pending_candidates = [], df_data_channel = None,
                df_event_sender = event_sender, df_public_key = None, df_chunk_list = []\<rparr>)\<rparr>))"

definition df_setup_channel :: "('c, 'k) rtc_env \<Rightarrow> string \<Rightarrow> uuid \<Rightarrow> ('c, 'k, unit) rtc_action" where
  "df_setup_channel X name u =
     df_with_connection u (\<lambda>peer_connection.
       sbind (rtc_or RTCDataChannelNotReady (rt_create_data_channel (fe_rtc X) name peer_connection)) (\<lambda>ch.
         df_update u (\<lambda>t. t\<lparr>df_data_channel := Some ch\<rparr>)))"

definition rtc_config_of :: "ice_server list \<Rightarrow> string option \<Rightarrow> rtc_config" where
  "rtc_config_of ice_server external_ip =
     (case external_ip of
        Some addr \<Rightarrow> \<lparr>rc_ice_servers = ice_server, rc_candidate_pool_size = 100,
          rc_nat_1to1_ips = [addr], rc_mdns = QueryOnly\<rparr>
      | None \<Rightarrow> \<lparr>rc_ice_servers = ice_server, rc_candidate_pool_size = 100,
          rc_nat_1to1_ips = [], rc_mdns = QueryAndGather\<rparr>)"

definition df_start ::
  "('c, 'k) rtc_env \<Rightarrow> ice_server list \<Rightarrow> string option \<Rightarrow> uuid \<Rightarrow> ('c, 'k, unit) rtc_action" where
  "df_start X ice_server external_ip u =
     sbind (rtc_or RTCPeerConnectionCreateFailed
              (rt_new_peer_connection (fe_rtc X) (rtc_config_of ice_server external_ip))) (\<lambda>c.
     sbind (df_update u (\<lambda>t. t\<lparr>df_connection := Some c\<rparr>)) (\<lambda>_.
       df_setup_channel X ''rings'' u))"

definition df_apply_callback :: "uuid \<Rightarrow> ('c, 'k, unit) rtc_action" where
  "df_apply_callback u =
     sbind (df_get_peer_connection u) (\<lambda>captured.
     df_with_connection u (\<lambda>peer_connection.
       smod (\<lambda>w. w\<lparr>fw_callbacks := (fw_callbacks w)(peer_connection \<mapsto> (u, captured))\<rparr>)))"

definition df_close :: "('c, 'k) rtc_env \<Rightarrow> uuid \<Rightarrow> ('c, 'k, unit) rtc_action" where
  "df_close X u =
     sbind (df_get_peer_connection u) (\<lambda>pc.
       case pc of
         Some pc \<Rightarrow> rtc_or RTCPeerConnectionCloseFailed (rt_close (fe_rtc X) pc)
       | None \<Rightarrow> sret ())"

subsection \<open>State\<close>

definition df_ice_connection_state ::
  "('c, 'k) rtc_env \<Rightarrow> ('c, 'k) rtc_world \<Rightarrow> uuid \<Rightarrow> ice_state option" where
  "df_ice_connection_state X w u =
     map_option (rt_ice_state (fe_rtc X) (fw_stack w)) (Option.bind (fw_transports w u) df_connection)"

definition df_ice_gathering_state ::
  "('c, 'k) rtc_env \<Rightarrow> ('c, 'k) rtc_world \<Rightarrow> uuid \<Rightarrow> gathering_state option" where
  "df_ice_gathering_state X w u =
     map_option (rt_gathering_state (fe_rtc X) (fw_stack w)) (Option.bind (fw_transports w u) df_connection)"

definition df_is_disconnected :: "('c, 'k) rtc_env \<Rightarrow> ('c, 'k) rtc_world \<Rightarrow> uuid \<Rightarrow> bool" where
  "df_is_disconnected X w u =
     (case df_ice_connection_state X w u of
        Some IceFailed \<Rightarrow> True
      | Some IceDisconnected \<Rightarrow> True
      | Some IceClosed \<Rightarrow> True
      | _ \<Rightarrow> False)"

definition df_is_connected :: "('c, 'k) rtc_env \<Rightarrow> ('c, 'k) rtc_world \<Rightarrow> uuid \<Rightarrow> bool" where
  "df_is_connected X w u =
     (case df_ice_connection_state X w u of Some s \<Rightarrow> s = IceConnected | None \<Rightarrow> False)"

definition df_pubkey :: "uuid \<Rightarrow> ('c, 'k, public_key) rtc_action" where
  "df_pubkey u = sbind (df_read u) (\<lambda>t. slift (ok_or (df_public_key t) (Panicked ''unwrap'')))"

subsection \<open>Messages\<close>

fun df_send_chunks ::
  "('c, 'k) rtc_env \<Rightarrow> dc \<Rightarrow> chunk list \<Rightarrow> ('c, 'k, unit) rtc_action" where
  "df_send_chunks X d [] = sret ()"
| "df_send_chunks X d (c # cs) =
     sbind (slift (chunk_to_bincode (fe_chunk_bin X) c)) (\<lambda>bytes.
       let size = word_of_nat (length bytes) in
       sbind (rtc (rt_send (fe_rtc X) bytes d)) (\<lambda>r.
         case r of
           Some s \<Rightarrow>
             if NOT s = size then serr (RTCDataChannelMessageIncomplete s size)
             else df_send_chunks X d cs
         | None \<Rightarrow>
             sbind (sget (\<lambda>w. rt_dc_state (fe_rtc X) (fw_stack w) d)) (\<lambda>ready_state.
               if ready_state \<noteq> DcOpen then serr RTCDataChannelStateNotOpen
               else serr RTCDataChannelSendTextFailed)))"

definition df_send_message :: "('c, 'k) rtc_env \<Rightarrow> bytes \<Rightarrow> uuid \<Rightarrow> ('c, 'k, unit) rtc_action" where
  "df_send_message X msg u =
     (if length msg > TRANSPORT_MAX_SIZE then serr MessageTooLarge
      else
        sbind (df_get_data_channel u) (\<lambda>d.
        sbind (slift (ok_or d RTCDataChannelNotReady)) (\<lambda>d.
        sbind (rtc (rt_uuid (fe_rtc X))) (\<lambda>fresh.
        sbind (sget (df_now X)) (\<lambda>now.
          df_send_chunks X d (cl_from_bytes TRANSPORT_MTU (ChunkMeta_default fresh now) msg))))))"

subsection \<open>Handshake\<close>

definition candidates_to_json :: "('k \<Rightarrow> ice_candidate option) \<Rightarrow> 'k list \<Rightarrow> ice_candidate list result" where
  "candidates_to_json J cs = rmap (\<lambda>c. ok_or (J c) (Panicked ''unwrap'')) cs"

definition df_get_handshake_info ::
  "('c, 'k) rtc_env \<Rightarrow> session_with_key \<Rightarrow> sdp_type \<Rightarrow> uuid \<Rightarrow> ('c, 'k, encoded) rtc_action" where
  "df_get_handshake_info X session_manager kind u =
     sbind (case kind of
              Answer \<Rightarrow> df_get_answer X u
            | Offer \<Rightarrow> df_get_offer X u
            | kind \<Rightarrow> sbind (df_get_offer X u) (\<lambda>sdp. sret (sdp\<lparr>sd_type := kind\<rparr>))) (\<lambda>sdp.
     sbind (df_get_pending_candidates u) (\<lambda>candidates.
     sbind (slift (candidates_to_json (fe_candidate_json X) candidates)) (\<lambda>local_candidates_json.
       if local_candidates_json = [] then serr FailedOnGatherLocalCandidate
       else
         sbind (slift (ok_or (fe_sdp_json X sdp) (Panicked ''unwrap''))) (\<lambda>sdp w.
           let data = \<lparr>tp_sdp = sdp, tp_candidates = local_candidates_json\<rparr>;
               fake_did = sm_authorizer session_manager
           in case df_uuid X w of (tx, w) \<Rightarrow>
             (rbind (MessagePayload_new_send (fe_ecc X) (fe_json X) (df_now X w) tx data
                       session_manager fake_did fake_did)
                (pl_encode (fe_codec X) (fe_bin X)), w)))))"

fun df_add_candidates ::
  "('c, 'k) rtc_env \<Rightarrow> ice_candidate list \<Rightarrow> uuid \<Rightarrow> ('c, 'k, unit) rtc_action" where
  "df_add_candidates X [] u = sret ()"
| "df_add_candidates X (c # cs) u =
     sbind (attempt (df_add_ice_candidate X c u)) (\<lambda>_. df_add_candidates X cs u)"

definition df_register_remote_info ::
  "('c, 'k) rtc_env \<Rightarrow> encoded \<Rightarrow> uuid \<Rightarrow> ('c, 'k, did) rtc_action" where
  "df_register_remote_info X enc u =
     sbind (slift (pl_from_encoded (fe_codec X) (fe_unbin X) enc)) (\<lambda>data.
     sbind (sget (df_now X)) (\<lambda>now.
       if pl_verify (fe_ecc X) (fe_json X) now data then
         sbind (slift (ok_or (fe_sdp_of_json X (tp_sdp (pl_data data))) DeserializeError)) (\<lambda>sdp.
         sbind (df_set_remote_description X sdp u) (\<lambda>_.
         sbind (df_add_candidates X (tp_candidates (pl_data data)) u) (\<lambda>_.
         sbind (case session_authorizer_pubkey (fe_ecc X) (mv_session (pl_origin_verification data)) of
                  Inr public_key \<Rightarrow> df_update u (\<lambda>t. t\<lparr>df_public_key := Some public_key\<rparr>)
                | Inl _ \<Rightarrow> sret ()) (\<lambda>_.
           sret (pl_addr data)))))
       else serr VerifySignatureFailed))"

subsection \<open>Waiting\<close>

text \<open>A task whose promise is never completed stays suspended, and runs nothing after the wait.\<close>

definition suspended :: "unit result option \<Rightarrow> unit result" where
  "suspended r = (case r of Some r \<Rightarrow> r | None \<Rightarrow> Inl (Panicked ''never woken''))"

definition df_wait_for_data_channel_open :: "('c, 'k) rtc_env \<Rightarrow> uuid \<Rightarrow> ('c, 'k, unit) rtc_action" where
  "df_wait_for_data_channel_open X u =
     sbind (df_get_data_channel u) (\<lambda>d.
       case d of
         Some dc \<Rightarrow>
           sbind (sget (\<lambda>w. rt_dc_state (fe_rtc X) (fw_stack w) dc)) (\<lambda>ready_state.
             if ready_state = DcOpen then sret ()
             else
               sbind (rtc (rt_await_open (fe_rtc X) dc)) (\<lambda>es.
                 slift (suspended (promise_await (\<lambda>_. promise_settle True) es promise_default))))
       | None \<Rightarrow> serr RTCDataChannelNotReady)"

definition connect_callback :: "pc_state \<Rightarrow> promise_state \<Rightarrow> promise_state" where
  "connect_callback st s =
     (case st of
        PcConnected \<Rightarrow> promise_settle True s
      | PcFailed \<Rightarrow> promise_settle False s
      | _ \<Rightarrow> s)"

definition df_connect_success_promise ::
  "('c, 'k) rtc_env \<Rightarrow> uuid \<Rightarrow> ('c, 'k, promise_state) rtc_action" where
  "df_connect_success_promise X u =
     df_with_connection u (\<lambda>peer_connection.
     sbind (sget (\<lambda>w. rt_pc_state (fe_rtc X) (fw_stack w) peer_connection)) (\<lambda>current_state.
       let promise = promise_default;
           promise = (if PcConnected = current_state then promise_settle True promise else promise)
       in sret promise))"

definition df_wait_for_connected :: "('c, 'k) rtc_env \<Rightarrow> uuid \<Rightarrow> ('c, 'k, unit) rtc_action" where
  "df_wait_for_connected X u =
     sbind (df_connect_success_promise X u) (\<lambda>promise.
     df_with_connection u (\<lambda>peer_connection.
     sbind (rtc (rt_await_state (fe_rtc X) peer_connection)) (\<lambda>es.
       slift (suspended (promise_await connect_callback es promise)))))"

section \<open>The transport as the node sees it\<close>

definition df_recv :: "did \<Rightarrow> ('c, 'k, event option) rtc_action" where
  "df_recv d w =
     (case ch_recv (fw_channels w d) of (r, c) \<Rightarrow> (r, w\<lparr>fw_channels := (fw_channels w)(d := c)\<rparr>))"

definition default_ops :: "('c, 'k) rtc_env \<Rightarrow> ('c, 'k) rtc_world transport_ops" where
  "default_ops X = \<lparr>tr_new = df_new X, tr_start = df_start X, tr_apply_callback = df_apply_callback,
     tr_close = df_close X, tr_is_connected = df_is_connected X,
     tr_is_disconnected = df_is_disconnected X, tr_send_message = df_send_message X,
     tr_wait_for_data_channel_open = df_wait_for_data_channel_open X,
     tr_get_handshake_info = df_get_handshake_info X,
     tr_register_remote_info = df_register_remote_info X,
     tr_recv = df_recv, tr_now = df_now X, tr_uuid = df_uuid X\<rparr>"

lemma default_ops_simps [simp]:
  "tr_new (default_ops X) = df_new X" "tr_start (default_ops X) = df_start X"
  "tr_apply_callback (default_ops X) = df_apply_callback" "tr_close (default_ops X) = df_close X"
  "tr_is_connected (default_ops X) = df_is_connected X"
  "tr_is_disconnected (default_ops X) = df_is_disconnected X"
  "tr_send_message (default_ops X) = df_send_message X"
  "tr_wait_for_data_channel_open (default_ops X) = df_wait_for_data_channel_open X"
  "tr_get_handshake_info (default_ops X) = df_get_handshake_info X"
  "tr_register_remote_info (default_ops X) = df_register_remote_info X"
  "tr_recv (default_ops X) = df_recv" "tr_now (default_ops X) = df_now X"
  "tr_uuid (default_ops X) = df_uuid X"
  by (simp_all add: default_ops_def)

end
