(* ===== verification/Wasm.thy ===== *)
theory Wasm
  imports WebRTC
begin

text \<open>
  The transport of browser nodes: \<open>transports/wasm/transport.rs\<close>, \<open>transports/wasm/helper.rs\<close>,
  and the ICE servers as JavaScript objects. The browser is a record of
  operations on its own state \<open>'c\<close>, with connections and data channels as its handles and
  candidates as its objects \<open>'k\<close>. As for native nodes a handler is a step of its own; a
  connection has one handler of each kind, so that setting one again replaces it. What a
  handler spawns is run with it.
\<close>

section \<open>Descriptions and servers as JavaScript has them\<close>

text \<open>\<open>SdpUnspecified\<close> is the variant of \<open>RtcSdpType\<close> for what JavaScript may add.\<close>

datatype wasm_sdp_type = WOffer | WPranswer | WAnswer | WRollback

fun rtc_sdp_type_of :: "wasm_sdp_type \<Rightarrow> sdp_type" where
  "rtc_sdp_type_of WOffer = Offer"
| "rtc_sdp_type_of WPranswer = Pranswer"
| "rtc_sdp_type_of WAnswer = Answer"
| "rtc_sdp_type_of WRollback = Rollback"

fun wasm_sdp_type_of :: "sdp_type \<Rightarrow> wasm_sdp_type" where
  "wasm_sdp_type_of Offer = WOffer"
| "wasm_sdp_type_of Pranswer = WPranswer"
| "wasm_sdp_type_of Answer = WAnswer"
| "wasm_sdp_type_of Rollback = WRollback"
| "wasm_sdp_type_of SdpUnspecified = WOffer"

record sdp_wrapper =
  wr_sdp :: string
  wr_type :: wasm_sdp_type

definition wrapper_of :: "rtc_sdp \<Rightarrow> sdp_wrapper" where
  "wrapper_of sdp = \<lparr>wr_sdp = sd_sdp sdp, wr_type = wasm_sdp_type_of (sd_type sdp)\<rparr>"

definition wrapper_try_from :: "(string \<Rightarrow> sdp_wrapper option) \<Rightarrow> string \<Rightarrow> sdp_wrapper result" where
  "wrapper_try_from of_json s = ok_or (of_json s) SerializeJson"

definition description_init_of :: "sdp_wrapper \<Rightarrow> rtc_sdp" where
  "description_init_of s = \<lparr>sd_type = rtc_sdp_type_of (wr_type s), sd_sdp = wr_sdp s\<rparr>"

definition description_of :: "(rtc_sdp \<Rightarrow> rtc_sdp option) \<Rightarrow> sdp_wrapper \<Rightarrow> rtc_sdp result" where
  "description_of new_description s = ok_or (new_description (description_init_of s)) (Panicked ''unwrap'')"

datatype js_credential_type = JsPassword | JsToken

fun js_credential_type_of :: "ice_credential_type \<Rightarrow> js_credential_type" where
  "js_credential_type_of Unspecified = JsPassword"
| "js_credential_type_of Password = JsPassword"
| "js_credential_type_of Oauth = JsToken"

record js_ice_server =
  js_urls :: "string list"
  js_username :: "string option"
  js_credential :: "string option"
  js_type :: js_credential_type

definition js_ice_server_of :: "ice_server \<Rightarrow> js_ice_server" where
  "js_ice_server_of s =
     \<lparr>js_urls = is_urls s,
      js_username = (if is_username s \<noteq> [] then Some (is_username s) else None),
      js_credential = (if is_credential s \<noteq> [] then Some (is_credential s) else None),
      js_type = js_credential_type_of (is_credential_type s)\<rparr>"

section \<open>The browser\<close>

text \<open>
  A handler of state changes that takes a state is given what JavaScript passes to it: a string
  that names a state is read as that state, and an object, such as an event, as none of them.
  \<open>wb_gather\<close> is what is reported until the wait for the candidates ends: candidates, and polls
  of the waiting task with the changes of the gathering state.
\<close>

datatype state_argument = StateString ice_state | EventObject

record web_config =
  wc_ice_servers :: "js_ice_server list"
  wc_candidate_pool_size :: nat

record ('c, 'k) web_ops =
  wb_new_peer_connection :: "web_config \<Rightarrow> 'c \<Rightarrow> pc option \<times> 'c"
  wb_create_data_channel :: "string \<Rightarrow> pc \<Rightarrow> 'c \<Rightarrow> dc \<times> 'c"
  wb_create_offer :: "pc \<Rightarrow> 'c \<Rightarrow> rtc_sdp option \<times> 'c"
  wb_create_answer :: "pc \<Rightarrow> 'c \<Rightarrow> rtc_sdp option \<times> 'c"
  wb_new_description :: "rtc_sdp \<Rightarrow> rtc_sdp option"
  wb_set_local :: "rtc_sdp \<Rightarrow> pc \<Rightarrow> 'c \<Rightarrow> unit option \<times> 'c"
  wb_set_remote :: "rtc_sdp \<Rightarrow> pc \<Rightarrow> 'c \<Rightarrow> unit option \<times> 'c"
  wb_add_ice_candidate :: "ice_candidate \<Rightarrow> pc \<Rightarrow> 'c \<Rightarrow> unit option \<times> 'c"
  wb_gather :: "pc \<Rightarrow> 'c \<Rightarrow> ('k option list \<times> gathering_state await_event list) \<times> 'c"
  wb_close :: "pc \<Rightarrow> 'c \<Rightarrow> 'c"
  wb_ice_state :: "'c \<Rightarrow> pc \<Rightarrow> ice_state"
  wb_send :: "bytes \<Rightarrow> dc \<Rightarrow> 'c \<Rightarrow> unit option \<times> 'c"
  wb_ready_state :: "'c \<Rightarrow> dc \<Rightarrow> dc_state"
  wb_await_open :: "dc \<Rightarrow> 'c \<Rightarrow> dc_state await_event list \<times> 'c"
  wb_await_state :: "pc \<Rightarrow> 'c \<Rightarrow> state_argument await_event list \<times> 'c"
  wb_now :: "'c \<Rightarrow> u128"
  wb_uuid :: "'c \<Rightarrow> uuid \<times> 'c"

record ('c, 'k) web_env =
  we_web :: "('c, 'k) web_ops"
  we_ecc :: ecc
  we_codec :: codec
  we_json :: "trickle_payload \<Rightarrow> string option"
  we_bin :: "trickle_payload payload \<Rightarrow> bytes option"
  we_unbin :: "bytes \<Rightarrow> trickle_payload payload option"
  we_sdp_json :: "sdp_wrapper \<Rightarrow> string option"
  we_sdp_of_json :: "string \<Rightarrow> sdp_wrapper option"
  we_candidate_json :: "'k \<Rightarrow> ice_candidate option"
  we_chunk_bin :: "chunk \<Rightarrow> bytes option"
  we_chunk_unbin :: "bytes \<Rightarrow> chunk option"

section \<open>Transports\<close>

record 'k wasm_transport =
  wt_connection :: "pc option"
  wt_pending_candidates :: "'k list"
  wt_channel :: "dc option"
  wt_event_sender :: did
  wt_public_key :: "public_key option"
  wt_chunk_list :: "chunk list"

text \<open>
  The handlers of a connection: \<open>ww_candidates\<close> with the connection that the closure captured,
  \<open>ww_data_channels\<close>, and \<open>ww_states\<close>, either the closure that reports to the node, or the one
  that settles a promise and ends with the wait. \<open>ww_receivers\<close> are the handlers of messages.
\<close>

datatype state_handler = ReportState uuid "pc option" | SettleWait

record ('c, 'k) web_world =
  ww_transports :: "uuid \<Rightarrow> 'k wasm_transport option"
  ww_channels :: "did \<Rightarrow> event cb_channel"
  ww_candidates :: "pc \<Rightarrow> (uuid \<times> pc option) option"
  ww_data_channels :: "pc \<Rightarrow> uuid option"
  ww_states :: "pc \<Rightarrow> state_handler option"
  ww_receivers :: "dc \<Rightarrow> uuid option"
  ww_browser :: 'c

type_synonym ('c, 'k, 'a) web_action = "(('c, 'k) web_world, 'a) action"

definition web :: "('c \<Rightarrow> 'a \<times> 'c) \<Rightarrow> ('c, 'k, 'a) web_action" where
  "web f w = (case f (ww_browser w) of (x, c) \<Rightarrow> (Inr x, w\<lparr>ww_browser := c\<rparr>))"

definition web_or :: "error \<Rightarrow> ('c \<Rightarrow> 'a option \<times> 'c) \<Rightarrow> ('c, 'k, 'a) web_action" where
  "web_or e f = sbind (web f) (\<lambda>x. slift (ok_or x e))"

definition wt_read :: "uuid \<Rightarrow> ('c, 'k, 'k wasm_transport) web_action" where
  "wt_read u w = (ok_or (ww_transports w u) (Panicked ''dangling''), w)"

definition wt_update :: "uuid \<Rightarrow> ('k wasm_transport \<Rightarrow> 'k wasm_transport) \<Rightarrow> ('c, 'k, unit) web_action" where
  "wt_update u f =
     smod (\<lambda>w. w\<lparr>ww_transports := (ww_transports w)(u := map_option f (ww_transports w u))\<rparr>)"

definition wt_emit :: "did \<Rightarrow> event \<Rightarrow> ('c, 'k, unit) web_action" where
  "wt_emit d e w =
     (case cb_send e (ww_channels w d) of (r, c) \<Rightarrow> (r, w\<lparr>ww_channels := (ww_channels w)(d := c)\<rparr>))"

definition wt_get_peer_connection :: "uuid \<Rightarrow> ('c, 'k, pc option) web_action" where
  "wt_get_peer_connection u = sbind (wt_read u) (\<lambda>t. sret (wt_connection t))"

definition wt_get_pending_candidates :: "uuid \<Rightarrow> ('c, 'k, 'k list) web_action" where
  "wt_get_pending_candidates u = sbind (wt_read u) (\<lambda>t. sret (wt_pending_candidates t))"

definition wt_get_data_channel :: "uuid \<Rightarrow> ('c, 'k, dc option) web_action" where
  "wt_get_data_channel u = sbind (wt_read u) (\<lambda>t. sret (wt_channel t))"

definition wt_with_connection :: "uuid \<Rightarrow> (pc \<Rightarrow> ('c, 'k, 'a) web_action) \<Rightarrow> ('c, 'k, 'a) web_action" where
  "wt_with_connection u f =
     sbind (wt_get_peer_connection u) (\<lambda>pc.
       case pc of
         Some c \<Rightarrow> f c
       | None \<Rightarrow> serr RTCPeerConnectionNotEstablish)"

subsection \<open>Handlers\<close>

text \<open>
  A blob of size zero, a blob that cannot be read and a message without bytes are dropped. What
  is not a blob is read as an array of bytes.
\<close>

datatype message_data = BlobData nat "bytes option" | ArrayData bytes

definition message_bytes :: "message_data \<Rightarrow> bytes option" where
  "message_bytes data = (case data of
       BlobData n buffer \<Rightarrow> if n = 0 then None else buffer
     | ArrayData bs \<Rightarrow> Some bs)"

definition wt_on_ice_connection_state_change ::
  "('c, 'k) web_env \<Rightarrow> uuid \<Rightarrow> pc option \<Rightarrow> string \<Rightarrow> ('c, 'k, unit) web_action" where
  "wt_on_ice_connection_state_change X u peer_connection ev_type =
     (if ev_type = ''iceconnectionstatechange'' then
        sbind (slift (ok_or peer_connection (Panicked ''unwrap''))) (\<lambda>peer_connection.
        sbind (sget (\<lambda>w. wb_ice_state (we_web X) (ww_browser w) peer_connection)) (\<lambda>ice_connection_state.
        sbind (wt_read u) (\<lambda>t.
          let local_did = rbind (ok_or (wt_public_key t) (Panicked ''unwrap''))
                            (\<lambda>pk. Inr (public_key_address (we_ecc X) pk)) in
          if ice_connection_state = IceConnected then
            sbind (slift local_did) (\<lambda>d.
            sbind (attempt (wt_emit (wt_event_sender t) (RegisterTransport d u))) (\<lambda>_. sret ()))
          else if ice_connection_state \<in> {IceFailed, IceDisconnected, IceClosed} then
            sbind (slift local_did) (\<lambda>d.
            sbind (attempt (wt_emit (wt_event_sender t) (ConnectClosed d u))) (\<lambda>_. sret ()))
          else sret ())))
      else sret ())"

definition wt_on_ice_candidate :: "uuid \<Rightarrow> pc option \<Rightarrow> 'k option \<Rightarrow> ('c, 'k, unit) web_action" where
  "wt_on_ice_candidate u peer_connection ev_candidate =
     (case ev_candidate of
        Some cand \<Rightarrow>
          if peer_connection \<noteq> None then
            wt_update u (\<lambda>t. t\<lparr>wt_pending_candidates := wt_pending_candidates t @ [cand]\<rparr>)
          else sret ()
      | None \<Rightarrow> sret ())"

definition wt_on_data_channel :: "uuid \<Rightarrow> dc \<Rightarrow> ('c, 'k, unit) web_action" where
  "wt_on_data_channel u ch = smod (\<lambda>w. w\<lparr>ww_receivers := (ww_receivers w)(ch \<mapsto> u)\<rparr>)"

definition wt_on_message :: "('c, 'k) web_env \<Rightarrow> uuid \<Rightarrow> message_data \<Rightarrow> ('c, 'k, unit) web_action" where
  "wt_on_message X u data =
     (case message_bytes data of
        None \<Rightarrow> sret ()
      | Some msg \<Rightarrow>
          if msg = [] then sret ()
          else
            sbind (wt_read u) (\<lambda>t.
            sbind (sget (\<lambda>w. wb_now (we_web X) (ww_browser w))) (\<lambda>now.
              case chunk_from_bincode (we_chunk_unbin X) msg of
                Inl _ \<Rightarrow> sret ()
              | Inr chunk_item \<Rightarrow>
                  (case cl_handle now chunk_item (wt_chunk_list t) of (data, l) \<Rightarrow>
                     sbind (wt_update u (\<lambda>t. t\<lparr>wt_chunk_list := l\<rparr>)) (\<lambda>_.
                       case data of
                         None \<Rightarrow> sret ()
                       | Some data \<Rightarrow>
                           sbind (attempt (wt_emit (wt_event_sender t) (DataChannelMessage data))) (\<lambda>_.
                             sret ()))))))"

text \<open>What the browser reports, given to the handler that is set for it.\<close>

datatype 'k web_event =
    StateEvent pc string
  | CandidateEvent pc "'k option"
  | DataChannelEvent pc dc
  | MessageEvent dc message_data

definition wt_callback :: "('c, 'k) web_env \<Rightarrow> 'k web_event \<Rightarrow> ('c, 'k, unit) web_action" where
  "wt_callback X e w =
     (case e of
        StateEvent p ty \<Rightarrow>
          (case ww_states w p of
             Some (ReportState u c) \<Rightarrow> wt_on_ice_connection_state_change X u c ty w | _ \<Rightarrow> sret () w)
      | CandidateEvent p k \<Rightarrow>
          (case ww_candidates w p of Some (u, c) \<Rightarrow> wt_on_ice_candidate u c k w | None \<Rightarrow> sret () w)
      | DataChannelEvent p d \<Rightarrow>
          (case ww_data_channels w p of Some u \<Rightarrow> wt_on_data_channel u d w | None \<Rightarrow> sret () w)
      | MessageEvent d data \<Rightarrow>
          (case ww_receivers w d of Some u \<Rightarrow> wt_on_message X u data w | None \<Rightarrow> sret () w))"

subsection \<open>Descriptions and candidates\<close>

text \<open>The argument converts into a description before it is used; the conversion of a wrapper may panic.\<close>

definition wt_set_local_description :: "('c, 'k) web_env \<Rightarrow> sdp_wrapper \<Rightarrow> uuid \<Rightarrow> ('c, 'k, unit) web_action" where
  "wt_set_local_description X desc u =
     wt_with_connection u (\<lambda>c.
     sbind (slift (description_of (wb_new_description (we_web X)) desc)) (\<lambda>sdp.
       let offer_obj = \<lparr>sd_type = sd_type sdp, sd_sdp = sd_sdp sdp\<rparr> in
       web_or RTCPeerConnectionSetLocalDescFailed (wb_set_local (we_web X) offer_obj c)))"

definition wt_set_remote_description :: "('c, 'k) web_env \<Rightarrow> sdp_wrapper \<Rightarrow> uuid \<Rightarrow> ('c, 'k, unit) web_action" where
  "wt_set_remote_description X desc u =
     wt_with_connection u (\<lambda>c.
     sbind (slift (description_of (wb_new_description (we_web X)) desc)) (\<lambda>sdp.
       let offer_obj = \<lparr>sd_type = sd_type sdp, sd_sdp = sd_sdp sdp\<rparr> in
       web_or RTCPeerConnectionSetRemoteDescFailed (wb_set_remote (we_web X) offer_obj c)))"

definition wt_add_ice_candidate :: "('c, 'k) web_env \<Rightarrow> ice_candidate \<Rightarrow> uuid \<Rightarrow> ('c, 'k, unit) web_action" where
  "wt_add_ice_candidate X cand u =
     wt_with_connection u (\<lambda>c.
       web_or RTCPeerConnectionAddIceCandidateError (wb_add_ice_candidate (we_web X) cand c))"

text \<open>A task whose promise is never completed stays suspended (\<open>suspended\<close>).\<close>

definition gather_callback :: "gathering_state \<Rightarrow> promise_state \<Rightarrow> promise_state" where
  "gather_callback st s = (case st of GatherComplete \<Rightarrow> promise_settle True s | _ \<Rightarrow> s)"

definition wt_gather_complete_promise :: "uuid \<Rightarrow> ('c, 'k, promise_state) web_action" where
  "wt_gather_complete_promise u = wt_with_connection u (\<lambda>conn. sret promise_default)"

fun wt_candidates :: "('c, 'k) web_env \<Rightarrow> pc \<Rightarrow> 'k option list \<Rightarrow> ('c, 'k, unit) web_action" where
  "wt_candidates X p [] = sret ()"
| "wt_candidates X p (k # ks) = sbind (wt_callback X (CandidateEvent p k)) (\<lambda>_. wt_candidates X p ks)"

definition wt_await_gathering :: "('c, 'k) web_env \<Rightarrow> pc \<Rightarrow> promise_state \<Rightarrow> ('c, 'k, unit) web_action" where
  "wt_await_gathering X p promise =
     sbind (web (wb_gather (we_web X) p)) (\<lambda>(ks, es).
     sbind (wt_candidates X p ks) (\<lambda>_.
       slift (suspended (promise_await gather_callback es promise))))"

definition wt_get_answer :: "('c, 'k) web_env \<Rightarrow> uuid \<Rightarrow> ('c, 'k, rtc_sdp) web_action" where
  "wt_get_answer X u =
     wt_with_connection u (\<lambda>c.
     sbind (web_or RTCPeerConnectionCreateAnswerFailed (wb_create_answer (we_web X) c)) (\<lambda>answer.
     sbind (wt_set_local_description X (wrapper_of answer) u) (\<lambda>_.
     sbind (wt_gather_complete_promise u) (\<lambda>promise.
     sbind (wt_await_gathering X c promise) (\<lambda>_.
       sret answer)))))"

definition wt_get_offer :: "('c, 'k) web_env \<Rightarrow> uuid \<Rightarrow> ('c, 'k, rtc_sdp) web_action" where
  "wt_get_offer X u =
     wt_with_connection u (\<lambda>c.
     sbind (web_or RTCPeerConnectionCreateOfferFailed (wb_create_offer (we_web X) c)) (\<lambda>offer.
     sbind (wt_set_local_description X (wrapper_of offer) u) (\<lambda>_.
     sbind (wt_gather_complete_promise u) (\<lambda>promise.
     sbind (wt_await_gathering X c promise) (\<lambda>_.
       sret offer)))))"

subsection \<open>Creation and closing\<close>

definition wt_uuid :: "('c, 'k) web_env \<Rightarrow> ('c, 'k) web_world \<Rightarrow> uuid \<times> ('c, 'k) web_world" where
  "wt_uuid X w = (case wb_uuid (we_web X) (ww_browser w) of (u, c) \<Rightarrow> (u, w\<lparr>ww_browser := c\<rparr>))"

definition wt_now :: "('c, 'k) web_env \<Rightarrow> ('c, 'k) web_world \<Rightarrow> u128" where
  "wt_now X w = wb_now (we_web X) (ww_browser w)"

definition wt_new :: "('c, 'k) web_env \<Rightarrow> did \<Rightarrow> ('c, 'k) web_world \<Rightarrow> uuid \<times> ('c, 'k) web_world" where
  "wt_new X event_sender w =
     (case wt_uuid X w of (u, w) \<Rightarrow>
        (u, w\<lparr>ww_transports := (ww_transports w)(u \<mapsto>
               \<lparr>wt_connection = None, wt_pending_candidates = [], wt_channel = None,
                wt_event_sender = event_sender, wt_public_key = None, wt_chunk_list = []\<rparr>)\<rparr>))"

definition wt_setup_channel :: "('c, 'k) web_env \<Rightarrow> string \<Rightarrow> uuid \<Rightarrow> ('c, 'k, unit) web_action" where
  "wt_setup_channel X name u =
     sbind (wt_get_peer_connection u) (\<lambda>connection.
       case connection of
         Some conn \<Rightarrow>
           sbind (web (wb_create_data_channel (we_web X) name conn)) (\<lambda>channel.
             wt_update u (\<lambda>t. t\<lparr>wt_channel := Some channel\<rparr>))
       | None \<Rightarrow> sret ())"

text \<open>A connection that cannot be made is not an error: the transport stays without one.\<close>

definition wt_start ::
  "('c, 'k) web_env \<Rightarrow> ice_server list \<Rightarrow> string option \<Rightarrow> uuid \<Rightarrow> ('c, 'k, unit) web_action" where
  "wt_start X ice_server external_ip u =
     (let config = \<lparr>wc_ice_servers = map js_ice_server_of ice_server, wc_candidate_pool_size = 10\<rparr> in
      sbind (web (wb_new_peer_connection (we_web X) config)) (\<lambda>c.
      sbind (wt_update u (\<lambda>t. t\<lparr>wt_connection := c\<rparr>)) (\<lambda>_.
        wt_setup_channel X ''rings'' u)))"

definition wt_apply_callback :: "uuid \<Rightarrow> ('c, 'k, unit) web_action" where
  "wt_apply_callback u =
     sbind (wt_get_peer_connection u) (\<lambda>captured.
     wt_with_connection u (\<lambda>c.
       smod (\<lambda>w. w\<lparr>ww_candidates := (ww_candidates w)(c \<mapsto> (u, captured)),
                    ww_data_channels := (ww_data_channels w)(c \<mapsto> u),
                    ww_states := (ww_states w)(c \<mapsto> ReportState u captured)\<rparr>)))"

definition wt_close :: "('c, 'k) web_env \<Rightarrow> uuid \<Rightarrow> ('c, 'k, unit) web_action" where
  "wt_close X u =
     sbind (wt_get_peer_connection u) (\<lambda>pc.
       case pc of
         Some pc \<Rightarrow> web (\<lambda>c. ((), wb_close (we_web X) pc c))
       | None \<Rightarrow> sret ())"

subsection \<open>State\<close>

definition wt_pubkey :: "uuid \<Rightarrow> ('c, 'k, public_key) web_action" where
  "wt_pubkey u = sbind (wt_read u) (\<lambda>t. slift (ok_or (wt_public_key t) (Panicked ''unwrap'')))"

definition wt_ice_connection_state :: "('c, 'k) web_env \<Rightarrow> ('c, 'k) web_world \<Rightarrow> uuid \<Rightarrow> ice_state option" where
  "wt_ice_connection_state X w u =
     map_option (wb_ice_state (we_web X) (ww_browser w)) (Option.bind (ww_transports w u) wt_connection)"

definition wt_is_connected :: "('c, 'k) web_env \<Rightarrow> ('c, 'k) web_world \<Rightarrow> uuid \<Rightarrow> bool" where
  "wt_is_connected X w u =
     (case wt_ice_connection_state X w u of Some s \<Rightarrow> s = IceConnected | None \<Rightarrow> False)"

definition wt_is_disconnected :: "('c, 'k) web_env \<Rightarrow> ('c, 'k) web_world \<Rightarrow> uuid \<Rightarrow> bool" where
  "wt_is_disconnected X w u =
     (case wt_ice_connection_state X w u of
        Some IceFailed \<Rightarrow> True
      | Some IceDisconnected \<Rightarrow> True
      | Some IceClosed \<Rightarrow> True
      | _ \<Rightarrow> False)"

subsection \<open>Messages\<close>

fun wt_send_chunks :: "('c, 'k) web_env \<Rightarrow> dc \<Rightarrow> chunk list \<Rightarrow> ('c, 'k, unit) web_action" where
  "wt_send_chunks X d [] = sret ()"
| "wt_send_chunks X d (c # cs) =
     sbind (slift (chunk_to_bincode (we_chunk_bin X) c)) (\<lambda>bytes.
     sbind (web_or RTCDataChannelSendTextFailed (wb_send (we_web X) bytes d)) (\<lambda>_.
       wt_send_chunks X d cs))"

definition wt_send_message :: "('c, 'k) web_env \<Rightarrow> bytes \<Rightarrow> uuid \<Rightarrow> ('c, 'k, unit) web_action" where
  "wt_send_message X msg u =
     (if length msg > TRANSPORT_MAX_SIZE then serr MessageTooLarge
      else
        sbind (wt_get_data_channel u) (\<lambda>d.
        sbind (slift (ok_or d RTCDataChannelNotReady)) (\<lambda>d.
        sbind (web (wb_uuid (we_web X))) (\<lambda>fresh.
        sbind (sget (wt_now X)) (\<lambda>now.
          wt_send_chunks X d (cl_from_bytes TRANSPORT_MTU (ChunkMeta_default fresh now) msg))))))"

subsection \<open>Handshake\<close>

definition wt_get_handshake_info ::
  "('c, 'k) web_env \<Rightarrow> session_with_key \<Rightarrow> sdp_type \<Rightarrow> uuid \<Rightarrow> ('c, 'k, encoded) web_action" where
  "wt_get_handshake_info X session_manager kind u =
     sbind (case kind of
              Answer \<Rightarrow> wt_get_answer X u
            | Offer \<Rightarrow> wt_get_offer X u
            | _ \<Rightarrow> serr RTCSdpTypeNotMatch) (\<lambda>sdp.
     sbind (wt_get_pending_candidates u) (\<lambda>candidates.
     sbind (slift (candidates_to_json (we_candidate_json X) candidates)) (\<lambda>local_candidates_json.
       if local_candidates_json = [] then serr FailedOnGatherLocalCandidate
       else
         sbind (slift (ok_or (we_sdp_json X (wrapper_of sdp)) DeserializeError)) (\<lambda>sdp w.
           let data = \<lparr>tp_sdp = sdp, tp_candidates = local_candidates_json\<rparr>;
               fake_did = sm_authorizer session_manager
           in case wt_uuid X w of (tx, w) \<Rightarrow>
             (rbind (MessagePayload_new_send (we_ecc X) (we_json X) (wt_now X w) tx data
                       session_manager fake_did fake_did)
                (pl_encode (we_codec X) (we_bin X)), w)))))"

fun wt_add_candidates :: "('c, 'k) web_env \<Rightarrow> ice_candidate list \<Rightarrow> uuid \<Rightarrow> ('c, 'k, unit) web_action" where
  "wt_add_candidates X [] u = sret ()"
| "wt_add_candidates X (c # cs) u =
     sbind (attempt (wt_add_ice_candidate X c u)) (\<lambda>_. wt_add_candidates X cs u)"

definition wt_register_remote_info :: "('c, 'k) web_env \<Rightarrow> encoded \<Rightarrow> uuid \<Rightarrow> ('c, 'k, did) web_action" where
  "wt_register_remote_info X enc u =
     sbind (slift (pl_from_encoded (we_codec X) (we_unbin X) enc)) (\<lambda>data.
     sbind (sget (wt_now X)) (\<lambda>now.
       if pl_verify (we_ecc X) (we_json X) now data then
         sbind (case session_authorizer_pubkey (we_ecc X) (mv_session (pl_origin_verification data)) of
                  Inr public_key \<Rightarrow> wt_update u (\<lambda>t. t\<lparr>wt_public_key := Some public_key\<rparr>)
                | Inl _ \<Rightarrow> sret ()) (\<lambda>_.
         sbind (slift (wrapper_try_from (we_sdp_of_json X) (tp_sdp (pl_data data)))) (\<lambda>sdp.
         sbind (wt_set_remote_description X sdp u) (\<lambda>_.
         sbind (wt_add_candidates X (tp_candidates (pl_data data)) u) (\<lambda>_.
           sret (pl_addr data)))))
       else serr VerifySignatureFailed))"

subsection \<open>Waiting\<close>

text \<open>The handler of \<open>onopen\<close> reads the state of the channel when it is called.\<close>

definition open_callback :: "dc_state \<Rightarrow> promise_state \<Rightarrow> promise_state" where
  "open_callback st s = (case st of DcOpen \<Rightarrow> promise_settle True s | _ \<Rightarrow> s)"

definition wt_wait_for_data_channel_open :: "('c, 'k) web_env \<Rightarrow> uuid \<Rightarrow> ('c, 'k, unit) web_action" where
  "wt_wait_for_data_channel_open X u =
     sbind (wt_get_data_channel u) (\<lambda>d.
       case d of
         Some dc \<Rightarrow>
           sbind (sget (\<lambda>w. wb_ready_state (we_web X) (ww_browser w) dc)) (\<lambda>ready_state.
             if ready_state = DcOpen then sret ()
             else
               sbind (web (wb_await_open (we_web X) dc)) (\<lambda>es.
                 slift (suspended (promise_await open_callback es promise_default))))
       | None \<Rightarrow> serr RTCDataChannelNotReady)"

definition settle_callback :: "state_argument \<Rightarrow> promise_state \<Rightarrow> promise_state" where
  "settle_callback st s =
     (case st of
        StateString IceConnected \<Rightarrow> promise_settle True s
      | StateString IceFailed \<Rightarrow> promise_settle False s
      | _ \<Rightarrow> s)"

definition wt_connect_success_promise :: "uuid \<Rightarrow> ('c, 'k, promise_state) web_action" where
  "wt_connect_success_promise u =
     wt_with_connection u (\<lambda>conn.
     sbind (smod (\<lambda>w. w\<lparr>ww_states := (ww_states w)(conn \<mapsto> SettleWait)\<rparr>)) (\<lambda>_.
       sret promise_default))"

definition wt_wait_for_connected :: "('c, 'k) web_env \<Rightarrow> uuid \<Rightarrow> ('c, 'k, unit) web_action" where
  "wt_wait_for_connected X u =
     sbind (wt_connect_success_promise u) (\<lambda>promise.
     wt_with_connection u (\<lambda>conn.
     sbind (web (wb_await_state (we_web X) conn)) (\<lambda>es.
       slift (suspended (promise_await settle_callback es promise)))))"

section \<open>The transport as the node sees it\<close>

definition wt_recv :: "did \<Rightarrow> ('c, 'k, event option) web_action" where
  "wt_recv d w =
     (case cb_recv (ww_channels w d) of (r, c) \<Rightarrow> (r, w\<lparr>ww_channels := (ww_channels w)(d := c)\<rparr>))"

definition wasm_ops :: "('c, 'k) web_env \<Rightarrow> ('c, 'k) web_world transport_ops" where
  "wasm_ops X = \<lparr>tr_new = wt_new X, tr_start = wt_start X, tr_apply_callback = wt_apply_callback,
     tr_close = wt_close X, tr_is_connected = wt_is_connected X,
     tr_is_disconnected = wt_is_disconnected X, tr_send_message = wt_send_message X,
     tr_wait_for_data_channel_open = wt_wait_for_data_channel_open X,
     tr_get_handshake_info = wt_get_handshake_info X,
     tr_register_remote_info = wt_register_remote_info X,
     tr_recv = wt_recv, tr_now = wt_now X, tr_uuid = wt_uuid X\<rparr>"

lemma wasm_ops_simps [simp]:
  "tr_new (wasm_ops X) = wt_new X" "tr_start (wasm_ops X) = wt_start X"
  "tr_apply_callback (wasm_ops X) = wt_apply_callback" "tr_close (wasm_ops X) = wt_close X"
  "tr_is_connected (wasm_ops X) = wt_is_connected X"
  "tr_is_disconnected (wasm_ops X) = wt_is_disconnected X"
  "tr_send_message (wasm_ops X) = wt_send_message X"
  "tr_wait_for_data_channel_open (wasm_ops X) = wt_wait_for_data_channel_open X"
  "tr_get_handshake_info (wasm_ops X) = wt_get_handshake_info X"
  "tr_register_remote_info (wasm_ops X) = wt_register_remote_info X"
  "tr_recv (wasm_ops X) = wt_recv" "tr_now (wasm_ops X) = wt_now X" "tr_uuid (wasm_ops X) = wt_uuid X"
  by (simp_all add: wasm_ops_def)

end
