(* ===== verification/Connections.thy ===== *)
theory Connections
  imports Transport
begin

text \<open>
  What the transports over a stack of peer connections share, native or of a browser: each
  transport holds one connection of the stack, and the operations of the interface obey its
  laws because the stack's operations touch only the connection they are called on. \<open>live\<close> are
  the connections the stack has handed out.
\<close>

definition ice_up :: "ice_state \<Rightarrow> bool" where
  "ice_up s \<longleftrightarrow> s = IceConnected"

definition ice_down :: "ice_state \<Rightarrow> bool" where
  "ice_down s \<longleftrightarrow> s \<in> {IceFailed, IceDisconnected, IceClosed}"

definition conns_same :: "('c \<Rightarrow> nat \<Rightarrow> ice_state) \<Rightarrow> ('c \<Rightarrow> nat \<Rightarrow> bool) \<Rightarrow> nat set \<Rightarrow> 'c \<Rightarrow> 'c \<Rightarrow> bool" where
  "conns_same state live but c c' \<longleftrightarrow>
     (\<forall>p. live c p \<longrightarrow> live c' p \<and> (p \<notin> but \<longrightarrow>
        ice_up (state c' p) = ice_up (state c p) \<and> ice_down (state c' p) = ice_down (state c p)))"

lemma conns_same_refl [simp]: "conns_same state live P c c"
  by (simp add: conns_same_def)

text \<open>Every connection in use is live, and no two transports share one.\<close>

definition conns_ok :: "('w \<Rightarrow> uuid \<Rightarrow> nat option) \<Rightarrow> ('w \<Rightarrow> 'c) \<Rightarrow> ('c \<Rightarrow> nat \<Rightarrow> bool) \<Rightarrow> 'w \<Rightarrow> bool" where
  "conns_ok conn stack live w \<longleftrightarrow> (\<forall>u p. conn w u = Some p \<longrightarrow> live (stack w) p)
     \<and> (\<forall>u v p. conn w u = Some p \<longrightarrow> conn w v = Some p \<longrightarrow> u = v)"

definition conns_known ::
  "('w \<Rightarrow> uuid \<Rightarrow> nat option) \<Rightarrow> ('w \<Rightarrow> 'c) \<Rightarrow> ('c \<Rightarrow> nat \<Rightarrow> bool) \<Rightarrow> 'w \<Rightarrow> uuid \<Rightarrow> bool" where
  "conns_known conn stack live w u \<longleftrightarrow> conns_ok conn stack live w \<and> conn w u \<noteq> None"

definition conns_links ::
  "'w transport_ops \<Rightarrow> ('w \<Rightarrow> uuid \<Rightarrow> nat option) \<Rightarrow> ('w \<Rightarrow> 'c) \<Rightarrow> ('c \<Rightarrow> nat \<Rightarrow> bool) \<Rightarrow> uuid set
     \<Rightarrow> 'w \<Rightarrow> 'w \<Rightarrow> bool" where
  "conns_links T conn stack live B w w' \<longleftrightarrow> (conns_ok conn stack live w \<longrightarrow> conns_ok conn stack live w' \<and>
     (\<forall>u. conn w u \<noteq> None \<longrightarrow> conn w' u \<noteq> None \<and> (u \<notin> B \<longrightarrow>
        tr_is_connected T w' u = tr_is_connected T w u \<and> tr_is_disconnected T w' u = tr_is_disconnected T w u)))"

text \<open>\<open>link_rules\<close>: actions that keep the links, one rule per combinator and operation.\<close>

named_theorems link_rules

locale connection_table =
  fixes T :: "'w transport_ops" and conn :: "'w \<Rightarrow> uuid \<Rightarrow> nat option" and stack :: "'w \<Rightarrow> 'c"
    and state :: "'c \<Rightarrow> nat \<Rightarrow> ice_state" and live :: "'c \<Rightarrow> nat \<Rightarrow> bool"
  assumes connected: "tr_is_connected T w u =
      (case conn w u of None \<Rightarrow> False | Some p \<Rightarrow> ice_up (state (stack w) p))"
    and disconnected: "tr_is_disconnected T w u =
      (case conn w u of None \<Rightarrow> False | Some p \<Rightarrow> ice_down (state (stack w) p))"
begin

lemma up_not_down: "tr_is_connected T w u \<Longrightarrow> \<not> tr_is_disconnected T w u"
  by (auto simp: connected disconnected ice_up_def ice_down_def split: option.splits)

lemma links_same_links:
  "conns_links T conn stack live B w w' \<Longrightarrow> same_links (conns_known conn stack live) T B w w'"
  by (simp add: conns_links_def same_links_def conns_known_def)

lemma links_refl: "reflp (conns_links T conn stack live B)"
  by (simp add: reflp_def conns_links_def)

lemma links_trans: "transp (conns_links T conn stack live B)"
  by (rule transpI) (simp add: conns_links_def)

text \<open>A change that keeps every transport's connection and moves the stack by the laws.\<close>

lemma same_conns_links:
  assumes "\<And>v. conn w' v = conn w v" "conns_same state live P (stack w) (stack w')"
    and "\<And>v p. p \<in> P \<Longrightarrow> conn w v = Some p \<Longrightarrow> v \<in> B"
  shows "conns_links T conn stack live B w w'"
  using assms
  by (fastforce simp: conns_links_def connected disconnected conns_ok_def conns_same_def split: option.splits)

lemma still_links:
  assumes "\<And>v. conn w' v = conn w v" "conns_same state live {} (stack w) (stack w')"
  shows "conns_links T conn stack live B w w'"
  by (rule same_conns_links [OF assms]) simp_all

lemma own_conn_links:
  assumes "conn w u = Some p" "\<And>v. conn w' v = conn w v" "conns_same state live {p} (stack w) (stack w')"
  shows "conns_links T conn stack live {u} w w'"
proof (cases "conns_ok conn stack live w")
  case True
  then have "conn w v = Some p \<Longrightarrow> v = u" for v using assms(1) by (simp add: conns_ok_def)
  then show ?thesis by (intro same_conns_links [where P = "{p}"]) (use assms in auto)
qed (simp add: conns_links_def)

text \<open>A new transport has no connection yet; starting gives it one the stack has not handed out.\<close>

lemma fresh_links:
  assumes "conns_links T conn stack live {} w w1" "\<not> conns_known conn stack live w u"
    and "\<And>v. conn w' v = (if v = u then None else conn w1 v)" "stack w' = stack w1"
  shows "same_links (conns_known conn stack live) T {u} w w'"
  unfolding same_links_def
proof (intro allI impI)
  fix v assume v: "conns_known conn stack live w v"
  then have ok: "conns_ok conn stack live w1" and some: "conn w1 v \<noteq> None"
    and same: "tr_is_connected T w1 v = tr_is_connected T w v"
      "tr_is_disconnected T w1 v = tr_is_disconnected T w v"
    using assms(1) by (simp_all add: conns_known_def conns_links_def)
  have "v \<noteq> u" using v assms(2) by auto
  moreover have "conns_ok conn stack live w'"
    using ok by (auto simp: conns_ok_def assms(3,4) split: if_splits)
  ultimately show "conns_known conn stack live w' v \<and> (v \<notin> {u} \<longrightarrow>
      tr_is_connected T w' v = tr_is_connected T w v \<and> tr_is_disconnected T w' v = tr_is_disconnected T w v)"
    using some same by (simp add: conns_known_def assms(3,4) connected disconnected cong: option.case_cong)
qed

lemma started_links:
  assumes "conns_same state live {} (stack w) (stack w')" "\<not> live (stack w) p" "live (stack w') p"
    and "\<And>v. conn w' v = (if v = u \<and> E then Some p else conn w v)"
  shows "conns_links T conn stack live {u} w w'"
proof -
  have old: "live (stack w) q \<Longrightarrow> live (stack w') q \<and> q \<noteq> p" for q
    using assms(1,2) by (auto simp: conns_same_def)
  have "conns_ok conn stack live w'" if "conns_ok conn stack live w"
    using that assms(3) old unfolding conns_ok_def assms(4) by (simp split: if_splits) metis
  moreover have "tr_is_connected T w' v = tr_is_connected T w v
      \<and> tr_is_disconnected T w' v = tr_is_disconnected T w v" if "conns_ok conn stack live w" "v \<noteq> u" for v
    using that assms(1)
    by (auto simp: connected disconnected assms(4) conns_ok_def conns_same_def split: option.split)
  ultimately show ?thesis by (simp add: conns_links_def assms(4))
qed

lemma closed_disconnected:
  assumes "conn w u = Some p" "conn w' u = Some p" "state (stack w') p = IceClosed"
  shows "tr_is_disconnected T w' u"
  using assms by (simp add: disconnected ice_down_def)

text \<open>The combinators.\<close>

lemma link_pure [link_rules]:
  "keeps (conns_links T conn stack live B) (sret x)" "keeps (conns_links T conn stack live B) (serr e)"
  "keeps (conns_links T conn stack live B) (slift r)" "keeps (conns_links T conn stack live B) (sget g)"
  using links_refl by (simp_all add: keeps_def reflpD)

lemma link_reader [link_rules]: "keeps (conns_links T conn stack live B) (\<lambda>w. (f w, w))"
  using links_refl by (simp add: keeps_def reflpD)

lemma link_bind [link_rules]:
  assumes "keeps (conns_links T conn stack live B) m" "\<And>x. keeps (conns_links T conn stack live B) (f x)"
  shows "keeps (conns_links T conn stack live B) (sbind m f)"
  by (rule keeps_sbind [OF links_trans assms])

lemma link_tried [link_rules]:
  "keeps (conns_links T conn stack live B) m \<Longrightarrow> keeps (conns_links T conn stack live B) (attempt m)"
  by (rule keeps_attempt)

lemma link_step:
  assumes "\<And>w v. conn (snd (m w)) v = conn w v" "\<And>w. conns_same state live {} (stack w) (stack (snd (m w)))"
  shows "keeps (conns_links T conn stack live B) m"
  unfolding keeps_def by (intro allI still_links assms)

end

lemma keeps_cases [link_rules]:
  "(\<And>x. keeps R (f x)) \<Longrightarrow> keeps R g \<Longrightarrow> keeps R (case y of None \<Rightarrow> g | Some x \<Rightarrow> f x)"
  "(\<And>a. keeps R (h a)) \<Longrightarrow> (\<And>b. keeps R (k b)) \<Longrightarrow> keeps R (case z of Inl a \<Rightarrow> h a | Inr b \<Rightarrow> k b)"
  "(\<And>a b. keeps R (m a b)) \<Longrightarrow> keeps R (case q of (a, b) \<Rightarrow> m a b)"
  "keeps R c1 \<Longrightarrow> keeps R c2 \<Longrightarrow> keeps R (if P then c1 else c2)"
  by (auto split: option.split sum.split prod.split)

end
