(* ===== verification/WebRTCProps.thy ===== *)
theory WebRTCProps
  imports WebRTC Connections
begin

text \<open>
  The WebRTC transport obeys the laws of the interface, given what the \<open>webrtc\<close> crate
  documents of its connections; and what its handshake, its messages and its waits do.
\<close>

section \<open>The laws of the stack\<close>

text \<open>
  An operation on one connection leaves the others as connected or disconnected as they were;
  only a new description, a candidate or closing changes the one it is called on. Changes the
  network causes are reported as events.
\<close>

definition rtc_ok :: "('c, 'k) rtc_ops \<Rightarrow> ('c \<Rightarrow> pc \<Rightarrow> bool) \<Rightarrow> bool" where
  "rtc_ok S live \<longleftrightarrow> (let same = conns_same (rt_ice_state S) live in
     (\<forall>cfg c r c'. rt_new_peer_connection S cfg c = (r, c') \<longrightarrow> same {} c c'
        \<and> (\<forall>p. r = Some p \<longrightarrow> \<not> live c p \<and> live c' p))
   \<and> (\<forall>name p c. same {} c (snd (rt_create_data_channel S name p c)))
   \<and> (\<forall>p c. same {} c (snd (rt_create_offer S p c)))
   \<and> (\<forall>p c. same {} c (snd (rt_create_answer S p c)))
   \<and> (\<forall>sdp p c. same {} c (snd (rt_set_local S sdp p c)))
   \<and> (\<forall>p c. same {} c (snd (rt_gather S p c)))
   \<and> (\<forall>sdp p c. same {p} c (snd (rt_set_remote S sdp p c)))
   \<and> (\<forall>cand p c. same {p} c (snd (rt_add_ice_candidate S cand p c)))
   \<and> (\<forall>p c. same {p} c (snd (rt_close S p c))
        \<and> (live c p \<longrightarrow> rt_ice_state S (snd (rt_close S p c)) p = IceClosed))
   \<and> (\<forall>bs d c. same {} c (snd (rt_send S bs d c)))
   \<and> (\<forall>d c. same {} c (snd (rt_await_open S d c)))
   \<and> (\<forall>c. same {} c (snd (rt_uuid S c))))"

lemma rtc_okD:
  assumes "rtc_ok S live"
  shows "conns_same (rt_ice_state S) live {} c (snd (rt_create_data_channel S name p c))"
    "conns_same (rt_ice_state S) live {} c (snd (rt_create_offer S p c))"
    "conns_same (rt_ice_state S) live {} c (snd (rt_create_answer S p c))"
    "conns_same (rt_ice_state S) live {} c (snd (rt_set_local S sdp p c))"
    "conns_same (rt_ice_state S) live {} c (snd (rt_gather S p c))"
    "conns_same (rt_ice_state S) live {} c (snd (rt_send S bs d c))"
    "conns_same (rt_ice_state S) live {} c (snd (rt_await_open S d c))"
    "conns_same (rt_ice_state S) live {} c (snd (rt_uuid S c))"
  using assms by (simp_all add: rtc_ok_def Let_def)

lemma rtc_ok_own:
  assumes "rtc_ok S live"
  shows "conns_same (rt_ice_state S) live {p} c (snd (rt_set_remote S sdp p c))"
    "conns_same (rt_ice_state S) live {p} c (snd (rt_add_ice_candidate S cand p c))"
    "conns_same (rt_ice_state S) live {p} c (snd (rt_close S p c))"
    "live c p \<Longrightarrow> rt_ice_state S (snd (rt_close S p c)) p = IceClosed"
  using assms by (simp_all add: rtc_ok_def Let_def)

section \<open>Connections of transports\<close>

definition df_pc :: "('c, 'k) rtc_world \<Rightarrow> uuid \<Rightarrow> pc option" where
  "df_pc w u = Option.bind (fw_transports w u) df_connection"

interpretation native: connection_table "default_ops X" df_pc fw_stack "rt_ice_state (fe_rtc X)" live for X live
  by unfold_locales
     (auto simp: df_is_connected_def df_is_disconnected_def df_ice_connection_state_def df_pc_def
        ice_up_def ice_down_def split: option.splits ice_state.splits)

abbreviation df_known where
  "df_known \<equiv> conns_known df_pc fw_stack"

abbreviation df_links where
  "df_links X live \<equiv> conns_links (default_ops X) df_pc fw_stack live"

lemma rtc_snd: "snd (rtc f w) = w\<lparr>fw_stack := snd (f (fw_stack w))\<rparr>"
  by (simp add: rtc_def split: prod.split)

lemma rtc_or_snd: "snd (rtc_or e f w) = w\<lparr>fw_stack := snd (f (fw_stack w))\<rparr>"
  by (simp add: rtc_or_def rtc_def sbind_def split: prod.split)

lemma df_pc_simps [simp]:
  "df_pc (w\<lparr>fw_stack := c\<rparr>) = df_pc w" "df_pc (w\<lparr>fw_channels := ch\<rparr>) = df_pc w"
  "df_pc (w\<lparr>fw_callbacks := cb\<rparr>) = df_pc w" "df_pc (w\<lparr>fw_receivers := rc\<rparr>) = df_pc w"
  by (simp_all add: df_pc_def fun_eq_iff)

text \<open>One rule for each primitive, then for each operation.\<close>

lemma df_primitives [link_rules]:
  "(\<And>c. conns_same (rt_ice_state (fe_rtc X)) live {} c (snd (f c))) \<Longrightarrow> keeps (df_links X live B) (rtc f)"
  "(\<And>c. conns_same (rt_ice_state (fe_rtc X)) live {} c (snd (g c))) \<Longrightarrow> keeps (df_links X live B) (rtc_or e g)"
  "(\<And>t. df_connection (h t) = df_connection t) \<Longrightarrow> keeps (df_links X live B) (df_update u h)"
  "keeps (df_links X live B) (df_emit d ev)"
  "keeps (df_links X live B) (df_read u)"
  "keeps (df_links X live B) (smod (\<lambda>w. w\<lparr>fw_receivers := rc w\<rparr>))"
  "keeps (df_links X live B) (smod (\<lambda>w. w\<lparr>fw_callbacks := cb w\<rparr>))"
       apply (rule native.link_step; simp add: rtc_snd)
      apply (rule native.link_step; simp add: rtc_or_snd)
     apply (rule native.link_step; auto simp: df_update_def df_pc_def split: option.split bind_splits)
    apply (rule native.link_step; simp add: df_emit_def split: prod.split)
   apply (rule native.link_step; simp add: df_read_def)
  apply (rule native.link_step; simp)+
  done

lemma df_get_peer_connection_eq:
  "df_get_peer_connection u w =
     (case fw_transports w u of None \<Rightarrow> (Inl (Panicked ''dangling''), w) | Some t \<Rightarrow> (Inr (df_connection t), w))"
  by (simp add: df_get_peer_connection_def df_read_def sbind_def split: option.split)

lemma df_with_connection_eq:
  "df_with_connection u f w =
     (case fw_transports w u of
        None \<Rightarrow> (Inl (Panicked ''dangling''), w)
      | Some t \<Rightarrow> (case df_connection t of
                    None \<Rightarrow> (Inl RTCPeerConnectionNotEstablish, w) | Some p \<Rightarrow> f p w))"
  by (simp add: df_with_connection_def df_get_peer_connection_eq sbind_def split: option.split)

lemma keeps_with_connection:
  assumes "\<And>w p. df_pc w u = Some p \<Longrightarrow> df_links X live B w (snd (f p w))"
  shows "keeps (df_links X live B) (df_with_connection u f)"
  unfolding keeps_def df_with_connection_eq
  using assms native.links_refl [of X live B]
  by (auto simp: df_pc_def reflpD split: option.split)

lemma keeps_with_connection_all [link_rules]:
  "(\<And>p. keeps (df_links X live B) (f p)) \<Longrightarrow> keeps (df_links X live B) (df_with_connection u f)"
  by (rule keeps_with_connection) (simp add: keeps_def)

lemma keeps_df_get [link_rules]:
  "keeps (df_links X live B) (df_get_peer_connection u)"
  "keeps (df_links X live B) (df_get_pending_candidates u)"
  "keeps (df_links X live B) (df_get_data_channel u)"
  unfolding df_get_peer_connection_def df_get_pending_candidates_def df_get_data_channel_def
  by (intro link_rules)+

lemma keeps_df_candidate [link_rules]: "keeps (df_links X live B) (df_on_ice_candidate u conn c)"
  unfolding df_on_ice_candidate_def by (intro link_rules) simp

lemma keeps_df_callbacks [link_rules]:
  "keeps (df_links X live B) (df_on_ice_connection_state_change X u cs)"
  "keeps (df_links X live B) (df_on_data_channel u d)"
  "keeps (df_links X live B) (df_on_message X u msg)"
  unfolding df_on_ice_connection_state_change_def df_on_data_channel_def df_on_message_def Let_def
  subgoal by (cases cs; simp; intro link_rules)
  subgoal by (intro link_rules)
  subgoal by (intro link_rules; simp)
  done

lemma keeps_df_callback [link_rules]: "keeps (df_links X live B) (df_callback X e)"
  unfolding df_callback_def by (cases e; simp; intro link_rules)

lemma keeps_df_candidates [link_rules]: "keeps (df_links X live B) (df_candidates X p cs)"
  by (induction cs) (simp; intro link_rules)+

section \<open>The operations\<close>

lemma keeps_df_set_local:
  "rtc_ok (fe_rtc X) live \<Longrightarrow> keeps (df_links X live B) (df_set_local_description X desc u)"
  unfolding df_set_local_description_def by (intro link_rules rtc_okD)

lemma keeps_df_gather: "rtc_ok (fe_rtc X) live \<Longrightarrow> keeps (df_links X live B) (df_gather_complete X p)"
  unfolding df_gather_complete_def by (intro link_rules rtc_okD)

lemma keeps_df_offer_answer:
  assumes "rtc_ok (fe_rtc X) live"
  shows "keeps (df_links X live B) (df_get_offer X u)" "keeps (df_links X live B) (df_get_answer X u)"
  unfolding df_get_offer_def df_get_answer_def
  by (intro link_rules rtc_okD keeps_df_set_local keeps_df_gather assms)+

lemma keeps_df_send_chunks:
  "rtc_ok (fe_rtc X) live \<Longrightarrow> keeps (df_links X live B) (df_send_chunks X d cs)"
  by (induction cs) (simp_all add: Let_def, (intro link_rules rtc_okD; assumption)+)

lemma keeps_df_send:
  "rtc_ok (fe_rtc X) live \<Longrightarrow> keeps (df_links X live B) (df_send_message X msg u)"
  unfolding df_send_message_def by (intro link_rules rtc_okD keeps_df_send_chunks)

lemma keeps_df_wait:
  "rtc_ok (fe_rtc X) live \<Longrightarrow> keeps (df_links X live B) (df_wait_for_data_channel_open X u)"
  unfolding df_wait_for_data_channel_open_def by (intro link_rules rtc_okD)

lemma df_uuid_links:
  "rtc_ok (fe_rtc X) live \<Longrightarrow> df_links X live B w (snd (df_uuid X w))"
  by (rule native.still_links) (simp_all add: df_uuid_def rtc_okD split_beta)

lemma keeps_df_handshake:
  assumes "rtc_ok (fe_rtc X) live"
  shows "keeps (df_links X live B) (df_get_handshake_info X sm kind u)"
proof -
  have seal: "keeps (df_links X live B) (\<lambda>w. case df_uuid X w of (tx, w) \<Rightarrow> (g tx w, w))" for g :: "uuid \<Rightarrow> _ \<Rightarrow> encoded result"
    using df_uuid_links [OF assms] by (simp add: keeps_def split_beta)
  have "keeps (df_links X live B) (case kind of Answer \<Rightarrow> df_get_answer X u | Offer \<Rightarrow> df_get_offer X u
      | kind \<Rightarrow> sbind (df_get_offer X u) (\<lambda>sdp. sret (sdp\<lparr>sd_type := kind\<rparr>)))"
    using assms by (cases kind) (simp; intro link_rules keeps_df_offer_answer; assumption)+
  then show ?thesis
    unfolding df_get_handshake_info_def Let_def
    by (intro link_rules seal)
qed

lemma keeps_df_remote:
  assumes "rtc_ok (fe_rtc X) live"
  shows "keeps (df_links X live {u}) (df_set_remote_description X sdp u)"
    "keeps (df_links X live {u}) (df_add_ice_candidate X cand u)"
  unfolding df_set_remote_description_def df_add_ice_candidate_def
  by (auto intro!: keeps_with_connection native.own_conn_links simp: rtc_or_snd rtc_ok_own [OF assms])

lemma keeps_df_add_candidates:
  "rtc_ok (fe_rtc X) live \<Longrightarrow> keeps (df_links X live {u}) (df_add_candidates X cs u)"
  by (induction cs) (simp; intro link_rules keeps_df_remote; assumption)+

lemma keeps_df_register:
  "rtc_ok (fe_rtc X) live \<Longrightarrow> keeps (df_links X live {u}) (df_register_remote_info X enc u)"
  unfolding df_register_remote_info_def
  by (intro link_rules keeps_df_remote keeps_df_add_candidates; simp)

lemma df_close_snd:
  "snd (df_close X u w) = (case df_pc w u of None \<Rightarrow> w
     | Some p \<Rightarrow> w\<lparr>fw_stack := snd (rt_close (fe_rtc X) p (fw_stack w))\<rparr>)"
  by (auto simp: df_close_def df_get_peer_connection_eq df_pc_def sbind_def rtc_or_snd split: option.splits)

lemma df_start_links:
  assumes "rtc_ok (fe_rtc X) live"
  shows "df_links X live {u} w (snd (df_start X servers ext u w))"
proof -
  obtain r c where r: "rt_new_peer_connection (fe_rtc X) (rtc_config_of servers ext) (fw_stack w) = (r, c)"
    by fastforce
  then have same: "conns_same (rt_ice_state (fe_rtc X)) live {} (fw_stack w) c"
    and fresh: "\<And>p. r = Some p \<Longrightarrow> \<not> live (fw_stack w) p \<and> live c p"
    using assms by (auto simp: rtc_ok_def Let_def)
  show ?thesis
  proof (cases r)
    case None
    then have "snd (df_start X servers ext u w) = w\<lparr>fw_stack := c\<rparr>"
      using r by (simp add: df_start_def rtc_or_def rtc_def sbind_def)
    then show ?thesis by (simp, intro native.still_links) (simp_all add: same)
  next
    case (Some p)
    let ?w = "w\<lparr>fw_stack := c, fw_transports := (fw_transports w)
      (u := map_option (\<lambda>t. t\<lparr>df_connection := Some p\<rparr>) (fw_transports w u))\<rparr>"
    have "df_links X live {u} w ?w"
      by (rule native.started_links [where p = p and E = "fw_transports w u \<noteq> None"])
         (use same fresh [OF Some] in \<open>auto simp: df_pc_def\<close>)
    moreover have "keeps (df_links X live {u}) (df_setup_channel X ''rings'' u)"
      unfolding df_setup_channel_def by (intro link_rules rtc_okD assms) simp
    moreover have "snd (df_start X servers ext u w) = snd (df_setup_channel X ''rings'' u ?w)"
      using r Some by (simp add: df_start_def rtc_or_def rtc_def sbind_def df_update_def)
    ultimately show ?thesis using transpD [OF native.links_trans] by (metis keeps_def)
  qed
qed

text \<open>
  C16: the WebRTC transport obeys the laws of the transport interface that the node's
  guarantees rest on, for every \<open>webrtc\<close> stack whose operations touch only the connection they
  are called on: no operation of one transport takes down another, closing disconnects, and a
  transport once started keeps its connection.
\<close>

theorem webrtc_obeys_interface:
  assumes "rtc_ok (fe_rtc X) live"
  shows "transport_laws (default_ops X) (df_known live)"
proof (unfold_locales, goal_cases)
  case (1 w u) then show ?case by (rule native.up_not_down)
next
  case (2 w ch)
  obtain u w1 where u: "df_uuid X w = (u, w1)" by fastforce
  let ?t = "\<lparr>df_connection = None, df_pending_candidates = [], df_data_channel = None,
    df_event_sender = ch, df_public_key = None, df_chunk_list = []\<rparr>"
  have eq: "df_new X ch w = (u, w1\<lparr>fw_transports := (fw_transports w1)(u \<mapsto> ?t)\<rparr>)"
    by (simp add: df_new_def u)
  have "df_links X live {} w w1" using df_uuid_links [OF assms, of "{}" w] u by simp
  then show ?case
    using 2 unfolding default_ops_simps eq fst_conv snd_conv by (rule native.fresh_links) (simp_all add: df_pc_def)
next
  case 3 show ?case by (simp add: native.links_same_links df_start_links [OF assms])
next
  case (4 w u)
  have "keeps (df_links X live {}) (df_apply_callback u)" unfolding df_apply_callback_def by (intro link_rules)
  then show ?case by (simp add: keeps_def native.links_same_links)
next
  case (5 u w)
  have "df_links X live {u} w (snd (df_close X u w))"
  proof (cases "df_pc w u")
    case None
    then show ?thesis using reflpD [OF native.links_refl] by (simp add: df_close_snd)
  next
    case (Some p)
    show ?thesis unfolding df_close_snd Some option.case
      by (rule native.own_conn_links [OF Some]) (simp_all add: rtc_ok_own(3) [OF assms])
  qed
  then show ?case by (simp add: native.links_same_links)
next
  case (6 w u)
  then obtain p where p: "df_pc w u = Some p" "live (fw_stack w) p"
    by (auto simp: conns_known_def conns_ok_def)
  then show ?case
    using rtc_ok_own(4) [OF assms p(2)] by (intro native.closed_disconnected [where p = p]) (simp_all add: df_close_snd)
next
  case 7 show ?case using keeps_df_send [OF assms] by (simp add: keeps_def native.links_same_links)
next
  case 8 show ?case using keeps_df_wait [OF assms] by (simp add: keeps_def native.links_same_links)
next
  case 9 show ?case using keeps_df_handshake [OF assms] by (simp add: keeps_def native.links_same_links)
next
  case 10 show ?case using keeps_df_register [OF assms] by (simp add: keeps_def native.links_same_links)
next
  case 11 show ?case
    by (simp, rule native.links_same_links, rule native.still_links) (simp_all add: df_recv_def split_beta)
next
  case 12 show ?case by (simp add: native.links_same_links df_uuid_links [OF assms])
qed

section \<open>Messages\<close>

text \<open>\<open>log c d\<close>: the frames that the stack has accepted on data channel \<open>d\<close>.\<close>

definition rtc_logs :: "('c, 'k) rtc_ops \<Rightarrow> ('c \<Rightarrow> dc \<Rightarrow> bytes list) \<Rightarrow> bool" where
  "rtc_logs S log \<longleftrightarrow> (\<forall>c. log (snd (rt_uuid S c)) = log c)
     \<and> (\<forall>bs d c n c'. rt_send S bs d c = (Some n, c') \<longrightarrow> log c' d = log c d @ [bs])"

fun df_on_messages :: "('c, 'k) rtc_env \<Rightarrow> uuid \<Rightarrow> bytes list \<Rightarrow> ('c, 'k, unit) rtc_action" where
  "df_on_messages X u [] = sret ()"
| "df_on_messages X u (f # fs) = sbind (df_on_message X u f) (\<lambda>_. df_on_messages X u fs)"

lemma send_chunks_step:
  assumes "fe_chunk_bin X c = Some bs" "rt_send (fe_rtc X) bs d (fw_stack w) = (r, st)"
  shows "df_send_chunks X d (c # cs) w =
    (case r of
       Some s \<Rightarrow> if NOT s = word_of_nat (length bs)
           then (Inl (RTCDataChannelMessageIncomplete s (word_of_nat (length bs))), w\<lparr>fw_stack := st\<rparr>)
           else df_send_chunks X d cs (w\<lparr>fw_stack := st\<rparr>)
     | None \<Rightarrow> (Inl (if rt_dc_state (fe_rtc X) st d \<noteq> DcOpen then RTCDataChannelStateNotOpen
                 else RTCDataChannelSendTextFailed), w\<lparr>fw_stack := st\<rparr>))"
  using assms by (simp add: chunk_to_bincode_def rtc_def sbind_def Let_def split: option.split)

lemma send_chunks_logged:
  assumes "rtc_logs (fe_rtc X) log" "df_send_chunks X d cs w = (Inr (), w')"
  shows "\<exists>frames. map (fe_chunk_bin X) cs = map Some frames
    \<and> log (fw_stack w') d = log (fw_stack w) d @ frames"
  using assms(2)
proof (induction cs arbitrary: w)
  case Nil
  then show ?case by simp
next
  case (Cons c cs)
  obtain bs where bs: "fe_chunk_bin X c = Some bs"
    using Cons.prems by (cases "fe_chunk_bin X c") (simp_all add: chunk_to_bincode_def)
  obtain r st where r: "rt_send (fe_rtc X) bs d (fw_stack w) = (r, st)" by fastforce
  obtain n where n: "r = Some n" and rest: "df_send_chunks X d cs (w\<lparr>fw_stack := st\<rparr>) = (Inr (), w')"
    using Cons.prems send_chunks_step [OF bs r] by (simp split: option.splits if_splits)
  obtain frames where "map (fe_chunk_bin X) cs = map Some frames"
      "log (fw_stack w') d = log st d @ frames"
    using Cons.IH [OF rest] by auto
  moreover have "log st d = log (fw_stack w) d @ [bs]"
    using assms(1) r n by (simp add: rtc_logs_def)
  ultimately show ?case by (intro exI [of _ "bs # frames"]) (simp add: bs)
qed

lemma on_messages_deliver:
  assumes "list_all2 (\<lambda>f c. fe_chunk_unbin X f = Some c) frames cs"
    and "fw_transports r u = Some t" "\<not> ch_closed (fw_channels r (df_event_sender t))"
  shows "ch_queue (fw_channels (snd (df_on_messages X u frames r)) (df_event_sender t)) =
      ch_queue (fw_channels r (df_event_sender t)) @
        concat (map (case_option [] (\<lambda>data. [DataChannelMessage data]))
                  (fst (deliver (df_now X r) cs (df_chunk_list t))))"
  using assms
proof (induction frames cs arbitrary: r t rule: list_all2_induct)
  case Nil
  then show ?case by simp
next
  case (Cons f fs c cs)
  obtain data l where h: "cl_handle (df_now X r) c (df_chunk_list t) = (data, l)" by fastforce
  obtain rs l' where d: "deliver (df_now X r) cs l = (rs, l')" by fastforce
  let ?t = "t\<lparr>df_chunk_list := l\<rparr>"
  let ?e = "case_option [] (\<lambda>data. [DataChannelMessage data]) data"
  let ?ch = "fw_channels r (df_event_sender t)"
  let ?r = "snd (df_on_message X u f r)"
  have ok: "chunk_from_bincode (fe_chunk_unbin X) f = Inr c"
    using Cons.hyps(1) by (simp add: chunk_from_bincode_def)
  have step: "df_on_message X u f r = (Inr (), ?r)" "fw_transports ?r u = Some ?t"
      "fw_stack ?r = fw_stack r" "fw_channels ?r (df_event_sender t) = ?ch\<lparr>ch_queue := ch_queue ?ch @ ?e\<rparr>"
    using Cons.prems h
    by (cases data; simp add: df_on_message_def df_read_def df_update_def ok sbind_def attempt_def
        df_emit_def ch_send_def df_now_def)+
  have "df_now X ?r = df_now X r" using step(3) by (simp add: df_now_def)
  moreover have "df_on_messages X u (f # fs) r = df_on_messages X u fs ?r"
    by (subst df_on_messages.simps) (rule sbind_simps(2), rule step(1))
  ultimately show ?case
    using Cons.IH [of ?r ?t] Cons.prems step(2,4) by (simp add: h d)
qed

text \<open>The frames of a message, read back in their order, complete it once.\<close>

lemma message_frames:
  fixes i :: uuid and t0 :: u128 and msg :: bytes and l :: "chunk list"
  defines "cs \<equiv> cl_from_bytes TRANSPORT_MTU (ChunkMeta_default i t0) msg"
  assumes "map bin cs = map Some frames" "\<forall>c f. bin c = Some f \<longrightarrow> unbin f = Some c" "msg \<noteq> []"
    and "meta_accepted now (ChunkMeta_default i t0)" "\<forall>e\<in>set l. cm_id (ch_meta e) \<noteq> i"
  shows "list_all2 (\<lambda>f c. unbin f = Some c) frames cs"
    and "concat (map (case_option [] (\<lambda>data. [DataChannelMessage data])) (fst (deliver now cs l)))
      = [DataChannelMessage msg]"
proof -
  have "length frames = length cs" using assms(2) map_eq_imp_length_eq by metis
  moreover have "bin (cs ! k) = Some (frames ! k)" if "k < length cs" for k
    using assms(2) that calculation by (metis nth_map)
  ultimately show "list_all2 (\<lambda>f c. unbin f = Some c) frames cs"
    using assms(3) by (simp add: list_all2_conv_all_nth)
  have "cs \<noteq> []"
    using cl_from_bytes_props(1,4) [of TRANSPORT_MTU "ChunkMeta_default i t0" msg] assms(4)
    by (auto simp: cs_def TRANSPORT_MTU_def)
  moreover have "distinct cs"
    using cl_from_bytes_props(2) [of TRANSPORT_MTU "ChunkMeta_default i t0" msg]
    unfolding cs_def by (metis distinct_map distinct_upt)
  ultimately have "set (butlast cs) \<noteq> set cs"
    by (metis append_butlast_last_id distinct_butlast last_in_set not_distinct_conv_prefix)
  then have "fst (deliver now cs l) = replicate (length cs - 1) None @ [Some msg]"
    using deliver_rest [OF assms(5), of TRANSPORT_MTU l "[]" cs msg] assms(6)
    by (simp add: cs_def TRANSPORT_MTU_def ChunkMeta_default_def)
  then show "concat (map (case_option [] (\<lambda>data. [DataChannelMessage data])) (fst (deliver now cs l)))
      = [DataChannelMessage msg]" by simp
qed

text \<open>
  C17: a message sent over a data channel arrives as it was. When \<open>send_message\<close>
  succeeds with a message that is not empty, the stack has accepted a sequence of frames; a
  transport that receives these frames within their lifetime, holding no chunk of the same message,
  raises exactly one event, which carries the message.
\<close>

theorem webrtc_message_arrives:
  assumes "rtc_logs (fe_rtc X) log" "\<forall>c f. fe_chunk_bin X c = Some f \<longrightarrow> fe_chunk_unbin X f = Some c"
    and "fw_transports w u = Some s" "df_data_channel s = Some d"
    and "df_send_message X msg u w = (Inr (), w')" "msg \<noteq> []"
    and "rt_uuid (fe_rtc X) (fw_stack w) = (i, c)"
    and "fw_transports r v = Some t" "\<not> ch_closed (fw_channels r (df_event_sender t))"
    and "\<forall>e\<in>set (df_chunk_list t). cm_id (ch_meta e) \<noteq> i"
    and "meta_accepted (df_now X r) (ChunkMeta_default i (rt_now (fe_rtc X) c))"
  shows "\<exists>frames. log (fw_stack w') d = log (fw_stack w) d @ frames
    \<and> ch_queue (fw_channels (snd (df_on_messages X v frames r)) (df_event_sender t))
      = ch_queue (fw_channels r (df_event_sender t)) @ [DataChannelMessage msg]"
proof -
  let ?m = "ChunkMeta_default i (rt_now (fe_rtc X) c)"
  let ?cs = "cl_from_bytes TRANSPORT_MTU ?m msg"
  have "df_send_chunks X d ?cs (w\<lparr>fw_stack := c\<rparr>) = (Inr (), w')"
    using assms(3-5,7) by (simp add: df_send_message_def df_get_data_channel_def df_read_def
        rtc_def df_now_def sbind_def split: if_splits)
  then obtain frames where f: "map (fe_chunk_bin X) ?cs = map Some frames"
      "log (fw_stack w') d = log c d @ frames"
    using send_chunks_logged [OF assms(1)] by fastforce
  have c: "log c d = log (fw_stack w) d"
    using assms(1,7) by (metis rtc_logs_def snd_conv)
  note read = message_frames [OF f(1) assms(2,6,11,10)]
  show ?thesis
    using f(2) c on_messages_deliver [OF read(1) assms(8,9)] read(2) by (intro exI [of _ frames]) simp
qed

text \<open>
  A short write is never noticed. \<open>send_message\<close> compares \<open>!s == size\<close>, the bitwise
  complement of the number of bytes written: for a stack that reports at most the length of
  each frame, sending succeeds whatever it reports, none of the bytes included.
\<close>

lemma short_writes_unnoticed:
  assumes "\<forall>bs d c. \<exists>c'. rt_send (fe_rtc X) bs d c = (Some (written bs), c')"
    and "\<forall>bs. unat (written bs) \<le> length bs" "\<forall>c. \<exists>f. fe_chunk_bin X c = Some f \<and> length f < 2 ^ 63"
    and "fw_transports w u = Some s" "df_data_channel s = Some d" "length msg \<le> TRANSPORT_MAX_SIZE"
  shows "fst (df_send_message X msg u w) = Inr ()"
proof -
  have all: "fst (df_send_chunks X d cs w) = Inr ()" for cs w
  proof (induction cs arbitrary: w)
    case (Cons c cs)
    obtain f where f: "fe_chunk_bin X c = Some f" "length f < 2 ^ 63" using assms(3) by blast
    obtain st where st: "rt_send (fe_rtc X) f d (fw_stack w) = (Some (written f), st)"
      using assms(1) by blast
    have "NOT (written f) \<noteq> word_of_nat (length f)"
    proof
      assume eq: "NOT (written f) = word_of_nat (length f)"
      let ?n = "unat (written f) + length f + 1"
      have "written f + NOT (written f) = - 1" by (simp add: not_eq_complement)
      then have "written f + word_of_nat (length f) = - 1" by (simp only: eq)
      then have "(word_of_nat ?n :: usize) = 0" by simp
      then have "2 ^ 64 dvd ?n" by (simp add: word_of_nat_eq_0_iff del: of_nat_add of_nat_Suc)
      moreover have "0 < ?n" "?n < 2 ^ 64" using f(2) assms(2) [rule_format, of f] by simp_all
      ultimately show False by (meson nat_dvd_not_less)
    qed
    then show ?case using send_chunks_step [OF f(1) st, of cs] Cons.IH by simp
  qed simp
  then show ?thesis
    using assms(4-6)
    by (simp add: df_send_message_def df_get_data_channel_def df_read_def rtc_def sbind_def split_beta)
qed

section \<open>Events\<close>

definition link_event :: "did \<Rightarrow> uuid \<Rightarrow> ice_state \<Rightarrow> event option" where
  "link_event d u cs =
     (if cs = IceConnected then Some (RegisterTransport d u)
      else if ice_down cs then Some (ConnectClosed d u) else None)"

text \<open>
  What the node hears of a link. When the state of a connection changes, its transport puts
  one event on the node's channel, \<open>RegisterTransport\<close> for a link that is up and
  \<open>ConnectClosed\<close> for one that is down, with the address of the key registered for the peer;
  the other states are silent. A transport for which no remote description was registered has
  no such key: its callback panics on exactly these states and the node hears nothing, as when
  an offer that was never answered is closed.
\<close>

lemma state_change_reports:
  assumes "fw_callbacks w p = Some (u, conn)" "fw_transports w u = Some t"
    and "\<not> ch_closed (fw_channels w (df_event_sender t))"
  shows "df_callback X (IceConnectionStateChange p cs) w =
    (case df_public_key t of
       None \<Rightarrow> (if link_event 0 u cs = None then Inr () else Inl (Panicked ''unwrap''), w)
     | Some pk \<Rightarrow>
         (case link_event (public_key_address (fe_ecc X) pk) u cs of
            None \<Rightarrow> (Inr (), w)
          | Some e \<Rightarrow> (Inr (), w\<lparr>fw_channels := (fw_channels w)(df_event_sender t :=
              (fw_channels w (df_event_sender t))
                \<lparr>ch_queue := ch_queue (fw_channels w (df_event_sender t)) @ [e]\<rparr>)\<rparr>)))"
  using assms
  by (cases cs; cases "df_public_key t";
      simp add: df_callback_def df_on_ice_connection_state_change_def df_read_def link_event_def
        ice_down_def df_emit_def ch_send_def attempt_def sbind_def)

section \<open>Waiting for a connection\<close>

text \<open>
  The reference: nothing counts before the first poll; then the first \<open>Connected\<close> or
  \<open>Failed\<close> settles the wait, which ends at the next poll.
\<close>

definition wait_outcome :: "pc_state await_event list \<Rightarrow> bool option" where
  "wait_outcome es =
     (case dropWhile (\<lambda>e. e \<noteq> Fired PcConnected \<and> e \<noteq> Fired PcFailed) (dropWhile (\<lambda>e. e \<noteq> Polled) es) of
        [] \<Rightarrow> None
      | e # es \<Rightarrow> if Polled \<in> set es then Some (e = Fired PcConnected) else None)"

lemma connect_callback_simps [simp]:
  "connect_callback PcConnected = promise_settle True" "connect_callback PcFailed = promise_settle False"
  "st \<noteq> PcConnected \<Longrightarrow> st \<noteq> PcFailed \<Longrightarrow> connect_callback st s = s"
  by (auto simp: connect_callback_def fun_eq_iff split: pc_state.split)

lemma await_unpolled:
  "\<not> waker s \<Longrightarrow> \<not> completed s \<Longrightarrow>
     promise_await connect_callback es s = promise_await connect_callback (dropWhile (\<lambda>e. e \<noteq> Polled) es) s"
proof (induction es)
  case (Cons e es)
  then show ?case
    by (cases e) (auto simp: connect_callback_def promise_settle_def split: pc_state.split)
qed simp

lemma await_settled:
  "completed s \<Longrightarrow> \<not> waker s \<Longrightarrow> succeeded s = Some b \<Longrightarrow>
     promise_await connect_callback es s =
       (if Polled \<in> set es then Some (if b then Inr () else Inl PromiseStateFailed) else None)"
proof (induction es)
  case (Cons e es)
  then show ?case
    by (cases e; cases b)
       (auto simp: promise_poll_def connect_callback_def promise_settle_def split: pc_state.split)
qed simp

lemma await_polled:
  "waker s \<Longrightarrow> \<not> completed s \<Longrightarrow>
     promise_await connect_callback es s =
       (case dropWhile (\<lambda>e. e \<noteq> Fired PcConnected \<and> e \<noteq> Fired PcFailed) es of
          [] \<Rightarrow> None
        | e # es \<Rightarrow> if Polled \<in> set es
            then Some (if e = Fired PcConnected then Inr () else Inl PromiseStateFailed) else None)"
proof (induction es)
  case (Cons e es)
  show ?case
  proof (cases e)
    case Polled
    have "promise_poll s = (None, s)" using Cons.prems by (cases s) (simp add: promise_poll_def)
    then show ?thesis using Cons Polled by simp
  next
    case (Fired st)
    have "promise_await connect_callback es (promise_settle b s) =
        (if Polled \<in> set es then Some (if b then Inr () else Inl PromiseStateFailed) else None)" for b
      using Cons.prems by (intro await_settled) (simp_all add: promise_settle_def)
    then show ?thesis using Cons Fired by (cases "st = PcConnected"; cases "st = PcFailed") simp_all
  qed
qed simp

text \<open>
  When waiting for a connection returns. Between the first poll and a later one the
  connection has to \<open>become\<close> connected or failed; then the wait ends with that outcome. A
  transition before the first poll is lost, and so is the connection being up already when the
  wait begins, although the code checks for it: the check finds no waker to wake. Such a wait
  never returns.
\<close>

lemma wait_needs_transition:
  assumes "fw_transports w u = Some t" "df_connection t = Some p"
    and "rt_await_state (fe_rtc X) p (fw_stack w) = (es, c)"
  shows "df_wait_for_connected X u w =
    (case wait_outcome es of
       Some True \<Rightarrow> Inr ()
     | Some False \<Rightarrow> Inl PromiseStateFailed
     | None \<Rightarrow> Inl (Panicked ''never woken''), w\<lparr>fw_stack := c\<rparr>)"
proof -
  let ?es = "dropWhile (\<lambda>e. e \<noteq> Polled) es"
  have start: "(if b then promise_settle True promise_default else promise_default) = promise_default" for b
    by (simp add: promise_settle_def promise_default_def)
  have "promise_await connect_callback es promise_default = promise_await connect_callback ?es promise_default"
    by (rule await_unpolled) (simp_all add: promise_default_def)
  also have "\<dots> = map_option (\<lambda>b. if b then Inr () else Inl PromiseStateFailed) (wait_outcome es)"
  proof (cases ?es)
    case Nil
    show ?thesis unfolding wait_outcome_def Nil by simp
  next
    case (Cons e fs)
    then have e: "e = Polled" using hd_dropWhile [of "\<lambda>e. e \<noteq> Polled" es] by simp
    have poll: "promise_poll promise_default = (None, promise_default\<lparr>waker := True\<rparr>)"
      by (simp add: promise_poll_def promise_default_def)
    have "promise_await connect_callback fs (promise_default\<lparr>waker := True\<rparr>) =
        map_option (\<lambda>b. if b then Inr () else Inl PromiseStateFailed) (wait_outcome es)"
      by (subst await_polled)
         (simp_all add: wait_outcome_def Cons e promise_default_def del: dropWhile_eq_Nil_conv split: list.split)
    then show ?thesis using Cons e poll by simp
  qed
  finally have await: "suspended (promise_await connect_callback es promise_default) =
      (case wait_outcome es of Some True \<Rightarrow> Inr () | Some False \<Rightarrow> Inl PromiseStateFailed
       | None \<Rightarrow> Inl (Panicked ''never woken''))"
    by (simp add: suspended_def split: option.split bool.split)
  have "df_connect_success_promise X u w = (Inr promise_default, w)"
    using assms(1,2) by (simp add: df_connect_success_promise_def df_with_connection_eq Let_def start)
  then show ?thesis
    using assms by (simp add: df_wait_for_connected_def df_with_connection_eq rtc_def sbind_def await)
qed

section \<open>Handshakes\<close>

text \<open>What registering a remote description does once its payload has verified.\<close>

definition df_accept ::
  "('c, 'k) rtc_env \<Rightarrow> rtc_sdp \<Rightarrow> ice_candidate list \<Rightarrow> session \<Rightarrow> did \<Rightarrow> uuid \<Rightarrow> ('c, 'k, did) rtc_action" where
  "df_accept X sdp cands ses d u =
     sbind (df_set_remote_description X sdp u) (\<lambda>_.
     sbind (df_add_candidates X cands u) (\<lambda>_.
     sbind (case session_authorizer_pubkey (fe_ecc X) ses of
              Inr pk \<Rightarrow> df_update u (\<lambda>t. t\<lparr>df_public_key := Some pk\<rparr>)
            | Inl _ \<Rightarrow> sret ()) (\<lambda>_.
       sret d)))"

lemma df_register_verified:
  assumes "pl_from_encoded (fe_codec X) (fe_unbin X) enc = Inr p"
    and "pl_verify (fe_ecc X) (fe_json X) (df_now X r) p"
    and "fe_sdp_of_json X (tp_sdp (pl_data p)) = Some sdp"
  shows "df_register_remote_info X enc u r =
    df_accept X sdp (tp_candidates (pl_data p)) (mv_session (pl_origin_verification p)) (pl_addr p) u r"
  using assms by (simp add: df_register_remote_info_def df_accept_def)

text \<open>What one transport seals for a handshake, another takes out and verifies.\<close>

lemma sealed_handshake_verifies:
  assumes "ecdsa_ok E"
    and "\<forall>bs s. b58_encode_check C bs = Some s \<longrightarrow> b58_decode_check C s = Some bs"
    and "\<forall>p bs. bin p = Some bs \<longrightarrow> unbin bs = Some p"
    and "rbind (MessagePayload_new_send E J now tx data sm (sm_authorizer sm) (sm_authorizer sm)) (pl_encode C bin)
      = Inr enc"
    and "sm_valid E later sm" "later \<le> now + ucast DEFAULT_TTL_MS"
  shows "\<exists>p. pl_from_encoded C unbin enc = Inr p \<and> pl_verify E J later p \<and> pl_data p = data
    \<and> pl_addr p = sm_authorizer sm \<and> mv_session (pl_origin_verification p) = sk_session sm"
proof -
  obtain p where p: "MessagePayload_new_send E J now tx data sm (sm_authorizer sm) (sm_authorizer sm) = Inr p"
    and enc: "pl_encode C bin p = Inr enc"
    using assms(4) by (auto simp: rbind_eq_Inr)
  have decoded: "pl_from_encoded C unbin enc = Inr p"
    using enc assms(2,3) by (auto simp: pl_encode_def pl_from_encoded_def encode_bytes_def decode_bytes_def
        pl_to_bincode_def pl_from_bincode_def rbind_eq_Inr ok_or_def split: option.splits)
  note f = MessagePayload_new_Inr [OF p [unfolded MessagePayload_new_send_def Let_def]]
  obtain msg where "pack_msg J data now DEFAULT_TTL_MS = Inr msg"
    and ver: "pl_verification p = \<lparr>mv_session = sk_session sm, mv_ttl_ms = DEFAULT_TTL_MS,
        mv_ts_ms = now, mv_sig = sm_sign E sm msg\<rparr>"
    using f(8) by blast
  then have "mv_verify E J later (pl_verification p) (pl_data p)"
    using mv_verify_fresh [OF assms(1,5)] f(1) by metis
  moreover have "\<not> pl_is_expired later p"
    using assms(6) f(5,6) by (auto simp: pl_is_expired_def Let_def not_less)
  ultimately show ?thesis
    using decoded f(1,3,7) ver by (intro exI [of _ p]) (simp add: pl_verify_def)
qed

text \<open>
  Handshake information made by one transport and registered by another, while the maker's
  session is valid and the information has not expired, is accepted with the maker's description
  and its pending candidates.
\<close>

lemma handshake_reads_back:
  assumes "ecdsa_ok (fe_ecc X)"
    and "\<forall>bs s. b58_encode_check (fe_codec X) bs = Some s \<longrightarrow> b58_decode_check (fe_codec X) s = Some bs"
    and "\<forall>p bs. fe_bin X p = Some bs \<longrightarrow> fe_unbin X bs = Some p"
    and "\<forall>sdp s. fe_sdp_json X sdp = Some s \<longrightarrow> fe_sdp_of_json X s = Some sdp"
    and "df_get_handshake_info X sm kind u w = (Inr enc, w')" "sm_valid (fe_ecc X) (df_now X r) sm"
    and "df_now X r \<le> df_now X w' + ucast DEFAULT_TTL_MS"
  shows "\<exists>sdp w1 cs cands. (if kind = Answer then df_get_answer X u else df_get_offer X u) w = (Inr sdp, w1)
    \<and> df_get_pending_candidates u w1 = (Inr cs, w1) \<and> cs \<noteq> []
    \<and> candidates_to_json (fe_candidate_json X) cs = Inr cands
    \<and> df_register_remote_info X enc v r =
        df_accept X (if kind \<in> {Answer, Offer} then sdp else sdp\<lparr>sd_type := kind\<rparr>) cands
          (sk_session sm) (sm_authorizer sm) v r"
proof -
  obtain sdp' w1 where first: "(case kind of Answer \<Rightarrow> df_get_answer X u | Offer \<Rightarrow> df_get_offer X u
        | kind \<Rightarrow> sbind (df_get_offer X u) (\<lambda>sdp. sret (sdp\<lparr>sd_type := kind\<rparr>))) w = (Inr sdp', w1)"
    and rest1: "sbind (df_get_pending_candidates u) (\<lambda>cs. sbind (slift (candidates_to_json (fe_candidate_json X) cs))
        (\<lambda>cands. if cands = [] then serr FailedOnGatherLocalCandidate else
          sbind (slift (ok_or (fe_sdp_json X sdp') (Panicked ''unwrap''))) (\<lambda>s w.
            case df_uuid X w of (tx, w) \<Rightarrow>
              (rbind (MessagePayload_new_send (fe_ecc X) (fe_json X) (df_now X w) tx
                  \<lparr>tp_sdp = s, tp_candidates = cands\<rparr> sm (sm_authorizer sm) (sm_authorizer sm))
                 (pl_encode (fe_codec X) (fe_bin X)), w)))) w1 = (Inr enc, w')"
    using sbind_Inr [THEN iffD1, OF assms(5) [unfolded df_get_handshake_info_def Let_def]] by blast
  let ?sdp = "\<lambda>sdp. if kind \<in> {Answer, Offer} then sdp else sdp\<lparr>sd_type := kind\<rparr>"
  obtain sdp where sdp: "(if kind = Answer then df_get_answer X u else df_get_offer X u) w = (Inr sdp, w1)"
    and sdp': "sdp' = ?sdp sdp"
    using first by (cases kind) (auto simp: sbind_Inr)
  obtain cs where cs: "df_get_pending_candidates u w1 = (Inr cs, w1)"
    and rest2: "sbind (slift (candidates_to_json (fe_candidate_json X) cs))
        (\<lambda>cands. if cands = [] then serr FailedOnGatherLocalCandidate else
          sbind (slift (ok_or (fe_sdp_json X sdp') (Panicked ''unwrap''))) (\<lambda>s w.
            case df_uuid X w of (tx, w) \<Rightarrow>
              (rbind (MessagePayload_new_send (fe_ecc X) (fe_json X) (df_now X w) tx
                  \<lparr>tp_sdp = s, tp_candidates = cands\<rparr> sm (sm_authorizer sm) (sm_authorizer sm))
                 (pl_encode (fe_codec X) (fe_bin X)), w))) w1 = (Inr enc, w')"
    using rest1 unfolding sbind_Inr
    by (auto simp: df_get_pending_candidates_def df_read_def sbind_Inr)
  obtain cands where cands: "candidates_to_json (fe_candidate_json X) cs = Inr cands" "cands \<noteq> []"
    and rest3: "sbind (slift (ok_or (fe_sdp_json X sdp') (Panicked ''unwrap''))) (\<lambda>s w.
            case df_uuid X w of (tx, w) \<Rightarrow>
              (rbind (MessagePayload_new_send (fe_ecc X) (fe_json X) (df_now X w) tx
                  \<lparr>tp_sdp = s, tp_candidates = cands\<rparr> sm (sm_authorizer sm) (sm_authorizer sm))
                 (pl_encode (fe_codec X) (fe_bin X)), w)) w1 = (Inr enc, w')"
    using rest2 unfolding sbind_Inr [of "slift (candidates_to_json (fe_candidate_json X) cs)"]
    by (auto split: if_splits)
  obtain s where s: "fe_sdp_json X sdp' = Some s"
    using rest3 by (cases "fe_sdp_json X sdp'") auto
  obtain tx where tx: "df_uuid X w1 = (tx, w')"
    and seal: "rbind (MessagePayload_new_send (fe_ecc X) (fe_json X) (df_now X w') tx
                  \<lparr>tp_sdp = s, tp_candidates = cands\<rparr> sm (sm_authorizer sm) (sm_authorizer sm))
                 (pl_encode (fe_codec X) (fe_bin X)) = Inr enc"
    using rest3 s by (auto split: prod.splits)
  obtain p where p: "pl_from_encoded (fe_codec X) (fe_unbin X) enc = Inr p"
      "pl_verify (fe_ecc X) (fe_json X) (df_now X r) p" "pl_data p = \<lparr>tp_sdp = s, tp_candidates = cands\<rparr>"
      "pl_addr p = sm_authorizer sm" "mv_session (pl_origin_verification p) = sk_session sm"
    using sealed_handshake_verifies [OF assms(1-3) seal assms(6,7)] by blast
  have "fe_sdp_of_json X s = Some (?sdp sdp)" using assms(4) s sdp' by simp
  then have "df_register_remote_info X enc v r = df_accept X (?sdp sdp) cands (sk_session sm) (sm_authorizer sm) v r"
    using df_register_verified [OF p(1,2)] p(3-5) by simp
  moreover have "cs \<noteq> []" using cands by (auto simp: candidates_to_json_def)
  ultimately show ?thesis using sdp cs cands(1) by blast
qed

text \<open>A transport whose callbacks are set appends what is gathered to its pending candidates.\<close>

lemma df_candidates_found:
  assumes "fw_callbacks w p = Some (u, Some p)" "fw_transports w u = Some t"
  shows "df_candidates X p found w = (Inr (), w\<lparr>fw_transports :=
    (fw_transports w)(u \<mapsto> t\<lparr>df_pending_candidates := df_pending_candidates t @ found\<rparr>)\<rparr>)"
  using assms
proof (induction found arbitrary: w t)
  case Nil
  then have "(fw_transports w)(u \<mapsto> t) = fw_transports w" by (simp add: fun_upd_idem)
  then show ?case using Nil by (simp add: df_callback_def df_on_ice_candidate_def)
next
  case (Cons c found)
  let ?t = "t\<lparr>df_pending_candidates := df_pending_candidates t @ [c]\<rparr>"
  let ?w = "w\<lparr>fw_transports := (fw_transports w)(u \<mapsto> ?t)\<rparr>"
  have "df_callback X (IceCandidateFound p (Some c)) w = (Inr (), ?w)"
    using Cons.prems by (simp add: df_callback_def df_on_ice_candidate_def df_update_def)
  moreover have "df_candidates X p found ?w = (Inr (), w\<lparr>fw_transports :=
      (fw_transports w)(u \<mapsto> t\<lparr>df_pending_candidates := df_pending_candidates t @ c # found\<rparr>)\<rparr>)"
    by (subst Cons.IH [of ?w ?t]) (use Cons.prems in simp_all)
  ultimately show ?case by (simp only: df_candidates.simps sbind_def prod.case sum.case)
qed

lemma df_described:
  assumes "fw_transports w u = Some t" "df_connection t = Some p" "fw_callbacks w p = Some (u, Some p)"
    and "(if kind = Answer then df_get_answer X u else df_get_offer X u) w = (Inr sdp, w1)"
  obtains c1 c2 c3 found where
    "(if kind = Answer then rt_create_answer (fe_rtc X) else rt_create_offer (fe_rtc X)) p (fw_stack w) = (Some sdp, c1)"
    "rt_set_local (fe_rtc X) sdp p c1 = (Some (), c2)" "rt_gather (fe_rtc X) p c2 = (found, c3)"
    "fw_transports w1 u = Some (t\<lparr>df_pending_candidates := df_pending_candidates t @ found\<rparr>)"
proof -
  let ?create = "if kind = Answer then rt_create_answer (fe_rtc X) else rt_create_offer (fe_rtc X)"
  obtain d c1 where create: "?create p (fw_stack w) = (d, c1)" by fastforce
  obtain r c2 where local: "rt_set_local (fe_rtc X) sdp p c1 = (r, c2)" by fastforce
  obtain found c3 where gather: "rt_gather (fe_rtc X) p c2 = (found, c3)" by fastforce
  have d: "d = Some sdp" "r = Some ()"
    using assms(1,2,4) create local
    by (auto simp: df_get_answer_def df_get_offer_def df_with_connection_eq sbind_def rtc_or_def rtc_def ok_or_def
        df_set_local_description_def split: if_splits option.splits prod.splits sum.splits)
  let ?w = "w\<lparr>fw_stack := c3\<rparr>"
  have "df_candidates X p found ?w = (Inr (), ?w\<lparr>fw_transports :=
      (fw_transports w)(u \<mapsto> t\<lparr>df_pending_candidates := df_pending_candidates t @ found\<rparr>)\<rparr>)"
    using df_candidates_found [of ?w p u t X found] assms(1,3) by simp
  then have "w1 = ?w\<lparr>fw_transports := (fw_transports w)(u \<mapsto> t\<lparr>df_pending_candidates := df_pending_candidates t @ found\<rparr>)\<rparr>"
    using assms(1,2,4) create local gather d
    by (auto simp: df_get_answer_def df_get_offer_def df_with_connection_eq sbind_def rtc_or_def rtc_def ok_or_def
        df_set_local_description_def df_gather_complete_def split: if_splits)
  then show thesis using that [of c1 c2 found c3] create local gather d by simp
qed

text \<open>What registering does to the stack: the description first, then every candidate in order.\<close>

definition candidates_given :: "('c, 'k) rtc_ops \<Rightarrow> pc \<Rightarrow> ice_candidate list \<Rightarrow> 'c \<Rightarrow> 'c" where
  "candidates_given S p cands c = fold (\<lambda>k c. snd (rt_add_ice_candidate S k p c)) cands c"

lemma df_candidates_added:
  assumes "fw_transports w u = Some t" "df_connection t = Some p"
  shows "df_add_candidates X cands u w = (Inr (), w\<lparr>fw_stack := candidates_given (fe_rtc X) p cands (fw_stack w)\<rparr>)"
  using assms
proof (induction cands arbitrary: w)
  case (Cons k cands)
  obtain r c where add: "rt_add_ice_candidate (fe_rtc X) k p (fw_stack w) = (r, c)" by fastforce
  have "\<exists>x. attempt (df_add_ice_candidate X k u) w = (Inr x, w\<lparr>fw_stack := c\<rparr>)"
    using Cons.prems add
    by (auto simp: attempt_def df_add_ice_candidate_def df_with_connection_eq rtc_or_def rtc_def ok_or_def
        is_panic_def sbind_def split: option.split)
  then obtain x where "attempt (df_add_ice_candidate X k u) w = (Inr x, w\<lparr>fw_stack := c\<rparr>)" by blast
  then show ?case
    using Cons.IH [of "w\<lparr>fw_stack := c\<rparr>"] Cons.prems add by (simp add: sbind_def candidates_given_def)
qed (simp add: candidates_given_def)

lemma df_accept_effect:
  assumes "fw_transports r v = Some t" "df_connection t = Some q"
    and "rt_set_remote (fe_rtc X) sdp q (fw_stack r) = (Some (), c)"
  shows "df_accept X sdp cands ses d v r = (Inr d, r\<lparr>fw_stack := candidates_given (fe_rtc X) q cands c,
    fw_transports := (fw_transports r)(v \<mapsto> t\<lparr>df_public_key :=
      (case session_authorizer_pubkey (fe_ecc X) ses of Inr pk \<Rightarrow> Some pk | Inl _ \<Rightarrow> df_public_key t)\<rparr>)\<rparr>)"
proof -
  have remote: "df_set_remote_description X sdp v r = (Inr (), r\<lparr>fw_stack := c\<rparr>)"
    using assms by (simp add: df_set_remote_description_def df_with_connection_eq rtc_or_def rtc_def sbind_def)
  have add: "df_add_candidates X cands v (r\<lparr>fw_stack := c\<rparr>) =
      (Inr (), r\<lparr>fw_stack := candidates_given (fe_rtc X) q cands c\<rparr>)"
    using df_candidates_added [of "r\<lparr>fw_stack := c\<rparr>" v t q X cands] assms(1,2) by simp
  have same: "(fw_transports r)(v \<mapsto> t) = fw_transports r" using assms(1) by (simp add: fun_upd_idem)
  show ?thesis
    using assms(1) same
    by (cases "session_authorizer_pubkey (fe_ecc X) ses")
       (simp_all add: df_accept_def sbind_def remote add df_update_def)
qed

lemma candidates_to_json_Inr: "candidates_to_json J cs = Inr cands \<longleftrightarrow> map J cs = map Some cands"
proof (induction cs arbitrary: cands)
  case (Cons k cs)
  then show ?case
    by (cases "J k"; cases cands) (auto simp: candidates_to_json_def rbind_eq_Inr ok_or_def)
qed (auto simp: candidates_to_json_def)

text \<open>
  C18: the handshake carries over. A transport whose callbacks are set makes handshake information
  from the description that its stack creates, an offer unless an answer was asked for, relabelled
  when another type was, and from the candidates pending so far followed by those that gathering
  finds, in this order, at least one in all. Another transport with a connection, registering the
  information while the maker's session is valid and before the information expires, sets exactly
  that description as the remote one and, when its stack takes it, gives the stack every candidate
  in the same order; it records the key behind the maker's session, if there is one, and answers
  with the authorizer's address. (The text codecs are assumed to read back what they wrote.)
\<close>

theorem handshake_carries_over:
  assumes "ecdsa_ok (fe_ecc X)"
    and "\<forall>bs s. b58_encode_check (fe_codec X) bs = Some s \<longrightarrow> b58_decode_check (fe_codec X) s = Some bs"
    and "\<forall>p bs. fe_bin X p = Some bs \<longrightarrow> fe_unbin X bs = Some p"
    and "\<forall>sdp s. fe_sdp_json X sdp = Some s \<longrightarrow> fe_sdp_of_json X s = Some sdp"
    and "df_get_handshake_info X sm kind u w = (Inr enc, w')" "sm_valid (fe_ecc X) (df_now X r) sm"
    and "df_now X r \<le> df_now X w' + ucast DEFAULT_TTL_MS"
    and "fw_transports w u = Some t" "df_connection t = Some p" "fw_callbacks w p = Some (u, Some p)"
    and "fw_transports r v = Some s" "df_connection s = Some q"
  shows "\<exists>sdp found cands c1 c2 c3.
      (if kind = Answer then rt_create_answer (fe_rtc X) else rt_create_offer (fe_rtc X)) p (fw_stack w) = (Some sdp, c1)
    \<and> rt_set_local (fe_rtc X) sdp p c1 = (Some (), c2) \<and> rt_gather (fe_rtc X) p c2 = (found, c3)
    \<and> map (fe_candidate_json X) (df_pending_candidates t @ found) = map Some cands \<and> cands \<noteq> []
    \<and> (\<forall>c. rt_set_remote (fe_rtc X) (if kind \<in> {Answer, Offer} then sdp else sdp\<lparr>sd_type := kind\<rparr>) q (fw_stack r)
          = (Some (), c) \<longrightarrow>
        df_register_remote_info X enc v r = (Inr (sm_authorizer sm), r\<lparr>
          fw_stack := fold (\<lambda>k c. snd (rt_add_ice_candidate (fe_rtc X) k q c)) cands c,
          fw_transports := (fw_transports r)(v \<mapsto> s\<lparr>df_public_key :=
            (case session_authorizer_pubkey (fe_ecc X) (sk_session sm) of Inr pk \<Rightarrow> Some pk
             | Inl _ \<Rightarrow> df_public_key s)\<rparr>)\<rparr>))"
proof -
  obtain sdp w1 cs cands where made: "(if kind = Answer then df_get_answer X u else df_get_offer X u) w = (Inr sdp, w1)"
      "df_get_pending_candidates u w1 = (Inr cs, w1)" "cs \<noteq> []"
      "candidates_to_json (fe_candidate_json X) cs = Inr cands"
    and taken: "df_register_remote_info X enc v r =
        df_accept X (if kind \<in> {Answer, Offer} then sdp else sdp\<lparr>sd_type := kind\<rparr>) cands
          (sk_session sm) (sm_authorizer sm) v r"
    using handshake_reads_back [OF assms(1-7)] by blast
  obtain c1 c2 c3 found where stack:
    "(if kind = Answer then rt_create_answer (fe_rtc X) else rt_create_offer (fe_rtc X)) p (fw_stack w) = (Some sdp, c1)"
    "rt_set_local (fe_rtc X) sdp p c1 = (Some (), c2)" "rt_gather (fe_rtc X) p c2 = (found, c3)"
    and t: "fw_transports w1 u = Some (t\<lparr>df_pending_candidates := df_pending_candidates t @ found\<rparr>)"
    using df_described [OF assms(8-10) made(1)] .
  have cs: "cs = df_pending_candidates t @ found"
    using made(2) t by (simp add: df_get_pending_candidates_def df_read_def sbind_def)
  then have cands: "map (fe_candidate_json X) (df_pending_candidates t @ found) = map Some cands" "cands \<noteq> []"
    using made(3,4) by (auto simp: candidates_to_json_Inr)
  show ?thesis
    using stack cands df_accept_effect [OF assms(11,12), where X = X and cands = cands, unfolded candidates_given_def]
    unfolding taken by blast
qed

lemma pl_verify_addr [simp]: "pl_verify E J now (p\<lparr>pl_addr := a\<rparr>) = pl_verify E J now p"
  by (cases p) (simp add: pl_verify_def pl_is_expired_def)

text \<open>
  C39: the address in a handshake is not authenticated. What \<open>register_remote_info\<close> returns as
  the peer's identifier is a field of the envelope that no signature covers: whoever passes the
  handshake on may write any address into it, and the same description, candidates and key are
  accepted under that address.
\<close>

theorem handshake_address_forgeable:
  assumes "pl_from_encoded (fe_codec X) (fe_unbin X) enc = Inr p"
    and "pl_from_encoded (fe_codec X) (fe_unbin X) forged = Inr (p\<lparr>pl_addr := a\<rparr>)"
    and "df_register_remote_info X enc u r = (Inr d, r')"
  shows "df_register_remote_info X forged u r = (Inr a, r')"
proof -
  have v: "pl_verify (fe_ecc X) (fe_json X) (df_now X r) p"
    using assms(1,3) by (simp add: df_register_remote_info_def split: if_splits)
  then have v': "pl_verify (fe_ecc X) (fe_json X) (df_now X r) (p\<lparr>pl_addr := a\<rparr>)" by simp
  have "fe_sdp_of_json X (tp_sdp (pl_data p)) \<noteq> None"
  proof
    assume "fe_sdp_of_json X (tp_sdp (pl_data p)) = None"
    then have "fst (df_register_remote_info X enc u r) = Inl DeserializeError"
      by (simp add: df_register_remote_info_def assms(1) v)
    then show False using assms(3) by simp
  qed
  then obtain sdp where sdp: "fe_sdp_of_json X (tp_sdp (pl_data p)) = Some sdp" by blast
  note r = df_register_verified [OF assms(1) v sdp, of u]
  have "df_accept X sdp cs ses a u r = (Inr a, r')" if "df_accept X sdp cs ses d u r = (Inr d', r')" for cs ses d d'
    using that unfolding df_accept_def sbind_Inr by (elim exE conjE) (intro exI conjI; (assumption | simp))
  then show ?thesis
    using assms(3) unfolding r df_register_verified [OF assms(2) v', of sdp u, simplified, OF sdp] by simp
qed

section \<open>A stack\<close>

text \<open>
  A stack on which the theorems of this theory are applied: connections are counted, data
  channels carry the number of their connection, a description connects at once, and every
  accepted frame is kept.
\<close>

record demo_stack =
  ds_pcs :: nat
  ds_ice :: "pc \<Rightarrow> ice_state"
  ds_sent :: "dc \<Rightarrow> bytes list"
  ds_time :: u128
  ds_uuids :: uuid

definition demo_candidate :: ice_candidate where
  "demo_candidate = \<lparr>candidate = ''host'', sdp_mid = None, sdp_m_line_index = None, username_fragment = None\<rparr>"

definition demo_rtc :: "(demo_stack, ice_candidate) rtc_ops" where
  "demo_rtc = \<lparr>
     rt_new_peer_connection = (\<lambda>_ c. (Some (ds_pcs c), c\<lparr>ds_pcs := ds_pcs c + 1\<rparr>)),
     rt_create_data_channel = (\<lambda>_ p c. (Some p, c)),
     rt_create_offer = (\<lambda>_ c. (Some \<lparr>sd_type = Offer, sd_sdp = ''v=0''\<rparr>, c)),
     rt_create_answer = (\<lambda>_ c. (Some \<lparr>sd_type = Answer, sd_sdp = ''v=0''\<rparr>, c)),
     rt_set_local = (\<lambda>_ _ c. (Some (), c)),
     rt_set_remote = (\<lambda>_ p c. (Some (), c\<lparr>ds_ice := (ds_ice c)(p := IceConnected)\<rparr>)),
     rt_add_ice_candidate = (\<lambda>_ _ c. (Some (), c)),
     rt_gather = (\<lambda>_ c. ([demo_candidate], c)),
     rt_close = (\<lambda>p c. (Some (), c\<lparr>ds_ice := (ds_ice c)(p := IceClosed)\<rparr>)),
     rt_ice_state = ds_ice, rt_pc_state = (\<lambda>_ _. PcConnected), rt_gathering_state = (\<lambda>_ _. GatherComplete),
     rt_send = (\<lambda>bs d c. (Some (word_of_nat (length bs)), c\<lparr>ds_sent := (ds_sent c)(d := ds_sent c d @ [bs])\<rparr>)),
     rt_dc_state = (\<lambda>_ _. DcOpen), rt_await_open = (\<lambda>_ c. ([], c)),
     rt_await_state = (\<lambda>_ c. ([Polled, Polled], c)), rt_now = ds_time,
     rt_uuid = (\<lambda>c. (ds_uuids c, c\<lparr>ds_uuids := ds_uuids c + 1\<rparr>))\<rparr>"

lemma demo_rtc_ok: "rtc_ok demo_rtc (\<lambda>c p. p < ds_pcs c)"
  by (simp add: rtc_ok_def demo_rtc_def conns_same_def)

text \<open>
  The environment: every codec is the identity on the one value the examples pass through it.
  The handshake is the one that the only transport of the example's world makes.
\<close>

definition demo_trickle :: trickle_payload where
  "demo_trickle = \<lparr>tp_sdp = ''sdp'', tp_candidates = [demo_candidate]\<rparr>"

definition demo_seal :: message_verification where
  "demo_seal = \<lparr>mv_session = sk_session demo_sm, mv_ttl_ms = DEFAULT_TTL_MS, mv_ts_ms = 10000,
     mv_sig = sm_sign demo_ecc demo_sm (''sdp'' @ [char_of (10 :: nat)] @ show_nat (unat (10000 :: u128))
       @ [char_of (10 :: nat)] @ show_nat (unat DEFAULT_TTL_MS))\<rparr>"

definition demo_handshake :: "trickle_payload payload" where
  "demo_handshake = \<lparr>pl_data = demo_trickle, pl_tx_id = 6, pl_addr = sm_authorizer demo_sm,
     pl_verification = demo_seal, pl_origin_verification = demo_seal,
     pl_relay = MessageRelay_new SEND [sm_authorizer demo_sm] None (Some (sm_authorizer demo_sm)) (sm_authorizer demo_sm)\<rparr>"

lemma demo_handshake_sealed:
  "MessagePayload_new_send demo_ecc (\<lambda>t. Some (tp_sdp t)) 10000 6 demo_trickle demo_sm
     (sm_authorizer demo_sm) (sm_authorizer demo_sm) = Inr demo_handshake"
  by (simp add: MessagePayload_new_send_def MessagePayload_new_def pack_msg_def Let_def
      demo_handshake_def demo_seal_def demo_trickle_def)

definition demo_meta :: chunk_meta where
  "demo_meta = ChunkMeta_default 6 10000"

definition demo_rtc_env :: "(demo_stack, ice_candidate) rtc_env" where
  "demo_rtc_env = \<lparr>fe_rtc = demo_rtc, fe_ecc = demo_ecc,
     fe_codec = \<lparr>sha1 = \<lambda>_. [], h160_from_str = \<lambda>_. None,
       b58_encode_check = \<lambda>bs. if bs = [1] then Some ''made'' else if bs = [2] then Some ''forged'' else None,
       b58_decode_check = \<lambda>s. if s = ''made'' then Some [1] else if s = ''forged'' then Some [2] else None,
       subring_to_json = \<lambda>_. None, subring_from_json = \<lambda>_. None\<rparr>,
     fe_json = (\<lambda>t. Some (tp_sdp t)),
     fe_bin = (\<lambda>p. if p = demo_handshake then Some [1] else None),
     fe_unbin = (\<lambda>bs. Some (if bs = [1] then demo_handshake else demo_handshake\<lparr>pl_addr := 666\<rparr>)),
     fe_sdp_json = (\<lambda>s. if s = \<lparr>sd_type = Offer, sd_sdp = ''v=0''\<rparr> then Some ''sdp'' else None),
     fe_sdp_of_json = (\<lambda>_. Some \<lparr>sd_type = Offer, sd_sdp = ''v=0''\<rparr>),
     fe_candidate_json = Some,
     fe_chunk_bin = (\<lambda>c. if ch_chunk c = (0, 1) \<and> ch_meta c = demo_meta \<and> ch_data c \<noteq> [] then Some (ch_data c) else None),
     fe_chunk_unbin = (\<lambda>bs. Some \<lparr>ch_chunk = (0, 1), ch_data = bs, ch_meta = demo_meta\<rparr>)\<rparr>"

text \<open>A world with one transport, created, started and given its callbacks.\<close>

definition demo_rtc_world :: "(demo_stack, ice_candidate) rtc_world" where
  "demo_rtc_world =
     (let w = \<lparr>fw_transports = (\<lambda>_. None), fw_channels = (\<lambda>_. ch_new), fw_callbacks = (\<lambda>_. None),
               fw_receivers = (\<lambda>_. None),
               fw_stack = \<lparr>ds_pcs = 0, ds_ice = \<lambda>_. IceNew, ds_sent = \<lambda>_. [], ds_time = 10000, ds_uuids = 5\<rparr>\<rparr>;
          w = snd (df_new demo_rtc_env 9 w);
          w = snd (df_start demo_rtc_env [] None 5 w)
      in snd (df_apply_callback 5 w))"

definition demo_default :: "ice_candidate default_transport" where
  "demo_default = \<lparr>df_connection = Some 0, df_pending_candidates = [], df_data_channel = Some 0,
     df_event_sender = 9, df_public_key = None, df_chunk_list = []\<rparr>"

lemma demo_rtc_world_eq:
  "demo_rtc_world = \<lparr>fw_transports = [5 \<mapsto> demo_default], fw_channels = (\<lambda>_. ch_new),
     fw_callbacks = [0 \<mapsto> (5, Some 0)], fw_receivers = (\<lambda>_. None),
     fw_stack = \<lparr>ds_pcs = 1, ds_ice = \<lambda>_. IceNew, ds_sent = \<lambda>_. [], ds_time = 10000, ds_uuids = 6\<rparr>\<rparr>"
  by (simp add: demo_rtc_world_def demo_rtc_env_def demo_rtc_def demo_default_def df_new_def df_uuid_def
      df_start_def df_setup_channel_def df_with_connection_eq df_get_peer_connection_eq df_update_def rtc_or_def rtc_def
      df_apply_callback_def sbind_def Let_def)

section \<open>The theorems on this stack\<close>

theorem webrtc_obeys_interface_witness:
  "transport_laws (default_ops demo_rtc_env) (df_known (\<lambda>c p. p < ds_pcs c))
   \<and> df_known (\<lambda>c p. p < ds_pcs c) demo_rtc_world 5"
proof -
  have "df_known (\<lambda>c p. p < ds_pcs c) demo_rtc_world 5"
    by (simp add: conns_known_def conns_ok_def df_pc_def demo_rtc_world_eq demo_default_def)
  moreover have "rtc_ok (fe_rtc demo_rtc_env) (\<lambda>c p. p < ds_pcs c)"
    using demo_rtc_ok by (simp add: demo_rtc_env_def)
  ultimately show ?thesis using webrtc_obeys_interface [of demo_rtc_env] by blast
qed

lemma demo_rtc_env_simps:
  "fe_rtc demo_rtc_env = demo_rtc" "fe_ecc demo_rtc_env = demo_ecc"
  "fe_json demo_rtc_env = (\<lambda>t. Some (tp_sdp t))" "fe_candidate_json demo_rtc_env = Some"
  "fe_chunk_bin demo_rtc_env c = (if ch_chunk c = (0, 1) \<and> ch_meta c = demo_meta \<and> ch_data c \<noteq> [] then Some (ch_data c) else None)"
  "fe_chunk_unbin demo_rtc_env bs = Some \<lparr>ch_chunk = (0, 1), ch_data = bs, ch_meta = demo_meta\<rparr>"
  "fe_sdp_of_json demo_rtc_env t = Some \<lparr>sd_type = Offer, sd_sdp = ''v=0''\<rparr>"
  by (simp_all add: demo_rtc_env_def)

lemma demo_send: "df_send_message demo_rtc_env [7, 8] 5 demo_rtc_world =
  (Inr (), demo_rtc_world\<lparr>fw_stack := (fw_stack demo_rtc_world)\<lparr>ds_uuids := 7, ds_sent := (\<lambda>_. [])(0 := [[7, 8]])\<rparr>\<rparr>)"
proof -
  have "cl_from_bytes TRANSPORT_MTU demo_meta [7, 8] = [\<lparr>ch_chunk = (0, 1), ch_data = [7, 8], ch_meta = demo_meta\<rparr>]"
    by (simp add: cl_from_bytes_def TRANSPORT_MTU_def slice_chunks.simps)
  then show ?thesis
    by (simp add: df_send_message_def TRANSPORT_MAX_SIZE_def TRANSPORT_MTU_def df_get_data_channel_def df_read_def
        demo_rtc_world_eq demo_default_def rtc_def demo_rtc_env_simps demo_rtc_def df_now_def demo_meta_def sbind_def
        chunk_to_bincode_def Let_def)
qed

theorem webrtc_message_arrives_witness:
  "\<exists>frames w'. df_send_message demo_rtc_env [7, 8] 5 demo_rtc_world = (Inr (), w')
     \<and> ds_sent (fw_stack w') 0 = frames
     \<and> ch_queue (fw_channels (snd (df_on_messages demo_rtc_env 5 frames demo_rtc_world)) 9)
         = [DataChannelMessage [7, 8]]"
proof -
  have logs: "rtc_logs (fe_rtc demo_rtc_env) ds_sent"
    by (simp add: rtc_logs_def demo_rtc_env_simps demo_rtc_def)
  have "meta_accepted (df_now demo_rtc_env demo_rtc_world) (ChunkMeta_default 6 10000)"
    by (simp add: meta_accepted_def ChunkMeta_default_def DEFAULT_TTL_MS_def MAX_TTL_MS_def
        TS_OFFSET_TOLERANCE_MS_def df_now_def demo_rtc_world_eq demo_rtc_env_simps demo_rtc_def)
  then show ?thesis
    using webrtc_message_arrives [OF logs _ _ _ demo_send, of demo_default 0 6
        "(fw_stack demo_rtc_world)\<lparr>ds_uuids := 7\<rparr>" demo_rtc_world 5 demo_default] demo_send
    by (simp add: demo_rtc_env_simps demo_rtc_world_eq demo_default_def demo_rtc_def ch_new_def)
qed

lemma demo_offer: "\<exists>w. df_get_handshake_info demo_rtc_env demo_sm Offer 5 demo_rtc_world = (Inr (Encoded ''made''), w)
   \<and> df_now demo_rtc_env w = 10000"
proof -
  let ?sdp = "\<lparr>sd_type = Offer, sd_sdp = ''v=0''\<rparr>"
  let ?w = "demo_rtc_world\<lparr>fw_transports := [5 \<mapsto> demo_default\<lparr>df_pending_candidates := [demo_candidate]\<rparr>]\<rparr>"
  have "df_get_offer demo_rtc_env 5 demo_rtc_world = (Inr ?sdp, ?w)"
    by (simp add: df_get_offer_def df_with_connection_eq demo_rtc_world_eq demo_default_def rtc_or_def rtc_def sbind_def
        demo_rtc_env_simps demo_rtc_def df_set_local_description_def df_gather_complete_def df_callback_def
        df_on_ice_candidate_def df_update_def)
  moreover have "df_uuid demo_rtc_env ?w = (6, ?w\<lparr>fw_stack := (fw_stack ?w)\<lparr>ds_uuids := 7\<rparr>\<rparr>)"
    by (simp add: df_uuid_def demo_rtc_world_eq demo_rtc_env_simps demo_rtc_def)
  moreover have now: "df_now demo_rtc_env (?w\<lparr>fw_stack := (fw_stack ?w)\<lparr>ds_uuids := 7\<rparr>\<rparr>) = 10000"
    by (simp add: df_now_def demo_rtc_world_eq demo_rtc_env_simps demo_rtc_def)
  moreover have "df_get_pending_candidates 5 ?w = (Inr [demo_candidate], ?w)"
    by (simp add: df_get_pending_candidates_def df_read_def sbind_def)
  moreover have "fe_sdp_json demo_rtc_env ?sdp = Some ''sdp''" by (simp add: demo_rtc_env_def)
  moreover have "pl_encode (fe_codec demo_rtc_env) (fe_bin demo_rtc_env) demo_handshake = Inr (Encoded ''made'')"
    by (simp add: demo_rtc_env_def pl_encode_def pl_to_bincode_def encode_bytes_def)
  ultimately show ?thesis
    using demo_handshake_sealed
    by (simp add: df_get_handshake_info_def sbind_def demo_rtc_env_simps demo_trickle_def candidates_to_json_def)
qed

lemma demo_codec_decodes:
  "b58_encode_check (fe_codec demo_rtc_env) bs = Some s \<Longrightarrow> b58_decode_check (fe_codec demo_rtc_env) s = Some bs"
  "fe_bin demo_rtc_env p = Some bs \<Longrightarrow> fe_unbin demo_rtc_env bs = Some p"
  "fe_sdp_json demo_rtc_env sdp = Some s \<Longrightarrow> fe_sdp_of_json demo_rtc_env s = Some sdp"
  by (auto simp: demo_rtc_env_def split: if_splits)

theorem handshake_carries_over_witness:
  "\<exists>r. df_register_remote_info demo_rtc_env (Encoded ''made'') 5 demo_rtc_world = (Inr (sm_authorizer demo_sm), r)
     \<and> ds_ice (fw_stack r) 0 = IceConnected"
proof -
  obtain w where w: "df_get_handshake_info demo_rtc_env demo_sm Offer 5 demo_rtc_world = (Inr (Encoded ''made''), w)"
    "df_now demo_rtc_env w = 10000" using demo_offer by blast
  have ecc: "ecdsa_ok (fe_ecc demo_rtc_env)" using demo_ecc_ok by (simp add: demo_rtc_env_simps)
  have valid: "sm_valid (fe_ecc demo_rtc_env) (df_now demo_rtc_env demo_rtc_world) demo_sm"
    using demo_sm_valid by (simp add: demo_rtc_env_simps)
  have later: "df_now demo_rtc_env demo_rtc_world \<le> df_now demo_rtc_env w + ucast DEFAULT_TTL_MS"
    unfolding w(2) by (simp add: df_now_def demo_rtc_world_eq demo_rtc_env_simps demo_rtc_def DEFAULT_TTL_MS_def)
  have t: "fw_transports demo_rtc_world 5 = Some demo_default" "df_connection demo_default = Some 0"
      "fw_callbacks demo_rtc_world 0 = Some (5, Some 0)"
    by (simp_all add: demo_rtc_world_eq demo_default_def)
  have codec: "\<forall>bs s. b58_encode_check (fe_codec demo_rtc_env) bs = Some s \<longrightarrow> b58_decode_check (fe_codec demo_rtc_env) s = Some bs"
    "\<forall>p bs. fe_bin demo_rtc_env p = Some bs \<longrightarrow> fe_unbin demo_rtc_env bs = Some p"
    "\<forall>sdp s. fe_sdp_json demo_rtc_env sdp = Some s \<longrightarrow> fe_sdp_of_json demo_rtc_env s = Some sdp"
    using demo_codec_decodes by blast+
  obtain cands where "\<And>sdp c. rt_set_remote (fe_rtc demo_rtc_env) sdp 0 (fw_stack demo_rtc_world) = (Some (), c) \<Longrightarrow>
      df_register_remote_info demo_rtc_env (Encoded ''made'') 5 demo_rtc_world = (Inr (sm_authorizer demo_sm),
        demo_rtc_world\<lparr>fw_stack := fold (\<lambda>k c. snd (rt_add_ice_candidate (fe_rtc demo_rtc_env) k 0 c)) cands c,
          fw_transports := (fw_transports demo_rtc_world)(5 \<mapsto> demo_default\<lparr>df_public_key :=
            (case session_authorizer_pubkey (fe_ecc demo_rtc_env) (sk_session demo_sm) of Inr pk \<Rightarrow> Some pk
             | Inl _ \<Rightarrow> df_public_key demo_default)\<rparr>)\<rparr>)"
    using handshake_carries_over [OF ecc codec w(1) valid later t t(1,2)]
    by (auto simp: demo_rtc_env_simps demo_rtc_def)
  moreover have "fold (\<lambda>k c. snd (rt_add_ice_candidate (fe_rtc demo_rtc_env) k 0 c)) ks c = c" for ks c
    by (induction ks arbitrary: c) (simp_all add: demo_rtc_env_simps demo_rtc_def)
  ultimately show ?thesis by (simp add: demo_rtc_env_simps demo_rtc_def)
qed

lemma demo_register:
  "fst (df_register_remote_info demo_rtc_env (Encoded ''made'') 5 demo_rtc_world) = Inr (sm_authorizer demo_sm)"
proof -
  have dec: "pl_from_encoded (fe_codec demo_rtc_env) (fe_unbin demo_rtc_env) (Encoded ''made'') = Inr demo_handshake"
    by (simp add: pl_from_encoded_def decode_bytes_def pl_from_bincode_def demo_rtc_env_def)
  have "pl_verify demo_ecc (\<lambda>t. Some (tp_sdp t)) 10000 demo_handshake"
    using mv_verify_fresh [OF demo_ecc_ok demo_sm_valid [of 10000], of "\<lambda>t. Some (tp_sdp t)" demo_trickle 10000 DEFAULT_TTL_MS]
    by (simp add: pl_verify_def pl_is_expired_def demo_handshake_def demo_seal_def pack_msg_def demo_trickle_def
        DEFAULT_TTL_MS_def)
  then have ver: "pl_verify (fe_ecc demo_rtc_env) (fe_json demo_rtc_env) (df_now demo_rtc_env demo_rtc_world) demo_handshake"
    by (simp add: demo_rtc_env_simps df_now_def demo_rtc_world_eq demo_rtc_def)
  show ?thesis
    using df_register_verified [OF dec ver, of "\<lparr>sd_type = Offer, sd_sdp = ''v=0''\<rparr>" 5]
    by (simp add: demo_rtc_env_simps df_accept_def df_set_remote_description_def df_add_ice_candidate_def
        df_with_connection_eq demo_rtc_world_eq demo_default_def rtc_or_def rtc_def demo_rtc_def sbind_def
        demo_handshake_def demo_trickle_def attempt_def df_update_def split: sum.split)
qed

theorem handshake_address_forgeable_witness:
  "fst (df_register_remote_info demo_rtc_env (Encoded ''made'') 5 demo_rtc_world) = Inr (sm_authorizer demo_sm)
   \<and> fst (df_register_remote_info demo_rtc_env (Encoded ''forged'') 5 demo_rtc_world) = Inr 666"
proof -
  obtain w where w: "df_register_remote_info demo_rtc_env (Encoded ''made'') 5 demo_rtc_world = (Inr (sm_authorizer demo_sm), w)"
    using demo_register by (metis prod.collapse)
  have dec: "pl_from_encoded (fe_codec demo_rtc_env) (fe_unbin demo_rtc_env) (Encoded ''made'') = Inr demo_handshake"
    "pl_from_encoded (fe_codec demo_rtc_env) (fe_unbin demo_rtc_env) (Encoded ''forged'')
       = Inr (demo_handshake\<lparr>pl_addr := 666\<rparr>)"
    by (simp_all add: pl_from_encoded_def decode_bytes_def pl_from_bincode_def demo_rtc_env_def)
  show ?thesis using handshake_address_forgeable [OF dec w] w by simp
qed

end
