(* ===== verification/WasmProps.thy ===== *)
theory WasmProps
  imports Wasm WebRTCProps
begin

text \<open>
  The transport of browsers obeys the laws of the interface, given what a browser promises of its
  connections; it speaks with native nodes; and a wait for a connection does not end.
\<close>

section \<open>The laws of the interface\<close>

text \<open>
  What is relied on of the browser: as for native nodes, operations touch only the connection
  they are called on. The ICE servers are such that a connection can be made of them.
\<close>

definition web_ok :: "('c, 'k) web_ops \<Rightarrow> ('c \<Rightarrow> pc \<Rightarrow> bool) \<Rightarrow> bool" where
  "web_ok S live \<longleftrightarrow> (let same = conns_same (wb_ice_state S) live in
     (\<forall>cfg c r c'. wb_new_peer_connection S cfg c = (r, c') \<longrightarrow> same {} c c'
        \<and> (\<exists>p. r = Some p \<and> \<not> live c p \<and> live c' p))
   \<and> (\<forall>name p c. same {} c (snd (wb_create_data_channel S name p c)))
   \<and> (\<forall>p c. same {} c (snd (wb_create_offer S p c)))
   \<and> (\<forall>p c. same {} c (snd (wb_create_answer S p c)))
   \<and> (\<forall>sdp p c. same {} c (snd (wb_set_local S sdp p c)))
   \<and> (\<forall>p c. same {} c (snd (wb_gather S p c)))
   \<and> (\<forall>bs d c. same {} c (snd (wb_send S bs d c)))
   \<and> (\<forall>d c. same {} c (snd (wb_await_open S d c)))
   \<and> (\<forall>c. same {} c (snd (wb_uuid S c)))
   \<and> (\<forall>sdp p c. same {p} c (snd (wb_set_remote S sdp p c)))
   \<and> (\<forall>cand p c. same {p} c (snd (wb_add_ice_candidate S cand p c)))
   \<and> (\<forall>p c. same {p} c (wb_close S p c) \<and> (live c p \<longrightarrow> wb_ice_state S (wb_close S p c) p = IceClosed)))"

lemma web_okD:
  assumes "web_ok S live"
  shows "conns_same (wb_ice_state S) live {} c (snd (wb_create_data_channel S name p c))"
    "conns_same (wb_ice_state S) live {} c (snd (wb_create_offer S p c))"
    "conns_same (wb_ice_state S) live {} c (snd (wb_create_answer S p c))"
    "conns_same (wb_ice_state S) live {} c (snd (wb_set_local S sdp p c))"
    "conns_same (wb_ice_state S) live {} c (snd (wb_gather S p c))"
    "conns_same (wb_ice_state S) live {} c (snd (wb_send S bs d c))"
    "conns_same (wb_ice_state S) live {} c (snd (wb_await_open S d c))"
    "conns_same (wb_ice_state S) live {} c (snd (wb_uuid S c))"
  using assms by (simp_all add: web_ok_def Let_def)

lemma web_ok_own:
  assumes "web_ok S live"
  shows "conns_same (wb_ice_state S) live {p} c (snd (wb_set_remote S sdp p c))"
    "conns_same (wb_ice_state S) live {p} c (snd (wb_add_ice_candidate S cand p c))"
    "conns_same (wb_ice_state S) live {p} c (wb_close S p c)"
    "live c p \<Longrightarrow> wb_ice_state S (wb_close S p c) p = IceClosed"
  using assms by (simp_all add: web_ok_def Let_def)

lemma web_ok_new:
  assumes "web_ok S live" "wb_new_peer_connection S cfg c = (r, c')"
  shows "conns_same (wb_ice_state S) live {} c c' \<and> (\<exists>p. r = Some p \<and> \<not> live c p \<and> live c' p)"
  using assms by (simp add: web_ok_def Let_def)

definition wt_conn :: "('c, 'k) web_world \<Rightarrow> uuid \<Rightarrow> pc option" where
  "wt_conn w u = Option.bind (ww_transports w u) wt_connection"

interpretation browser: connection_table "wasm_ops X" wt_conn ww_browser "wb_ice_state (we_web X)" live for X live
  by unfold_locales
     (auto simp: wt_is_connected_def wt_is_disconnected_def wt_ice_connection_state_def wt_conn_def
        ice_up_def ice_down_def split: option.splits ice_state.splits)

abbreviation wt_links where
  "wt_links X live \<equiv> conns_links (wasm_ops X) wt_conn ww_browser live"

lemma wt_conn_simps [simp]:
  "wt_conn (w\<lparr>ww_browser := c\<rparr>) = wt_conn w" "wt_conn (w\<lparr>ww_channels := ch\<rparr>) = wt_conn w"
  "wt_conn (w\<lparr>ww_candidates := a\<rparr>) = wt_conn w" "wt_conn (w\<lparr>ww_data_channels := b\<rparr>) = wt_conn w"
  "wt_conn (w\<lparr>ww_states := s\<rparr>) = wt_conn w" "wt_conn (w\<lparr>ww_receivers := r\<rparr>) = wt_conn w"
  by (simp_all add: wt_conn_def fun_eq_iff)

lemma web_snd: "snd (web f w) = w\<lparr>ww_browser := snd (f (ww_browser w))\<rparr>"
  by (simp add: web_def split: prod.split)

lemma web_or_snd: "snd (web_or e f w) = w\<lparr>ww_browser := snd (f (ww_browser w))\<rparr>"
  by (simp add: web_or_def web_def sbind_def split: prod.split)

lemma wt_get_peer_connection_eq:
  "wt_get_peer_connection u w =
     (case ww_transports w u of None \<Rightarrow> (Inl (Panicked ''dangling''), w) | Some t \<Rightarrow> (Inr (wt_connection t), w))"
  by (simp add: wt_get_peer_connection_def wt_read_def sbind_def split: option.split)

lemma wt_with_connection_eq:
  "wt_with_connection u f w =
     (case ww_transports w u of
        None \<Rightarrow> (Inl (Panicked ''dangling''), w)
      | Some t \<Rightarrow> (case wt_connection t of
                    None \<Rightarrow> (Inl RTCPeerConnectionNotEstablish, w) | Some p \<Rightarrow> f p w))"
  by (simp add: wt_with_connection_def wt_get_peer_connection_eq sbind_def split: option.split)

text \<open>One rule for each primitive, then for each operation.\<close>

lemma wt_primitives [link_rules]:
  "(\<And>c. conns_same (wb_ice_state (we_web X)) live {} c (snd (f c))) \<Longrightarrow> keeps (wt_links X live B) (web f)"
  "(\<And>c. conns_same (wb_ice_state (we_web X)) live {} c (snd (g c))) \<Longrightarrow> keeps (wt_links X live B) (web_or e g)"
  "(\<And>t. wt_connection (h t) = wt_connection t) \<Longrightarrow> keeps (wt_links X live B) (wt_update u h)"
  "keeps (wt_links X live B) (wt_emit d ev)"
  "keeps (wt_links X live B) (wt_read u)"
  "keeps (wt_links X live B) (smod (\<lambda>w. w\<lparr>ww_receivers := rc w\<rparr>))"
  "keeps (wt_links X live B) (smod (\<lambda>w. w\<lparr>ww_states := st w\<rparr>))"
  "keeps (wt_links X live B)
     (smod (\<lambda>w. w\<lparr>ww_candidates := ca w, ww_data_channels := da w, ww_states := sa w\<rparr>))"
        apply (rule browser.link_step; simp add: web_snd)
       apply (rule browser.link_step; simp add: web_or_snd)
      apply (rule browser.link_step; auto simp: wt_update_def wt_conn_def split: option.split bind_splits)
     apply (rule browser.link_step; simp add: wt_emit_def split: prod.split)
    apply (rule browser.link_step; simp add: wt_read_def)
   apply (rule browser.link_step; simp)+
  done

lemma wt_with_connection_links:
  assumes "\<And>w p. wt_conn w u = Some p \<Longrightarrow> wt_links X live B w (snd (f p w))"
  shows "keeps (wt_links X live B) (wt_with_connection u f)"
  unfolding keeps_def wt_with_connection_eq
  using assms browser.links_refl [of X live B]
  by (auto simp: wt_conn_def reflpD split: option.split)

lemma wt_with_connection_all [link_rules]:
  "(\<And>p. keeps (wt_links X live B) (f p)) \<Longrightarrow> keeps (wt_links X live B) (wt_with_connection u f)"
  by (rule wt_with_connection_links) (simp add: keeps_def)

lemma wt_getters [link_rules]:
  "keeps (wt_links X live B) (wt_get_peer_connection u)"
  "keeps (wt_links X live B) (wt_get_pending_candidates u)"
  "keeps (wt_links X live B) (wt_get_data_channel u)"
  unfolding wt_get_peer_connection_def wt_get_pending_candidates_def wt_get_data_channel_def
  by (intro link_rules)+

lemma wt_candidate_links [link_rules]: "keeps (wt_links X live B) (wt_on_ice_candidate u conn k)"
  unfolding wt_on_ice_candidate_def by (intro link_rules) simp

lemma wt_candidates_links [link_rules]: "keeps (wt_links X live B) (wt_candidates X p ks)"
proof (induction ks)
  case (Cons k ks)
  have "keeps (wt_links X live B) (wt_callback X (CandidateEvent p k))"
    using wt_candidate_links [of X live B] browser.link_pure(1) [of X live B]
    by (auto simp: keeps_def wt_callback_def split: option.split)
  then show ?case using Cons by (simp, intro link_rules)
qed (simp, intro link_rules)

lemma wt_set_local_links:
  "web_ok (we_web X) live \<Longrightarrow> keeps (wt_links X live B) (wt_set_local_description X desc u)"
  unfolding wt_set_local_description_def Let_def by (intro link_rules web_okD)

lemma wt_offer_answer_links:
  assumes "web_ok (we_web X) live"
  shows "keeps (wt_links X live B) (wt_get_offer X u)" "keeps (wt_links X live B) (wt_get_answer X u)"
  unfolding wt_get_offer_def wt_get_answer_def wt_gather_complete_promise_def wt_await_gathering_def
  by (intro link_rules web_okD wt_set_local_links assms)+

lemma wt_send_chunks_links:
  "web_ok (we_web X) live \<Longrightarrow> keeps (wt_links X live B) (wt_send_chunks X d cs)"
  by (induction cs) (simp, intro link_rules web_okD; assumption)+

lemma wt_send_links: "web_ok (we_web X) live \<Longrightarrow> keeps (wt_links X live B) (wt_send_message X msg u)"
  unfolding wt_send_message_def by (intro link_rules web_okD wt_send_chunks_links)

lemma wt_wait_links:
  "web_ok (we_web X) live \<Longrightarrow> keeps (wt_links X live B) (wt_wait_for_data_channel_open X u)"
  unfolding wt_wait_for_data_channel_open_def by (intro link_rules web_okD)

lemma wt_uuid_links: "web_ok (we_web X) live \<Longrightarrow> wt_links X live B w (snd (wt_uuid X w))"
  by (rule browser.still_links) (simp_all add: wt_uuid_def web_okD split_beta)

lemma wt_handshake_links:
  assumes "web_ok (we_web X) live"
  shows "keeps (wt_links X live B) (wt_get_handshake_info X sm kind u)"
proof -
  have seal: "keeps (wt_links X live B) (\<lambda>w. case wt_uuid X w of (tx, w) \<Rightarrow> (g tx w, w))" for g :: "uuid \<Rightarrow> _ \<Rightarrow> encoded result"
    using wt_uuid_links [OF assms] by (simp add: keeps_def split_beta)
  have "keeps (wt_links X live B) (case kind of Answer \<Rightarrow> wt_get_answer X u | Offer \<Rightarrow> wt_get_offer X u
      | _ \<Rightarrow> serr RTCSdpTypeNotMatch)"
    by (cases kind) (simp; intro link_rules wt_offer_answer_links assms)+
  then show ?thesis
    unfolding wt_get_handshake_info_def Let_def by (intro link_rules seal)
qed

lemma wt_remote_links:
  assumes "web_ok (we_web X) live"
  shows "keeps (wt_links X live {u}) (wt_set_remote_description X sdp u)"
    "keeps (wt_links X live {u}) (wt_add_ice_candidate X cand u)"
  unfolding wt_set_remote_description_def wt_add_ice_candidate_def Let_def
   apply (rule wt_with_connection_links)
  subgoal for w p
    using browser.own_conn_links [where ?w' = "w\<lparr>ww_browser := c\<rparr>" for c] web_ok_own(1) [OF assms]
      reflpD [OF browser.links_refl]
    by (cases "description_of (wb_new_description (we_web X)) sdp") (simp_all add: web_or_snd)
  apply (rule wt_with_connection_links, rule browser.own_conn_links)
    apply (simp_all add: web_or_snd)
  apply (rule web_ok_own(2) [OF assms])
  done

lemma wt_add_candidates_links:
  "web_ok (we_web X) live \<Longrightarrow> keeps (wt_links X live {u}) (wt_add_candidates X cs u)"
  by (induction cs) (simp, intro link_rules wt_remote_links; assumption)+

lemma wt_register_links:
  "web_ok (we_web X) live \<Longrightarrow> keeps (wt_links X live {u}) (wt_register_remote_info X enc u)"
  unfolding wt_register_remote_info_def
  by (intro link_rules wt_remote_links wt_add_candidates_links; simp)

lemma wt_close_snd:
  "snd (wt_close X u w) = (case wt_conn w u of None \<Rightarrow> w
     | Some p \<Rightarrow> w\<lparr>ww_browser := wb_close (we_web X) p (ww_browser w)\<rparr>)"
  by (auto simp: wt_close_def wt_get_peer_connection_eq wt_conn_def sbind_def web_def split: option.splits)

lemma wt_start_links:
  assumes "web_ok (we_web X) live"
  shows "wt_links X live {u} w (snd (wt_start X servers ext u w))"
proof -
  let ?cfg = "\<lparr>wc_ice_servers = map js_ice_server_of servers, wc_candidate_pool_size = 10\<rparr>"
  obtain r c where "wb_new_peer_connection (we_web X) ?cfg (ww_browser w) = (r, c)" by fastforce
  with web_ok_new [OF assms this] obtain p
    where r: "wb_new_peer_connection (we_web X) ?cfg (ww_browser w) = (Some p, c)"
      and same: "conns_same (wb_ice_state (we_web X)) live {} (ww_browser w) c"
      and fresh: "\<not> live (ww_browser w) p" "live c p"
    by blast
  let ?w = "w\<lparr>ww_browser := c, ww_transports := (ww_transports w)
    (u := map_option (\<lambda>t. t\<lparr>wt_connection := Some p\<rparr>) (ww_transports w u))\<rparr>"
  have "wt_links X live {u} w ?w"
    by (rule browser.started_links [where p = p and E = "ww_transports w u \<noteq> None"])
       (use same fresh in \<open>auto simp: wt_conn_def\<close>)
  moreover have "keeps (wt_links X live {u}) (wt_setup_channel X ''rings'' u)"
    unfolding wt_setup_channel_def by (intro link_rules web_okD assms) simp
  moreover have "snd (wt_start X servers ext u w) = snd (wt_setup_channel X ''rings'' u ?w)"
    by (simp add: wt_start_def r web_def sbind_def wt_update_def)
  ultimately show ?thesis using transpD [OF browser.links_trans] by (metis keeps_def)
qed

text \<open>
  C19: the transport of browsers obeys the laws of the transport interface too, for every browser
  whose operations touch only the connection they are called on and whose ICE servers it
  accepts: whatever the node's guarantees need of its transport, it has in a browser.
\<close>

theorem browser_obeys_interface:
  assumes "web_ok (we_web X) live"
  shows "transport_laws (wasm_ops X) (conns_known wt_conn ww_browser live)"
proof (unfold_locales, goal_cases)
  case (1 w u) then show ?case by (rule browser.up_not_down)
next
  case (2 w ch)
  obtain u w1 where u: "wt_uuid X w = (u, w1)" by fastforce
  let ?t = "\<lparr>wt_connection = None, wt_pending_candidates = [], wt_channel = None,
    wt_event_sender = ch, wt_public_key = None, wt_chunk_list = []\<rparr>"
  have eq: "wt_new X ch w = (u, w1\<lparr>ww_transports := (ww_transports w1)(u \<mapsto> ?t)\<rparr>)"
    by (simp add: wt_new_def u)
  have "wt_links X live {} w w1" using wt_uuid_links [OF assms, of "{}" w] u by simp
  then show ?case
    using 2 unfolding wasm_ops_simps eq fst_conv snd_conv by (rule browser.fresh_links) (simp_all add: wt_conn_def)
next
  case 3 show ?case by (simp add: browser.links_same_links wt_start_links [OF assms])
next
  case (4 w u)
  have "keeps (wt_links X live {}) (wt_apply_callback u)" unfolding wt_apply_callback_def by (intro link_rules)
  then show ?case by (simp add: keeps_def browser.links_same_links)
next
  case (5 u w)
  have "wt_links X live {u} w (snd (wt_close X u w))"
  proof (cases "wt_conn w u")
    case None
    then show ?thesis using reflpD [OF browser.links_refl] by (simp add: wt_close_snd)
  next
    case (Some p)
    show ?thesis unfolding wt_close_snd Some option.case
      by (rule browser.own_conn_links [OF Some]) (simp_all add: web_ok_own(3) [OF assms])
  qed
  then show ?case by (simp add: browser.links_same_links)
next
  case (6 w u)
  then obtain p where p: "wt_conn w u = Some p" "live (ww_browser w) p"
    by (auto simp: conns_known_def conns_ok_def)
  then show ?case
    using web_ok_own(4) [OF assms p(2)] by (intro browser.closed_disconnected [where p = p]) (simp_all add: wt_close_snd)
next
  case 7 show ?case using wt_send_links [OF assms] by (simp add: keeps_def browser.links_same_links)
next
  case 8 show ?case using wt_wait_links [OF assms] by (simp add: keeps_def browser.links_same_links)
next
  case 9 show ?case using wt_handshake_links [OF assms] by (simp add: keeps_def browser.links_same_links)
next
  case 10 show ?case using wt_register_links [OF assms] by (simp add: keeps_def browser.links_same_links)
next
  case 11 show ?case
    by (simp, rule browser.links_same_links, rule browser.still_links) (simp_all add: wt_recv_def split_beta)
next
  case 12 show ?case by (simp add: browser.links_same_links wt_uuid_links [OF assms])
qed

section \<open>Messages between browsers and native nodes\<close>

text \<open>\<open>log c d\<close>: what the browser has accepted on data channel \<open>d\<close>.\<close>

definition web_logs :: "('c, 'k) web_ops \<Rightarrow> ('c \<Rightarrow> dc \<Rightarrow> bytes list) \<Rightarrow> bool" where
  "web_logs S log \<longleftrightarrow> (\<forall>c. log (snd (wb_uuid S c)) = log c)
     \<and> (\<forall>bs d c c'. wb_send S bs d c = (Some (), c') \<longrightarrow> log c' d = log c d @ [bs])"

fun wt_on_messages :: "('c, 'k) web_env \<Rightarrow> uuid \<Rightarrow> message_data list \<Rightarrow> ('c, 'k, unit) web_action" where
  "wt_on_messages X u [] = sret ()"
| "wt_on_messages X u (m # ms) = sbind (wt_on_message X u m) (\<lambda>_. wt_on_messages X u ms)"

lemma wt_send_chunks_logged:
  assumes "web_logs (we_web X) log" "wt_send_chunks X d cs w = (Inr (), w')"
  shows "\<exists>frames. map (we_chunk_bin X) cs = map Some frames
    \<and> log (ww_browser w') d = log (ww_browser w) d @ frames"
  using assms(2)
proof (induction cs arbitrary: w)
  case Nil
  then show ?case by simp
next
  case (Cons c cs)
  obtain bs where bs: "we_chunk_bin X c = Some bs"
    using Cons.prems by (cases "we_chunk_bin X c") (simp_all add: chunk_to_bincode_def)
  obtain r st where r: "wb_send (we_web X) bs d (ww_browser w) = (r, st)" by fastforce
  have n: "r = Some ()" and rest: "wt_send_chunks X d cs (w\<lparr>ww_browser := st\<rparr>) = (Inr (), w')"
    using Cons.prems bs r by (auto simp: chunk_to_bincode_def web_or_def web_def sbind_def ok_or_def split: option.splits)
  obtain frames where "map (we_chunk_bin X) cs = map Some frames"
      "log (ww_browser w') d = log st d @ frames"
    using Cons.IH [OF rest] by auto
  moreover have "log st d = log (ww_browser w) d @ [bs]"
    using assms(1) r n by (simp add: web_logs_def)
  ultimately show ?case by (intro exI [of _ "bs # frames"]) (simp add: bs)
qed

lemma wt_on_messages_deliver:
  assumes "list_all2 (\<lambda>m c. \<exists>f. message_bytes m = Some f \<and> f \<noteq> [] \<and> we_chunk_unbin X f = Some c) ms cs"
    and "ww_transports r u = Some t" "\<not> cb_closed (ww_channels r (wt_event_sender t))"
  shows "cb_queue (ww_channels (snd (wt_on_messages X u ms r)) (wt_event_sender t)) =
      cb_queue (ww_channels r (wt_event_sender t)) @
        concat (map (case_option [] (\<lambda>data. [DataChannelMessage data]))
                  (fst (deliver (wt_now X r) cs (wt_chunk_list t))))"
  using assms
proof (induction ms cs arbitrary: r t rule: list_all2_induct)
  case Nil
  then show ?case by simp
next
  case (Cons m ms c cs)
  obtain f where f: "message_bytes m = Some f" "f \<noteq> []" "chunk_from_bincode (we_chunk_unbin X) f = Inr c"
    using Cons.hyps(1) by (auto simp: chunk_from_bincode_def)
  obtain data l where h: "cl_handle (wt_now X r) c (wt_chunk_list t) = (data, l)" by fastforce
  obtain rs l' where d: "deliver (wt_now X r) cs l = (rs, l')" by fastforce
  let ?t = "t\<lparr>wt_chunk_list := l\<rparr>"
  let ?e = "case_option [] (\<lambda>data. [DataChannelMessage data]) data"
  let ?ch = "ww_channels r (wt_event_sender t)"
  let ?r = "snd (wt_on_message X u m r)"
  have step: "wt_on_message X u m r = (Inr (), ?r)" "ww_transports ?r u = Some ?t"
      "ww_browser ?r = ww_browser r" "ww_channels ?r (wt_event_sender t) = ?ch\<lparr>cb_queue := cb_queue ?ch @ ?e\<rparr>"
    using Cons.prems h f
    by (cases data; simp add: wt_on_message_def wt_read_def wt_update_def sbind_def attempt_def
        wt_emit_def cb_send_def wt_now_def)+
  have "wt_now X ?r = wt_now X r" using step(3) by (simp add: wt_now_def)
  moreover have "wt_on_messages X u (m # ms) r = wt_on_messages X u ms ?r"
    by (subst wt_on_messages.simps) (rule sbind_simps(2), rule step(1))
  ultimately show ?case
    using Cons.IH [of ?r ?t] Cons.prems step(2,4) by (simp add: h d)
qed

text \<open>
  C20: a message from a native node arrives at a browser as it was. When the native transport has
  sent a message that is not empty, the browser at the other end of the data channel, which is
  given the accepted frames as blobs or as arrays within their lifetime, raises exactly one event
  on its node's channel, and the event carries the message.
\<close>

theorem node_message_reaches_browser:
  assumes "rtc_logs (fe_rtc X) log"
    and "\<forall>c f. fe_chunk_bin X c = Some f \<longrightarrow> we_chunk_unbin Y f = Some c \<and> f \<noteq> []"
    and "fw_transports w u = Some s" "df_data_channel s = Some d"
    and "df_send_message X msg u w = (Inr (), w')" "msg \<noteq> []"
    and "rt_uuid (fe_rtc X) (fw_stack w) = (i, c)"
    and "ww_transports r v = Some t" "\<not> cb_closed (ww_channels r (wt_event_sender t))"
    and "\<forall>e\<in>set (wt_chunk_list t). cm_id (ch_meta e) \<noteq> i"
    and "meta_accepted (wt_now Y r) (ChunkMeta_default i (rt_now (fe_rtc X) c))"
    and "\<forall>f. f \<noteq> [] \<longrightarrow> message_bytes (arrive f) = Some f"
  shows "\<exists>frames. log (fw_stack w') d = log (fw_stack w) d @ frames
    \<and> cb_queue (ww_channels (snd (wt_on_messages Y v (map arrive frames) r)) (wt_event_sender t))
      = cb_queue (ww_channels r (wt_event_sender t)) @ [DataChannelMessage msg]"
proof -
  let ?cs = "cl_from_bytes TRANSPORT_MTU (ChunkMeta_default i (rt_now (fe_rtc X) c)) msg"
  have "df_send_chunks X d ?cs (w\<lparr>fw_stack := c\<rparr>) = (Inr (), w')"
    using assms(3-5,7) by (simp add: df_send_message_def df_get_data_channel_def df_read_def
        rtc_def df_now_def sbind_def split: if_splits)
  then obtain frames where f: "map (fe_chunk_bin X) ?cs = map Some frames"
      "log (fw_stack w') d = log c d @ frames"
    using send_chunks_logged [OF assms(1)] by fastforce
  have c: "log c d = log (fw_stack w) d"
    using assms(1,7) by (metis rtc_logs_def snd_conv)
  have "\<forall>c f. fe_chunk_bin X c = Some f \<longrightarrow> (if f = [] then None else we_chunk_unbin Y f) = Some c"
    using assms(2) by simp
  note read = message_frames [OF f(1) this assms(6,11,10)]
  have "list_all2 (\<lambda>m c. \<exists>f. message_bytes m = Some f \<and> f \<noteq> [] \<and> we_chunk_unbin Y f = Some c)
      (map arrive frames) ?cs"
    unfolding list_all2_map1 by (rule list_all2_mono [OF read(1)]) (use assms(12) in \<open>auto split: if_splits\<close>)
  note deliver = wt_on_messages_deliver [OF this assms(8,9)]
  show ?thesis using f(2) c deliver read(2) by (intro exI [of _ frames]) simp
qed

text \<open>
  A message from a browser arrives at a native node as it was: the frames that the browser
  accepted for it raise exactly one event at the native transport that receives them, and the
  event carries the message.
\<close>

lemma browser_message_reaches_node:
  assumes "web_logs (we_web Y) log"
    and "\<forall>c f. we_chunk_bin Y c = Some f \<longrightarrow> fe_chunk_unbin X f = Some c"
    and "ww_transports w u = Some s" "wt_channel s = Some d"
    and "wt_send_message Y msg u w = (Inr (), w')" "msg \<noteq> []"
    and "wb_uuid (we_web Y) (ww_browser w) = (i, c)"
    and "fw_transports r v = Some t" "\<not> ch_closed (fw_channels r (df_event_sender t))"
    and "\<forall>e\<in>set (df_chunk_list t). cm_id (ch_meta e) \<noteq> i"
    and "meta_accepted (df_now X r) (ChunkMeta_default i (wb_now (we_web Y) c))"
  shows "\<exists>frames. log (ww_browser w') d = log (ww_browser w) d @ frames
    \<and> ch_queue (fw_channels (snd (df_on_messages X v frames r)) (df_event_sender t))
      = ch_queue (fw_channels r (df_event_sender t)) @ [DataChannelMessage msg]"
proof -
  let ?cs = "cl_from_bytes TRANSPORT_MTU (ChunkMeta_default i (wb_now (we_web Y) c)) msg"
  have "wt_send_chunks Y d ?cs (w\<lparr>ww_browser := c\<rparr>) = (Inr (), w')"
    using assms(3-5,7) by (simp add: wt_send_message_def wt_get_data_channel_def wt_read_def
        web_def wt_now_def sbind_def split: if_splits)
  then obtain frames where f: "map (we_chunk_bin Y) ?cs = map Some frames"
      "log (ww_browser w') d = log c d @ frames"
    using wt_send_chunks_logged [OF assms(1)] by fastforce
  have c: "log c d = log (ww_browser w) d"
    using assms(1,7) by (metis web_logs_def snd_conv)
  note read = message_frames [OF f(1) assms(2,6,11,10)]
  show ?thesis
    using f(2) c on_messages_deliver [OF read(1) assms(8,9)] read(2) by (intro exI [of _ frames]) simp
qed

section \<open>Handshakes between browsers and native nodes\<close>

text \<open>A description keeps its type and its text on the way through the wrapper; one without a type becomes an offer.\<close>

lemma wrapper_keeps_description:
  "description_init_of (wrapper_of sdp) =
     (if sd_type sdp = SdpUnspecified then sdp\<lparr>sd_type := Offer\<rparr> else sdp)"
  by (cases sdp; cases "sd_type sdp") (simp_all add: description_init_of_def wrapper_of_def)

text \<open>
  What a browser's transport seals for a handshake, a native transport that registers it accepts
  with the browser's description and its pending candidates.
\<close>

lemma browser_handshake_reads_back:
  assumes "ecdsa_ok (fe_ecc X)" "we_ecc Y = fe_ecc X" "we_json Y = fe_json X" "we_codec Y = fe_codec X"
    and "\<forall>bs s. b58_encode_check (fe_codec X) bs = Some s \<longrightarrow> b58_decode_check (fe_codec X) s = Some bs"
    and "\<forall>p bs. we_bin Y p = Some bs \<longrightarrow> fe_unbin X bs = Some p"
    and "\<forall>sdp s. we_sdp_json Y sdp = Some s \<longrightarrow> fe_sdp_of_json X s = Some (description_init_of sdp)"
    and "wt_get_handshake_info Y sm kind u w = (Inr enc, w')" "sm_valid (fe_ecc X) (df_now X r) sm"
    and "df_now X r \<le> wt_now Y w' + ucast DEFAULT_TTL_MS"
  shows "kind \<in> {Offer, Answer} \<and> (\<exists>sdp w1 cs cands.
      (if kind = Answer then wt_get_answer Y u else wt_get_offer Y u) w = (Inr sdp, w1)
    \<and> wt_get_pending_candidates u w1 = (Inr cs, w1) \<and> cs \<noteq> []
    \<and> candidates_to_json (we_candidate_json Y) cs = Inr cands
    \<and> df_register_remote_info X enc v r =
        df_accept X (if sd_type sdp = SdpUnspecified then sdp\<lparr>sd_type := Offer\<rparr> else sdp) cands
          (sk_session sm) (sm_authorizer sm) v r)"
proof -
  obtain sdp w1 where first: "(case kind of Answer \<Rightarrow> wt_get_answer Y u | Offer \<Rightarrow> wt_get_offer Y u
        | _ \<Rightarrow> serr RTCSdpTypeNotMatch) w = (Inr sdp, w1)"
    and rest1: "sbind (wt_get_pending_candidates u) (\<lambda>cs. sbind (slift (candidates_to_json (we_candidate_json Y) cs))
        (\<lambda>cands. if cands = [] then serr FailedOnGatherLocalCandidate else
          sbind (slift (ok_or (we_sdp_json Y (wrapper_of sdp)) DeserializeError)) (\<lambda>s w.
            case wt_uuid Y w of (tx, w) \<Rightarrow>
              (rbind (MessagePayload_new_send (we_ecc Y) (we_json Y) (wt_now Y w) tx
                  \<lparr>tp_sdp = s, tp_candidates = cands\<rparr> sm (sm_authorizer sm) (sm_authorizer sm))
                 (pl_encode (we_codec Y) (we_bin Y)), w)))) w1 = (Inr enc, w')"
    using sbind_Inr [THEN iffD1, OF assms(8) [unfolded wt_get_handshake_info_def Let_def]] by blast
  have kind: "kind \<in> {Offer, Answer}"
    and sdp: "(if kind = Answer then wt_get_answer Y u else wt_get_offer Y u) w = (Inr sdp, w1)"
    using first by (cases kind; simp)+
  obtain t where t: "ww_transports w1 u = Some t"
    using rest1 by (cases "ww_transports w1 u") (simp_all add: wt_get_pending_candidates_def wt_read_def sbind_def)
  then have cs: "wt_get_pending_candidates u w1 = (Inr (wt_pending_candidates t), w1)"
    by (simp add: wt_get_pending_candidates_def wt_read_def sbind_def)
  obtain cands where cands: "candidates_to_json (we_candidate_json Y) (wt_pending_candidates t) = Inr cands" "cands \<noteq> []"
    using rest1 cs by (cases "candidates_to_json (we_candidate_json Y) (wt_pending_candidates t)")
      (auto simp: sbind_def split: if_splits)
  obtain s where s: "we_sdp_json Y (wrapper_of sdp) = Some s"
    using rest1 cs cands by (cases "we_sdp_json Y (wrapper_of sdp)") (simp_all add: sbind_def)
  obtain tx where seal: "rbind (MessagePayload_new_send (fe_ecc X) (fe_json X) (wt_now Y w') tx
                  \<lparr>tp_sdp = s, tp_candidates = cands\<rparr> sm (sm_authorizer sm) (sm_authorizer sm))
                 (pl_encode (fe_codec X) (we_bin Y)) = Inr enc"
    using rest1 cs cands s assms(2-4) by (auto simp: sbind_def split: prod.splits)
  obtain p where p: "pl_from_encoded (fe_codec X) (fe_unbin X) enc = Inr p"
      "pl_verify (fe_ecc X) (fe_json X) (df_now X r) p" "pl_data p = \<lparr>tp_sdp = s, tp_candidates = cands\<rparr>"
      "pl_addr p = sm_authorizer sm" "mv_session (pl_origin_verification p) = sk_session sm"
    using sealed_handshake_verifies [OF assms(1,5,6) seal assms(9,10)] by blast
  let ?sdp = "if sd_type sdp = SdpUnspecified then sdp\<lparr>sd_type := Offer\<rparr> else sdp"
  have "fe_sdp_of_json X s = Some ?sdp" using assms(7) s unfolding wrapper_keeps_description [symmetric] by simp
  then have "df_register_remote_info X enc v r = df_accept X ?sdp cands (sk_session sm) (sm_authorizer sm) v r"
    using df_register_verified [OF p(1,2)] p(3-5) by simp
  moreover have "wt_pending_candidates t \<noteq> []" using cands by (auto simp: candidates_to_json_def)
  ultimately show ?thesis using kind sdp cs cands(1) by blast
qed

text \<open>A transport whose handlers are set appends what the browser reports to its pending candidates.\<close>

lemma wt_candidates_found:
  assumes "ww_candidates w p = Some (u, Some p)" "ww_transports w u = Some t"
  shows "wt_candidates X p ks w = (Inr (), w\<lparr>ww_transports := (ww_transports w)
    (u \<mapsto> t\<lparr>wt_pending_candidates := wt_pending_candidates t @ List.map_filter (\<lambda>k. k) ks\<rparr>)\<rparr>)"
  using assms
proof (induction ks arbitrary: w t)
  case Nil
  then have "(ww_transports w)(u \<mapsto> t) = ww_transports w" by (simp add: fun_upd_idem)
  then show ?case using Nil by (simp add: map_filter_simps)
next
  case (Cons k ks)
  let ?t = "t\<lparr>wt_pending_candidates := wt_pending_candidates t @ List.map_filter (\<lambda>k. k) [k]\<rparr>"
  let ?w = "w\<lparr>ww_transports := (ww_transports w)(u \<mapsto> ?t)\<rparr>"
  have same: "(ww_transports w)(u \<mapsto> t) = ww_transports w" using Cons.prems(2) by (simp add: fun_upd_idem)
  have "wt_callback X (CandidateEvent p k) w = (Inr (), ?w)"
    using Cons.prems same by (cases k) (simp_all add: wt_callback_def wt_on_ice_candidate_def wt_update_def map_filter_simps)
  moreover have "wt_candidates X p ks ?w = (Inr (), w\<lparr>ww_transports := (ww_transports w)
      (u \<mapsto> t\<lparr>wt_pending_candidates := wt_pending_candidates t @ List.map_filter (\<lambda>k. k) (k # ks)\<rparr>)\<rparr>)"
    by (subst Cons.IH [of ?w ?t]) (use Cons.prems in \<open>simp_all add: map_filter_simps split: option.split\<close>)
  ultimately show ?case by (simp only: wt_candidates.simps sbind_def prod.case sum.case)
qed

lemma wt_described:
  assumes "ww_transports w u = Some t" "wt_connection t = Some p" "ww_candidates w p = Some (u, Some p)"
    and "(if kind = Answer then wt_get_answer Y u else wt_get_offer Y u) w = (Inr sdp, w1)"
  obtains c1 c2 c3 d ks es where
    "(if kind = Answer then wb_create_answer (we_web Y) else wb_create_offer (we_web Y)) p (ww_browser w) = (Some sdp, c1)"
    "description_of (wb_new_description (we_web Y)) (wrapper_of sdp) = Inr d"
    "wb_set_local (we_web Y) d p c1 = (Some (), c2)" "wb_gather (we_web Y) p c2 = ((ks, es), c3)"
    "ww_transports w1 u = Some (t\<lparr>wt_pending_candidates := wt_pending_candidates t @ List.map_filter (\<lambda>k. k) ks\<rparr>)"
proof -
  let ?create = "if kind = Answer then wb_create_answer (we_web Y) else wb_create_offer (we_web Y)"
  obtain o' c1 where create: "?create p (ww_browser w) = (o', c1)" by fastforce
  have o': "o' = Some sdp"
    using assms(1,2,4) create
    by (auto simp: wt_get_answer_def wt_get_offer_def wt_with_connection_eq sbind_def web_or_def web_def ok_or_def
        split: if_splits option.splits prod.splits sum.splits)
  obtain d where d: "description_of (wb_new_description (we_web Y)) (wrapper_of sdp) = Inr d"
    using assms(1,2,4) create o'
    by (cases "description_of (wb_new_description (we_web Y)) (wrapper_of sdp)")
       (auto simp: wt_get_answer_def wt_get_offer_def wt_with_connection_eq sbind_def web_or_def web_def ok_or_def
        wt_set_local_description_def split: if_splits)
  have same: "\<lparr>sd_type = sd_type d, sd_sdp = sd_sdp d\<rparr> = d" by (cases d) simp
  obtain r c2 where local: "wb_set_local (we_web Y) d p c1 = (r, c2)" by fastforce
  have r: "r = Some ()"
    using assms(1,2,4) create local d o'
    by (cases r) (auto simp: wt_get_answer_def wt_get_offer_def wt_with_connection_eq sbind_def web_or_def web_def ok_or_def
        wt_set_local_description_def Let_def same split: if_splits)
  obtain ks es c3 where gather: "wb_gather (we_web Y) p c2 = ((ks, es), c3)" by (metis surj_pair)
  let ?w = "w\<lparr>ww_browser := c3\<rparr>"
  have "wt_candidates Y p ks ?w = (Inr (), ?w\<lparr>ww_transports := (ww_transports w)
      (u \<mapsto> t\<lparr>wt_pending_candidates := wt_pending_candidates t @ List.map_filter (\<lambda>k. k) ks\<rparr>)\<rparr>)"
    using wt_candidates_found [of ?w p u t Y ks] assms(1,3) by simp
  then have "w1 = ?w\<lparr>ww_transports := (ww_transports w)
      (u \<mapsto> t\<lparr>wt_pending_candidates := wt_pending_candidates t @ List.map_filter (\<lambda>k. k) ks\<rparr>)\<rparr>"
    using assms(1,2,4) create local gather d r o'
    by (auto simp: wt_get_answer_def wt_get_offer_def wt_with_connection_eq sbind_def web_or_def web_def ok_or_def
        wt_set_local_description_def wt_await_gathering_def wt_gather_complete_promise_def Let_def same
        split: if_splits sum.splits)
  then show thesis using that create local gather d r o' by simp
qed

text \<open>
  C21: a handshake made by a browser is accepted by a native node. Only an offer or an answer can
  be asked for. A browser's transport whose handlers are set makes the handshake information from
  the description that the browser creates, which it also sets as the local one, and from the
  candidates pending so far followed by those that the browser reports while it gathers, in this
  order, at least one in all. A native transport with a connection, registering the information
  while the browser's session is valid and before the information expires, sets that description
  as the remote one (a description without a type arrives as an offer) and, when its stack takes
  it, gives the stack every candidate in the same order; it records the key behind the browser's
  session, if there is one, and answers with the address of the browser's account. (Both sides use
  the same cryptography and codecs, which are assumed to read back what was written.)
\<close>

theorem browser_handshake_reaches_node:
  assumes "ecdsa_ok (fe_ecc X)" "we_ecc Y = fe_ecc X" "we_json Y = fe_json X" "we_codec Y = fe_codec X"
    and "\<forall>bs s. b58_encode_check (fe_codec X) bs = Some s \<longrightarrow> b58_decode_check (fe_codec X) s = Some bs"
    and "\<forall>p bs. we_bin Y p = Some bs \<longrightarrow> fe_unbin X bs = Some p"
    and "\<forall>sdp s. we_sdp_json Y sdp = Some s \<longrightarrow> fe_sdp_of_json X s = Some (description_init_of sdp)"
    and "wt_get_handshake_info Y sm kind u w = (Inr enc, w')" "sm_valid (fe_ecc X) (df_now X r) sm"
    and "df_now X r \<le> wt_now Y w' + ucast DEFAULT_TTL_MS"
    and "ww_transports w u = Some t" "wt_connection t = Some p" "ww_candidates w p = Some (u, Some p)"
    and "fw_transports r v = Some s" "df_connection s = Some q"
  shows "kind \<in> {Offer, Answer} \<and> (\<exists>sdp ks es cands d c1 c2 c3.
      (if kind = Answer then wb_create_answer (we_web Y) else wb_create_offer (we_web Y)) p (ww_browser w) = (Some sdp, c1)
    \<and> description_of (wb_new_description (we_web Y)) (wrapper_of sdp) = Inr d
    \<and> wb_set_local (we_web Y) d p c1 = (Some (), c2) \<and> wb_gather (we_web Y) p c2 = ((ks, es), c3)
    \<and> map (we_candidate_json Y) (wt_pending_candidates t @ List.map_filter (\<lambda>k. k) ks) = map Some cands \<and> cands \<noteq> []
    \<and> (\<forall>c. rt_set_remote (fe_rtc X) (if sd_type sdp = SdpUnspecified then sdp\<lparr>sd_type := Offer\<rparr> else sdp) q (fw_stack r)
          = (Some (), c) \<longrightarrow>
        df_register_remote_info X enc v r = (Inr (sm_authorizer sm), r\<lparr>
          fw_stack := fold (\<lambda>k c. snd (rt_add_ice_candidate (fe_rtc X) k q c)) cands c,
          fw_transports := (fw_transports r)(v \<mapsto> s\<lparr>df_public_key :=
            (case session_authorizer_pubkey (fe_ecc X) (sk_session sm) of Inr pk \<Rightarrow> Some pk
             | Inl _ \<Rightarrow> df_public_key s)\<rparr>)\<rparr>)))"
proof -
  obtain sdp w1 cs cands where kind: "kind \<in> {Offer, Answer}"
    and made: "(if kind = Answer then wt_get_answer Y u else wt_get_offer Y u) w = (Inr sdp, w1)"
      "wt_get_pending_candidates u w1 = (Inr cs, w1)" "cs \<noteq> []"
      "candidates_to_json (we_candidate_json Y) cs = Inr cands"
    and taken: "df_register_remote_info X enc v r =
        df_accept X (if sd_type sdp = SdpUnspecified then sdp\<lparr>sd_type := Offer\<rparr> else sdp) cands
          (sk_session sm) (sm_authorizer sm) v r"
    using browser_handshake_reads_back [OF assms(1-10)] by blast
  obtain c1 c2 c3 d ks es where stack:
    "(if kind = Answer then wb_create_answer (we_web Y) else wb_create_offer (we_web Y)) p (ww_browser w) = (Some sdp, c1)"
    "description_of (wb_new_description (we_web Y)) (wrapper_of sdp) = Inr d"
    "wb_set_local (we_web Y) d p c1 = (Some (), c2)" "wb_gather (we_web Y) p c2 = ((ks, es), c3)"
    and t: "ww_transports w1 u = Some (t\<lparr>wt_pending_candidates := wt_pending_candidates t @ List.map_filter (\<lambda>k. k) ks\<rparr>)"
    using wt_described [OF assms(11-13) made(1)] .
  have cs: "cs = wt_pending_candidates t @ List.map_filter (\<lambda>k. k) ks"
    using made(2) t by (simp add: wt_get_pending_candidates_def wt_read_def sbind_def)
  then have cands: "map (we_candidate_json Y) (wt_pending_candidates t @ List.map_filter (\<lambda>k. k) ks) = map Some cands"
      "cands \<noteq> []"
    using made(3,4) by (auto simp: candidates_to_json_Inr)
  show ?thesis
    using kind stack cands df_accept_effect [OF assms(14,15), where X = X and cands = cands, unfolded candidates_given_def]
    unfolding taken by blast
qed

section \<open>Where browsers fall short\<close>

text \<open>
  \<open>wait_for_connected\<close> sets a handler that takes a state, but a browser calls the handler of a
  state change with an event, which is none of the states: the wait never ends, and with the
  handler that it replaced the node hears nothing of the connection any more.
\<close>

lemma browser_wait_never_ends:
  assumes "ww_transports w u = Some t" "wt_connection t = Some p"
    and "wb_await_state (we_web X) p (ww_browser w) = (es, c)"
    and "\<forall>e\<in>set es. e = Polled \<or> e = Fired EventObject"
  shows "\<exists>w'. wt_wait_for_connected X u w = (Inl (Panicked ''never woken''), w')
    \<and> (\<forall>ty. wt_callback X (StateEvent p ty) w' = (Inr (), w'))"
proof -
  have "promise_await settle_callback es s = None" if "\<not> completed s" for s
    using assms(4) that
  proof (induction es arbitrary: s)
    case (Cons e es)
    then show ?case by (cases e) (auto simp: promise_poll_def settle_callback_def)
  qed simp
  then have "promise_await settle_callback es promise_default = None"
    by (simp add: promise_default_def)
  then show ?thesis
    using assms(1-3)
    by (simp add: wt_wait_for_connected_def wt_connect_success_promise_def wt_with_connection_eq web_def
        sbind_def suspended_def wt_callback_def)
qed

text \<open>
  A connection that cannot be made, as with a server URL the browser does not take, is passed
  over by \<open>start\<close>, which succeeds; only setting the callbacks then fails.
\<close>

lemma browser_start_ignores_failure:
  assumes "ww_transports w u = Some t"
    and "wb_new_peer_connection (we_web X)
      \<lparr>wc_ice_servers = map js_ice_server_of servers, wc_candidate_pool_size = 10\<rparr> (ww_browser w) = (None, c)"
  shows "\<exists>w'. wt_start X servers ext u w = (Inr (), w') \<and> wt_conn w' u = None
    \<and> wt_apply_callback u w' = (Inl RTCPeerConnectionNotEstablish, w')"
  using assms
  by (simp add: wt_start_def web_def sbind_def wt_update_def wt_setup_channel_def wt_get_peer_connection_eq
      wt_conn_def wt_apply_callback_def wt_with_connection_eq)

section \<open>A browser\<close>

text \<open>
  A browser on which the theorems are applied: the stack of \<open>WebRTCProps\<close> behind the browser's
  operations, with the same texts for the same values.
\<close>

definition demo_web :: "(demo_stack, ice_candidate) web_ops" where
  "demo_web = \<lparr>
     wb_new_peer_connection = (\<lambda>_ c. (Some (ds_pcs c), c\<lparr>ds_pcs := ds_pcs c + 1\<rparr>)),
     wb_create_data_channel = (\<lambda>_ p c. (p, c)),
     wb_create_offer = (\<lambda>_ c. (Some \<lparr>sd_type = Offer, sd_sdp = ''v=0''\<rparr>, c)),
     wb_create_answer = (\<lambda>_ c. (Some \<lparr>sd_type = Answer, sd_sdp = ''v=0''\<rparr>, c)),
     wb_new_description = Some,
     wb_set_local = (\<lambda>_ _ c. (Some (), c)),
     wb_set_remote = (\<lambda>_ p c. (Some (), c\<lparr>ds_ice := (ds_ice c)(p := IceConnected)\<rparr>)),
     wb_add_ice_candidate = (\<lambda>_ _ c. (Some (), c)),
     wb_gather = (\<lambda>_ c. (([Some demo_candidate, None], [Polled, Fired GatherComplete, Polled]), c)),
     wb_close = (\<lambda>p c. c\<lparr>ds_ice := (ds_ice c)(p := IceClosed)\<rparr>),
     wb_ice_state = ds_ice,
     wb_send = (\<lambda>bs d c. (Some (), c\<lparr>ds_sent := (ds_sent c)(d := ds_sent c d @ [bs])\<rparr>)),
     wb_ready_state = (\<lambda>_ _. DcOpen), wb_await_open = (\<lambda>_ c. ([], c)),
     wb_await_state = (\<lambda>_ c. ([Polled, Fired EventObject, Polled], c)), wb_now = ds_time,
     wb_uuid = (\<lambda>c. (ds_uuids c, c\<lparr>ds_uuids := ds_uuids c + 1\<rparr>))\<rparr>"

lemma demo_web_ok: "web_ok demo_web (\<lambda>c p. p < ds_pcs c)"
  by (simp add: web_ok_def demo_web_def conns_same_def)

definition demo_web_env :: "(demo_stack, ice_candidate) web_env" where
  "demo_web_env = \<lparr>we_web = demo_web, we_ecc = demo_ecc, we_codec = fe_codec demo_rtc_env,
     we_json = fe_json demo_rtc_env, we_bin = fe_bin demo_rtc_env, we_unbin = fe_unbin demo_rtc_env,
     we_sdp_json = (\<lambda>s. if s = wrapper_of \<lparr>sd_type = Offer, sd_sdp = ''v=0''\<rparr> then Some ''sdp'' else None),
     we_sdp_of_json = (\<lambda>_. Some (wrapper_of \<lparr>sd_type = Offer, sd_sdp = ''v=0''\<rparr>)),
     we_candidate_json = Some, we_chunk_bin = fe_chunk_bin demo_rtc_env,
     we_chunk_unbin = fe_chunk_unbin demo_rtc_env\<rparr>"

definition demo_web_world :: "(demo_stack, ice_candidate) web_world" where
  "demo_web_world =
     (let w = \<lparr>ww_transports = (\<lambda>_. None), ww_channels = (\<lambda>_. cb_new), ww_candidates = (\<lambda>_. None),
               ww_data_channels = (\<lambda>_. None), ww_states = (\<lambda>_. None), ww_receivers = (\<lambda>_. None),
               ww_browser = \<lparr>ds_pcs = 0, ds_ice = \<lambda>_. IceNew, ds_sent = \<lambda>_. [], ds_time = 10000, ds_uuids = 5\<rparr>\<rparr>;
          w = snd (wt_new demo_web_env 9 w);
          w = snd (wt_start demo_web_env [] None 5 w)
      in snd (wt_apply_callback 5 w))"

definition demo_wasm :: "ice_candidate wasm_transport" where
  "demo_wasm = \<lparr>wt_connection = Some 0, wt_pending_candidates = [], wt_channel = Some 0,
     wt_event_sender = 9, wt_public_key = None, wt_chunk_list = []\<rparr>"

lemma demo_web_world_eq:
  "demo_web_world = \<lparr>ww_transports = [5 \<mapsto> demo_wasm], ww_channels = (\<lambda>_. cb_new),
     ww_candidates = [0 \<mapsto> (5, Some 0)], ww_data_channels = [0 \<mapsto> 5], ww_states = [0 \<mapsto> ReportState 5 (Some 0)],
     ww_receivers = (\<lambda>_. None),
     ww_browser = \<lparr>ds_pcs = 1, ds_ice = \<lambda>_. IceNew, ds_sent = \<lambda>_. [], ds_time = 10000, ds_uuids = 6\<rparr>\<rparr>"
  by (simp add: demo_web_world_def demo_web_env_def demo_web_def demo_wasm_def wt_new_def wt_uuid_def
      wt_start_def wt_setup_channel_def wt_with_connection_eq wt_get_peer_connection_eq wt_update_def web_def
      wt_apply_callback_def sbind_def Let_def)

lemma demo_web_env_simps:
  "we_web demo_web_env = demo_web" "we_ecc demo_web_env = demo_ecc"
  "we_json demo_web_env = (\<lambda>t. Some (tp_sdp t))" "we_candidate_json demo_web_env = Some"
  "we_codec demo_web_env = fe_codec demo_rtc_env" "we_bin demo_web_env = fe_bin demo_rtc_env"
  "we_chunk_bin demo_web_env = fe_chunk_bin demo_rtc_env"
  "we_chunk_unbin demo_web_env = fe_chunk_unbin demo_rtc_env"
  by (simp_all add: demo_web_env_def demo_rtc_env_simps)

section \<open>The theorems on this browser\<close>

theorem browser_obeys_interface_witness:
  "transport_laws (wasm_ops demo_web_env) (conns_known wt_conn ww_browser (\<lambda>c p. p < ds_pcs c))
   \<and> conns_known wt_conn ww_browser (\<lambda>c p. p < ds_pcs c) demo_web_world 5"
proof -
  have "conns_known wt_conn ww_browser (\<lambda>c p. p < ds_pcs c) demo_web_world 5"
    by (simp add: conns_known_def conns_ok_def wt_conn_def demo_web_world_eq demo_wasm_def)
  moreover have "web_ok (we_web demo_web_env) (\<lambda>c p. p < ds_pcs c)"
    using demo_web_ok by (simp add: demo_web_env_simps)
  ultimately show ?thesis using browser_obeys_interface [of demo_web_env] by blast
qed

lemma demo_meta_accepted: "meta_accepted 10000 (ChunkMeta_default 6 10000)"
  by (simp add: meta_accepted_def ChunkMeta_default_def DEFAULT_TTL_MS_def MAX_TTL_MS_def TS_OFFSET_TOLERANCE_MS_def)

theorem node_message_reaches_browser_witness:
  "\<exists>frames w'. df_send_message demo_rtc_env [7, 8] 5 demo_rtc_world = (Inr (), w')
     \<and> ds_sent (fw_stack w') 0 = frames
     \<and> cb_queue (ww_channels (snd (wt_on_messages demo_web_env 5 (map ArrayData frames) demo_web_world)) 9)
         = [DataChannelMessage [7, 8]]"
proof -
  have logs: "rtc_logs (fe_rtc demo_rtc_env) ds_sent"
    by (simp add: rtc_logs_def demo_rtc_env_simps demo_rtc_def)
  have bin: "\<forall>c f. fe_chunk_bin demo_rtc_env c = Some f \<longrightarrow> we_chunk_unbin demo_web_env f = Some c \<and> f \<noteq> []"
    by (auto simp: demo_rtc_env_simps demo_web_env_simps split: if_splits)
  have now: "meta_accepted (wt_now demo_web_env demo_web_world) (ChunkMeta_default 6 10000)"
    using demo_meta_accepted by (simp add: wt_now_def demo_web_world_eq demo_web_env_simps demo_web_def)
  show ?thesis
    using node_message_reaches_browser [OF logs bin _ _ demo_send, of demo_default 0 6
        "(fw_stack demo_rtc_world)\<lparr>ds_uuids := 7\<rparr>" demo_web_world 5 demo_wasm ArrayData] demo_send now
    by (simp add: demo_rtc_env_simps demo_rtc_world_eq demo_default_def demo_rtc_def demo_web_world_eq
        demo_wasm_def cb_new_def message_bytes_def)
qed

lemma demo_web_offer: "\<exists>w. wt_get_handshake_info demo_web_env demo_sm Offer 5 demo_web_world = (Inr (Encoded ''made''), w)
   \<and> wt_now demo_web_env w = 10000"
proof -
  let ?sdp = "\<lparr>sd_type = Offer, sd_sdp = ''v=0''\<rparr>"
  let ?w = "demo_web_world\<lparr>ww_transports := [5 \<mapsto> demo_wasm\<lparr>wt_pending_candidates := [demo_candidate]\<rparr>]\<rparr>"
  have "wt_get_offer demo_web_env 5 demo_web_world = (Inr ?sdp, ?w)"
    by (simp add: wt_get_offer_def wt_with_connection_eq demo_web_world_eq demo_wasm_def web_or_def web_def sbind_def
        demo_web_env_simps demo_web_def wt_set_local_description_def description_of_def wt_gather_complete_promise_def
        wt_await_gathering_def wt_callback_def wt_on_ice_candidate_def wt_update_def promise_poll_def
        promise_default_def gather_callback_def promise_settle_def suspended_def)
  moreover have "wt_uuid demo_web_env ?w = (6, ?w\<lparr>ww_browser := (ww_browser ?w)\<lparr>ds_uuids := 7\<rparr>\<rparr>)"
    by (simp add: wt_uuid_def demo_web_world_eq demo_web_env_simps demo_web_def)
  moreover have now: "wt_now demo_web_env (?w\<lparr>ww_browser := (ww_browser ?w)\<lparr>ds_uuids := 7\<rparr>\<rparr>) = 10000"
    by (simp add: wt_now_def demo_web_world_eq demo_web_env_simps demo_web_def)
  moreover have "wt_get_pending_candidates 5 ?w = (Inr [demo_candidate], ?w)"
    by (simp add: wt_get_pending_candidates_def wt_read_def sbind_def)
  moreover have "we_sdp_json demo_web_env (wrapper_of ?sdp) = Some ''sdp''" by (simp add: demo_web_env_def)
  moreover have "pl_encode (fe_codec demo_rtc_env) (fe_bin demo_rtc_env) demo_handshake = Inr (Encoded ''made'')"
    by (simp add: demo_rtc_env_def pl_encode_def pl_to_bincode_def encode_bytes_def)
  ultimately show ?thesis
    using demo_handshake_sealed
    by (simp add: wt_get_handshake_info_def sbind_def demo_web_env_simps demo_trickle_def candidates_to_json_def)
qed

theorem browser_handshake_reaches_node_witness:
  "\<exists>r. df_register_remote_info demo_rtc_env (Encoded ''made'') 5 demo_rtc_world = (Inr (sm_authorizer demo_sm), r)
     \<and> ds_ice (fw_stack r) 0 = IceConnected"
proof -
  obtain w where w: "wt_get_handshake_info demo_web_env demo_sm Offer 5 demo_web_world = (Inr (Encoded ''made''), w)"
    "wt_now demo_web_env w = 10000" using demo_web_offer by blast
  have ecc: "ecdsa_ok (fe_ecc demo_rtc_env)" using demo_ecc_ok by (simp add: demo_rtc_env_simps)
  have valid: "sm_valid (fe_ecc demo_rtc_env) (df_now demo_rtc_env demo_rtc_world) demo_sm"
    using demo_sm_valid by (simp add: demo_rtc_env_simps)
  have later: "df_now demo_rtc_env demo_rtc_world \<le> wt_now demo_web_env w + ucast DEFAULT_TTL_MS"
    unfolding w(2) by (simp add: df_now_def demo_rtc_world_eq demo_rtc_env_simps demo_rtc_def DEFAULT_TTL_MS_def)
  have same: "we_ecc demo_web_env = fe_ecc demo_rtc_env" "we_json demo_web_env = fe_json demo_rtc_env"
    by (simp_all add: demo_web_env_simps demo_rtc_env_simps)
  have sdp: "\<forall>sdp s. we_sdp_json demo_web_env sdp = Some s \<longrightarrow>
      fe_sdp_of_json demo_rtc_env s = Some (description_init_of sdp)"
    by (auto simp: demo_web_env_def demo_rtc_env_simps description_init_of_def wrapper_of_def split: if_splits)
  have t: "ww_transports demo_web_world 5 = Some demo_wasm" "wt_connection demo_wasm = Some 0"
      "ww_candidates demo_web_world 0 = Some (5, Some 0)"
      "fw_transports demo_rtc_world 5 = Some demo_default" "df_connection demo_default = Some 0"
    by (simp_all add: demo_web_world_eq demo_wasm_def demo_rtc_world_eq demo_default_def)
  have bin: "\<forall>p bs. we_bin demo_web_env p = Some bs \<longrightarrow> fe_unbin demo_rtc_env bs = Some p"
    "\<forall>bs s. b58_encode_check (fe_codec demo_rtc_env) bs = Some s \<longrightarrow> b58_decode_check (fe_codec demo_rtc_env) s = Some bs"
    using demo_codec_decodes by (simp_all add: demo_web_env_simps(6))
  obtain cands where "\<And>sdp c. rt_set_remote (fe_rtc demo_rtc_env) sdp 0 (fw_stack demo_rtc_world) = (Some (), c) \<Longrightarrow>
      df_register_remote_info demo_rtc_env (Encoded ''made'') 5 demo_rtc_world = (Inr (sm_authorizer demo_sm),
        demo_rtc_world\<lparr>fw_stack := fold (\<lambda>k c. snd (rt_add_ice_candidate (fe_rtc demo_rtc_env) k 0 c)) cands c,
          fw_transports := (fw_transports demo_rtc_world)(5 \<mapsto> demo_default\<lparr>df_public_key :=
            (case session_authorizer_pubkey (fe_ecc demo_rtc_env) (sk_session demo_sm) of Inr pk \<Rightarrow> Some pk
             | Inl _ \<Rightarrow> df_public_key demo_default)\<rparr>)\<rparr>)"
    using browser_handshake_reaches_node [OF ecc same demo_web_env_simps(5) bin(2,1) sdp w(1) valid later t]
    by (auto simp: demo_rtc_env_simps demo_rtc_def)
  moreover have "fold (\<lambda>k c. snd (rt_add_ice_candidate (fe_rtc demo_rtc_env) k 0 c)) ks c = c" for ks c
    by (induction ks arbitrary: c) (simp_all add: demo_rtc_env_simps demo_rtc_def)
  ultimately show ?thesis by (simp add: demo_rtc_env_simps demo_rtc_def)
qed

end
