(* ===== verification/Elgamal.thy ===== *)
theory Elgamal
  imports Session Chunk
begin

text \<open>
  ElGamal encryption of strings: \<open>rings-core/src/ecc/elgamal.rs\<close>. The curve arithmetic of
  libsecp256k1 is the record \<open>curve\<close> over its field elements \<open>'f\<close>, affine points \<open>'p\<close>,
  Jacobian points \<open>'j\<close> and scalars \<open>'s\<close>; normalising a field element does not change its value.
  The scalar that encryption draws is an argument.
\<close>

record ('f, 'p, 'j, 's) curve =
  cu_set_b32 :: "bytes \<Rightarrow> 'f option"
  cu_b32 :: "'f \<Rightarrow> bytes"
  cu_is_odd :: "'f \<Rightarrow> bool"
  cu_set_xo_var :: "'f \<Rightarrow> bool \<Rightarrow> 'p option"
  cu_x :: "'p \<Rightarrow> 'f"
  cu_ecmult_const :: "'p \<Rightarrow> 's \<Rightarrow> 'j"
  cu_ecmult_gen :: "'s \<Rightarrow> 'j"
  cu_add_ge :: "'j \<Rightarrow> 'p \<Rightarrow> 'j"
  cu_from_gej :: "'j \<Rightarrow> 'p"
  cu_from_ge :: "'p \<Rightarrow> 'j"
  cu_neg :: "'p \<Rightarrow> 'p"
  cu_parse :: "public_key \<Rightarrow> 'p option"
  cu_compress :: "'p \<Rightarrow> public_key option"
  cu_scalar :: "secret_key \<Rightarrow> 's"
  cu_from_utf8 :: "bytes \<Rightarrow> string option"

section \<open>Strings as field elements\<close>

definition pad_block :: "bytes \<Rightarrow> bytes" where
  "pad_block x = (let pad = replicate (32 - length x) 0; pad = pad @ x in pad[0 := 255])"

definition str_to_field :: "('f, 'p, 'j, 's) curve \<Rightarrow> string \<Rightarrow> 'f list result" where
  "str_to_field C s =
     rmap (\<lambda>x. ok_or (cu_set_b32 C (pad_block x)) (Panicked ''assert'')) (slice_chunks 31 (as_bytes s))"

definition field_to_str :: "('f, 'p, 'j, 's) curve \<Rightarrow> 'f list \<Rightarrow> string result" where
  "field_to_str C f =
     ok_or (cu_from_utf8 C (fold (\<lambda>y x. x @ y)
              (map (\<lambda>field.
                 let v = cu_b32 C field;
                     v = (if length v > 1 then v[0 := 0] else v)
                 in dropWhile (\<lambda>n. n = 0) v) f) []))
       Utf8Encoding"

section \<open>Field elements as points\<close>

text \<open>\<open>lift_x\<close> after the first attempt: the leading byte counts down until a point is found.\<close>

fun lift_bias :: "('f, 'p, 'j, 's) curve \<Rightarrow> 'f \<Rightarrow> nat \<Rightarrow> 'p result" where
  "lift_bias C x 0 = Inl (Panicked ''failed to lift x'')"
| "lift_bias C x (Suc a) =
     (let v = cu_b32 C x; v = v[0 := word_of_nat (Suc a)] in
      if length v \<noteq> 32 then Inl (Panicked ''assert'')
      else rbind (ok_or (cu_set_b32 C v) (Panicked ''assert'')) (\<lambda>x.
        case cu_set_xo_var C x (cu_is_odd C x) of
          None \<Rightarrow> lift_bias C x a
        | Some ec \<Rightarrow> Inr ec))"

definition lift_x :: "('f, 'p, 'j, 's) curve \<Rightarrow> 'f \<Rightarrow> nat option \<Rightarrow> 'p result" where
  "lift_x C x bias =
     (case bias of
        None \<Rightarrow>
          (case cu_set_xo_var C x (cu_is_odd C x) of
             None \<Rightarrow> lift_bias C x 254
           | Some ec \<Rightarrow> Inr ec)
      | Some a \<Rightarrow> lift_bias C x a)"

definition str_to_affine :: "('f, 'p, 'j, 's) curve \<Rightarrow> string \<Rightarrow> 'p list result" where
  "str_to_affine C s = rbind (str_to_field C s) (rmap (\<lambda>a. lift_x C a None))"

definition affine_to_str :: "('f, 'p, 'j, 's) curve \<Rightarrow> 'p list \<Rightarrow> string result" where
  "affine_to_str C a = field_to_str C (map (cu_x C) a)"

section \<open>Encryption\<close>

definition curve_ele_of :: "('f, 'p, 'j, 's) curve \<Rightarrow> 'p \<Rightarrow> public_key result" where
  "curve_ele_of C a = ok_or (cu_compress C a) InvalidPublicKey"

definition affine_of :: "('f, 'p, 'j, 's) curve \<Rightarrow> public_key \<Rightarrow> 'p result" where
  "affine_of C k = ok_or (cu_parse C k) ECDSAPublicKeyBadFormat"

definition encrypt_block :: "('f, 'p, 'j, 's) curve \<Rightarrow> 's \<Rightarrow> 'p \<Rightarrow> 'p \<Rightarrow> 'p \<times> 'p" where
  "encrypt_block C random_sar h c =
     (let shared_sec = cu_ecmult_const C h random_sar;
          c1 = cu_ecmult_gen C random_sar;
          a_c1 = cu_from_gej C c1;
          c2 = cu_add_ge C shared_sec c;
          a_c2 = cu_from_gej C c2
      in (a_c1, a_c2))"

definition elgamal_encrypt ::
  "('f, 'p, 'j, 's) curve \<Rightarrow> secret_key \<Rightarrow> string \<Rightarrow> public_key \<Rightarrow> (public_key \<times> public_key) list result" where
  "elgamal_encrypt C random s k =
     (let random_sar = cu_scalar C random in
      rbind (affine_of C k) (\<lambda>h.
      rbind (str_to_affine C s) (\<lambda>points.
        rmap (\<lambda>(c1, c2).
          rbind (curve_ele_of C c1) (\<lambda>c1. rbind (curve_ele_of C c2) (\<lambda>c2. Inr (c1, c2))))
          (map (encrypt_block C random_sar h) points))))"

definition decrypt_block :: "('f, 'p, 'j, 's) curve \<Rightarrow> 's \<Rightarrow> public_key \<times> public_key \<Rightarrow> 'p result" where
  "decrypt_block C sar m =
     (case m of (c1, c2) \<Rightarrow>
      rbind (ok_or (cu_parse C c1) (Panicked ''bad curve point'')) (\<lambda>c1.
      rbind (ok_or (cu_parse C c2) (Panicked ''bad curve point'')) (\<lambda>c2.
        let t = cu_ecmult_const C c1 sar;
            a_t = cu_neg C (cu_from_gej C t);
            j_c2 = cu_from_ge C c2
        in Inr (cu_from_gej C (cu_add_ge C j_c2 a_t)))))"

definition elgamal_decrypt ::
  "('f, 'p, 'j, 's) curve \<Rightarrow> (public_key \<times> public_key) list \<Rightarrow> secret_key \<Rightarrow> string result" where
  "elgamal_decrypt C m k =
     (let sar = cu_scalar C k in rbind (rmap (decrypt_block C sar) m) (affine_to_str C))"

section \<open>The laws of the curve\<close>

definition smul :: "nat \<Rightarrow> 'p :: ab_group_add \<Rightarrow> 'p" where
  "smul k P = (((+) P) ^^ k) 0"

lemma smul_simps [simp]: "smul 0 P = 0" "smul (Suc k) P = P + smul k P" "smul k (0 :: 'p :: ab_group_add) = 0"
  by (simp_all add: smul_def) (induction k; simp)

lemma smul_add: "smul (a + b) P = smul a P + smul b P"
  by (induction a) (simp_all add: add.assoc)

lemma smul_mult: "smul a (smul b P) = smul (a * b) P"
  by (induction a) (simp_all add: smul_add)

text \<open>
  \<open>n\<close> reads a scalar as a number, \<open>G\<close> is the generator. Affine points are a commutative
  group in which the operations compute; compression and byte strings are read back; a point
  lifted from a field element has it as its first coordinate.
\<close>

definition curve_ok :: "('f, 'p :: ab_group_add, 'j, 's) curve \<Rightarrow> ('s \<Rightarrow> nat) \<Rightarrow> 'p \<Rightarrow> bool" where
  "curve_ok C n G \<longleftrightarrow>
     (\<forall>P s. cu_from_gej C (cu_ecmult_const C P s) = smul (n s) P)
   \<and> (\<forall>s. cu_from_gej C (cu_ecmult_gen C s) = smul (n s) G)
   \<and> (\<forall>j P. cu_from_gej C (cu_add_ge C j P) = cu_from_gej C j + P)
   \<and> (\<forall>P. cu_from_gej C (cu_from_ge C P) = P) \<and> (\<forall>P. cu_neg C P = - P)
   \<and> (\<forall>P k. cu_compress C P = Some k \<longrightarrow> cu_parse C k = Some P)
   \<and> (\<forall>bs f. cu_set_b32 C bs = Some f \<longrightarrow> cu_b32 C f = bs)
   \<and> (\<forall>f b P. cu_set_xo_var C f b = Some P \<longrightarrow> cu_x C P = f)"

lemma ok_or_Inr: "ok_or x e = Inr y \<longleftrightarrow> x = Some y"
  by (cases x) simp_all

text \<open>What a successful encryption is made of.\<close>

lemma elgamal_encrypt_Inr:
  assumes "elgamal_encrypt C random s pk = Inr cts"
  obtains h ps where "cu_parse C pk = Some h" "str_to_affine C s = Inr ps" "length ps = length cts"
    and "\<And>i. i < length cts \<Longrightarrow>
      cu_compress C (fst (encrypt_block C (cu_scalar C random) h (ps ! i))) = Some (fst (cts ! i))
      \<and> cu_compress C (snd (encrypt_block C (cu_scalar C random) h (ps ! i))) = Some (snd (cts ! i))"
proof -
  let ?f = "\<lambda>(c1, c2). rbind (curve_ele_of C c1) (\<lambda>c1. rbind (curve_ele_of C c2) (\<lambda>c2. Inr (c1, c2)))"
  have f: "?f p = Inr q \<longleftrightarrow> cu_compress C (fst p) = Some (fst q) \<and> cu_compress C (snd p) = Some (snd q)" for p q
    by (auto simp: curve_ele_of_def rbind_eq_Inr ok_or_Inr split_beta prod_eq_iff)
  obtain h ps where hp: "cu_parse C pk = Some h" "str_to_affine C s = Inr ps"
    and cts: "rmap ?f (map (encrypt_block C (cu_scalar C random) h) ps) = Inr cts"
    using assms by (auto simp: elgamal_encrypt_def affine_of_def rbind_eq_Inr ok_or_Inr Let_def)
  note l = cts [unfolded rmap_Inr_iff f]
  have len: "length ps = length cts" using list_all2_lengthD [OF l] by simp
  show ?thesis
    by (rule that [OF hp len]) (use list_all2_nthD2 [OF l] len in auto)
qed

section \<open>Lifting keeps the text\<close>

lemma length_slice_chunks: "x \<in> set (slice_chunks n xs) \<Longrightarrow> length x \<le> n"
proof (induction n xs rule: slice_chunks.induct)
  case (1 n xs)
  then show ?case by (subst (asm) (2) slice_chunks.simps) (auto split: if_splits)
qed

lemma pad_block_tl:
  assumes "length x \<le> 31"
  shows "length (pad_block x) = 32" "tl (pad_block x) = replicate (31 - length x) 0 @ x"
proof -
  obtain k where k: "32 - length x = Suc k" "31 - length x = k" using assms by (cases "32 - length x") auto
  then show "length (pad_block x) = 32" "tl (pad_block x) = replicate (31 - length x) 0 @ x"
    using assms by (simp_all add: pad_block_def Let_def)
qed

lemma lift_bias_keeps:
  assumes "curve_ok C n G" "lift_bias C f a = Inr P" "length (cu_b32 C f) = 32"
  shows "length (cu_b32 C (cu_x C P)) = 32 \<and> tl (cu_b32 C (cu_x C P)) = tl (cu_b32 C f)"
  using assms(2,3)
proof (induction a arbitrary: f)
  case (Suc a)
  let ?v = "(cu_b32 C f)[0 := word_of_nat (Suc a)]"
  obtain g where g: "cu_set_b32 C ?v = Some g"
    using Suc.prems by (cases "cu_set_b32 C ?v") (auto simp: Let_def split: if_splits)
  have b: "cu_b32 C g = ?v" using assms(1) g by (simp add: curve_ok_def)
  have tl: "tl ?v = tl (cu_b32 C f)" by (cases "cu_b32 C f") simp_all
  show ?case
  proof (cases "cu_set_xo_var C g (cu_is_odd C g)")
    case None
    then have "lift_bias C g a = Inr P" using Suc.prems g by (simp add: Let_def)
    then show ?thesis using Suc.IH [of g] Suc.prems(2) b tl by simp
  next
    case (Some Q)
    then have "cu_x C Q = g" using assms(1) by (simp add: curve_ok_def)
    moreover have "Q = P" using Suc.prems g Some by (simp add: Let_def)
    ultimately show ?thesis using b tl Suc.prems(2) by simp
  qed
qed simp

lemma lift_x_keeps:
  assumes "curve_ok C n G" "lift_x C f None = Inr P" "length (cu_b32 C f) = 32"
  shows "length (cu_b32 C (cu_x C P)) = 32 \<and> tl (cu_b32 C (cu_x C P)) = tl (cu_b32 C f)"
proof (cases "cu_set_xo_var C f (cu_is_odd C f)")
  case None
  then show ?thesis using lift_bias_keeps [OF assms(1) _ assms(3)] assms(2) by (simp add: lift_x_def)
next
  case (Some Q)
  then show ?thesis using assms by (simp add: lift_x_def curve_ok_def)
qed

lemma decode_block:
  assumes "length x \<le> 31" "length v = 32" "tl v = tl (pad_block x)"
  shows "dropWhile (\<lambda>n. n = 0) (if length v > 1 then v[0 := 0] else v) = dropWhile (\<lambda>n. n = 0) x"
proof -
  have "v[0 := 0] = 0 # replicate (31 - length x) 0 @ x"
    using assms(2,3) pad_block_tl(2) [OF assms(1)] by (cases v) simp_all
  then show ?thesis using assms(2) by (simp add: dropWhile_append)
qed

lemma fold_append: "fold (\<lambda>y x. x @ y) xs a = a @ concat xs"
  by (induction xs arbitrary: a) simp_all

lemma affine_to_str_lifted:
  assumes "curve_ok C n G" "str_to_affine C s = Inr ps"
  shows "affine_to_str C ps = ok_or (cu_from_utf8 C
    (concat (map (dropWhile (\<lambda>b. b = 0)) (slice_chunks 31 (as_bytes s))))) Utf8Encoding"
proof -
  let ?bs = "slice_chunks 31 (as_bytes s)"
  obtain fs where fs: "list_all2 (\<lambda>x f. cu_set_b32 C (pad_block x) = Some f) ?bs fs"
    and ps: "list_all2 (\<lambda>f P. lift_x C f None = Inr P) fs ps"
    using assms(2) by (auto simp: str_to_affine_def str_to_field_def rbind_eq_Inr rmap_Inr_iff ok_or_Inr)
  let ?d = "\<lambda>f. let v = cu_b32 C f; v = (if length v > 1 then v[0 := 0] else v) in dropWhile (\<lambda>n. n = 0) v"
  have len: "length ?bs = length fs" "length fs = length ps"
    using fs ps list_all2_lengthD by blast+
  have "map ?d (map (cu_x C) ps) = map (dropWhile (\<lambda>b. b = 0)) ?bs"
  proof (rule nth_equalityI)
    fix i assume "i < length (map ?d (map (cu_x C) ps))"
    then have i: "i < length ?bs" "i < length fs" "i < length ps" using len by simp_all
    let ?x = "?bs ! i"
    have x: "length ?x \<le> 31" using i length_slice_chunks nth_mem by blast
    have f: "cu_b32 C (fs ! i) = pad_block ?x"
      using list_all2_nthD [OF fs i(1)] assms(1) by (simp add: curve_ok_def)
    have "length (cu_b32 C (cu_x C (ps ! i))) = 32 \<and> tl (cu_b32 C (cu_x C (ps ! i))) = tl (pad_block ?x)"
      using lift_x_keeps [OF assms(1) list_all2_nthD [OF ps i(2)]] f pad_block_tl(1) [OF x] by simp
    then show "map ?d (map (cu_x C) ps) ! i = map (dropWhile (\<lambda>b. b = 0)) ?bs ! i"
      using decode_block [OF x] i by (simp add: Let_def)
  qed (simp add: len)
  then show ?thesis by (simp add: affine_to_str_def field_to_str_def fold_append)
qed

lemma decrypt_encrypt_block:
  assumes "curve_ok C n G" "cu_parse C k1 = Some c1" "cu_parse C k2 = Some c2"
    and "(c1, c2) = encrypt_block C r (smul (n x) G) P"
  shows "decrypt_block C x (k1, k2) = Inr P"
proof -
  have "c1 = smul (n r) G" "c2 = smul (n r) (smul (n x) G) + P"
    using assms(1,4) by (simp_all add: encrypt_block_def curve_ok_def Let_def)
  moreover have "smul (n x) (smul (n r) G) = smul (n r) (smul (n x) G)"
    by (simp add: smul_mult mult.commute)
  ultimately show ?thesis
    using assms(1-3) by (simp add: decrypt_block_def curve_ok_def Let_def)
qed

text \<open>
  C37: what encryption keeps of a text. Decrypting with the key that belongs to the public key
  returns the text without the zero bytes that begin each block of 31 bytes, read as UTF-8;
  so a text without such bytes comes back unchanged, and a text with one is altered without
  any error. This is for every curve that is a group and every drawn scalar.
\<close>

theorem elgamal_decrypts:
  assumes "curve_ok C n G" "cu_parse C pk = Some (smul (n (cu_scalar C sk)) G)"
    and "elgamal_encrypt C random s pk = Inr cts"
  shows "elgamal_decrypt C cts sk = ok_or (cu_from_utf8 C
      (concat (map (dropWhile (\<lambda>b. b = 0)) (slice_chunks 31 (as_bytes s))))) Utf8Encoding
    \<and> ((\<forall>x\<in>set (slice_chunks 31 (as_bytes s)). hd x \<noteq> 0) \<longrightarrow> cu_from_utf8 C (as_bytes s) = Some s \<longrightarrow>
        elgamal_decrypt C cts sk = Inr s)"
proof -
  let ?h = "smul (n (cu_scalar C sk)) G" and ?bs = "slice_chunks 31 (as_bytes s)"
  obtain ps where ps: "str_to_affine C s = Inr ps" "length ps = length cts"
    and cts: "\<And>i. i < length cts \<Longrightarrow>
      cu_compress C (fst (encrypt_block C (cu_scalar C random) ?h (ps ! i))) = Some (fst (cts ! i))
      \<and> cu_compress C (snd (encrypt_block C (cu_scalar C random) ?h (ps ! i))) = Some (snd (cts ! i))"
    using elgamal_encrypt_Inr [OF assms(3)] assms(2) by (metis option.inject)
  have "list_all2 (\<lambda>ct P. decrypt_block C (cu_scalar C sk) ct = Inr P) cts ps"
  proof (rule list_all2_all_nthI)
    fix i assume i: "i < length cts"
    obtain c1 c2 where e: "(c1, c2) = encrypt_block C (cu_scalar C random) ?h (ps ! i)" by (metis surj_pair)
    then have "cu_parse C (fst (cts ! i)) = Some c1" "cu_parse C (snd (cts ! i)) = Some c2"
      using cts [OF i] assms(1) by (metis curve_ok_def fst_conv, metis curve_ok_def snd_conv)
    then show "decrypt_block C (cu_scalar C sk) (cts ! i) = Inr (ps ! i)"
      using decrypt_encrypt_block [OF assms(1) _ _ e] by (metis prod.collapse)
  qed (simp add: ps(2))
  then have "elgamal_decrypt C cts sk = affine_to_str C ps"
    by (simp add: elgamal_decrypt_def Let_def rmap_Inr_iff [symmetric])
  then have dec: "elgamal_decrypt C cts sk = ok_or (cu_from_utf8 C
      (concat (map (dropWhile (\<lambda>b. b = 0)) ?bs))) Utf8Encoding"
    by (simp only: affine_to_str_lifted [OF assms(1) ps(1)])
  moreover have "concat (map (dropWhile (\<lambda>b. b = 0)) ?bs) = as_bytes s" if "\<forall>x\<in>set ?bs. hd x \<noteq> 0"
  proof -
    have "map (dropWhile (\<lambda>b. b = 0)) ?bs = ?bs"
      by (rule map_idI) (metis that dropWhile_eq_self_iff)
    then show ?thesis by (simp add: concat_slice_chunks)
  qed
  ultimately show ?thesis by simp
qed

text \<open>
  The blocks of a text are encrypted under one scalar, drawn once: every pair has the same
  first component, equal blocks are equal pairs, and the second components differ exactly as
  the plain points do, so that who knows one block of a message can compute the point of
  every other.
\<close>

lemma elgamal_blocks_linked:
  assumes "curve_ok C n G" "elgamal_encrypt C random s pk = Inr cts" "str_to_affine C s = Inr ps"
    and "i < length cts" "j < length cts" "cu_parse C (snd (cts ! i)) = Some ci" "cu_parse C (snd (cts ! j)) = Some cj"
  shows "fst (cts ! i) = fst (cts ! j) \<and> (ps ! i = ps ! j \<longrightarrow> cts ! i = cts ! j)
    \<and> ci - cj = ps ! i - ps ! j"
proof -
  obtain h where cts: "\<And>i. i < length cts \<Longrightarrow>
      cu_compress C (fst (encrypt_block C (cu_scalar C random) h (ps ! i))) = Some (fst (cts ! i))
      \<and> cu_compress C (snd (encrypt_block C (cu_scalar C random) h (ps ! i))) = Some (snd (cts ! i))"
    using elgamal_encrypt_Inr [OF assms(2)] assms(3) by (metis sum.inject(2))
  let ?r = "n (cu_scalar C random)"
  have eb: "encrypt_block C (cu_scalar C random) h P = (smul ?r G, smul ?r h + P)" for P
    using assms(1) by (simp add: encrypt_block_def curve_ok_def Let_def)
  have at: "cu_compress C (smul ?r G) = Some (fst (cts ! k)) \<and> cu_compress C (smul ?r h + ps ! k) = Some (snd (cts ! k))"
    if "k < length cts" for k
    using cts [OF that] by (simp add: eb)
  have "ci = smul ?r h + ps ! i" "cj = smul ?r h + ps ! j"
    using at [OF assms(4)] at [OF assms(5)] assms(1,6,7) by (auto simp: curve_ok_def)
  then show ?thesis using at [OF assms(4)] at [OF assms(5)] by (auto simp: prod_eq_iff)
qed

section \<open>A small curve\<close>

text \<open>
  The bytes with their addition, on which the blocks of one repeated byte can be lifted, and
  the text of 31 letters and a zero byte: two blocks, of which the second is lost.
\<close>

definition demo_curve :: "(bytes, byte, byte, nat) curve" where
  "demo_curve = \<lparr>cu_set_b32 = Some, cu_b32 = (\<lambda>f. f), cu_is_odd = (\<lambda>_. True),
     cu_set_xo_var = (\<lambda>f _. if f = 255 # replicate 31 (last f) then Some (last f) else None),
     cu_x = (\<lambda>P. 255 # replicate 31 P), cu_ecmult_const = (\<lambda>P s. smul s P),
     cu_ecmult_gen = (\<lambda>s. smul s 1), cu_add_ge = (+), cu_from_gej = (\<lambda>P. P), cu_from_ge = (\<lambda>P. P),
     cu_neg = uminus, cu_parse = (\<lambda>k. Some (hd k)), cu_compress = (\<lambda>P. Some [P]),
     cu_scalar = length, cu_from_utf8 = (\<lambda>bs. Some (map (\<lambda>b. char_of (unat b)) bs))\<rparr>"

lemma demo_curve_ok: "curve_ok demo_curve (\<lambda>k. k) 1"
  by (simp add: curve_ok_def demo_curve_def)

definition demo_text :: string where
  "demo_text = replicate 31 (CHR ''a'') @ [CHR 0x00]"

lemma demo_blocks: "slice_chunks 31 (as_bytes demo_text) = [replicate 31 97, [0]]"
  by (simp add: demo_text_def as_bytes_def slice_chunks.simps)

lemma demo_pads: "pad_block (replicate 31 97) = 255 # replicate 31 97" "pad_block [0] = 255 # replicate 31 0"
  by (simp_all add: pad_block_def numeral_eq_Suc)

lemma demo_points: "str_to_affine demo_curve demo_text = Inr [97, 0]"
proof -
  have "str_to_field demo_curve demo_text = Inr [255 # replicate 31 97, 255 # replicate 31 0]"
    by (simp add: str_to_field_def demo_blocks demo_pads) (simp add: demo_curve_def)
  moreover have "lift_x demo_curve (255 # replicate 31 b) None = Inr b" for b
    by (simp add: lift_x_def demo_curve_def)
  ultimately show ?thesis by (simp add: str_to_affine_def)
qed

lemma demo_encrypted: "elgamal_encrypt demo_curve [1, 1] demo_text [3] = Inr [([2], [103]), ([2], [6])]"
  by (simp add: elgamal_encrypt_def demo_points affine_of_def curve_ele_of_def encrypt_block_def)
     (simp add: demo_curve_def numeral_2_eq_2)

theorem elgamal_decrypts_witness:
  "elgamal_decrypt demo_curve [([2], [103]), ([2], [6])] [1, 1, 1] = Inr (replicate 31 (CHR ''a''))"
proof -
  have "cu_parse demo_curve [3] = Some (smul (cu_scalar demo_curve [1, 1, 1]) 1)"
    by (simp add: demo_curve_def numeral_3_eq_3)
  then show ?thesis
    using elgamal_decrypts [OF demo_curve_ok _ demo_encrypted, of "[1, 1, 1]"]
    by (simp add: demo_blocks) (simp add: demo_curve_def char_of_def bit_0)
qed

end
