(* ===== verification/Spec2Isabelle.thy ===== *)
theory Spec2Isabelle
  imports BrowserProps BrowserRpc ProgramProps Stabilize Bootstrap IdbProps Keys WasmProps Elgamal
begin

text \<open>
  A verification development for Rings (\<open>rings-core\<close> under \<open>src/rings-core/src\<close> and
  \<open>rings-node\<close> under \<open>src/src\<close>): a peer-to-peer network in which nodes find each other on a
  Chord ring of 160-bit identifiers, talk over WebRTC data channels, seal every message with a
  delegated session key, keep small virtual nodes in the ring's storage, and are driven by
  applications through a JSON-RPC interface, by its program on the command line, or by a page
  in whose browser they run.

  \<^bold>\<open>The parts and their theories\<close>, bottom up:

  \<^item> \<open>Prelude\<close>: machine words, the error type of \<open>err.rs\<close>, the question mark operator on results
    (\<open>rbind\<close>) and on state-passing computations (\<open>sbind\<close>), \<open>map_err\<close> and \<open>map_value\<close> on both,
    and \<open>keeps R\<close>: an action moves the state only along \<open>R\<close>.
  \<^item> \<open>Did\<close> (\<open>dht/did.rs\<close>), \<open>Successor\<close> (\<open>dht/successor.rs\<close>), \<open>Finger\<close> (\<open>dht/finger.rs\<close>),
    \<open>VNode\<close> (\<open>dht/vnode.rs\<close>, \<open>dht/subring.rs\<close>, \<open>message/encoder.rs\<close>), \<open>Storage\<close>
    (\<open>storage/memory.rs\<close>, \<open>storage/persistence/kv.rs\<close>), \<open>Idb\<close> and \<open>IdbProps\<close>
    (\<open>storage/persistence/idb.rs\<close>), \<open>Chord\<close> and \<open>ChordProps\<close> (\<open>dht/chord.rs\<close>):
    the ring a node keeps. \<open>PeerRing\<close> is the record \<open>peer_ring\<close>; its trait methods are
    actions on it that answer with a \<open>peer_ring_action\<close>.
  \<^item> \<open>Relay\<close> (\<open>message/protocols/relay.rs\<close>), \<open>Lookup\<close>: the path a message records, and the
    composition of relay and ring over a whole network; \<open>Stabilize\<close>: the rounds of
    \<open>dht/stabilization.rs\<close> over a whole network.
  \<^item> \<open>Session\<close> (\<open>ecc/\<close>, \<open>session.rs\<close>), \<open>Payload\<close> (\<open>message/types.rs\<close>, \<open>message/payload.rs\<close>,
    \<open>message/protocols/verify.rs\<close>), \<open>Keys\<close> (\<open>ecc/mod.rs\<close>, \<open>ecc/types.rs\<close>), \<open>Elgamal\<close>
    (\<open>ecc/elgamal.rs\<close>): sealing, the text forms of keys, and encryption.
  \<^item> \<open>Chunk\<close> (\<open>chunk.rs\<close>), \<open>Channels\<close> (\<open>channels/\<close>, \<open>types/channel.rs\<close>), \<open>Transport\<close>
    (\<open>types/ice_transport/\<close>, \<open>transports/dummy\<close>), \<open>WebRTC\<close> and \<open>WebRTCProps\<close>
    (\<open>transports/default\<close>, \<open>transports/helper.rs\<close>), \<open>Wasm\<close> and \<open>WasmProps\<close>
    (\<open>transports/wasm\<close>): the transport interface is the record \<open>transport_ops\<close> over a world
    \<open>'w\<close> that holds all transports of a process; the dummy, the WebRTC and the browser
    transport are three such records. \<open>Connections\<close> holds what the last two share.
  \<^item> \<open>Swarm\<close> (\<open>swarm.rs\<close>, \<open>transports/manager.rs\<close>), \<open>Handlers\<close> (\<open>message/handlers/\<close>,
    \<open>dht/stabilization.rs\<close>): the record \<open>node\<close> is a swarm with its ring; every message handler,
    \<open>listen_once\<close>, \<open>load_message\<close> and \<open>stabilize\<close> is an action on it, with the environment
    \<open>env\<close> of external functions as its first argument. \<open>NodeRel\<close>, \<open>NodeProps\<close>, \<open>Delivery\<close>
    and \<open>Bootstrap\<close> prove what runs of these actions do.
  \<^item> \<open>Measure\<close> (\<open>measure.rs\<close>), \<open>NodeError\<close> (\<open>error.rs\<close>), \<open>Backend\<close> (\<open>backend/\<close>), \<open>Rpc\<close>
    (\<open>jsonrpc/method.rs\<close>, \<open>jsonrpc/response.rs\<close>, \<open>util.rs\<close>), \<open>Processor\<close> (\<open>processor.rs\<close>),
    \<open>Server\<close> (\<open>jsonrpc/server.rs\<close>, \<open>service/mod.rs\<close>): the node around the core.
    \<open>ServerRel\<close>, \<open>ServerProps\<close> and \<open>ProcessorProps\<close> hold their properties.
  \<^item> \<open>Browser\<close> and \<open>BrowserProps\<close> (\<open>browser/client.rs\<close>): a node that runs in a page, and its
    message callback. \<open>RpcClient\<close> (\<open>jsonrpc_client/\<close>), \<open>BrowserRpc\<close> (\<open>browser/utils.rs\<close>,
    \<open>browser/jsonrpc_client.rs\<close>), \<open>Cli\<close> and \<open>CliProps\<close> (\<open>cli.rs\<close>): clients of a node's
    JSON-RPC interface. \<open>Config\<close> (\<open>config/mod.rs\<close>), \<open>Program\<close> and \<open>ProgramProps\<close>
    (\<open>src/bin/rings.rs\<close>): the configuration file and the program's commands.

  \<^bold>\<open>How the code is rendered.\<close> A struct is a record, an enum a datatype, a fallible function a
  sum with \<open>Inl\<close> for the error, a method that changes state an action \<open>'s \<Rightarrow> (error + 'a) \<times> 's\<close>
  that keeps the changes made before an early return. A panic (\<open>unwrap\<close>, an index out of range,
  a failed assertion) ends its task and is the error \<open>Panicked\<close>, or \<open>NodePanicked\<close>,
  \<open>RpcPanicked\<close> and \<open>MainPanicked\<close> in the outer layers; \<open>attempt\<close>, which models code that looks at an error, does
  not catch it. Integers whose overflow can matter are words and wrap, as in release builds;
  counters that are only compared are natural numbers. A mutex or lock is taken as free when
  the code asks for it. A loop is structural recursion on the list it consumes, or has a
  measure. Clocks, random identifiers and freshly drawn keys are read from the world or are
  arguments. Foreign crates (cryptography, serde, the database, the WebRTC stack, HTTP) are
  records of functions; what a theorem needs of them is a hypothesis such as \<open>ecdsa_ok\<close>,
  \<open>curve_ok\<close>, \<open>rtc_ok\<close> or a locale, each with an instance on which the theorems are applied.

  \<^bold>\<open>The interfaces.\<close> \<open>persistence\<close> is what the ring's storage relies on; \<open>kv_store\<close> (over
  \<open>sled_db\<close>) is shown to provide it and is interpreted on an in-memory tree; \<open>idb_store\<close> (over
  \<open>object_store\<close>) is the store of browsers. \<open>event_channel\<close> is the trait \<open>Channel\<close>, interpreted
  on the channels of both builds. \<open>transport_laws\<close> is what the node relies on of a transport,
  interpreted on the dummy transport and shown of the WebRTC and the browser ones, whose tables
  of connections are interpretations of \<open>connection_table\<close> and \<open>link_rules\<close>. \<open>sending_relation\<close>, \<open>handling_relation\<close>, \<open>connecting_relation\<close>,
  \<open>serving_relation\<close> and \<open>browsing_relation\<close> say that a relation on nodes is kept by sending, by handling a message, by
  connecting and by every request; each carries one lemma per operation of the node, so that an
  invariant of the whole program is an interpretation: \<open>ring_moves\<close> for the ring, \<open>links_kept\<close>
  for the transports.

  \<^bold>\<open>What is shown.\<close>
  \<^item> The ring: the successor list is the sorted list of the nearest identifiers seen; a lookup
    over consistent nodes ends at the responsible node, with fuel equal to the number of nodes,
    and in a full mesh of any size within 161 hops; a newcomer that knows its successor is
    integrated by two rounds of stabilisation of every node; joining and routing refine their
    abstract descriptions; storage is read back and handed over without loss or overlap, and in
    a browser stays within its capacity by evicting what is visited least.
  \<^item> Messages: a sealed payload verifies until its session expires; a report retraces the path of
    its request; messages cross the transport unchanged, in chunks that arrive in any order, and
    one after the other in the order in which they were sent; a handshake carries the peer's
    description and its candidates in order, also between a browser and a native node;
    forwarding keeps the origin's seal; keys are read back from their texts.
  \<^item> The node: whatever arrives, the ring stays well formed and its operations defined; handling
    messages changes the state of no connection; a connection that comes up joins the
    ring and asks the new neighbour for a successor, one that goes down leaves it; a wallet's
    signature makes a session that every node accepts, but any peer can have another's
    connections closed; requests without a signature reach
    only the open methods; an application's message arrives at the other application.
  \<^item> The clients: a browser client does to its node what the JSON-RPC method of the same purpose does;
    a command of the program does to a node what its processor does; a subscription yields every
    message once; a browser gets the answer to its HTTP request; a node and a client started from
    the same configuration file belong together.
  \<^item> Where the code falls short of its intent, the theorem states what it does: those of kind
    \<open>error\<close>, and a few lemmas beside them.
\<close>

section \<open>What is not modelled\<close>

text \<open>
  \<^item> Timers and endless loops (\<open>Stabilization::wait\<close>, the listening loops, the loops of
    \<open>subscribe_topic\<close> and \<open>pubsub_run\<close>): one iteration of each is a definition, and runs are
    sequences of them.
  \<^item> Parsing of the command line, the HTTP server, the set-up of logging (\<open>logging.rs\<close>) and of a
    TURN server (\<open>service/is_turn.rs\<close>), which are calls into libraries; the build version;
    \<open>message/chunk.rs\<close>, which no module includes.
  \<^item> Display texts of errors and the derived serde formats: the serialisers are functions of the
    environment, and gzip is an argument where it is used.
  \<^item> What runs when a value is dropped: a browser's transport then closes its connection.
\<close>

end
